(* ===== verification/Prelude.thy ===== *)
theory Prelude
  imports Main "HOL-Library.Char_ord" "HOL-Library.List_Lexorder" "HOL-Library.Sublist"
begin

text \<open>
  Shared vocabulary of the development.

  Rust's \<open>Result<T, E>\<close> is the sum \<open>'e + 'a\<close>; \<open>Err\<close> and \<open>Ok\<close> abbreviate its injections.
  \<open>bind_res\<close> is the \<open>?\<close> operator, \<open>collect_res\<close> is \<open>iter().map(f).collect::<Result<Vec<_>, _>>()\<close>
  (it stops at the first error, in iteration order), and \<open>transpose_res\<close> is
  \<open>opt.map(f).transpose()\<close>.  The collection \<open>res_simps\<close> holds the equations that
  decide when each of them succeeds.
\<close>

named_theorems res_simps \<open>when a Result pipeline succeeds, and with what\<close>

abbreviation Ok :: "'a \<Rightarrow> 'e + 'a" where
  "Ok \<equiv> Inr"

abbreviation Err :: "'e \<Rightarrow> 'e + 'a" where
  "Err \<equiv> Inl"

definition is_ok :: "'e + 'a \<Rightarrow> bool" where
  "is_ok r = (case r of Err _ \<Rightarrow> False | Ok _ \<Rightarrow> True)"

definition bind_res :: "'e + 'a \<Rightarrow> ('a \<Rightarrow> 'e + 'b) \<Rightarrow> 'e + 'b" where
  "bind_res r f = (case r of Err e \<Rightarrow> Err e | Ok a \<Rightarrow> f a)"

definition map_res :: "('a \<Rightarrow> 'b) \<Rightarrow> 'e + 'a \<Rightarrow> 'e + 'b" where
  "map_res f r = (case r of Err e \<Rightarrow> Err e | Ok a \<Rightarrow> Ok (f a))"

definition map_err :: "('e \<Rightarrow> 'f) \<Rightarrow> 'e + 'a \<Rightarrow> 'f + 'a" where
  "map_err f r = (case r of Err e \<Rightarrow> Err (f e) | Ok a \<Rightarrow> Ok a)"

fun collect_res :: "('a \<Rightarrow> 'e + 'b) \<Rightarrow> 'a list \<Rightarrow> 'e + 'b list" where
  "collect_res f [] = Ok []"
| "collect_res f (x # xs) =
     bind_res (f x) (\<lambda>y. bind_res (collect_res f xs) (\<lambda>ys. Ok (y # ys)))"

definition transpose_res :: "('a \<Rightarrow> 'e + 'b) \<Rightarrow> 'a option \<Rightarrow> 'e + 'b option" where
  "transpose_res f opt = (case opt of None \<Rightarrow> Ok None | Some x \<Rightarrow> map_res Some (f x))"

text \<open>
  Code that can panic (an index out of range, an arithmetic underflow) returns the panic as an
  error of its own, so that its absence is a theorem.
\<close>

datatype 'e fault = Panic | Fault 'e

section \<open>Result lemmas\<close>

lemma is_ok_simps [simp]: "is_ok (Ok a)" "\<not> is_ok (Err e)"
  by (simp_all add: is_ok_def)

lemma is_ok_ex: "is_ok r \<longleftrightarrow> (\<exists>a. r = Ok a)"
  by (cases r) auto

lemma bind_res_simps [simp]: "bind_res (Ok a) f = f a" "bind_res (Err e) f = Err e"
  by (simp_all add: bind_res_def)

lemma map_res_simps [simp]: "map_res f (Ok a) = Ok (f a)" "map_res f (Err e) = Err e"
  by (simp_all add: map_res_def)

lemma map_err_simps [simp]: "map_err f (Ok a) = Ok a" "map_err f (Err e) = Err (f e)"
  by (simp_all add: map_err_def)

lemma transpose_res_simps [simp]:
  "transpose_res f None = Ok None" "transpose_res f (Some x) = map_res Some (f x)"
  by (simp_all add: transpose_res_def)

lemma bind_res_Ok [res_simps]: "bind_res r f = Ok b \<longleftrightarrow> (\<exists>a. r = Ok a \<and> f a = Ok b)"
  by (cases r) auto

lemma bind_res_Err [res_simps]:
  "bind_res r f = Err e \<longleftrightarrow> r = Err e \<or> (\<exists>a. r = Ok a \<and> f a = Err e)"
  by (cases r) auto

lemma map_res_Ok [res_simps]: "map_res f r = Ok b \<longleftrightarrow> (\<exists>a. r = Ok a \<and> b = f a)"
  by (cases r) auto

lemma map_res_Err [res_simps]: "map_res f r = Err e \<longleftrightarrow> r = Err e"
  by (cases r) auto

lemma map_err_Ok [res_simps]: "map_err f r = Ok b \<longleftrightarrow> r = Ok b"
  by (cases r) auto

lemma map_err_Err [res_simps]: "map_err f r = Err e \<longleftrightarrow> (\<exists>d. r = Err d \<and> e = f d)"
  by (cases r) auto

lemma map_res_comp [simp]: "map_res f (map_res g r) = map_res (\<lambda>x. f (g x)) r"
  by (cases r) auto

lemma map_res_id [simp]: "map_res (\<lambda>x. x) r = r"
  by (cases r) auto

lemma bind_map_res [simp]: "bind_res (map_res g r) f = bind_res r (\<lambda>x. f (g x))"
  by (cases r) auto

lemma transpose_res_Ok [res_simps]:
  "transpose_res f opt = Ok opt' \<longleftrightarrow>
     (opt = None \<and> opt' = None \<or> (\<exists>x y. opt = Some x \<and> f x = Ok y \<and> opt' = Some y))"
  by (cases opt) (auto simp: map_res_Ok)

lemma collect_res_Ok [res_simps]:
  "collect_res f xs = Ok ys \<longleftrightarrow> list_all2 (\<lambda>x y. f x = Ok y) xs ys"
proof (induction xs arbitrary: ys)
  case Nil
  then show ?case by auto
next
  case (Cons x xs)
  then show ?case by (auto simp: bind_res_Ok list_all2_Cons1)
qed

text \<open>The error a collection reports is that of its first failing element.\<close>

lemma collect_res_Err [res_simps]:
  "collect_res f xs = Err e \<longleftrightarrow>
     (\<exists>us x vs. xs = us @ x # vs \<and> (\<forall>u\<in>set us. is_ok (f u)) \<and> f x = Err e)"
proof (induction xs)
  case Nil
  then show ?case by simp
next
  case (Cons y ys)
  have split: "(\<exists>us x vs. y # ys = us @ x # vs \<and> (\<forall>u\<in>set us. is_ok (f u)) \<and> f x = Err e) \<longleftrightarrow>
      f y = Err e \<or> is_ok (f y) \<and>
        (\<exists>us x vs. ys = us @ x # vs \<and> (\<forall>u\<in>set us. is_ok (f u)) \<and> f x = Err e)" (is "?L \<longleftrightarrow> ?R")
  proof
    assume ?L
    then obtain us x vs where eq: "y # ys = us @ x # vs" "\<forall>u\<in>set us. is_ok (f u)" "f x = Err e"
      by blast
    show ?R
    proof (cases us)
      case Nil
      with eq show ?thesis by simp
    next
      case (Cons u us')
      with eq show ?thesis by auto
    qed
  next
    assume ?R
    then show ?L
    proof
      assume "f y = Err e"
      then show ?L by (intro exI [of _ "[]"]) simp
    next
      assume r: "is_ok (f y) \<and>
        (\<exists>us x vs. ys = us @ x # vs \<and> (\<forall>u\<in>set us. is_ok (f u)) \<and> f x = Err e)"
      then obtain us x vs where "ys = us @ x # vs" "\<forall>u\<in>set us. is_ok (f u)" "f x = Err e" by blast
      with r show ?L by (intro exI [of _ "y # us"] exI [of _ x] exI [of _ vs]) simp
    qed
  qed
  show ?case unfolding split using Cons.IH by (auto simp: bind_res_Err is_ok_ex)
qed

lemma collect_res_id: "(\<And>x. x \<in> set xs \<Longrightarrow> f x = Ok (g x)) \<Longrightarrow> collect_res f xs = Ok (map g xs)"
  by (induction xs) auto

lemma collect_res_cong [fundef_cong]:
  "xs = ys \<Longrightarrow> (\<And>x. x \<in> set ys \<Longrightarrow> f x = g x) \<Longrightarrow> collect_res f xs = collect_res g ys"
  by (induction xs arbitrary: ys) auto

section \<open>Lists\<close>

text \<open>\<open>iter().position(p)\<close>.\<close>

fun position :: "('a \<Rightarrow> bool) \<Rightarrow> 'a list \<Rightarrow> nat option" where
  "position p [] = None"
| "position p (x # xs) = (if p x then Some 0 else map_option Suc (position p xs))"

lemma position_None: "position p xs = None \<longleftrightarrow> (\<forall>x\<in>set xs. \<not> p x)"
  by (induction xs) auto

lemma position_Some:
  "position p xs = Some i \<longleftrightarrow> i < length xs \<and> p (xs ! i) \<and> (\<forall>j<i. \<not> p (xs ! j))"
proof (induction xs arbitrary: i)
  case Nil
  then show ?case by simp
next
  case (Cons x xs)
  show ?case by (cases i) (auto simp: Cons.IH All_less_Suc2)
qed

lemma position_append:
  "position p (xs @ ys) =
     (case position p xs of Some i \<Rightarrow> Some i | None \<Rightarrow> map_option (\<lambda>i. length xs + i) (position p ys))"
  by (induction xs) (cases "position p ys"; auto split: option.splits)+

text \<open>The byte range \<open>s[a..b]\<close>.\<close>

definition slice :: "'a list \<Rightarrow> nat \<Rightarrow> nat \<Rightarrow> 'a list" where
  "slice s a b = take (b - a) (drop a s)"

lemma slice_same [simp]: "slice s a a = []"
  by (simp add: slice_def)

lemma slice_Suc: "a \<le> i \<Longrightarrow> i < length s \<Longrightarrow> slice s a (Suc i) = slice s a i @ [s ! i]"
  by (simp add: slice_def Suc_diff_le take_Suc_conv_app_nth)

lemma slice_empty: "i \<le> length s \<Longrightarrow> slice s a i = [] \<longleftrightarrow> i \<le> a"
  by (auto simp: slice_def)

lemma filter_one: "distinct xs \<Longrightarrow> x \<in> set xs \<Longrightarrow> filter (\<lambda>y. y = x) xs = [x]"
  by (induction xs) (auto simp: filter_empty_conv)

end
