(* ===== verification/Ordered_Map.thy ===== *)
theory Ordered_Map
  imports Prelude "HOL-Library.AList"
begin

text \<open>
  The two map types of the sources.  A \<open>BTreeMap<String, V>\<close> is the association list of its
  entries in key order (\<open>bt_ok\<close>: keys strictly increasing, in the byte order of Rust's
  \<open>str\<close>), so that iteration is list traversal.  A \<open>HashMap<K, V>\<close> is an association list
  with distinct keys in an order the code must not depend on.  Both meet the interface
  \<open>finite_map\<close>; the ordered one also meets \<open>ordered_map\<close>.
\<close>

type_synonym ('k, 'v) btree_map = "('k \<times> 'v) list"
type_synonym ('k, 'v) hash_map = "('k \<times> 'v) list"

section \<open>Interfaces\<close>

locale finite_map =
  fixes ok :: "'m \<Rightarrow> bool"
    and empty :: 'm
    and insert :: "'k \<Rightarrow> 'v \<Rightarrow> 'm \<Rightarrow> 'm"
    and get :: "'m \<Rightarrow> 'k \<Rightarrow> 'v option"
  assumes ok_empty: "ok empty"
    and ok_insert: "ok m \<Longrightarrow> ok (insert k v m)"
    and get_empty: "get empty k = None"
    and get_insert: "ok m \<Longrightarrow> get (insert k v m) k' = (if k' = k then Some v else get m k')"
begin

lemma ok_fold_insert: "ok m \<Longrightarrow> ok (fold (\<lambda>(k, v). insert k v) xs m)"
  by (induction xs arbitrary: m) (auto simp: ok_insert)

lemma get_fold_insert:
  "ok m \<Longrightarrow> get (fold (\<lambda>(k, v). insert k v) xs m) k =
     (case map_of (rev xs) k of Some v \<Rightarrow> Some v | None \<Rightarrow> get m k)"
proof (induction xs arbitrary: m)
  case Nil
  then show ?case by simp
next
  case (Cons x xs)
  obtain a v where x: "x = (a, v)" by (cases x)
  from Cons.prems have "ok (insert a v m)" by (rule ok_insert)
  from Cons.IH [OF this] Cons.prems show ?case
    by (auto simp: x get_insert map_add_def split: option.splits)
qed

lemma get_from_iter: "get (fold (\<lambda>(k, v). insert k v) xs empty) k = map_of (rev xs) k"
  using get_fold_insert [OF ok_empty, of xs k] by (simp add: get_empty split: option.splits)

end

locale ordered_map = finite_map ok empty insert get
  for ok :: "'m \<Rightarrow> bool" and empty :: 'm and insert :: "'k::linorder \<Rightarrow> 'v \<Rightarrow> 'm \<Rightarrow> 'm"
    and get :: "'m \<Rightarrow> 'k \<Rightarrow> 'v option" +
  fixes entries :: "'m \<Rightarrow> ('k \<times> 'v) list"
  assumes entries_sorted: "ok m \<Longrightarrow> sorted_wrt (<) (map fst (entries m))"
    and entries_get: "ok m \<Longrightarrow> map_of (entries m) = get m"
begin

lemma entries_distinct: "ok m \<Longrightarrow> distinct (map fst (entries m))"
  using entries_sorted strict_sorted_iff by blast

lemma entries_mem: "ok m \<Longrightarrow> (k, v) \<in> set (entries m) \<longleftrightarrow> get m k = Some v"
  using entries_distinct entries_get by (metis map_of_eq_Some_iff)

text \<open>Two maps with the same lookups are iterated alike: the iteration order is canonical.\<close>

lemma entries_canonical:
  assumes "ok m" "ok m'" "\<And>k. get m k = get m' k"
  shows "entries m = entries m'"
proof -
  from assms have eq: "map_of (entries m) = map_of (entries m')"
    by (simp add: entries_get fun_eq_iff)
  have "set (map fst (entries m)) = set (map fst (entries m'))"
    using eq by (metis dom_map_of_conv_image_fst set_map)
  then have keys: "map fst (entries m) = map fst (entries m')"
    using assms(1,2) by (meson entries_sorted strict_sorted_equal)
  have "set (entries m) = set (entries m')"
    using assms by (auto simp: entries_mem)
  then have "map_of (entries m) k = map_of (entries m') k" for k by (simp add: eq)
  show ?thesis
    by (rule nth_equalityI)
      (use keys in \<open>metis length_map\<close>,
       metis assms(1,2) entries_distinct eq keys length_map map_of_eq_Some_iff nth_map nth_mem
         option.inject prod.collapse)
qed

end

section \<open>BTreeMap\<close>

fun bt_insert :: "'k::linorder \<Rightarrow> 'v \<Rightarrow> ('k, 'v) btree_map \<Rightarrow> ('k, 'v) btree_map" where
  "bt_insert k v [] = [(k, v)]"
| "bt_insert k v ((a, b) # m) =
     (if k < a then (k, v) # (a, b) # m
      else if k = a then (k, v) # m
      else (a, b) # bt_insert k v m)"

definition bt_get :: "('k, 'v) btree_map \<Rightarrow> 'k \<Rightarrow> 'v option" where
  "bt_get m k = map_of m k"

definition bt_contains :: "('k, 'v) btree_map \<Rightarrow> 'k \<Rightarrow> bool" where
  "bt_contains m k = (bt_get m k \<noteq> None)"

definition bt_keys :: "('k, 'v) btree_map \<Rightarrow> 'k list" where
  "bt_keys m = map fst m"

definition bt_ok :: "('k::linorder, 'v) btree_map \<Rightarrow> bool" where
  "bt_ok m = sorted_wrt (<) (bt_keys m)"

text \<open>\<open>iter.collect::<BTreeMap<_, _>>()\<close>.\<close>

definition bt_from_iter :: "('k::linorder \<times> 'v) list \<Rightarrow> ('k, 'v) btree_map" where
  "bt_from_iter xs = fold (\<lambda>(k, v). bt_insert k v) xs []"

lemma set_bt_insert: "fst ` set (bt_insert k v m) = insert k (fst ` set m)"
  by (induction k v m rule: bt_insert.induct) auto

lemma bt_ok_insert: "bt_ok m \<Longrightarrow> bt_ok (bt_insert k v m)"
proof (induction k v m rule: bt_insert.induct)
  case (2 k v a b m)
  then show ?case
    using set_bt_insert [of k v m] by (auto simp: bt_ok_def bt_keys_def)
qed (simp add: bt_ok_def bt_keys_def)

lemma bt_get_insert: "bt_ok m \<Longrightarrow> bt_get (bt_insert k v m) k' = (if k' = k then Some v else bt_get m k')"
  by (induction k v m rule: bt_insert.induct) (auto simp: bt_ok_def bt_keys_def bt_get_def)

lemma bt_ok_Nil [simp]: "bt_ok []"
  by (simp add: bt_ok_def bt_keys_def)

interpretation btree: ordered_map bt_ok "[]" bt_insert bt_get "\<lambda>m. m"
proof unfold_locales
  show "bt_ok m \<Longrightarrow> sorted_wrt (<) (map fst m)" for m :: "('k::linorder, 'v) btree_map"
    by (simp add: bt_ok_def bt_keys_def)
  show "map_of m = bt_get m" for m :: "('k, 'v) btree_map"
    by (simp add: bt_get_def fun_eq_iff)
qed (simp_all add: bt_ok_insert bt_get_insert, simp add: bt_get_def)

lemma bt_ok_from_iter: "bt_ok (bt_from_iter xs)"
  unfolding bt_from_iter_def by (rule btree.ok_fold_insert) simp

lemma bt_get_from_iter: "bt_get (bt_from_iter xs) k = map_of (rev xs) k"
  unfolding bt_from_iter_def by (rule btree.get_from_iter)

lemma map_of_rev_distinct: "distinct (map fst xs) \<Longrightarrow> map_of (rev xs) = map_of xs"
  by (subst map_of_inject_set) (simp_all add: rev_map [symmetric] del: rev_map)

text \<open>Collecting entries that are already in key order changes nothing.\<close>

lemma bt_from_iter_id: "bt_ok m \<Longrightarrow> bt_from_iter m = m"
proof (rule btree.entries_canonical)
  assume ok: "bt_ok m"
  then have "distinct (map fst m)" by (rule btree.entries_distinct)
  then show "bt_get (bt_from_iter m) k = bt_get m k" for k
    by (simp only: bt_get_from_iter map_of_rev_distinct bt_get_def [symmetric])
qed (simp_all add: bt_ok_from_iter)

lemma bt_ok_distinct: "bt_ok m \<Longrightarrow> distinct (map fst m)"
  by (rule btree.entries_distinct)

lemma bt_ok_map: "bt_ok (map (\<lambda>(k, v). (k, f k v)) m) = bt_ok m"
  by (simp add: bt_ok_def bt_keys_def comp_def case_prod_beta)

lemma bt_ok_filter: "bt_ok m \<Longrightarrow> bt_ok (filter P m)"
  unfolding bt_ok_def bt_keys_def sorted_wrt_map by (rule sorted_wrt_filter)

lemma bt_mem: "bt_ok m \<Longrightarrow> (k, v) \<in> set m \<longleftrightarrow> bt_get m k = Some v"
  by (rule btree.entries_mem)

lemma bt_contains_iff: "bt_contains m k \<longleftrightarrow> k \<in> set (bt_keys m)"
  by (auto simp: bt_contains_def bt_get_def bt_keys_def map_of_eq_None_iff)

section \<open>HashMap\<close>

definition hm_get :: "('k, 'v) hash_map \<Rightarrow> 'k \<Rightarrow> 'v option" where
  "hm_get m k = map_of m k"

definition hm_insert :: "'k \<Rightarrow> 'v \<Rightarrow> ('k, 'v) hash_map \<Rightarrow> ('k, 'v) hash_map" where
  "hm_insert k v m = AList.update k v m"

definition hm_contains :: "('k, 'v) hash_map \<Rightarrow> 'k \<Rightarrow> bool" where
  "hm_contains m k = (hm_get m k \<noteq> None)"

definition hm_ok :: "('k, 'v) hash_map \<Rightarrow> bool" where
  "hm_ok m = distinct (map fst m)"

definition hm_from_iter :: "('k \<times> 'v) list \<Rightarrow> ('k, 'v) hash_map" where
  "hm_from_iter xs = fold (\<lambda>(k, v). hm_insert k v) xs []"

lemma hm_get_insert: "hm_get (hm_insert k v m) k' = (if k' = k then Some v else hm_get m k')"
  by (simp add: hm_get_def hm_insert_def update_conv)

lemma hm_ok_insert: "hm_ok m \<Longrightarrow> hm_ok (hm_insert k v m)"
  by (simp add: hm_ok_def hm_insert_def distinct_update)

interpretation hash: finite_map hm_ok "[]" hm_insert hm_get
  by unfold_locales (simp_all add: hm_get_insert hm_ok_insert, simp_all add: hm_ok_def hm_get_def)

lemma hm_get_Nil [simp]: "hm_get [] k = None"
  by (simp add: hm_get_def)

lemma hm_get_from_iter: "hm_get (hm_from_iter xs) k = map_of (rev xs) k"
  unfolding hm_from_iter_def by (rule hash.get_from_iter)

lemma hm_ok_from_iter: "hm_ok (hm_from_iter xs)"
  unfolding hm_from_iter_def by (rule hash.ok_fold_insert) (simp add: hm_ok_def)

end
