(* ===== verification/Schema.thy ===== *)
theory Schema
  imports Rust_Str Ordered_Map
begin

text \<open>
  The compose document of crate \<open>selur-compose-schema\<close>: one record per struct and one
  datatype per enum of its modules, with the hand-written serde code (\<open>NetworkMode\<close>,
  \<open>PortBinding\<close>, \<open>MountSpec\<close>, \<open>opt_duration\<close>), the post-parse validation and the
  did-you-mean helper.  The TOML and humantime parsers and the Levenshtein distance are
  third-party code and are parameters.  A path is its UTF-8 string, a \<open>Duration\<close> its number
  of nanoseconds, a \<open>BTreeMap\<close> a sorted association list (\<open>Ordered_Map\<close>).
\<close>

type_synonym path = string
type_synonym duration = nat
type_synonym 'v str_map = "(string, 'v) btree_map"

section \<open>build.rs, depends_on.rs, healthcheck.rs\<close>

record build =
  build_context :: path
  build_dockerfile :: "path option"
  build_args :: "string str_map"
  build_target :: "string option"
  build_labels :: "string str_map"
  build_no_cache :: bool

datatype depends_condition = ServiceStarted | ServiceHealthy | ServiceCompletedSuccessfully

record depends_on_spec =
  dep_condition :: depends_condition
  dep_restart :: bool

datatype depends_on =
    DependsOn_Empty
  | DependsOn_List "string list"
  | DependsOn_Map "depends_on_spec str_map"

definition depends_on_is_empty :: "depends_on \<Rightarrow> bool" where
  "depends_on_is_empty d = (case d of DependsOn_Empty \<Rightarrow> True | _ \<Rightarrow> False)"

datatype healthcheck_test = HealthcheckTest_Shell string | HealthcheckTest_Exec "string list"

record healthcheck =
  hc_test :: healthcheck_test
  hc_interval :: "duration option"
  hc_timeout :: "duration option"
  hc_retries :: "nat option"
  hc_start_period :: "duration option"
  hc_disable :: bool

text \<open>\<open>opt_duration\<close>: \<open>format\<close> and \<open>parse\<close> are humantime's.\<close>

definition opt_duration_serialize :: "(duration \<Rightarrow> string) \<Rightarrow> duration option \<Rightarrow> string option" where
  "opt_duration_serialize format v = (case v of None \<Rightarrow> None | Some d \<Rightarrow> Some (format d))"

definition opt_duration_deserialize ::
    "(string \<Rightarrow> 'e + duration) \<Rightarrow> string option \<Rightarrow> 'e + duration option" where
  "opt_duration_deserialize parse opt =
     (case opt of None \<Rightarrow> Ok None | Some s \<Rightarrow> map_res Some (parse s))"

section \<open>networks.rs\<close>

record ipam =
  ipam_driver :: "string option"
  ipam_config :: "string str_map list"

record network =
  net_driver :: "string option"
  net_driver_opts :: "string str_map"
  net_external :: bool
  net_name :: "string option"
  net_ipam :: "ipam option"
  net_labels :: "string str_map"
  net_internal :: bool

datatype network_mode =
    NetworkMode_Bridge
  | NetworkMode_Host
  | NetworkMode_None
  | NetworkMode_Container string
  | NetworkMode_Custom string

definition network_mode_deserialize :: "string \<Rightarrow> network_mode" where
  "network_mode_deserialize s =
     (if s = ''bridge'' then NetworkMode_Bridge
      else if s = ''host'' then NetworkMode_Host
      else if s = ''none'' then NetworkMode_None
      else if prefix ''container:'' s then NetworkMode_Container (drop (length ''container:'') s)
      else NetworkMode_Custom s)"

definition network_mode_serialize :: "network_mode \<Rightarrow> string" where
  "network_mode_serialize m =
     (case m of
        NetworkMode_Bridge \<Rightarrow> ''bridge''
      | NetworkMode_Host \<Rightarrow> ''host''
      | NetworkMode_None \<Rightarrow> ''none''
      | NetworkMode_Container i \<Rightarrow> ''container:'' @ i
      | NetworkMode_Custom n \<Rightarrow> n)"

section \<open>ports.rs, volumes.rs\<close>

text \<open>
  The TOML value a hand-written deserializer looks at: the \<open>toml\<close> crate's value type, with the
  variants the code tells apart; \<open>'t\<close> is the table type and \<open>'o\<close> stands for every other variant.
\<close>

datatype ('t, 'o) toml_value =
    Toml_String string
  | Toml_Integer int
  | Toml_Table 't
  | Toml_Other 'o

record port_long =
  port_host_ip :: "string option"
  port_target :: nat
  port_published :: "string option"
  port_protocol :: "string option"

datatype port_binding = PortBinding_Short string | PortBinding_Long port_long

definition show_int :: "int \<Rightarrow> string" where
  "show_int n = (if n < 0 then CHR ''-'' # show_nat (nat (- n)) else show_nat (nat n))"

definition port_binding_deserialize ::
    "('t \<Rightarrow> string + port_long) \<Rightarrow> ('o \<Rightarrow> string) \<Rightarrow> ('t, 'o) toml_value \<Rightarrow> string + port_binding" where
  "port_binding_deserialize de_long debug v =
     (case v of
        Toml_String s \<Rightarrow> Ok (PortBinding_Short s)
      | Toml_Integer n \<Rightarrow> Ok (PortBinding_Short (show_int n))
      | Toml_Table t \<Rightarrow> map_res PortBinding_Long (de_long t)
      | Toml_Other x \<Rightarrow> Err (''expected a string or table for a port binding, got '' @ debug x))"

record bind_options =
  bind_propagation :: "string option"
  bind_create_host_path :: bool

record volume_options =
  vol_nocopy :: bool

record mount_long =
  mount_type :: string
  mount_source :: "path option"
  mount_target :: path
  mount_read_only :: bool
  mount_bind :: "bind_options option"
  mount_volume :: "volume_options option"

datatype mount_spec = MountSpec_Short string | MountSpec_Long mount_long

text \<open>An integer falls into the error branch here: \<open>debug_int\<close> prints it.\<close>

definition mount_spec_deserialize ::
    "('t \<Rightarrow> string + mount_long) \<Rightarrow> (int \<Rightarrow> string) \<Rightarrow> ('o \<Rightarrow> string) \<Rightarrow> ('t, 'o) toml_value
     \<Rightarrow> string + mount_spec" where
  "mount_spec_deserialize de_long debug_int debug v =
     (case v of
        Toml_String s \<Rightarrow> Ok (MountSpec_Short s)
      | Toml_Table t \<Rightarrow> map_res MountSpec_Long (de_long t)
      | Toml_Integer n \<Rightarrow> Err (''expected a string or table for a volume mount, got '' @ debug_int n)
      | Toml_Other x \<Rightarrow> Err (''expected a string or table for a volume mount, got '' @ debug x))"

text \<open>Serialization writes a short form verbatim as a string and a long form as its table.\<close>

definition port_binding_serialize :: "(port_long \<Rightarrow> 't) \<Rightarrow> port_binding \<Rightarrow> ('t, 'o) toml_value" where
  "port_binding_serialize ser_long p =
     (case p of PortBinding_Short s \<Rightarrow> Toml_String s | PortBinding_Long l \<Rightarrow> Toml_Table (ser_long l))"

definition mount_spec_serialize :: "(mount_long \<Rightarrow> 't) \<Rightarrow> mount_spec \<Rightarrow> ('t, 'o) toml_value" where
  "mount_spec_serialize ser_long m =
     (case m of MountSpec_Short s \<Rightarrow> Toml_String s | MountSpec_Long l \<Rightarrow> Toml_Table (ser_long l))"

record volume =
  vol_driver :: "string option"
  vol_driver_opts :: "string str_map"
  vol_external :: bool
  vol_name :: "string option"
  vol_labels :: "string str_map"

section \<open>secrets.rs\<close>

record secret =
  secret_file :: "path option"
  secret_external :: bool
  secret_name :: "string option"

record config =
  config_file :: "path option"
  config_external :: bool
  config_name :: "string option"

record secret_ref_long =
  sref_source :: string
  sref_target :: "path option"
  sref_uid :: "string option"
  sref_gid :: "string option"
  sref_mode :: "nat option"

datatype secret_ref = SecretRef_Name string | SecretRef_Long secret_ref_long

record config_ref_long =
  cref_source :: string
  cref_target :: "path option"
  cref_uid :: "string option"
  cref_gid :: "string option"
  cref_mode :: "nat option"

datatype config_ref = ConfigRef_Name string | ConfigRef_Long config_ref_long

section \<open>services.rs\<close>

datatype restart_policy = Restart_No | Restart_Always | Restart_OnFailure | Restart_UnlessStopped

datatype service_env =
    EnvMap_Empty
  | EnvMap_List "string list"
  | EnvMap_Map "string option str_map"

definition service_env_is_empty :: "service_env \<Rightarrow> bool" where
  "service_env_is_empty e = (case e of EnvMap_Empty \<Rightarrow> True | _ \<Rightarrow> False)"

datatype string_or_list = StringOrList_String string | StringOrList_List "string list"

record service =
  svc_image :: "string option"
  svc_build :: "build option"
  svc_command :: "string_or_list option"
  svc_entrypoint :: "string_or_list option"
  svc_environment :: service_env
  svc_env_file :: "path list"
  svc_ports :: "port_binding list"
  svc_volumes :: "mount_spec list"
  svc_networks :: "string list"
  svc_network_mode :: "network_mode option"
  svc_depends_on :: depends_on
  svc_healthcheck :: "healthcheck option"
  svc_restart :: restart_policy
  svc_profiles :: "string list"
  svc_secrets :: "secret_ref list"
  svc_configs :: "config_ref list"
  svc_user :: "string option"
  svc_working_dir :: "string option"
  svc_hostname :: "string option"
  svc_cap_add :: "string list"
  svc_cap_drop :: "string list"
  svc_init :: "bool option"
  svc_stop_signal :: "string option"
  svc_stop_grace_period :: "duration option"

section \<open>lib.rs\<close>

record project =
  prj_name :: string

text \<open>\<open>'x\<close> is the raw TOML value of an extension table.\<close>

record 'x compose =
  cmp_project :: "project option"
  cmp_services :: "service str_map"
  cmp_networks :: "network str_map"
  cmp_volumes :: "volume str_map"
  cmp_secrets :: "secret str_map"
  cmp_configs :: "config str_map"
  cmp_extensions :: "'x str_map"

datatype 'te parse_error =
    ParseError_Toml path 'te
  | ParseError_UnknownField string string string
  | ParseError_MissingImageOrBuild string

text \<open>The early return of the loop over the services, in key order.\<close>

fun validate_services :: "(string \<times> service) list \<Rightarrow> 'te parse_error + unit" where
  "validate_services [] = Ok ()"
| "validate_services ((name, svc) # rest) =
     (if svc_image svc = None \<and> svc_build svc = None
      then Err (ParseError_MissingImageOrBuild name)
      else validate_services rest)"

definition validate :: "'x compose \<Rightarrow> 'te parse_error + unit" where
  "validate c = validate_services (cmp_services c)"

definition parse_str ::
    "(string \<Rightarrow> 'te + 'x compose) \<Rightarrow> string \<Rightarrow> path option \<Rightarrow> 'te parse_error + 'x compose" where
  "parse_str from_str s source_path =
     (let path = (case source_path of Some p \<Rightarrow> p | None \<Rightarrow> ''<input>'') in
      bind_res (map_err (ParseError_Toml path) (from_str s)) (\<lambda>compose.
      bind_res (validate compose) (\<lambda>_. Ok compose)))"

text \<open>\<open>min_by_key\<close> keeps the first of equal minima; the distance is \<open>strsim::levenshtein\<close>.\<close>

fun min_by_key :: "('a \<Rightarrow> nat) \<Rightarrow> 'a list \<Rightarrow> 'a option" where
  "min_by_key f [] = None"
| "min_by_key f (x # xs) =
     (case min_by_key f xs of None \<Rightarrow> Some x | Some y \<Rightarrow> if f x \<le> f y then Some x else Some y)"

definition did_you_mean :: "(string \<Rightarrow> string \<Rightarrow> nat) \<Rightarrow> string \<Rightarrow> string list \<Rightarrow> string option" where
  "did_you_mean levenshtein input candidates =
     map_option fst
       (min_by_key snd
         (filter (\<lambda>(c, dist). dist \<le> 3) (map (\<lambda>c. (c, levenshtein input c)) candidates)))"

section \<open>Lemmas\<close>

lemma validate_services_Ok:
  "validate_services svcs = Ok u \<longleftrightarrow>
     (\<forall>(name, svc)\<in>set svcs. svc_image svc \<noteq> None \<or> svc_build svc \<noteq> None)"
  by (induction svcs rule: validate_services.induct) auto

lemma network_mode_serialize_deserialize: "network_mode_serialize (network_mode_deserialize s) = s"
proof (cases "prefix ''container:'' s")
  case True
  then obtain i where "s = ''container:'' @ i" unfolding prefix_def by blast
  then show ?thesis by (simp add: network_mode_serialize_def network_mode_deserialize_def)
next
  case False
  then show ?thesis by (simp add: network_mode_serialize_def network_mode_deserialize_def)
qed

lemma min_by_key_None: "min_by_key f xs = None \<longleftrightarrow> xs = []"
  by (cases xs) (auto split: option.splits)

lemma min_by_key_Some:
  "min_by_key f xs = Some m \<Longrightarrow>
     \<exists>us vs. xs = us @ m # vs \<and> (\<forall>u\<in>set us. f m < f u) \<and> (\<forall>v\<in>set vs. f m \<le> f v)"
proof (induction xs arbitrary: m)
  case Nil
  then show ?case by simp
next
  case (Cons x xs)
  show ?case
  proof (cases "min_by_key f xs")
    case None
    with Cons.prems have "m = x" "xs = []" by (auto simp: min_by_key_None)
    then show ?thesis by (intro exI [of _ "[]"] exI [of _ "[]"]) simp
  next
    case (Some y)
    then obtain us vs where xs: "xs = us @ y # vs" "\<forall>u\<in>set us. f y < f u" "\<forall>v\<in>set vs. f y \<le> f v"
      using Cons.IH by blast
    show ?thesis
    proof (cases "f x \<le> f y")
      case True
      with Some Cons.prems have "m = x" by simp
      with True xs show ?thesis by (intro exI [of _ "[]"] exI [of _ xs]) auto
    next
      case False
      with Some Cons.prems have "m = y" by simp
      with False xs show ?thesis by (intro exI [of _ "x # us"] exI [of _ vs]) auto
    qed
  qed
qed

end
