(* ===== verification/Env_Map.thy ===== *)
theory Env_Map
  imports Schema
begin

text \<open>
  \<open>EnvMap\<close> of crate \<open>selur-compose-interp\<close> (\<open>env.rs\<close>, \<open>error.rs\<close>): an immutable store of
  environment variables kept as a vector of entries in decreasing priority with a hash index
  into it, the layering of overrides and \<open>.env\<close> files, and the \<open>.env\<close> parser.  Reading a
  file is a parameter of the model (\<open>read_file\<close>: the operating system's error text or the
  file's bytes).
\<close>

section \<open>error.rs\<close>

datatype interp_error =
    Undefined string string
  | MissingRequired string string "nat \<times> nat"
  | Unterminated string nat
  | EnvFile path string

section \<open>The store\<close>

record env_map =
  entries :: "(string \<times> string) list"
  index :: "(string, nat) hash_map"

definition env_default :: env_map where
  "env_default = \<lparr>entries = [], index = []\<rparr>"

text \<open>The loop body every constructor shares: push the pair unless its key is indexed.\<close>

definition push_entry :: "string \<times> string \<Rightarrow> env_map \<Rightarrow> env_map" where
  "push_entry kv m =
     (if hm_contains (index m) (fst kv) then m
      else \<lparr>entries = entries m @ [kv], index = hm_insert (fst kv) (length (entries m)) (index m)\<rparr>)"

definition env_from_iter :: "(string \<times> string) list \<Rightarrow> env_map" where
  "env_from_iter iter = fold push_entry iter env_default"

text \<open>\<open>std::env::vars()\<close> is the parameter \<open>vars\<close>.\<close>

definition env_from_process :: "(string \<times> string) list \<Rightarrow> env_map" where
  "env_from_process vars = env_from_iter vars"

text \<open>Indexing the entries out of range would panic: that is the \<open>None\<close> of the outer option.\<close>

definition env_get_checked :: "env_map \<Rightarrow> string \<Rightarrow> string option option" where
  "env_get_checked m name =
     (case hm_get (index m) name of
        None \<Rightarrow> Some None
      | Some idx \<Rightarrow> if idx < length (entries m) then Some (Some (snd (entries m ! idx))) else None)"

definition env_get :: "env_map \<Rightarrow> string \<Rightarrow> string option" where
  "env_get m name = (case env_get_checked m name of Some r \<Rightarrow> r | None \<Rightarrow> None)"

definition with_overrides :: "env_map \<Rightarrow> (string \<times> string) list \<Rightarrow> env_map" where
  "with_overrides m overrides = fold push_entry (entries m) (fold push_entry overrides env_default)"

definition env_len :: "env_map \<Rightarrow> nat" where
  "env_len m = length (entries m)"

definition env_is_empty :: "env_map \<Rightarrow> bool" where
  "env_is_empty m = (entries m = [])"

section \<open>The .env parser\<close>

definition strip_quotes :: "string \<Rightarrow> string" where
  "strip_quotes s0 =
     (let s = trim_end s0 in
      if 2 \<le> length s \<and>
         (hd s = CHR 0x22 \<and> last s = CHR 0x22 \<or> hd s = CHR 0x27 \<and> last s = CHR 0x27)
      then slice s 1 (length s - 1)
      else s)"

text \<open>One line: \<open>Ok None\<close> when the loop continues without a pair.\<close>

definition parse_env_line :: "path \<Rightarrow> nat \<Rightarrow> string \<Rightarrow> interp_error + (string \<times> string) option" where
  "parse_env_line path line_no raw =
     (let line = trim raw in
      if line = [] \<or> prefix ''#'' line then Ok None
      else case position (\<lambda>c. c = CHR ''='') line of
             None \<Rightarrow> Ok None
           | Some eq \<Rightarrow>
               let key = trim (slice line 0 eq); raw_val = drop (eq + 1) line in
               if key = []
               then Err (EnvFile path (''line '' @ show_nat (line_no + 1) @ '': empty key''))
               else Ok (Some (key, strip_quotes raw_val)))"

fun parse_env_lines ::
    "path \<Rightarrow> nat \<Rightarrow> string list \<Rightarrow> (string \<times> string) list \<Rightarrow> interp_error + (string \<times> string) list" where
  "parse_env_lines path line_no [] pairs = Ok pairs"
| "parse_env_lines path line_no (raw # rest) pairs =
     bind_res (parse_env_line path line_no raw) (\<lambda>p.
       parse_env_lines path (line_no + 1) rest
         (case p of None \<Rightarrow> pairs | Some kv \<Rightarrow> pairs @ [kv]))"

definition parse_env_str :: "string \<Rightarrow> path \<Rightarrow> interp_error + (string \<times> string) list" where
  "parse_env_str content path = parse_env_lines path 0 (str_lines content) []"

text \<open>
  \<open>load_env_file\<close>: open, read at most 1 MiB, decode.  \<open>open_file\<close> gives the error text or the
  bytes of the file, \<open>decode\<close> (\<open>read_to_string\<close>) the error text or the same bytes as UTF-8.
\<close>

definition load_env_file ::
    "(path \<Rightarrow> string + string) \<Rightarrow> (string \<Rightarrow> string + string) \<Rightarrow> path
     \<Rightarrow> interp_error + (string \<times> string) list" where
  "load_env_file open_file decode path =
     bind_res (map_err (EnvFile path) (open_file path)) (\<lambda>file.
     bind_res (map_err (EnvFile path) (decode (take (1024 * 1024) file))) (\<lambda>content.
     parse_env_str content path))"

section \<open>Layering files below the current entries\<close>

text \<open>The inner loop keeps the first pair of a key, over all files in the order given.\<close>

definition push_pair :: "string \<times> string \<Rightarrow> (string \<times> string) list \<Rightarrow> (string \<times> string) list" where
  "push_pair kv file_pairs =
     (if \<exists>p\<in>set file_pairs. fst p = fst kv then file_pairs else file_pairs @ [kv])"

fun load_files ::
    "(path \<Rightarrow> interp_error + (string \<times> string) list) \<Rightarrow> path list \<Rightarrow> (string \<times> string) list
     \<Rightarrow> interp_error + (string \<times> string) list" where
  "load_files load [] file_pairs = Ok file_pairs"
| "load_files load (p # ps) file_pairs =
     bind_res (load p) (\<lambda>pairs. load_files load ps (fold push_pair pairs file_pairs))"

definition with_env_files ::
    "(path \<Rightarrow> interp_error + (string \<times> string) list) \<Rightarrow> env_map \<Rightarrow> path list \<Rightarrow> interp_error + env_map" where
  "with_env_files load m paths =
     bind_res (load_files load paths []) (\<lambda>file_pairs.
       Ok (fold push_entry file_pairs (fold push_entry (entries m) env_default)))"

section \<open>The invariant of the store\<close>

text \<open>Keys are distinct and the index sends each key to its position.\<close>

definition env_ok :: "env_map \<Rightarrow> bool" where
  "env_ok m \<longleftrightarrow> distinct (map fst (entries m)) \<and>
     (\<forall>k i. hm_get (index m) k = Some i \<longleftrightarrow> i < length (entries m) \<and> fst (entries m ! i) = k)"

lemma env_ok_default: "env_ok env_default"
  by (simp add: env_ok_def env_default_def)

lemma env_ok_contains: "env_ok m \<Longrightarrow> hm_contains (index m) k \<longleftrightarrow> k \<in> fst ` set (entries m)"
proof -
  assume "env_ok m"
  then have "hm_contains (index m) k \<longleftrightarrow> (\<exists>i. i < length (entries m) \<and> fst (entries m ! i) = k)"
    by (simp add: env_ok_def hm_contains_def not_None_eq)
  also have "\<dots> \<longleftrightarrow> k \<in> set (map fst (entries m))" by (metis in_set_conv_nth length_map nth_map)
  finally show ?thesis by simp
qed

lemma env_ok_push: "env_ok m \<Longrightarrow> env_ok (push_entry kv m)"
proof -
  assume ok: "env_ok m"
  show ?thesis
  proof (cases "hm_contains (index m) (fst kv)")
    case True
    with ok show ?thesis by (simp add: push_entry_def)
  next
    case False
    with ok have new: "fst kv \<notin> fst ` set (entries m)" by (simp add: env_ok_contains)
    then have neq: "\<And>i. i < length (entries m) \<Longrightarrow> fst (entries m ! i) \<noteq> fst kv"
      by (metis image_eqI nth_mem)
    have ix: "\<And>k i. hm_get (index m) k = Some i \<longleftrightarrow> i < length (entries m) \<and> fst (entries m ! i) = k"
      and d: "distinct (map fst (entries m))"
      using ok by (auto simp: env_ok_def)
    have "hm_get (hm_insert (fst kv) (length (entries m)) (index m)) k = Some i \<longleftrightarrow>
        i < Suc (length (entries m)) \<and> fst ((entries m @ [kv]) ! i) = k" for k i
      using neq ix by (auto simp: hm_get_insert nth_append less_Suc_eq)
    with False d new show ?thesis by (simp add: push_entry_def env_ok_def)
  qed
qed

lemma env_get_entries: "env_ok m \<Longrightarrow> env_get_checked m k = Some (map_of (entries m) k)"
proof -
  assume ok: "env_ok m"
  show ?thesis
  proof (cases "hm_get (index m) k")
    case None
    with ok have "k \<notin> fst ` set (entries m)" by (simp add: env_ok_contains [symmetric] hm_contains_def)
    then have "map_of (entries m) k = None" by (simp add: map_of_eq_None_iff)
    with None show ?thesis by (simp add: env_get_checked_def)
  next
    case (Some i)
    with ok have i: "i < length (entries m)" "fst (entries m ! i) = k" by (auto simp: env_ok_def)
    then have "(k, snd (entries m ! i)) \<in> set (entries m)" by (metis nth_mem prod.collapse)
    with ok have "map_of (entries m) k = Some (snd (entries m ! i))" by (simp add: env_ok_def)
    with Some i show ?thesis by (simp add: env_get_checked_def)
  qed
qed

lemma env_get_ok: "env_ok m \<Longrightarrow> env_get m k = map_of (entries m) k"
  by (simp add: env_get_def env_get_entries)

lemma env_get_push:
  "env_ok m \<Longrightarrow> env_get (push_entry kv m) k =
     (case env_get m k of Some v \<Rightarrow> Some v | None \<Rightarrow> if k = fst kv then Some (snd kv) else None)"
proof -
  assume ok: "env_ok m"
  then have ok': "env_ok (push_entry kv m)" by (rule env_ok_push)
  show ?thesis
  proof (cases "hm_contains (index m) (fst kv)")
    case True
    with ok have "fst kv \<in> fst ` set (entries m)" by (simp add: env_ok_contains)
    then have "map_of (entries m) (fst kv) \<noteq> None" by (simp add: map_of_eq_None_iff)
    with True ok show ?thesis by (auto simp: push_entry_def env_get_ok split: option.splits)
  next
    case False
    then have "env_get (push_entry kv m) k = map_of (entries m @ [kv]) k"
      using ok' by (simp add: env_get_ok) (simp add: push_entry_def)
    with ok show ?thesis
      by (cases kv) (auto simp: env_get_ok map_add_def split: option.splits)
  qed
qed

section \<open>The interface interpolation uses\<close>

text \<open>
  What the layers of the store promise: pushing a pair never hides an entry already there.  The
  lemmas inside say what any sequence of pushes does; the interpretation below discharges the
  laws for \<open>push_entry\<close> and \<open>env_get\<close>.
\<close>

locale layered_store =
  fixes valid :: "'m \<Rightarrow> bool"
    and initial :: 'm
    and push :: "'k \<times> 'v \<Rightarrow> 'm \<Rightarrow> 'm"
    and look :: "'m \<Rightarrow> 'k \<Rightarrow> 'v option"
  assumes valid_initial: "valid initial"
    and valid_push: "valid m \<Longrightarrow> valid (push kv m)"
    and look_initial: "look initial k = None"
    and look_push: "valid m \<Longrightarrow> look (push kv m) k =
          (case look m k of Some v \<Rightarrow> Some v | None \<Rightarrow> if k = fst kv then Some (snd kv) else None)"
begin

lemma valid_fold: "valid m \<Longrightarrow> valid (fold push kvs m)"
  by (induction kvs arbitrary: m) (auto simp: valid_push)

lemma look_fold:
  "valid m \<Longrightarrow> look (fold push kvs m) k = (case look m k of Some v \<Rightarrow> Some v | None \<Rightarrow> map_of kvs k)"
proof (induction kvs arbitrary: m)
  case Nil
  then show ?case by (simp split: option.split)
next
  case (Cons kv kvs)
  from Cons.prems have "valid (push kv m)" by (rule valid_push)
  from Cons.IH [OF this] Cons.prems show ?case
    by (cases kv) (auto simp: look_push split: option.splits)
qed

lemma look_layers:
  "look (fold push low (fold push high initial)) k =
     (case map_of high k of Some v \<Rightarrow> Some v | None \<Rightarrow> map_of low k)"
  using valid_initial by (simp add: look_fold valid_fold look_initial)

end

interpretation store: layered_store env_ok env_default push_entry env_get
  by unfold_locales
    (simp_all add: env_ok_default env_ok_push env_get_push,
     simp add: env_get_def env_get_checked_def env_default_def)

lemma env_ok_from_iter: "env_ok (env_from_iter kvs)"
  unfolding env_from_iter_def by (rule store.valid_fold) (rule env_ok_default)

lemma env_ok_with_overrides: "env_ok (with_overrides m kvs)"
  unfolding with_overrides_def by (intro store.valid_fold env_ok_default)

lemma env_ok_with_env_files: "with_env_files load m paths = Ok m' \<Longrightarrow> env_ok m'"
  unfolding with_env_files_def by (auto simp: res_simps intro!: store.valid_fold env_ok_default)

lemma map_of_push_pairs:
  "map_of (fold push_pair kvs ps) k = (case map_of ps k of Some v \<Rightarrow> Some v | None \<Rightarrow> map_of kvs k)"
proof (induction kvs arbitrary: ps)
  case Nil
  then show ?case by (simp split: option.split)
next
  case (Cons kv kvs)
  have "map_of (push_pair kv ps) k =
      (case map_of ps k of Some v \<Rightarrow> Some v | None \<Rightarrow> if k = fst kv then Some (snd kv) else None)"
  proof (cases "\<exists>p\<in>set ps. fst p = fst kv")
    case True
    then have "map_of ps (fst kv) \<noteq> None" by (metis image_eqI map_of_eq_None_iff)
    with True show ?thesis by (auto simp: push_pair_def split: option.splits)
  next
    case False
    then show ?thesis by (cases kv) (auto simp: push_pair_def map_add_def split: option.splits)
  qed
  with Cons.IH show ?case by (cases kv) (auto split: option.splits)
qed

text \<open>The loaded pairs: the first file that defines a key decides its value.\<close>

lemma load_files_Ok:
  "load_files load paths ps = Ok ps' \<Longrightarrow>
     \<exists>fs. list_all2 (\<lambda>p kvs. load p = Ok kvs) paths fs \<and>
       (\<forall>k. map_of ps' k = map_of (ps @ concat fs) k)"
proof (induction load paths ps rule: load_files.induct)
  case (1 load ps)
  then show ?case by (intro exI [of _ "[]"]) simp
next
  case (2 load p paths ps)
  from "2.prems" obtain kvs where kvs: "load p = Ok kvs"
    and rest: "load_files load paths (fold push_pair kvs ps) = Ok ps'"
    by (auto simp: res_simps)
  from "2.IH" [OF rest] obtain fs where fs: "list_all2 (\<lambda>p kvs. load p = Ok kvs) paths fs"
    "\<forall>k. map_of ps' k = map_of (fold push_pair kvs ps @ concat fs) k" by blast
  then have "\<forall>k. map_of ps' k = map_of (ps @ concat (kvs # fs)) k"
    by (auto simp: map_add_def map_of_push_pairs split: option.splits)
  with fs(1) kvs show ?case by (intro exI [of _ "kvs # fs"]) simp
qed

section \<open>Properties\<close>

lemma with_env_files_get:
  assumes ok: "env_ok m" and "with_env_files load m paths = Ok m'"
  shows "\<exists>fs. list_all2 (\<lambda>p kvs. load p = Ok kvs) paths fs \<and>
    (\<forall>k. env_get m' k = (case env_get m k of Some v \<Rightarrow> Some v | None \<Rightarrow> map_of (concat fs) k))"
proof -
  from assms(2) obtain ps where ps: "load_files load paths [] = Ok ps"
    and m': "m' = fold push_entry ps (fold push_entry (entries m) env_default)"
    by (auto simp: with_env_files_def res_simps)
  from load_files_Ok [OF ps] obtain fs where
    fs: "list_all2 (\<lambda>p kvs. load p = Ok kvs) paths fs" "\<forall>k. map_of ps k = map_of (concat fs) k"
    by auto
  have "env_get m' k = (case env_get m k of Some v \<Rightarrow> Some v | None \<Rightarrow> map_of (concat fs) k)" for k
    by (simp only: m' store.look_layers env_get_ok [OF ok] fs(2) [rule_format])
  with fs(1) show ?thesis by blast
qed

end
