(* ===== verification/Plan_Types.thy ===== *)
theory Plan_Types
  imports Schema Env_Map
begin

text \<open>
  The data of crate \<open>selur-compose-plan\<close> (\<open>lib.rs\<close>): operations and their specs, the planner's
  options, its result and its errors.  \<open>'te\<close> is the TOML parser's error type, \<open>'ce\<close> the error
  type of the JSON canonicaliser.
\<close>

record network_spec =
  nspec_name :: string
  nspec_driver :: "string option"
  nspec_labels :: "string str_map"

record volume_spec =
  vspec_name :: string
  vspec_driver :: "string option"
  vspec_labels :: "string str_map"

record build_spec =
  bspec_service :: string
  bspec_context :: path
  bspec_dockerfile :: "path option"
  bspec_args :: "string str_map"
  bspec_target :: "string option"
  bspec_tag :: string
  bspec_no_cache :: bool

record pull_spec =
  pspec_service :: string
  pspec_image :: string

record run_spec =
  rspec_service :: string
  rspec_image :: string
  rspec_container_name :: string
  rspec_environment :: "string list"
  rspec_ports :: "string list"
  rspec_volumes :: "string list"
  rspec_networks :: "string list"
  rspec_network_mode :: "string option"
  rspec_command :: "string list option"
  rspec_entrypoint :: "string list option"
  rspec_restart :: string
  rspec_labels :: "string str_map"

record wait_healthy_spec =
  wspec_service :: string
  wspec_container_name :: string

record stop_spec =
  sspec_service :: string
  sspec_container_name :: string
  sspec_timeout_secs :: nat

record remove_spec =
  rmspec_service :: string
  rmspec_container_name :: string
  rmspec_force :: bool

datatype op =
    CreateNetwork network_spec
  | CreateVolume volume_spec
  | BuildImage build_spec
  | PullImage pull_spec
  | RunContainer run_spec
  | WaitHealthy wait_healthy_spec
  | StopContainer stop_spec
  | RemoveContainer remove_spec

text \<open>\<open>NodeId\<close>: the position in the sorted name list, with the derived order.\<close>

datatype node_id = NodeId (node_index: nat)

instantiation node_id :: linorder
begin

definition less_eq_node_id :: "node_id \<Rightarrow> node_id \<Rightarrow> bool" where
  "less_eq_node_id a b = (node_index a \<le> node_index b)"

definition less_node_id :: "node_id \<Rightarrow> node_id \<Rightarrow> bool" where
  "less_node_id a b = (node_index a < node_index b)"

instance
  by intro_classes (auto simp: less_eq_node_id_def less_node_id_def node_id.expand)

end

record plan_options =
  opt_profiles :: "string list"
  opt_project_name :: "string option"
  opt_services :: "string list"

record compose_plan =
  plan_ops :: "op list"
  plan_waves :: "node_id list list"
  plan_project_name :: string

datatype ('te, 'ce) plan_error =
    Cycle "string list"
  | MissingDependency string string
  | UnknownNetwork string string
  | UnknownVolume string string
  | UnknownProfile string
  | UnknownService string
  | Schema_Error "'te parse_error"
  | Interp_Error interp_error
  | ConfigHash string 'ce

text \<open>The services an operation list starts, and those it waits for, in order.\<close>

definition started :: "op list \<Rightarrow> string list" where
  "started ops = concat (map (\<lambda>x. case x of RunContainer r \<Rightarrow> [rspec_service r] | _ \<Rightarrow> []) ops)"

definition waited_for :: "op list \<Rightarrow> string list" where
  "waited_for ops = concat (map (\<lambda>x. case x of WaitHealthy w \<Rightarrow> [wspec_service w] | _ \<Rightarrow> []) ops)"

lemma started_list [simp]:
  "started [] = []" "started (xs @ ys) = started xs @ started ys"
  "started (x # xs) = (case x of RunContainer r \<Rightarrow> [rspec_service r] | _ \<Rightarrow> []) @ started xs"
  by (simp_all add: started_def)

lemma waited_for_list [simp]:
  "waited_for [] = []" "waited_for (xs @ ys) = waited_for xs @ waited_for ys"
  "waited_for (x # xs) = (case x of WaitHealthy w \<Rightarrow> [wspec_service w] | _ \<Rightarrow> []) @ waited_for xs"
  by (simp_all add: waited_for_def)

end
