(* ===== verification/Profiles.thy ===== *)
theory Profiles
  imports Plan_Types
begin

text \<open>Profile filtering of crate \<open>selur-compose-plan\<close> (\<open>profiles.rs\<close>).\<close>

text \<open>The profile names of all services, in the order \<open>flat_map\<close> yields them.\<close>

definition all_profiles :: "'x compose \<Rightarrow> string list" where
  "all_profiles c = concat (map (\<lambda>(name, svc). svc_profiles svc) (cmp_services c))"

fun check_profiles :: "string list \<Rightarrow> string list \<Rightarrow> ('te, 'ce) plan_error + unit" where
  "check_profiles known [] = Ok ()"
| "check_profiles known (prof # rest) =
     (if prof \<notin> set known then Err (UnknownProfile prof) else check_profiles known rest)"

definition profile_active :: "string list \<Rightarrow> service \<Rightarrow> bool" where
  "profile_active enabled svc =
     (if svc_profiles svc = [] then True
      else list_ex (\<lambda>p. p \<in> set enabled) (svc_profiles svc))"

definition filter_services ::
    "'x compose \<Rightarrow> string list \<Rightarrow> ('te, 'ce) plan_error + service str_map" where
  "filter_services c enabled =
     bind_res (check_profiles (all_profiles c) enabled) (\<lambda>_.
       Ok (bt_from_iter (filter (\<lambda>(name, svc). profile_active enabled svc) (cmp_services c))))"

lemma check_profiles_Ok [res_simps]: "check_profiles known ps = Ok u \<longleftrightarrow> set ps \<subseteq> set known"
  by (induction known ps rule: check_profiles.induct) auto

lemma check_profiles_Err [res_simps]:
  "check_profiles known ps = Err e \<longleftrightarrow>
     (\<exists>p. find (\<lambda>p. p \<notin> set known) ps = Some p \<and> e = UnknownProfile p)"
  by (induction known ps rule: check_profiles.induct) auto

lemma profile_active_iff:
  "profile_active enabled svc \<longleftrightarrow> svc_profiles svc = [] \<or> set (svc_profiles svc) \<inter> set enabled \<noteq> {}"
  by (auto simp: profile_active_def list_ex_iff)

lemma filter_services_Ok:
  "bt_ok (cmp_services c) \<Longrightarrow>
     filter_services c enabled = Ok m \<longleftrightarrow>
       set enabled \<subseteq> set (all_profiles c) \<and>
       m = filter (\<lambda>(name, svc). profile_active enabled svc) (cmp_services c)"
  by (auto simp: filter_services_def res_simps bt_from_iter_id bt_ok_filter)

lemma bt_get_filter:
  "bt_ok m \<Longrightarrow> bt_get (filter (\<lambda>(k, v). P v) m) k = (case bt_get m k of Some v \<Rightarrow> if P v then Some v else None | None \<Rightarrow> None)"
proof -
  assume ok: "bt_ok m"
  then have ok': "bt_ok (filter (\<lambda>(k, v). P v) m)" by (rule bt_ok_filter)
  have "bt_get (filter (\<lambda>(k, v). P v) m) k = Some v \<longleftrightarrow> bt_get m k = Some v \<and> P v" for v
    using bt_mem [OF ok, of k v] bt_mem [OF ok', of k v] by auto
  note eq = this
  show ?thesis
    by (cases "bt_get (filter (\<lambda>(k, v). P v) m) k"; cases "bt_get m k") (use eq in \<open>simp_all split: if_split\<close>)
qed

lemma filter_services_get:
  "bt_ok (cmp_services c) \<Longrightarrow> filter_services c enabled = Ok m \<Longrightarrow>
     bt_ok m \<and> (\<forall>name svc. bt_get m name = Some svc \<longleftrightarrow>
       bt_get (cmp_services c) name = Some svc \<and>
       (svc_profiles svc = [] \<or> set (svc_profiles svc) \<inter> set enabled \<noteq> {}))"
  by (auto simp: filter_services_Ok bt_ok_filter bt_get_filter profile_active_iff split: option.splits if_splits)

end
