(* ===== verification/Dag.thy ===== *)
theory Dag
  imports Plan_Types
begin

text \<open>
  The dependency graph of crate \<open>selur-compose-plan\<close> (\<open>dag.rs\<close>): its construction from the active
  services and Kahn's algorithm in waves.  A hash map is iterated in an arbitrary order (the
  order of its list); the theorems hold for every order.  Arithmetic underflow and out-of-range
  indexing are the \<open>Panic\<close> errors.
\<close>

section \<open>The graph\<close>

datatype edge_kind = StartedBefore | HealthyBefore | CompletedBefore

record service_graph =
  sg_names :: "string list"
  sg_edges :: "(node_id, (node_id \<times> edge_kind) list) hash_map"
  sg_in_degree :: "(node_id, nat) hash_map"

definition nodes :: "service_graph \<Rightarrow> node_id list" where
  "nodes g = map NodeId [0..<length (sg_names g)]"

definition graph_name :: "service_graph \<Rightarrow> node_id \<Rightarrow> 'e fault + string" where
  "graph_name g node =
     (if node_index node < length (sg_names g) then Ok (sg_names g ! node_index node) else Err Panic)"

text \<open>\<open>NodeId::name\<close> and \<open>NodeId::as_str_in\<close>, which take the sorted names.\<close>

definition node_name :: "node_id \<Rightarrow> string list \<Rightarrow> 'e fault + string" where
  "node_name node names = (if node_index node < length names then Ok (names ! node_index node) else Err Panic)"

definition outgoing :: "service_graph \<Rightarrow> node_id \<Rightarrow> (node_id \<times> edge_kind) list" where
  "outgoing g node = (case hm_get (sg_edges g) node of Some v \<Rightarrow> v | None \<Rightarrow> [])"

text \<open>\<open>NodeId::name\<close> and \<open>NodeId::as_str_in\<close> index a list of names.\<close>

definition as_str_in :: "node_id \<Rightarrow> string list \<Rightarrow> 'e fault + string" where
  "as_str_in node names =
     (if node_index node < length names then Ok (names ! node_index node) else Err Panic)"

section \<open>Dependencies of a service\<close>

definition deps_of :: "service \<Rightarrow> (string \<times> edge_kind) list" where
  "deps_of svc =
     (case svc_depends_on svc of
        DependsOn_Empty \<Rightarrow> []
      | DependsOn_List names \<Rightarrow> map (\<lambda>n. (n, StartedBefore)) names
      | DependsOn_Map m \<Rightarrow>
          map (\<lambda>(name, spec).
            (name,
             case dep_condition spec of
               ServiceStarted \<Rightarrow> StartedBefore
             | ServiceHealthy \<Rightarrow> HealthyBefore
             | ServiceCompletedSuccessfully \<Rightarrow> CompletedBefore)) m)"

definition healthy_dependencies :: "service \<Rightarrow> string list" where
  "healthy_dependencies svc =
     (case svc_depends_on svc of
        DependsOn_Map m \<Rightarrow> map fst (filter (\<lambda>(name, spec). dep_condition spec = ServiceHealthy) m)
      | _ \<Rightarrow> [])"

section \<open>Construction\<close>

type_synonym edge_map = "(node_id, (node_id \<times> edge_kind) list) hash_map"
type_synonym degree_map = "(node_id, nat) hash_map"

definition or_default :: "'v \<Rightarrow> 'v option \<Rightarrow> 'v" where
  "or_default d o' = (case o' of Some v \<Rightarrow> v | None \<Rightarrow> d)"

text \<open>\<open>edges.entry(to).or_default().push((from, kind))\<close> and \<open>*in_degree.entry(from).or_insert(0) += 1\<close>.\<close>

definition push_edge :: "node_id \<Rightarrow> node_id \<times> edge_kind \<Rightarrow> edge_map \<Rightarrow> edge_map" where
  "push_edge to e edges = hm_insert to (or_default [] (hm_get edges to) @ [e]) edges"

definition incr_degree :: "node_id \<Rightarrow> degree_map \<Rightarrow> degree_map" where
  "incr_degree v ind = hm_insert v (or_default 0 (hm_get ind v) + 1) ind"

fun add_deps ::
    "(string, node_id) hash_map \<Rightarrow> string \<Rightarrow> node_id \<Rightarrow> (string \<times> edge_kind) list \<Rightarrow> edge_map \<times> degree_map
     \<Rightarrow> ('te, 'ce) plan_error fault + edge_map \<times> degree_map" where
  "add_deps name_to_id svc_name from' [] acc = Ok acc"
| "add_deps name_to_id svc_name from' ((dep_name, kind) # deps) (edges, ind) =
     (case hm_get name_to_id dep_name of
        None \<Rightarrow> Err (Fault (MissingDependency svc_name dep_name))
      | Some to \<Rightarrow>
          add_deps name_to_id svc_name from' deps
            (push_edge to (from', kind) edges, incr_degree from' ind))"

fun add_services ::
    "(string, node_id) hash_map \<Rightarrow> (string \<times> service) list \<Rightarrow> edge_map \<times> degree_map
     \<Rightarrow> ('te, 'ce) plan_error fault + edge_map \<times> degree_map" where
  "add_services name_to_id [] acc = Ok acc"
| "add_services name_to_id ((svc_name, svc) # rest) acc =
     (case hm_get name_to_id svc_name of
        None \<Rightarrow> Err Panic
      | Some from' \<Rightarrow>
          bind_res (add_deps name_to_id svc_name from' (deps_of svc) acc) (add_services name_to_id rest))"

definition build_graph :: "service str_map \<Rightarrow> ('te, 'ce) plan_error fault + service_graph" where
  "build_graph active =
     (let names = bt_keys active;
          name_to_id = hm_from_iter (map (\<lambda>(i, n). (n, NodeId i)) (enumerate 0 names));
          in_degree = hm_from_iter (map (\<lambda>i. (NodeId i, 0)) [0..<length names])
      in map_res (\<lambda>(edges, ind). \<lparr>sg_names = names, sg_edges = edges, sg_in_degree = ind\<rparr>)
           (add_services name_to_id active ([], in_degree)))"

section \<open>Kahn's algorithm\<close>

definition seeds :: "degree_map \<Rightarrow> node_id list" where
  "seeds ind = sort (map fst (filter (\<lambda>(n, d). d = 0) ind))"

text \<open>The inner loop over the successors of a node; \<open>*deg -= 1\<close> panics at zero.\<close>

fun relax :: "(node_id \<times> edge_kind) list \<Rightarrow> degree_map \<times> node_id list \<Rightarrow> 'e fault + degree_map \<times> node_id list" where
  "relax [] acc = Ok acc"
| "relax ((succ, kind) # es) (ind, next_seeds) =
     (let deg = or_default 0 (hm_get ind succ) in
      if deg = 0 then Err Panic
      else relax es (hm_insert succ (deg - 1) ind, if deg - 1 = 0 then next_seeds @ [succ] else next_seeds))"

fun relax_wave ::
    "service_graph \<Rightarrow> node_id list \<Rightarrow> degree_map \<times> node_id list \<Rightarrow> 'e fault + degree_map \<times> node_id list" where
  "relax_wave g [] acc = Ok acc"
| "relax_wave g (node # ns) acc = bind_res (relax (outgoing g node) acc) (relax_wave g ns)"

text \<open>The \<open>while\<close> loop: its state is the queue, the degrees, the count and the waves.\<close>

function kahn_loop ::
    "service_graph \<Rightarrow> node_id list \<Rightarrow> degree_map \<Rightarrow> nat \<Rightarrow> node_id list list
     \<Rightarrow> 'e fault + degree_map \<times> nat \<times> node_id list list" where
  "kahn_loop g queue ind remaining waves =
     (if queue = [] then Ok (ind, remaining, waves)
      else
        let wave = sort queue in
        if remaining < length wave then Err Panic
        else
          (case relax_wave g wave (ind, []) of
             Err e \<Rightarrow> Err e
           | Ok (ind', next_seeds) \<Rightarrow>
               kahn_loop g (sort next_seeds) ind' (remaining - length wave) (waves @ [wave])))"
  by pat_completeness auto
termination
proof (relation "measure (\<lambda>(g, queue, ind, remaining, waves). remaining)")
  fix queue wave :: "node_id list" and remaining :: nat
  assume "queue \<noteq> []" "wave = sort queue" "\<not> remaining < length wave"
  then have "0 < length wave" "length wave \<le> remaining" by simp_all
  then have "remaining - length wave < remaining" by linarith
  then show "((g, sort next, ind', remaining - length wave, waves @ [wave]), g, queue, ind, remaining, waves)
      \<in> measure (\<lambda>(g, queue, ind, remaining, waves). remaining)"
    for g :: service_graph and "next" ind' ind waves by simp
qed simp

declare kahn_loop.simps [simp del]

definition topological_waves :: "service_graph \<Rightarrow> ('te, 'ce) plan_error fault + node_id list list" where
  "topological_waves g =
     bind_res (kahn_loop g (seeds (sg_in_degree g)) (sg_in_degree g) (length (sg_names g)) [])
       (\<lambda>(ind, remaining, waves).
         if 0 < remaining
         then bind_res (collect_res (\<lambda>(n, d). graph_name g n) (filter (\<lambda>(n, d). 0 < d) ind))
                (\<lambda>names. Err (Fault (Cycle (remdups (sort names)))))
         else Ok waves)"

section \<open>Degrees as functions\<close>

definition deg :: "degree_map \<Rightarrow> node_id \<Rightarrow> nat" where
  "deg ind v = or_default 0 (hm_get ind v)"

lemma deg_insert [simp]: "deg (hm_insert v d ind) u = (if u = v then d else deg ind u)"
  by (simp add: deg_def or_default_def hm_get_insert)

lemma hm_get_mem: "hm_ok m \<Longrightarrow> (k, v) \<in> set m \<longleftrightarrow> hm_get m k = Some v"
  by (simp add: hm_ok_def hm_get_def)

text \<open>How many edges of a list lead to a node.\<close>

definition edges_to :: "(node_id \<times> edge_kind) list \<Rightarrow> node_id \<Rightarrow> nat" where
  "edges_to es v = length (filter (\<lambda>(w, k). w = v) es)"

lemma edges_to_simps [simp]:
  "edges_to [] v = 0"
  "edges_to ((w, k) # es) v = (if w = v then Suc (edges_to es v) else edges_to es v)"
  "edges_to (es @ fs) v = edges_to es v + edges_to fs v"
  by (simp_all add: edges_to_def)

lemma edges_to_pos: "0 < edges_to es v \<longleftrightarrow> (\<exists>k. (v, k) \<in> set es)"
  by (induction es) (auto simp: edges_to_def)

lemma relax_append: "relax (es @ fs) acc = bind_res (relax es acc) (relax fs)"
  by (induction es acc rule: relax.induct) (simp_all add: Let_def)

lemma relax_wave_concat: "(relax_wave g ns acc :: 'e fault + _) = relax (concat (map (outgoing g) ns)) acc"
proof (induction ns arbitrary: acc)
  case (Cons n ns)
  have "(relax_wave g ns :: _ \<Rightarrow> 'e fault + _) = relax (concat (map (outgoing g) ns))"
    by (rule ext) (rule Cons.IH)
  then show ?case by (simp add: relax_append)
qed simp

text \<open>
  A relaxation succeeds when no degree underflows; it subtracts the edges and appends exactly the
  nodes whose degree it brings to zero, each once.
\<close>

lemma relax_spec:
  "\<forall>v. edges_to es v \<le> deg ind v \<Longrightarrow> \<forall>v\<in>set next_seeds. deg ind v = 0 \<Longrightarrow> distinct next_seeds \<Longrightarrow> hm_ok ind \<Longrightarrow>
     \<exists>ind' next'. (relax es (ind, next_seeds) :: 'e fault + _) = Ok (ind', next') \<and> hm_ok ind' \<and>
       (\<forall>v. deg ind' v = deg ind v - edges_to es v) \<and> distinct next' \<and>
       set next' = set next_seeds \<union> {v. 0 < deg ind v \<and> deg ind v = edges_to es v} \<and>
       (\<forall>v. hm_get ind' v = None \<longleftrightarrow> hm_get ind v = None)"
proof (induction es arbitrary: ind next_seeds)
  case Nil
  then show ?case by auto
next
  case (Cons e es)
  obtain w k where e: "e = (w, k)" by (cases e)
  let ?d = "deg ind w"
  let ?ind = "hm_insert w (?d - 1) ind" and ?next = "if ?d - 1 = 0 then next_seeds @ [w] else next_seeds"
  from Cons.prems(1) e have pos: "0 < ?d" "edges_to es w \<le> ?d - 1" by (auto dest: spec [of _ w])
  have p1: "\<forall>v. edges_to es v \<le> deg ?ind v"
  proof
    fix v
    show "edges_to es v \<le> deg ?ind v"
      using Cons.prems(1) [rule_format, of v] e pos(2) by (cases "v = w") auto
  qed
  have notin: "w \<notin> set next_seeds" using Cons.prems(2) pos(1) by auto
  have p2: "\<forall>v\<in>set ?next. deg ?ind v = 0" using Cons.prems(2) notin by auto
  have p3: "distinct ?next" using Cons.prems(3) notin by auto
  have p4: "hm_ok ?ind" using Cons.prems(4) by (rule hm_ok_insert)
  from Cons.IH [OF p1 p2 p3 p4] obtain ind' next' where
    r: "(relax es (?ind, ?next) :: 'e fault + _) = Ok (ind', next')" "hm_ok ind'"
    and d': "\<forall>v. deg ind' v = deg ?ind v - edges_to es v" and dn: "distinct next'"
    and n': "set next' = set ?next \<union> {v. 0 < deg ?ind v \<and> deg ?ind v = edges_to es v}"
    and dom: "\<forall>v. hm_get ind' v = None \<longleftrightarrow> hm_get ?ind v = None"
    by (elim exE conjE) (rule that)
  have "(relax (e # es) (ind, next_seeds) :: 'e fault + _) = Ok (ind', next')"
    using r(1) pos(1) by (simp add: e deg_def [symmetric] Let_def)
  moreover have "\<forall>v. deg ind' v = deg ind v - edges_to (e # es) v" using d' by (auto simp: e)
  moreover have "set next' = set next_seeds \<union> {v. 0 < deg ind v \<and> deg ind v = edges_to (e # es) v}"
  proof (rule set_eqI)
    fix v
    have "v \<in> set next' \<longleftrightarrow> v \<in> set ?next \<or> 0 < deg ?ind v \<and> deg ?ind v = edges_to es v"
      by (simp only: n' Un_iff mem_Collect_eq)
    with pos show "v \<in> set next' \<longleftrightarrow> v \<in> set next_seeds \<union> {v. 0 < deg ind v \<and> deg ind v = edges_to (e # es) v}"
      by (cases "v = w"; cases "deg ind w - 1 = 0") (auto simp: e)
  qed
  moreover have "hm_get ind w \<noteq> None" using pos(1) by (auto simp: deg_def or_default_def split: option.splits)
  then have "\<forall>v. hm_get ind' v = None \<longleftrightarrow> hm_get ind v = None"
    using dom by (auto simp: hm_get_insert)
  ultimately show ?case using dn r(2) by (intro exI conjI)
qed

section \<open>What the waves are\<close>

definition edge :: "service_graph \<Rightarrow> node_id \<Rightarrow> node_id \<Rightarrow> bool" where
  "edge g u v \<longleftrightarrow> (\<exists>k. (v, k) \<in> set (outgoing g u))"

text \<open>The edges into a node that come from nodes outside a set.\<close>

definition pending :: "service_graph \<Rightarrow> node_id set \<Rightarrow> node_id \<Rightarrow> nat" where
  "pending g D v = sum_list (map (\<lambda>u. edges_to (outgoing g u) v) (filter (\<lambda>u. u \<notin> D) (nodes g)))"

text \<open>
  A well-formed graph: the degree map has exactly the nodes as keys and counts the edges into
  each, and edges connect nodes.
\<close>

definition graph_ok :: "service_graph \<Rightarrow> bool" where
  "graph_ok g \<longleftrightarrow> distinct (sg_names g) \<and> hm_ok (sg_in_degree g) \<and>
     (\<forall>v. hm_get (sg_in_degree g) v \<noteq> None \<longleftrightarrow> v \<in> set (nodes g)) \<and>
     (\<forall>v. deg (sg_in_degree g) v = pending g {} v) \<and>
     (\<forall>u v. edge g u v \<longrightarrow> u \<in> set (nodes g) \<and> v \<in> set (nodes g))"

text \<open>
  Waves ordered by dependency: every predecessor of a node is in an earlier wave, a node of a
  later wave has one in the wave just before (it starts as early as it can), and each wave is in
  ascending order.
\<close>

definition wave_ok :: "service_graph \<Rightarrow> node_id list list \<Rightarrow> nat \<Rightarrow> bool" where
  "wave_ok g ws k \<longleftrightarrow>
     ws ! k \<noteq> [] \<and> sorted_wrt (<) (ws ! k) \<and>
     (\<forall>v\<in>set (ws ! k).
        (\<forall>u. edge g u v \<longrightarrow> (\<exists>j<k. u \<in> set (ws ! j))) \<and>
        (0 < k \<longrightarrow> (\<exists>u\<in>set (ws ! (k - 1)). edge g u v)))"

definition layered :: "service_graph \<Rightarrow> node_id list list \<Rightarrow> bool" where
  "layered g waves \<longleftrightarrow> (\<forall>k<length waves. wave_ok g waves k)"

definition kahn_inv ::
    "service_graph \<Rightarrow> node_id list \<Rightarrow> degree_map \<Rightarrow> nat \<Rightarrow> node_id list list \<Rightarrow> bool" where
  "kahn_inv g queue ind remaining waves \<longleftrightarrow>
     hm_ok ind \<and> (\<forall>v. hm_get ind v \<noteq> None \<longleftrightarrow> v \<in> set (nodes g)) \<and>
     (\<forall>v. deg ind v = pending g (set (concat waves)) v) \<and>
     distinct (concat waves) \<and> set (concat waves) \<subseteq> set (nodes g) \<and>
     remaining + length (concat waves) = length (nodes g) \<and>
     distinct queue \<and> set queue = {v \<in> set (nodes g). v \<notin> set (concat waves) \<and> deg ind v = 0} \<and>
     layered g waves \<and>
     (waves \<noteq> [] \<longrightarrow> (\<forall>v\<in>set queue. \<exists>u\<in>set (last waves). edge g u v)) \<and>
     (\<forall>v\<in>set (concat waves). deg ind v = 0)"

lemma distinct_nodes [simp]: "distinct (nodes g)"
  by (simp add: nodes_def distinct_map inj_on_def)

lemma length_nodes [simp]: "length (nodes g) = length (sg_names g)"
  by (simp add: nodes_def)

lemma in_nodes: "v \<in> set (nodes g) \<longleftrightarrow> node_index v < length (sg_names g)"
  by (cases v) (auto simp: nodes_def)

lemma edges_to_concat: "edges_to (concat ess) v = sum_list (map (\<lambda>es. edges_to es v) ess)"
  by (induction ess) auto

lemma edge_edges_to: "edge g u v \<longleftrightarrow> 0 < edges_to (outgoing g u) v"
  by (simp add: edge_def edges_to_pos)

lemma sum_filter_split:
  fixes f :: "'a \<Rightarrow> nat"
  assumes "distinct xs" "distinct w" "set w \<subseteq> set xs" "set w \<inter> D = {}"
  shows "sum_list (map f (filter (\<lambda>u. u \<notin> D) xs)) =
    sum_list (map f (filter (\<lambda>u. u \<notin> D \<union> set w) xs)) + sum_list (map f w)"
proof -
  have "set (filter (\<lambda>u. u \<notin> D) xs) = set (filter (\<lambda>u. u \<notin> D \<union> set w) xs) \<union> set w"
    using assms by auto
  moreover have "set (filter (\<lambda>u. u \<notin> D \<union> set w) xs) \<inter> set w = {}" by auto
  ultimately show ?thesis
    using assms by (simp add: sum_list_distinct_conv_sum_set distinct_filter sum.union_disjoint del: Un_iff)
qed

lemma pending_split:
  assumes "distinct w" "set w \<subseteq> set (nodes g)" "set w \<inter> D = {}"
  shows "pending g D v = pending g (D \<union> set w) v + edges_to (concat (map (outgoing g) w)) v"
  using sum_filter_split [OF distinct_nodes assms, of "\<lambda>u. edges_to (outgoing g u) v"]
  by (simp add: pending_def edges_to_concat comp_def)

lemma pending_0: "pending g D v = 0 \<longleftrightarrow> (\<forall>u\<in>set (nodes g). edge g u v \<longrightarrow> u \<in> D)"
  by (auto simp: pending_def edge_edges_to)

lemma layered_snoc:
  "layered g (waves @ [w]) \<longleftrightarrow> layered g waves \<and> w \<noteq> [] \<and> sorted_wrt (<) w \<and>
     (\<forall>v\<in>set w. (\<forall>u. edge g u v \<longrightarrow> u \<in> set (concat waves)) \<and>
        (waves \<noteq> [] \<longrightarrow> (\<exists>u\<in>set (last waves). edge g u v)))"
proof -
  have old: "(\<exists>j<k. u \<in> set ((waves @ [w]) ! j)) = (\<exists>j<k. u \<in> set (waves ! j))" if "k \<le> length waves" for k u
    by (intro ex_cong1 conj_cong refl) (use that in \<open>simp add: nth_append\<close>)
  have all: "(\<exists>j<length waves. u \<in> set (waves ! j)) = (u \<in> set (concat waves))" for u
    unfolding set_concat set_conv_nth [of waves] by blast
  show ?thesis
  proof -
    have "wave_ok g (waves @ [w]) k = wave_ok g waves k" if "k < length waves" for k
    proof -
      have "(waves @ [w]) ! k = waves ! k" "(waves @ [w]) ! (k - 1) = waves ! (k - 1)"
        using that less_imp_diff_less [OF that] by (simp_all only: nth_append if_True)
      then show ?thesis using old [of k] that by (simp add: wave_ok_def)
    qed
    moreover have "wave_ok g (waves @ [w]) (length waves) \<longleftrightarrow> w \<noteq> [] \<and> sorted_wrt (<) w \<and>
        (\<forall>v\<in>set w. (\<forall>u. edge g u v \<longrightarrow> u \<in> set (concat waves)) \<and>
          (waves \<noteq> [] \<longrightarrow> (\<exists>u\<in>set (last waves). edge g u v)))" (is "_ \<longleftrightarrow> ?R")
    proof (cases "waves = []")
      case False
      then have "(waves @ [w]) ! (length waves - 1) = last waves" by (simp add: nth_append last_conv_nth)
      with False show ?thesis using old [of "length waves"] all by (simp add: wave_ok_def)
    qed (simp add: wave_ok_def)
    ultimately show ?thesis
      by (auto simp only: layered_def length_append_singleton All_less_Suc)
  qed
qed

lemma kahn_step:
  assumes g: "graph_ok g" and inv: "kahn_inv g queue ind remaining waves" and ne: "queue \<noteq> []"
  defines "w \<equiv> sort queue"
  shows "length w \<le> remaining \<and>
    (\<exists>ind' next'. (relax_wave g w (ind, []) :: 'e fault + _) = Ok (ind', next') \<and>
       kahn_inv g (sort next') ind' (remaining - length w) (waves @ [w]))"
proof -
  let ?D = "set (concat waves)" and ?D' = "set (concat (waves @ [w]))"
  let ?es = "concat (map (outgoing g) w)"
  have i: "hm_ok ind" "\<And>v. hm_get ind v \<noteq> None \<longleftrightarrow> v \<in> set (nodes g)" "\<And>v. deg ind v = pending g ?D v"
    "distinct (concat waves)" "?D \<subseteq> set (nodes g)" "remaining + length (concat waves) = length (nodes g)"
    "distinct queue" "set queue = {v \<in> set (nodes g). v \<notin> ?D \<and> deg ind v = 0}" "layered g waves"
    "waves \<noteq> [] \<Longrightarrow> \<forall>v\<in>set queue. \<exists>u\<in>set (last waves). edge g u v" "\<forall>v\<in>?D. deg ind v = 0"
    using inv by (auto simp: kahn_inv_def)
  have "length w = length queue" by (simp add: w_def)
  then have "w \<noteq> []" using ne by auto
  then have w: "distinct w" "set w = set queue" "sorted_wrt (<) w" "w \<noteq> []" "set w \<subseteq> set (nodes g)" "set w \<inter> ?D = {}"
    using i(7,8) by (auto simp: w_def strict_sorted_iff)
  have D': "?D' = ?D \<union> set w" by simp
  have dist: "distinct (concat (waves @ [w]))" using i(4) w by auto
  have "length (concat (waves @ [w])) = card ?D'" using distinct_card [OF dist] by simp
  also have "\<dots> \<le> card (set (nodes g))" using i(5) w(5) by (intro card_mono) auto
  finally have len: "length (concat waves) + length w \<le> length (nodes g)"
    by (simp add: distinct_card [OF distinct_nodes])
  have split: "deg ind v = pending g ?D' v + edges_to ?es v" for v
    using pending_split [OF w(1,5,6)] by (simp only: i(3) D')
  have "(\<forall>v. edges_to ?es v \<le> deg ind v) \<and> (\<forall>v\<in>set []. deg ind v = 0) \<and> distinct ([] :: node_id list)"
    by (simp add: split)
  with relax_spec [of ?es ind "[]", where 'e = 'e] i(1) obtain ind' next' where
    r: "(relax ?es (ind, []) :: 'e fault + _) = Ok (ind', next')" and ok': "hm_ok ind'"
    and d': "\<forall>v. deg ind' v = deg ind v - edges_to ?es v" and dn: "distinct next'"
    and n': "set next' = {v. 0 < deg ind v \<and> deg ind v = edges_to ?es v}"
    and dom: "\<forall>v. hm_get ind' v = None \<longleftrightarrow> hm_get ind v = None" by auto
  have deg': "deg ind' v = pending g ?D' v" for v using split d' by simp
  have lay: "layered g (waves @ [w])"
  proof -
    have "u \<in> ?D" if "v \<in> set w" "edge g u v" for u v
    proof -
      from that w(2) i(3,8) have "pending g ?D v = 0" by auto
      moreover have "u \<in> set (nodes g)" using g that by (auto simp: graph_ok_def)
      ultimately show ?thesis using that by (auto simp: pending_0)
    qed
    with w i(9,10) show ?thesis by (auto simp: layered_snoc)
  qed
  have nodes_deg: "0 < deg ind v \<Longrightarrow> v \<in> set (nodes g)" for v
    using i(2) [of v] by (auto simp: deg_def or_default_def split: option.splits)
  have nxt: "set next' = {v \<in> set (nodes g). v \<notin> ?D' \<and> deg ind' v = 0}"
  proof (rule set_eqI)
    fix v
    have zero: "v \<in> ?D' \<Longrightarrow> deg ind v = 0" using i(8,11) w(2) by (auto simp: D')
    have pos: "v \<in> set (nodes g) \<Longrightarrow> v \<notin> ?D' \<Longrightarrow> 0 < deg ind v" using i(8) w(2) by (auto simp: D')
    have "deg ind' v = 0 \<longleftrightarrow> deg ind v \<le> edges_to ?es v" using d' by simp
    also have "\<dots> \<longleftrightarrow> deg ind v = edges_to ?es v" using split [of v] by auto
    finally have eq: "deg ind' v = 0 \<longleftrightarrow> deg ind v = edges_to ?es v" .
    have "v \<in> set next' \<longleftrightarrow> 0 < deg ind v \<and> deg ind v = edges_to ?es v" by (simp only: n' mem_Collect_eq)
    also have "\<dots> \<longleftrightarrow> v \<in> set (nodes g) \<and> v \<notin> ?D' \<and> deg ind' v = 0"
      unfolding eq using zero pos nodes_deg [of v] by (metis less_irrefl)
    finally show "v \<in> set next' \<longleftrightarrow> v \<in> {v \<in> set (nodes g). v \<notin> ?D' \<and> deg ind' v = 0}"
      by (simp only: mem_Collect_eq)
  qed
  have pred: "\<exists>u\<in>set w. edge g u v" if "v \<in> set next'" for v
  proof -
    from that n' have "0 < edges_to ?es v" by auto
    then show ?thesis by (auto simp: edges_to_pos edge_def)
  qed
  have zero: "\<forall>v\<in>?D'. deg ind' v = 0" using i(8,11) w(2) d' by (auto simp: D')
  have "kahn_inv g (sort next') ind' (remaining - length w) (waves @ [w])"
    unfolding kahn_inv_def
  proof (intro conjI)
    show "\<forall>v. (hm_get ind' v \<noteq> None) = (v \<in> set (nodes g))" using dom i(2) by simp
    show "\<forall>v. deg ind' v = pending g ?D' v" using deg' by simp
    show "?D' \<subseteq> set (nodes g)" using i(5) w(5) by (simp add: D')
    show "remaining - length w + length (concat (waves @ [w])) = length (nodes g)" using len i(6) by simp
    show "set (sort next') = {v \<in> set (nodes g). v \<notin> ?D' \<and> deg ind' v = 0}" using nxt by simp
    show "waves @ [w] \<noteq> [] \<longrightarrow> (\<forall>v\<in>set (sort next'). \<exists>u\<in>set (last (waves @ [w])). edge g u v)"
      using pred by simp
    show "\<forall>v\<in>?D'. deg ind' v = 0" by (rule zero)
    show "distinct (concat (waves @ [w]))" by (rule dist)
  qed (simp_all add: ok' dn lay)
  with r len i(6) show ?thesis by (auto simp: relax_wave_concat)
qed

lemma kahn_loop_inv:
  "graph_ok g \<Longrightarrow> kahn_inv g queue ind remaining waves \<Longrightarrow>
     \<exists>ind' remaining' waves'. (kahn_loop g queue ind remaining waves :: 'e fault + _) = Ok (ind', remaining', waves') \<and>
       kahn_inv g [] ind' remaining' waves'"
proof (induction g queue ind remaining waves rule: kahn_loop.induct [where ?'a = 'e])
  case (1 g queue ind remaining waves)
  show ?case
  proof (cases "queue = []")
    case True
    with 1 show ?thesis by (simp add: kahn_loop.simps)
  next
    case False
    from kahn_step [OF "1.prems" False, where 'e = 'e] obtain ind' next' where
      s: "length (sort queue) \<le> remaining" "(relax_wave g (sort queue) (ind, []) :: 'e fault + _) = Ok (ind', next')"
      "kahn_inv g (sort next') ind' (remaining - length (sort queue)) (waves @ [sort queue])" by blast
    with 1 False show ?thesis by (subst kahn_loop.simps) (simp add: not_less)
  qed
qed

lemma kahn_inv_init:
  assumes g: "graph_ok g"
  shows "kahn_inv g (seeds (sg_in_degree g)) (sg_in_degree g) (length (sg_names g)) []"
proof -
  let ?ind = "sg_in_degree g"
  from g have ok: "hm_ok ?ind" and dom: "\<And>v. hm_get ?ind v \<noteq> None \<longleftrightarrow> v \<in> set (nodes g)"
    and d: "\<And>v. deg ?ind v = pending g {} v" by (auto simp: graph_ok_def)
  have "map fst (filter (\<lambda>(n, d). d = 0) m) = filter (\<lambda>n. map_of m n = Some 0) (map fst m)"
    if "distinct (map fst m)" for m :: degree_map
    using that by (induction m) (auto simp: map_of_eq_None_iff intro!: filter_cong dest: sym)
  then have "distinct (map fst (filter (\<lambda>(n, d). d = 0) ?ind))" using ok by (simp add: hm_ok_def)
  then have dist: "distinct (seeds ?ind)" by (simp add: seeds_def)
  have "v \<in> set (seeds ?ind) \<longleftrightarrow> (v, 0) \<in> set ?ind" for v by (force simp: seeds_def)
  then have "v \<in> set (seeds ?ind) \<longleftrightarrow> hm_get ?ind v = Some 0" for v by (simp add: hm_get_mem [OF ok])
  then have mem: "set (seeds ?ind) = {v \<in> set (nodes g). deg ?ind v = 0}"
    using dom by (auto simp: deg_def or_default_def split: option.splits)
  show ?thesis
    unfolding kahn_inv_def using ok dom d dist mem by (simp add: layered_def)
qed

text \<open>The names of the nodes whose degree is still positive.\<close>

lemma cycle_names:
  assumes "hm_ok ind" "\<forall>v. hm_get ind v \<noteq> None \<longleftrightarrow> v \<in> set (nodes g)"
  shows "\<exists>names. (collect_res (\<lambda>(n, d). graph_name g n) (filter (\<lambda>(n, d). 0 < d) ind) :: 'e fault + _) = Ok names \<and>
    set names = (\<lambda>v. sg_names g ! node_index v) ` {v \<in> set (nodes g). 0 < deg ind v}"
proof -
  let ?xs = "filter (\<lambda>(n, d). 0 < d) ind"
  have mem: "(v, d) \<in> set ?xs \<longleftrightarrow> hm_get ind v = Some d \<and> 0 < d" for v d
    using hm_get_mem [OF assms(1), of v d] by auto
  have fst: "fst ` set ?xs = {v \<in> set (nodes g). 0 < deg ind v}"
  proof (rule set_eqI)
    fix v
    have "v \<in> fst ` set ?xs \<longleftrightarrow> (\<exists>d. (v, d) \<in> set ?xs)" by force
    also have "\<dots> \<longleftrightarrow> v \<in> set (nodes g) \<and> 0 < deg ind v"
      using assms(2) unfolding mem by (auto simp: deg_def or_default_def split: option.splits)
    finally show "v \<in> fst ` set ?xs \<longleftrightarrow> v \<in> {v \<in> set (nodes g). 0 < deg ind v}" by simp
  qed
  have "collect_res (\<lambda>(n, d). graph_name g n) ?xs = Ok (map (\<lambda>(n, d). sg_names g ! node_index n) ?xs)"
  proof (rule collect_res_id)
    fix x
    assume "x \<in> set ?xs"
    then have "fst x \<in> set (nodes g)" using fst by auto
    then show "(case x of (n, d) \<Rightarrow> graph_name g n) = Ok (case x of (n, d) \<Rightarrow> sg_names g ! node_index n)"
      by (cases x) (simp add: graph_name_def in_nodes)
  qed
  moreover have "set (map (\<lambda>(n, d). sg_names g ! node_index n) ?xs) = (\<lambda>v. sg_names g ! node_index v) ` (fst ` set ?xs)"
    by (force simp del: set_filter)
  ultimately show ?thesis unfolding fst by blast
qed

lemma topological_waves_cases:
  assumes g: "graph_ok g"
  obtains (waves) waves where "topological_waves g = (Ok waves :: ('te, 'ce) plan_error fault + _)" "layered g waves"
      "distinct (concat waves)" "set (concat waves) = set (nodes g)"
    | (cycle) R where
      "topological_waves g = (Err (Fault (Cycle (remdups (sort (map (\<lambda>v. sg_names g ! node_index v) R))))) :: ('te, 'ce) plan_error fault + _)"
      "R \<noteq> []" "set R \<subseteq> set (nodes g)" "\<forall>v\<in>set R. \<exists>u\<in>set R. edge g u v"
proof -
  from kahn_loop_inv [OF g kahn_inv_init [OF g], where 'e = "('te, 'ce) plan_error"]
  obtain ind remaining ws where
    k: "(kahn_loop g (seeds (sg_in_degree g)) (sg_in_degree g) (length (sg_names g)) [] :: ('te, 'ce) plan_error fault + _)
      = Ok (ind, remaining, ws)" and inv: "kahn_inv g [] ind remaining ws" by blast
  let ?D = "set (concat ws)"
  from inv have i: "hm_ok ind" "\<forall>v. hm_get ind v \<noteq> None \<longleftrightarrow> v \<in> set (nodes g)" "\<And>v. deg ind v = pending g ?D v"
    "distinct (concat ws)" "?D \<subseteq> set (nodes g)" "remaining + length (concat ws) = length (nodes g)"
    "{v \<in> set (nodes g). v \<notin> ?D \<and> deg ind v = 0} = {}" "layered g ws" "\<forall>v\<in>?D. deg ind v = 0"
    by (auto simp: kahn_inv_def)
  show thesis
  proof (cases "0 < remaining")
    case False
    then have "card ?D = card (set (nodes g))"
      using i(6) distinct_card [OF i(4)] by (simp add: distinct_card [OF distinct_nodes])
    then have "?D = set (nodes g)" using i(5) by (intro card_subset_eq) auto
    with False k i show ?thesis by (intro waves [of ws]) (simp_all add: topological_waves_def)
  next
    case True
    let ?R = "filter (\<lambda>v. 0 < deg ind v) (nodes g)"
    from cycle_names [OF i(1,2), where 'e = "('te, 'ce) plan_error"] obtain names where
      n: "(collect_res (\<lambda>(n, d). graph_name g n) (filter (\<lambda>(n, d). 0 < d) ind) :: ('te, 'ce) plan_error fault + _) = Ok names"
      "set names = (\<lambda>v. sg_names g ! node_index v) ` set ?R" by auto
    have R: "set ?R = set (nodes g) - ?D" using i(5,7,9) by auto
    have "remdups (sort names) = remdups (sort (map (\<lambda>v. sg_names g ! node_index v) ?R))"
      using n(2) by (intro sorted_distinct_set_unique) (simp_all add: sorted_remdups)
    then have "topological_waves g = (Err (Fault (Cycle (remdups (sort (map (\<lambda>v. sg_names g ! node_index v) ?R))))) :: ('te, 'ce) plan_error fault + _)"
      using True k n(1) by (simp add: topological_waves_def)
    moreover have "?R \<noteq> []"
    proof
      assume "?R = []"
      then have "set (nodes g) \<subseteq> ?D" using R by auto
      then have "length (nodes g) \<le> length (concat ws)"
        using card_mono [of ?D "set (nodes g)"] distinct_card [OF i(4)]
        by (simp add: distinct_card [OF distinct_nodes])
      with True i(6) show False by simp
    qed
    moreover have "\<exists>u\<in>set ?R. edge g u v" if "v \<in> set ?R" for v
    proof -
      from that i(3) have "pending g ?D v \<noteq> 0" by auto
      then show ?thesis unfolding pending_0 R by auto
    qed
    ultimately show ?thesis by (intro cycle [of ?R]) auto
  qed
qed

lemma topological_waves_spec:
  "graph_ok g \<Longrightarrow>
     (case (topological_waves g :: ('te, 'ce) plan_error fault + _) of
        Ok waves \<Rightarrow> layered g waves \<and> distinct (concat waves) \<and> set (concat waves) = set (nodes g)
      | Err e \<Rightarrow>
          \<exists>R. e = Fault (Cycle (remdups (sort (map (\<lambda>v. sg_names g ! node_index v) R)))) \<and>
            R \<noteq> [] \<and> set R \<subseteq> set (nodes g) \<and> (\<forall>v\<in>set R. \<exists>u\<in>set R. edge g u v))"
  by (erule topological_waves_cases [where 'te = 'te and 'ce = 'ce]) auto

text \<open>The waves are determined by the graph: a node is in the wave of its depth.\<close>

lemma layered_no_cycle:
  assumes lay: "layered g waves" and all: "set (concat waves) = set (nodes g)"
    and R: "R \<noteq> {}" "R \<subseteq> set (nodes g)" "\<forall>v\<in>R. \<exists>u\<in>R. edge g u v"
  shows False
proof -
  have "\<forall>v\<in>set (waves ! k). v \<notin> R" if "k < length waves" for k
    using that
  proof (induction k rule: less_induct)
    case (less k)
    show ?case
    proof
      fix v
      assume v: "v \<in> set (waves ! k)"
      show "v \<notin> R"
      proof
        assume "v \<in> R"
        with R obtain u where u: "u \<in> R" "edge g u v" by blast
        with lay less.prems v obtain j where "j < k" "u \<in> set (waves ! j)"
          unfolding layered_def wave_ok_def by blast
        with less u show False by auto
      qed
    qed
  qed
  then have "\<forall>v\<in>set (concat waves). v \<notin> R" by (metis concat_eq_concat_iff in_set_conv_nth UN_iff set_concat)
  with all R show False by auto
qed

lemma topological_waves_acyclic:
  assumes g: "graph_ok g"
  shows "(\<exists>waves. topological_waves g = (Ok waves :: ('te, 'ce) plan_error fault + _)) \<longleftrightarrow> acyclic {(u, v). edge g u v}"
proof (cases "topological_waves g :: ('te, 'ce) plan_error fault + _")
  case (Inr ws)
  with topological_waves_spec [OF g, where 'te = 'te and 'ce = 'ce]
  have waves: "layered g ws" "set (concat ws) = set (nodes g)" by simp_all
  have "acyclic {(u, v). edge g u v}"
  proof (rule acyclicI, rule allI, rule notI)
    fix v
    assume c: "(v, v) \<in> {(u, v). edge g u v}\<^sup>+"
    let ?R = "{u. (v, u) \<in> {(u, v). edge g u v}\<^sup>+}"
    have "v \<in> ?R" using c by simp
    moreover have "?R \<subseteq> set (nodes g)"
      using g by (auto simp: graph_ok_def dest!: tranclD2)
    moreover have "\<forall>w\<in>?R. \<exists>u\<in>?R. edge g u w"
    proof
      fix w
      assume "w \<in> ?R"
      then have "(v, w) \<in> {(u, v). edge g u v}\<^sup>+" by simp
      then show "\<exists>u\<in>?R. edge g u w"
      proof (cases rule: tranclE)
        case base
        with c show ?thesis by auto
      qed auto
    qed
    ultimately show False using layered_no_cycle [OF waves, of ?R] by auto
  qed
  with Inr show ?thesis by blast
next
  case (Inl e)
  with topological_waves_spec [OF g, where 'te = 'te and 'ce = 'ce]
  obtain R where R: "R \<noteq> []" "set R \<subseteq> set (nodes g)" "\<forall>v\<in>set R. \<exists>u\<in>set R. edge g u v"
    by (simp only: sum.case) blast
  have "\<not> acyclic {(u, v). edge g u v}"
  proof
    assume "acyclic {(u, v). edge g u v}"
    moreover have "finite {(u, v). edge g u v}"
      by (rule finite_subset [of _ "set (nodes g) \<times> set (nodes g)"]) (use g in \<open>auto simp: graph_ok_def\<close>)
    ultimately have "wf {(u, v). edge g u v}" by (rule finite_acyclic_wf [rotated])
    moreover obtain r where "r \<in> set R" using R(1) by (cases R) auto
    ultimately obtain m where "m \<in> set R" "\<forall>u. edge g u m \<longrightarrow> u \<notin> set R"
      by (elim wfE_min) auto
    with R(3) show False by blast
  qed
  with Inl show ?thesis by simp
qed

section \<open>The graph that is built\<close>

text \<open>The edges added so far, as a list of (prerequisite, (dependent, kind)).\<close>

definition acc_ok :: "node_id set \<Rightarrow> (node_id \<times> node_id \<times> edge_kind) list \<Rightarrow> edge_map \<times> degree_map \<Rightarrow> bool" where
  "acc_ok N L acc \<longleftrightarrow>
     hm_ok (snd acc) \<and> (\<forall>v. hm_get (snd acc) v \<noteq> None \<longleftrightarrow> v \<in> N) \<and>
     (\<forall>u. or_default [] (hm_get (fst acc) u) = map snd (filter (\<lambda>e. fst e = u) L)) \<and>
     (\<forall>v. deg (snd acc) v = length (filter (\<lambda>e. fst (snd e) = v) L))"

lemma acc_ok_push:
  "acc_ok N L (edges, ind) \<Longrightarrow> v \<in> N \<Longrightarrow>
     acc_ok N (L @ [(u, v, k)]) (push_edge u (v, k) edges, incr_degree v ind)"
  by (auto simp: acc_ok_def push_edge_def incr_degree_def hm_get_insert hm_ok_insert or_default_def
      deg_def [symmetric] deg_insert [unfolded or_default_def] simp flip: deg_def [unfolded or_default_def])

lemma add_deps_Ok:
  "(add_deps m s v deps acc :: ('te, 'ce) plan_error fault + _) = Ok acc' \<Longrightarrow> acc_ok N L acc \<Longrightarrow> v \<in> N \<Longrightarrow>
     (\<forall>d\<in>fst ` set deps. hm_get m d \<noteq> None) \<and>
     acc_ok N (L @ map (\<lambda>(d, k). (the (hm_get m d), v, k)) deps) acc'"
proof (induction m s v deps acc arbitrary: L rule: add_deps.induct)
  case (2 m s v d k deps edges ind)
  from "2.prems"(1) obtain u where u: "hm_get m d = Some u"
    "(add_deps m s v deps (push_edge u (v, k) edges, incr_degree v ind) :: ('te, 'ce) plan_error fault + _) = Ok acc'"
    by (auto split: option.splits)
  from "2.IH" [OF u acc_ok_push [OF "2.prems"(2,3)] "2.prems"(3)] u(1) show ?case by simp
qed simp

lemma add_deps_Err:
  "add_deps m s v deps acc = Err e \<Longrightarrow>
     \<exists>pre d k post. deps = pre @ (d, k) # post \<and> (\<forall>d'\<in>fst ` set pre. hm_get m d' \<noteq> None) \<and>
       hm_get m d = None \<and> e = Fault (MissingDependency s d)"
proof (induction m s v deps acc rule: add_deps.induct)
  case (2 m s v d k deps edges ind)
  show ?case
  proof (cases "hm_get m d")
    case None
    with "2.prems" show ?thesis by (intro exI [of _ "[]"] exI [of _ d] exI [of _ k] exI [of _ deps]) simp
  next
    case (Some u)
    with "2.prems" "2.IH" obtain pre d' k' post where
      "deps = pre @ (d', k') # post" "\<forall>d'\<in>fst ` set pre. hm_get m d' \<noteq> None"
      "hm_get m d' = None" "e = Fault (MissingDependency s d')" by auto
    with Some show ?thesis
      by (intro exI [of _ "(d, k) # pre"] exI [of _ d'] exI [of _ k'] exI [of _ post]) simp
  qed
qed simp

text \<open>All edges of a list of services, in the order of the two loops.\<close>

definition all_edges :: "(string, node_id) hash_map \<Rightarrow> (string \<times> service) list \<Rightarrow> (node_id \<times> node_id \<times> edge_kind) list" where
  "all_edges m svcs =
     concat (map (\<lambda>(s, svc). map (\<lambda>(d, k). (the (hm_get m d), the (hm_get m s), k)) (deps_of svc)) svcs)"

lemma all_edges_mem:
  "(u, v, k) \<in> set (all_edges m svcs) \<longleftrightarrow> (\<exists>s svc d. (s, svc) \<in> set svcs \<and> (d, k) \<in> set (deps_of svc) \<and>
     u = the (hm_get m d) \<and> v = the (hm_get m s))"
proof -
  have "(u, v, k) \<in> set (all_edges m svcs) \<longleftrightarrow>
      (\<exists>(s, svc)\<in>set svcs. \<exists>(d, k')\<in>set (deps_of svc). u = the (hm_get m d) \<and> v = the (hm_get m s) \<and> k = k')"
    unfolding all_edges_def set_concat set_map UN_iff image_iff bex_simps by (auto simp: case_prod_beta)
  then show ?thesis by auto
qed

lemma add_services_Ok:
  "(add_services m svcs acc :: ('te, 'ce) plan_error fault + _) = Ok acc' \<Longrightarrow> acc_ok N L acc \<Longrightarrow>
     (\<forall>s\<in>fst ` set svcs. \<exists>v\<in>N. hm_get m s = Some v) \<Longrightarrow>
     (\<forall>(s, svc)\<in>set svcs. \<forall>d\<in>fst ` set (deps_of svc). hm_get m d \<noteq> None) \<and>
     acc_ok N (L @ all_edges m svcs) acc'"
proof (induction m svcs acc arbitrary: L rule: add_services.induct)
  case (1 m acc)
  then show ?case by (simp add: all_edges_def)
next
  case (2 m s svc rest acc)
  from "2.prems"(3) obtain v where v: "hm_get m s = Some v" "v \<in> N" by auto
  from "2.prems"(1) v obtain acc1 where a: "(add_deps m s v (deps_of svc) acc :: ('te, 'ce) plan_error fault + _) = Ok acc1"
    "(add_services m rest acc1 :: ('te, 'ce) plan_error fault + _) = Ok acc'" by (auto simp: res_simps)
  from add_deps_Ok [OF a(1) "2.prems"(2) v(2)] have
    d: "\<forall>d\<in>fst ` set (deps_of svc). hm_get m d \<noteq> None"
    and ok: "acc_ok N (L @ map (\<lambda>(d, k). (the (hm_get m d), v, k)) (deps_of svc)) acc1" by auto
  from "2.IH" [OF v(1) a(2) ok] "2.prems"(3) d v show ?case by (simp add: all_edges_def)
qed

lemma add_services_Err:
  "add_services m svcs acc = Err e \<Longrightarrow> (\<forall>s\<in>fst ` set svcs. hm_get m s \<noteq> None) \<Longrightarrow>
     \<exists>s svc d. (s, svc) \<in> set svcs \<and> d \<in> fst ` set (deps_of svc) \<and> hm_get m d = None \<and>
       e = Fault (MissingDependency s d)"
proof (induction m svcs acc rule: add_services.induct)
  case (2 m s svc rest acc)
  from "2.prems"(2) obtain v where v: "hm_get m s = Some v" by auto
  with "2.prems"(1) consider "add_deps m s v (deps_of svc) acc = Err e"
    | acc1 where "add_services m rest acc1 = Err e" by (auto simp: res_simps)
  then show ?case
  proof cases
    case 1
    from add_deps_Err [OF this] obtain pre d k post where
      d: "deps_of svc = pre @ (d, k) # post" "hm_get m d = None" "e = Fault (MissingDependency s d)" by blast
    then show ?thesis by (intro exI [of _ s] exI [of _ svc] exI [of _ d]) simp
  next
    case 2
    with "2.IH" [OF v, of acc1] "2.prems"(2) obtain s' svc' d where
      "(s', svc') \<in> set rest" "d \<in> fst ` set (deps_of svc')" "hm_get m d = None"
      "e = Fault (MissingDependency s' d)" by auto
    then show ?thesis by (intro exI [of _ s'] exI [of _ svc'] exI [of _ d]) simp
  qed
qed simp

lemma count_by_key:
  assumes "distinct xs" "\<forall>e\<in>set L. f e \<in> set xs"
  shows "sum_list (map (\<lambda>u. length (filter (\<lambda>e. f e = u \<and> P e) L)) xs) = length (filter P L)"
  using assms(2)
proof (induction L)
  case (Cons e L)
  have "sum_list (map (\<lambda>u. length (filter (\<lambda>e. f e = u \<and> P e) (e # L))) xs) =
      sum_list (map (\<lambda>u. length (filter (\<lambda>e. f e = u \<and> P e) L) + (if f e = u then (if P e then 1 else 0) else 0)) xs)"
    by (intro arg_cong [where f = sum_list] map_cong) auto
  also have "\<dots> = length (filter P L) + sum (\<lambda>u. if f e = u then (if P e then 1 else 0) else 0) (set xs)"
    using Cons assms(1) by (simp add: sum_list_addf sum_list_distinct_conv_sum_set)
  also have "\<dots> = length (filter P (e # L))" using Cons.prems by simp
  finally show ?case .
qed simp

lemma name_ids:
  assumes "distinct names"
  shows "hm_get (hm_from_iter (map (\<lambda>(i, n). (n, NodeId i)) (enumerate 0 names))) s = Some v \<longleftrightarrow>
    node_index v < length names \<and> names ! node_index v = s"
proof -
  let ?xs = "map (\<lambda>(i, n). (n, NodeId i)) (enumerate 0 names)"
  have "map fst ?xs = names" by (simp add: comp_def case_prod_beta)
  then have d: "distinct (map fst ?xs)" using assms by simp
  have "hm_get (hm_from_iter ?xs) s = Some v \<longleftrightarrow> (s, v) \<in> set ?xs"
    using d by (simp add: hm_get_from_iter map_of_rev_distinct map_of_eq_Some_iff)
  also have "\<dots> \<longleftrightarrow> (node_index v, s) \<in> set (enumerate 0 names)" by (cases v) force
  also have "\<dots> \<longleftrightarrow> node_index v < length names \<and> names ! node_index v = s"
    by (simp add: in_set_enumerate_eq)
  finally show ?thesis .
qed

lemma acc_ok_init:
  "acc_ok (set (map NodeId [0..<n])) [] ([], hm_from_iter (map (\<lambda>i. (NodeId i, 0)) [0..<n]))"
proof -
  let ?xs = "map (\<lambda>i. (NodeId i, 0 :: nat)) [0..<n]"
  have d: "distinct (map fst ?xs)" by (simp add: comp_def distinct_map inj_on_def)
  have "hm_get (hm_from_iter ?xs) v = map_of ?xs v" for v
    using map_of_rev_distinct [OF d] by (simp add: hm_get_from_iter)
  moreover have "map_of ?xs v = (if v \<in> set (map NodeId [0..<n]) then Some 0 else None)" for v
    using d by (auto simp: map_of_eq_None_iff)
  ultimately have "hm_get (hm_from_iter ?xs) v = (if v \<in> set (map NodeId [0..<n]) then Some 0 else None)" for v
    by simp
  then show ?thesis by (auto simp: acc_ok_def hm_ok_from_iter or_default_def deg_def)
qed

lemma build_graph_Ok:
  assumes ok: "bt_ok active" and b: "(build_graph active :: ('te, 'ce) plan_error fault + _) = Ok g"
  shows "graph_ok g \<and> sg_names g = bt_keys active \<and>
    (\<forall>(s, svc)\<in>set active. \<forall>d\<in>fst ` set (deps_of svc). d \<in> set (bt_keys active)) \<and>
    (\<forall>u v. edge g u v \<longleftrightarrow> u \<in> set (nodes g) \<and> v \<in> set (nodes g) \<and>
       (\<exists>svc. bt_get active (sg_names g ! node_index v) = Some svc \<and>
          sg_names g ! node_index u \<in> fst ` set (deps_of svc)))"
proof -
  let ?names = "bt_keys active" and ?N = "set (map NodeId [0..<length (bt_keys active)])"
  let ?m = "hm_from_iter (map (\<lambda>(i, n). (n, NodeId i)) (enumerate 0 ?names))"
  let ?L = "all_edges ?m active"
  have dist: "distinct ?names" using bt_ok_distinct [OF ok] by (simp add: bt_keys_def)
  note ids = name_ids [OF dist]
  have N: "v \<in> ?N \<longleftrightarrow> node_index v < length ?names" for v by (cases v) auto
  from b obtain edges ind where
    a: "(add_services ?m active ([], hm_from_iter (map (\<lambda>i. (NodeId i, 0)) [0..<length ?names])) :: ('te, 'ce) plan_error fault + _) = Ok (edges, ind)"
    and g: "g = \<lparr>sg_names = ?names, sg_edges = edges, sg_in_degree = ind\<rparr>"
    by (auto simp: build_graph_def res_simps Let_def)
  have nodes: "set (nodes g) = ?N" by (simp add: g nodes_def)
  have found: "\<exists>v\<in>?N. hm_get ?m s = Some v" if "s \<in> set ?names" for s
  proof -
    from that obtain i where "i < length ?names" "?names ! i = s" by (auto simp: in_set_conv_nth)
    then show ?thesis by (intro bexI [of _ "NodeId i"]) (simp_all add: ids)
  qed
  have "\<forall>s\<in>fst ` set active. \<exists>v\<in>?N. hm_get ?m s = Some v" using found by (simp add: bt_keys_def)
  from add_services_Ok [OF a acc_ok_init this] have
    deps: "\<And>s svc d. (s, svc) \<in> set active \<Longrightarrow> d \<in> fst ` set (deps_of svc) \<Longrightarrow> hm_get ?m d \<noteq> None"
    and acc: "acc_ok ?N ?L (edges, ind)" by auto
  have dnames: "d \<in> set ?names" if "(s, svc) \<in> set active" "d \<in> fst ` set (deps_of svc)" for s svc d
  proof -
    from deps [OF that] obtain v where "hm_get ?m d = Some v" by blast
    then show ?thesis by (auto simp: ids)
  qed
  have Lmem: "(u, v, k) \<in> set ?L \<longleftrightarrow> u \<in> ?N \<and> v \<in> ?N \<and>
      (\<exists>svc. bt_get active (?names ! node_index v) = Some svc \<and> (?names ! node_index u, k) \<in> set (deps_of svc))" for u v k
  proof -
    have the: "the (hm_get ?m s) = w \<longleftrightarrow> w \<in> ?N \<and> ?names ! node_index w = s" if "s \<in> set ?names" for s w
      using found [OF that] ids [of s w] by (auto simp: N)
    have "(u, v, k) \<in> set ?L \<longleftrightarrow> (\<exists>s svc d. (s, svc) \<in> set active \<and> (d, k) \<in> set (deps_of svc) \<and>
        u = the (hm_get ?m d) \<and> v = the (hm_get ?m s))"
      by (rule all_edges_mem)
    also have "\<dots> \<longleftrightarrow> (\<exists>s svc d. (s, svc) \<in> set active \<and> (d, k) \<in> set (deps_of svc) \<and>
        u \<in> ?N \<and> ?names ! node_index u = d \<and> v \<in> ?N \<and> ?names ! node_index v = s)"
    proof -
      have "s \<in> set ?names \<and> d \<in> set ?names" if "(s, svc) \<in> set active" "(d, k) \<in> set (deps_of svc)" for s svc d
        using that dnames [OF that(1), of d] by (force simp: bt_keys_def)
      then show ?thesis using the by metis
    qed
    also have "\<dots> \<longleftrightarrow> u \<in> ?N \<and> v \<in> ?N \<and>
      (\<exists>svc. (?names ! node_index v, svc) \<in> set active \<and> (?names ! node_index u, k) \<in> set (deps_of svc))" by blast
    finally show ?thesis by (simp add: bt_mem [OF ok])
  qed
  have out: "outgoing g u = map snd (filter (\<lambda>e. fst e = u) ?L)" for u
    using acc by (simp add: acc_ok_def g outgoing_def or_default_def)
  have edge: "edge g u v \<longleftrightarrow> (\<exists>k. (u, v, k) \<in> set ?L)" for u v
    by (force simp: edge_def out)
  have "pending g {} v = sum_list (map (\<lambda>u. length (filter (\<lambda>e. fst e = u \<and> fst (snd e) = v) ?L)) (nodes g))" for v
    by (simp add: pending_def edges_to_def out filter_map comp_def case_prod_beta conj_commute)
  also have "\<dots> v = length (filter (\<lambda>e. fst (snd e) = v) ?L)" for v
    using Lmem by (intro count_by_key) (auto simp: nodes)
  finally have "deg ind v = pending g {} v" for v using acc by (simp add: acc_ok_def)
  moreover have "edge g u v \<Longrightarrow> u \<in> set (nodes g) \<and> v \<in> set (nodes g)" for u v
    by (auto simp: edge Lmem nodes)
  ultimately have "graph_ok g"
    using acc dist by (simp add: graph_ok_def acc_ok_def nodes) (simp add: g)
  moreover have "edge g u v \<longleftrightarrow> u \<in> set (nodes g) \<and> v \<in> set (nodes g) \<and>
       (\<exists>svc. bt_get active (?names ! node_index v) = Some svc \<and> ?names ! node_index u \<in> fst ` set (deps_of svc))" for u v
    unfolding edge Lmem nodes by force
  moreover have "\<forall>(s, svc)\<in>set active. \<forall>d\<in>fst ` set (deps_of svc). d \<in> set ?names"
    using dnames by blast
  moreover have "sg_names g = ?names" by (simp add: g)
  ultimately show ?thesis by simp
qed

lemma build_graph_Err:
  assumes ok: "bt_ok active" and b: "build_graph active = Err e"
  shows "\<exists>s svc d. (s, svc) \<in> set active \<and> d \<in> fst ` set (deps_of svc) \<and> d \<notin> set (bt_keys active) \<and>
    e = Fault (MissingDependency s d)"
proof -
  let ?names = "bt_keys active"
  let ?m = "hm_from_iter (map (\<lambda>(i, n). (n, NodeId i)) (enumerate 0 ?names))"
  have dist: "distinct ?names" using bt_ok_distinct [OF ok] by (simp add: bt_keys_def)
  note ids = name_ids [OF dist]
  have found: "hm_get ?m s \<noteq> None \<longleftrightarrow> s \<in> set ?names" for s
  proof
    assume "hm_get ?m s \<noteq> None"
    then obtain v where "hm_get ?m s = Some v" by blast
    then show "s \<in> set ?names" by (auto simp: ids)
  next
    assume "s \<in> set ?names"
    then obtain i where "i < length ?names" "?names ! i = s" by (auto simp: in_set_conv_nth)
    then show "hm_get ?m s \<noteq> None" using ids [of s "NodeId i"] by simp
  qed
  from b have "add_services ?m active ([], hm_from_iter (map (\<lambda>i. (NodeId i, 0)) [0..<length ?names])) = Err e"
    unfolding build_graph_def Let_def map_res_Err .
  moreover have "\<forall>s\<in>fst ` set active. hm_get ?m s \<noteq> None" unfolding found by (simp add: bt_keys_def)
  ultimately obtain s svc d where "(s, svc) \<in> set active" "d \<in> fst ` set (deps_of svc)"
    "hm_get ?m d = None" "e = Fault (MissingDependency s d)" by (blast dest: add_services_Err)
  then show ?thesis using found [of d] by blast
qed

lemma build_graph_iff:
  assumes ok: "bt_ok active"
  shows "(\<exists>g. build_graph active = (Ok g :: ('te, 'ce) plan_error fault + _)) \<longleftrightarrow>
    (\<forall>(s, svc)\<in>set active. \<forall>d\<in>fst ` set (deps_of svc). d \<in> set (bt_keys active))"
proof (cases "build_graph active :: ('te, 'ce) plan_error fault + _")
  case (Inl e)
  from build_graph_Err [OF ok Inl] Inl show ?thesis by force
next
  case (Inr g)
  from build_graph_Ok [OF ok Inr] Inr show ?thesis by blast
qed

section \<open>Waves of services\<close>

definition wave_names :: "service_graph \<Rightarrow> node_id list list \<Rightarrow> string list list" where
  "wave_names g waves = map (map (\<lambda>v. sg_names g ! node_index v)) waves"

text \<open>The dependencies of a service among the active ones, by name.\<close>

definition depends :: "service str_map \<Rightarrow> string \<Rightarrow> string \<Rightarrow> bool" where
  "depends active s d \<longleftrightarrow> (\<exists>svc. bt_get active s = Some svc \<and> d \<in> fst ` set (deps_of svc))"

lemma wave_names_nodes:
  assumes "distinct (concat waves)" "set (concat waves) = set (nodes g)" "distinct (sg_names g)"
  shows "distinct (concat (wave_names g waves))" "set (concat (wave_names g waves)) = set (sg_names g)"
proof -
  have eq: "concat (wave_names g waves) = map (\<lambda>v. sg_names g ! node_index v) (concat waves)"
    by (simp add: wave_names_def map_concat)
  have "inj_on (\<lambda>v. sg_names g ! node_index v) (set (nodes g))"
    using assms(3) by (auto intro!: inj_onI simp: in_nodes nth_eq_iff_index_eq node_id.expand)
  with assms(1,2) show "distinct (concat (wave_names g waves))"
    unfolding eq by (simp add: distinct_map del: set_concat)
  have "(\<lambda>v. sg_names g ! node_index v) ` set (nodes g) = set (sg_names g)"
    by (simp add: nodes_def image_image) (auto simp: in_set_conv_nth)
  then show "set (concat (wave_names g waves)) = set (sg_names g)"
    unfolding eq set_map assms(2) .
qed

lemma waves_of_services:
  assumes ok: "bt_ok active" and b: "(build_graph active :: ('te, 'ce) plan_error fault + _) = Ok g"
    and t: "(topological_waves g :: ('te, 'ce) plan_error fault + _) = Ok waves"
  shows "distinct (concat (wave_names g waves))" "set (concat (wave_names g waves)) = set (bt_keys active)"
    and "k < length waves \<Longrightarrow> s \<in> set (wave_names g waves ! k) \<Longrightarrow> depends active s d \<Longrightarrow>
      \<exists>j<k. d \<in> set (wave_names g waves ! j)"
proof -
  from build_graph_Ok [OF ok b] have g: "graph_ok g" and names: "sg_names g = bt_keys active"
    and closed: "\<And>s svc d. (s, svc) \<in> set active \<Longrightarrow> d \<in> fst ` set (deps_of svc) \<Longrightarrow> d \<in> set (bt_keys active)"
    and edge: "\<And>u v. edge g u v \<longleftrightarrow> u \<in> set (nodes g) \<and> v \<in> set (nodes g) \<and>
       depends active (sg_names g ! node_index v) (sg_names g ! node_index u)"
    unfolding depends_def by blast+
  from topological_waves_spec [OF g, where 'te = 'te and 'ce = 'ce] t have
    lay: "layered g waves" and dist: "distinct (concat waves)" and all: "set (concat waves) = set (nodes g)" by simp_all
  have "distinct (sg_names g)" using g by (simp add: graph_ok_def)
  from wave_names_nodes [OF dist all this] show
    "distinct (concat (wave_names g waves))" "set (concat (wave_names g waves)) = set (bt_keys active)"
    by (simp_all only: names)
  assume k: "k < length waves" and s: "s \<in> set (wave_names g waves ! k)" and dep: "depends active s d"
  from k s obtain v where v: "v \<in> set (waves ! k)" "s = sg_names g ! node_index v"
    by (auto simp: wave_names_def)
  from dep obtain svc where svc: "bt_get active s = Some svc" "d \<in> fst ` set (deps_of svc)"
    by (auto simp: depends_def)
  then have "d \<in> set (sg_names g)" using closed bt_mem [OF ok] names by metis
  then obtain i where i: "i < length (sg_names g)" "sg_names g ! i = d" by (auto simp: in_set_conv_nth)
  have "v \<in> set (nodes g)" using all v(1) nth_mem [OF k] by auto
  with dep v(2) i have "edge g (NodeId i) v" by (simp add: edge in_nodes)
  with lay k v(1) obtain j where j: "j < k" "NodeId i \<in> set (waves ! j)"
    unfolding layered_def wave_ok_def by blast
  with k i show "\<exists>j<k. d \<in> set (wave_names g waves ! j)"
    by (intro exI [of _ j]) (force simp: wave_names_def)
qed

end
