(* ===== verification/Config_Hash.thy ===== *)
theory Config_Hash
  imports Schema
begin

text \<open>
  The config hash of crate \<open>selur-compose-plan\<close> (\<open>hash.rs\<close>).  The JSON form of a service
  (\<open>serde_json::to_value\<close>), its RFC 8785 bytes (\<open>ijson_jcs::to_jcs\<close>) and the digest
  (\<open>sha2::Sha256\<close>) are library code: parameters.  A digest is a list of bytes.
\<close>

definition hex_digit :: "nat \<Rightarrow> char" where
  "hex_digit d = (if d < 10 then char_of (48 + d) else char_of (87 + d))"

text \<open>\<open>format!("{b:02x}")\<close>.\<close>

definition hex_byte :: "char \<Rightarrow> string" where
  "hex_byte b = [hex_digit (of_char b div 16), hex_digit (of_char b mod 16)]"

definition service_hash ::
    "(service \<Rightarrow> 'json) \<Rightarrow> ('json \<Rightarrow> 'ce + string) \<Rightarrow> (string \<Rightarrow> char list) \<Rightarrow> service \<Rightarrow> 'ce + string" where
  "service_hash to_value to_jcs sha256 svc =
     bind_res (to_jcs (to_value svc)) (\<lambda>canonical. Ok (concat (map hex_byte (sha256 canonical))))"

definition is_lower_hex :: "char \<Rightarrow> bool" where
  "is_lower_hex c \<longleftrightarrow> c \<in> set ''0123456789abcdef''"

lemma hex_digits: "map hex_digit [0..<16] = ''0123456789abcdef''"
  by code_simp

lemma hex_digit_nth: "d < 16 \<Longrightarrow> hex_digit d = ''0123456789abcdef'' ! d"
  unfolding hex_digits [symmetric] by simp

lemma hex_digit_lower: "d < 16 \<Longrightarrow> is_lower_hex (hex_digit d)"
proof -
  assume "d < 16"
  then have "hex_digit d \<in> set (map hex_digit [0..<16])" by auto
  then show ?thesis unfolding hex_digits is_lower_hex_def .
qed

lemma hex_digit_inj: "d < 16 \<Longrightarrow> e < 16 \<Longrightarrow> hex_digit d = hex_digit e \<longleftrightarrow> d = e"
proof -
  assume "d < 16" "e < 16"
  moreover have "distinct (map hex_digit [0..<16])" unfolding hex_digits by simp
  ultimately show ?thesis by (auto simp: distinct_map inj_on_def)
qed

lemma of_char_less: "(of_char c :: nat) < 256"
  using of_char_mod_256 [of c, where 'a = nat] by (metis mod_less_divisor zero_less_numeral)

lemma hex_byte_inj: "hex_byte b = hex_byte c \<longleftrightarrow> b = c"
proof -
  have lt: "(of_char c :: nat) div 16 < 16" for c
    using of_char_less [of c] by (intro less_mult_imp_div_less) simp
  have "hex_byte b = hex_byte c \<longleftrightarrow>
      (of_char b :: nat) div 16 = of_char c div 16 \<and> (of_char b :: nat) mod 16 = of_char c mod 16"
    by (simp add: hex_byte_def hex_digit_inj lt)
  also have "\<dots> \<longleftrightarrow> (of_char b :: nat) = of_char c" by (metis mult_div_mod_eq)
  finally show ?thesis by simp
qed

lemma hex_bytes_inj: "concat (map hex_byte xs) = concat (map hex_byte ys) \<longleftrightarrow> xs = ys"
proof (induction xs arbitrary: ys)
  case Nil
  then show ?case by (cases ys) (simp_all add: hex_byte_def)
next
  case (Cons x xs)
  show ?case
  proof (cases ys)
    case (Cons y ys')
    have "length (hex_byte x) = length (hex_byte y)" by (simp add: hex_byte_def)
    with Cons Cons.IH show ?thesis by (simp add: hex_byte_inj)
  qed (simp add: hex_byte_def)
qed

lemma length_hex_bytes: "length (concat (map hex_byte xs)) = 2 * length xs"
  by (induction xs) (simp_all add: hex_byte_def)

lemma hex_bytes_lower: "list_all is_lower_hex (concat (map hex_byte xs))"
proof (induction xs)
  case (Cons x xs)
  have "(of_char x :: nat) div 16 < 16" using of_char_less [of x] by (intro less_mult_imp_div_less) simp
  with Cons show ?case by (simp add: hex_byte_def hex_digit_lower)
qed simp

end
