(* ===== verification/Planner.thy ===== *)
theory Planner
  imports Profiles Dag Config_Hash
begin

text \<open>
  \<open>plan\<close> and \<open>validate_references\<close> of crate \<open>selur-compose-plan\<close> (\<open>lib.rs\<close>): the numbered steps of
  the function, one definition each, and their composition.  \<open>hash\<close> is \<open>service_hash\<close> with its
  library parameters applied.  A hash set is the list of its elements in insertion order.
\<close>

section \<open>Steps 1 to 3: project name, services filter\<close>

definition resolve_project_name :: "'x compose \<Rightarrow> plan_options \<Rightarrow> string" where
  "resolve_project_name c opts =
     (case opt_project_name opts of
        Some n \<Rightarrow> n
      | None \<Rightarrow> (case cmp_project c of Some p \<Rightarrow> prj_name p | None \<Rightarrow> ''project''))"

fun check_services :: "service str_map \<Rightarrow> string list \<Rightarrow> ('te, 'ce) plan_error + unit" where
  "check_services active [] = Ok ()"
| "check_services active (svc # rest) =
     (if \<not> bt_contains active svc then Err (UnknownService svc) else check_services active rest)"

section \<open>Step 4: references\<close>

fun check_networks :: "'x compose \<Rightarrow> string \<Rightarrow> string list \<Rightarrow> ('te, 'ce) plan_error + unit" where
  "check_networks c svc_name [] = Ok ()"
| "check_networks c svc_name (net # rest) =
     (let has_explicit_networks = (cmp_networks c \<noteq> []) in
      if net = ''default'' then check_networks c svc_name rest
      else if has_explicit_networks \<and> \<not> bt_contains (cmp_networks c) net
      then Err (UnknownNetwork svc_name net)
      else if \<not> has_explicit_networks \<and> net \<noteq> ''default''
      then Err (UnknownNetwork svc_name net)
      else check_networks c svc_name rest)"

definition check_mount :: "'x compose \<Rightarrow> string \<Rightarrow> mount_spec \<Rightarrow> ('te, 'ce) plan_error + unit" where
  "check_mount c svc_name mount =
     (case mount of
        MountSpec_Short s \<Rightarrow>
          let source = takeWhile (\<lambda>ch. ch \<noteq> CHR '':'') s;
              is_bind = (prefix ''.'' source \<or> prefix ''/'' source)
          in if \<not> is_bind \<and> \<not> bt_contains (cmp_volumes c) source
             then Err (UnknownVolume svc_name source) else Ok ()
      | MountSpec_Long l \<Rightarrow>
          if mount_type l = ''volume''
          then (case mount_source l of
                  Some src \<Rightarrow>
                    if \<not> bt_contains (cmp_volumes c) src then Err (UnknownVolume svc_name src) else Ok ()
                | None \<Rightarrow> Ok ())
          else Ok ())"

fun check_mounts :: "'x compose \<Rightarrow> string \<Rightarrow> mount_spec list \<Rightarrow> ('te, 'ce) plan_error + unit" where
  "check_mounts c svc_name [] = Ok ()"
| "check_mounts c svc_name (m # rest) =
     bind_res (check_mount c svc_name m) (\<lambda>_. check_mounts c svc_name rest)"

fun validate_references :: "'x compose \<Rightarrow> (string \<times> service) list \<Rightarrow> ('te, 'ce) plan_error + unit" where
  "validate_references c [] = Ok ()"
| "validate_references c ((svc_name, svc) # rest) =
     bind_res (check_networks c svc_name (svc_networks svc)) (\<lambda>_.
     bind_res (check_mounts c svc_name (svc_volumes svc)) (\<lambda>_.
     validate_references c rest))"

section \<open>Steps 7 and 8: networks, volumes, images\<close>

definition project_label :: string where
  "project_label = ''io.podman.compose.project''"

definition service_label :: string where
  "service_label = ''io.podman.compose.service''"

definition config_hash_label :: string where
  "config_hash_label = ''io.podman.compose.config-hash''"

definition network_ops :: "string \<Rightarrow> 'x compose \<Rightarrow> op list" where
  "network_ops project_name c =
     map (\<lambda>(net_name, net). CreateNetwork
       \<lparr>nspec_name = net_name, nspec_driver = net_driver net,
        nspec_labels = bt_insert project_label project_name []\<rparr>) (cmp_networks c)"

definition volume_ops :: "string \<Rightarrow> 'x compose \<Rightarrow> op list" where
  "volume_ops project_name c =
     map (\<lambda>(vol_name, vol). CreateVolume
       \<lparr>vspec_name = vol_name, vspec_driver = vol_driver vol,
        vspec_labels = bt_insert project_label project_name []\<rparr>) (cmp_volumes c)"

definition image_tag :: "string \<Rightarrow> string \<Rightarrow> string" where
  "image_tag project_name svc_name = project_name @ ''_'' @ svc_name @ '':latest''"

definition image_op :: "string \<Rightarrow> string \<Rightarrow> service \<Rightarrow> op list" where
  "image_op project_name svc_name svc =
     (case svc_build svc of
        Some b \<Rightarrow>
          [BuildImage \<lparr>bspec_service = svc_name, bspec_context = build_context b,
             bspec_dockerfile = build_dockerfile b, bspec_args = build_args b,
             bspec_target = build_target b, bspec_tag = image_tag project_name svc_name,
             bspec_no_cache = build_no_cache b\<rparr>]
      | None \<Rightarrow>
          (case svc_image svc of
             Some img \<Rightarrow> [PullImage \<lparr>pspec_service = svc_name, pspec_image = img\<rparr>]
           | None \<Rightarrow> []))"

definition image_ops :: "string \<Rightarrow> service str_map \<Rightarrow> op list" where
  "image_ops project_name active = concat (map (\<lambda>(n, svc). image_op project_name n svc) active)"

section \<open>Step 9: waits and containers\<close>

definition container_name :: "string \<Rightarrow> string \<Rightarrow> string" where
  "container_name project_name svc_name = project_name @ ''_'' @ svc_name"

definition env_strings :: "service_env \<Rightarrow> string list" where
  "env_strings e =
     (case e of
        EnvMap_Empty \<Rightarrow> []
      | EnvMap_List l \<Rightarrow> l
      | EnvMap_Map m \<Rightarrow> map (\<lambda>(k, v). case v of Some val \<Rightarrow> k @ ''='' @ val | None \<Rightarrow> k) m)"

definition port_string :: "port_binding \<Rightarrow> string" where
  "port_string p =
     (case p of
        PortBinding_Short s \<Rightarrow> s
      | PortBinding_Long l \<Rightarrow>
          let proto = (case port_protocol l of Some p \<Rightarrow> p | None \<Rightarrow> ''tcp''); target = show_nat (port_target l) in
          (case port_published l of
             Some pub_port \<Rightarrow>
               (case port_host_ip l of
                  Some ip \<Rightarrow> ip @ '':'' @ pub_port @ '':'' @ target @ ''/'' @ proto
                | None \<Rightarrow> pub_port @ '':'' @ target @ ''/'' @ proto)
           | None \<Rightarrow> target @ ''/'' @ proto))"

definition volume_string :: "mount_spec \<Rightarrow> string" where
  "volume_string v =
     (case v of
        MountSpec_Short s \<Rightarrow> s
      | MountSpec_Long l \<Rightarrow>
          let src = (case mount_source l of Some p \<Rightarrow> p | None \<Rightarrow> []); tgt = mount_target l in
          if mount_read_only l then src @ '':'' @ tgt @ '':ro'' else src @ '':'' @ tgt)"

definition network_mode_string :: "network_mode \<Rightarrow> string" where
  "network_mode_string nm =
     (case nm of
        NetworkMode_Bridge \<Rightarrow> ''bridge''
      | NetworkMode_Host \<Rightarrow> ''host''
      | NetworkMode_None \<Rightarrow> ''none''
      | NetworkMode_Container i \<Rightarrow> ''container:'' @ i
      | NetworkMode_Custom s \<Rightarrow> s)"

definition string_or_list_items :: "string_or_list \<Rightarrow> string list" where
  "string_or_list_items c = (case c of StringOrList_String s \<Rightarrow> [s] | StringOrList_List l \<Rightarrow> l)"

definition restart_string :: "restart_policy \<Rightarrow> string" where
  "restart_string r =
     (case r of
        Restart_No \<Rightarrow> ''no''
      | Restart_Always \<Rightarrow> ''always''
      | Restart_OnFailure \<Rightarrow> ''on-failure''
      | Restart_UnlessStopped \<Rightarrow> ''unless-stopped'')"

text \<open>The container of a service, given its config hash.\<close>

definition run_spec_of :: "string \<Rightarrow> string \<Rightarrow> service \<Rightarrow> string \<Rightarrow> run_spec" where
  "run_spec_of project_name svc_name svc config_hash =
     (let nm = map_option network_mode_string (svc_network_mode svc) in
      \<lparr>rspec_service = svc_name,
       rspec_image =
         (if svc_build svc \<noteq> None then image_tag project_name svc_name
          else (case svc_image svc of Some i \<Rightarrow> i | None \<Rightarrow> [])),
       rspec_container_name = container_name project_name svc_name,
       rspec_environment = env_strings (svc_environment svc),
       rspec_ports = map port_string (svc_ports svc),
       rspec_volumes = map volume_string (svc_volumes svc),
       rspec_networks = (if nm \<noteq> None then [] else svc_networks svc),
       rspec_network_mode = nm,
       rspec_command = map_option string_or_list_items (svc_command svc),
       rspec_entrypoint = map_option string_or_list_items (svc_entrypoint svc),
       rspec_restart = restart_string (svc_restart svc),
       rspec_labels =
         bt_insert config_hash_label config_hash
           (bt_insert service_label svc_name (bt_insert project_label project_name []))\<rparr>)"

definition wait_op :: "string \<Rightarrow> string \<Rightarrow> op" where
  "wait_op project_name dep_name =
     WaitHealthy \<lparr>wspec_service = dep_name, wspec_container_name = container_name project_name dep_name\<rparr>"

text \<open>The loop over \<open>healthy_deps\<close>: state is \<open>ops\<close> and \<open>wait_healthy_emitted\<close>.\<close>

fun emit_waits :: "string \<Rightarrow> string list \<Rightarrow> op list \<times> string list \<Rightarrow> op list \<times> string list" where
  "emit_waits project_name [] acc = acc"
| "emit_waits project_name (dep_name # deps) (ops, emitted) =
     (if dep_name \<notin> set emitted
      then emit_waits project_name deps (ops @ [wait_op project_name dep_name], emitted @ [dep_name])
      else emit_waits project_name deps (ops, emitted))"

text \<open>\<open>graph.name(node_id)\<close> and \<open>&active_services[svc_name]\<close>.\<close>

definition node_service ::
    "service str_map \<Rightarrow> service_graph \<Rightarrow> node_id \<Rightarrow> ('te, 'ce) plan_error fault + string \<times> service" where
  "node_service active g node =
     bind_res (graph_name g node) (\<lambda>svc_name.
       case bt_get active svc_name of Some svc \<Rightarrow> Ok (svc_name, svc) | None \<Rightarrow> Err Panic)"

fun wait_loop ::
    "string \<Rightarrow> service str_map \<Rightarrow> service_graph \<Rightarrow> node_id list \<Rightarrow> op list \<times> string list
     \<Rightarrow> ('te, 'ce) plan_error fault + op list \<times> string list" where
  "wait_loop project_name active g [] acc = Ok acc"
| "wait_loop project_name active g (node # ns) acc =
     bind_res (node_service active g node) (\<lambda>(svc_name, svc).
       wait_loop project_name active g ns (emit_waits project_name (healthy_dependencies svc) acc))"

fun run_loop ::
    "(service \<Rightarrow> 'ce + string) \<Rightarrow> string \<Rightarrow> service str_map \<Rightarrow> service_graph \<Rightarrow> node_id list
     \<Rightarrow> op list \<times> node_id list \<Rightarrow> ('te, 'ce) plan_error fault + op list \<times> node_id list" where
  "run_loop hash project_name active g [] acc = Ok acc"
| "run_loop hash project_name active g (node # ns) (ops, wave_node_ids) =
     bind_res (node_service active g node) (\<lambda>(svc_name, svc).
     bind_res (map_err (\<lambda>source. Fault (ConfigHash svc_name source)) (hash svc)) (\<lambda>config_hash.
       run_loop hash project_name active g ns
         (ops @ [RunContainer (run_spec_of project_name svc_name svc config_hash)],
          wave_node_ids @ [node])))"

fun waves_loop ::
    "(service \<Rightarrow> 'ce + string) \<Rightarrow> string \<Rightarrow> service str_map \<Rightarrow> service_graph \<Rightarrow> node_id list list
     \<Rightarrow> op list \<times> string list \<times> node_id list list
     \<Rightarrow> ('te, 'ce) plan_error fault + op list \<times> string list \<times> node_id list list" where
  "waves_loop hash project_name active g [] acc = Ok acc"
| "waves_loop hash project_name active g (wave # rest) (ops, emitted, node_wave_index) =
     bind_res (wait_loop project_name active g wave (ops, emitted)) (\<lambda>(ops', emitted').
     bind_res (run_loop hash project_name active g wave (ops', [])) (\<lambda>(ops'', wave_node_ids).
       waves_loop hash project_name active g rest (ops'', emitted', node_wave_index @ [wave_node_ids])))"

section \<open>plan\<close>

definition plan ::
    "(service \<Rightarrow> 'ce + string) \<Rightarrow> 'x compose \<Rightarrow> plan_options \<Rightarrow> ('te, 'ce) plan_error fault + compose_plan" where
  "plan hash c opts =
     (let project_name = resolve_project_name c opts in
      bind_res (map_err Fault (filter_services c (opt_profiles opts))) (\<lambda>active.
      bind_res (map_err Fault (check_services active (opt_services opts))) (\<lambda>_.
      bind_res (map_err Fault (validate_references c active)) (\<lambda>_.
      bind_res (build_graph active) (\<lambda>graph.
      bind_res (topological_waves graph) (\<lambda>service_waves.
      let ops = network_ops project_name c @ volume_ops project_name c @ image_ops project_name active in
      bind_res (waves_loop hash project_name active graph service_waves (ops, [], []))
        (\<lambda>(ops, emitted, node_wave_index).
          Ok \<lparr>plan_ops = ops, plan_waves = node_wave_index, plan_project_name = project_name\<rparr>)))))))"

end
