(* ===== verification/Examples.thy ===== *)
theory Examples
  imports Planner
begin

text \<open>Concrete documents at which the properties are instantiated.\<close>

definition service_default :: service where
  "service_default =
     \<lparr>svc_image = None, svc_build = None, svc_command = None, svc_entrypoint = None,
      svc_environment = EnvMap_Empty, svc_env_file = [], svc_ports = [], svc_volumes = [],
      svc_networks = [], svc_network_mode = None, svc_depends_on = DependsOn_Empty,
      svc_healthcheck = None, svc_restart = Restart_No, svc_profiles = [], svc_secrets = [],
      svc_configs = [], svc_user = None, svc_working_dir = None, svc_hostname = None,
      svc_cap_add = [], svc_cap_drop = [], svc_init = None, svc_stop_signal = None,
      svc_stop_grace_period = None\<rparr>"

definition healthy_spec :: depends_on_spec where
  "healthy_spec = \<lparr>dep_condition = ServiceHealthy, dep_restart = False\<rparr>"

definition volume_default :: volume where
  "volume_default =
     \<lparr>vol_driver = None, vol_driver_opts = [], vol_external = False, vol_name = None, vol_labels = []\<rparr>"

text \<open>\<open>web\<close> after \<open>api\<close> after a healthy \<open>db\<close>.\<close>

definition demo :: "unit compose" where
  "demo =
     \<lparr>cmp_project = Some \<lparr>prj_name = ''p''\<rparr>,
      cmp_services =
        [(''api'', service_default
            \<lparr>svc_image := Some ''a:${TAG:-1}'',
             svc_depends_on := DependsOn_Map [(''db'', healthy_spec)]\<rparr>),
         (''db'', service_default\<lparr>svc_image := Some ''d:1'', svc_volumes := [MountSpec_Short ''data:/var'']\<rparr>),
         (''web'', service_default\<lparr>svc_image := Some ''w:1'', svc_depends_on := DependsOn_List [''api'', ''db'']\<rparr>)],
      cmp_networks = [], cmp_volumes = [(''data'', volume_default)],
      cmp_secrets = [], cmp_configs = [], cmp_extensions = []\<rparr>"

definition demo_opts :: plan_options where
  "demo_opts = \<lparr>opt_profiles = [], opt_project_name = None, opt_services = []\<rparr>"

definition demo_hash :: "service \<Rightarrow> unit + string" where
  "demo_hash svc = Ok ''h''"

definition demo_result :: "(unit, unit) plan_error fault + compose_plan" where
  "demo_result = plan demo_hash demo demo_opts"

definition demo_active :: "service str_map" where
  "demo_active = cmp_services demo"

lemma demo_ok: "bt_ok (cmp_services demo)"
  by code_simp

lemma demo_planned:
  "(plan demo_hash demo demo_opts :: (unit, unit) plan_error fault + _) = Ok (projr demo_result)"
proof -
  have "is_ok demo_result" by code_simp
  then show ?thesis by (cases demo_result) (simp_all add: demo_result_def)
qed

end
