(* ===== verification/Schema_Properties.thy ===== *)
theory Schema_Properties
  imports Schema Examples
begin

text \<open>The properties of the schema crate.\<close>

definition reserved_mode :: "string \<Rightarrow> bool" where
  "reserved_mode n \<longleftrightarrow> n = ''bridge'' \<or> n = ''host'' \<or> n = ''none'' \<or> prefix ''container:'' n"

text \<open>
  A network mode written out and a network mode read are inverse: every string is read as a
  mode that is written as that string, and a mode is read back from its text unless it is a custom
  name that is one of the reserved words.
\<close>

theorem network_mode_roundtrip:
  "network_mode_serialize (network_mode_deserialize s) = s \<and>
   (network_mode_deserialize (network_mode_serialize m) = m \<longleftrightarrow> \<not> (\<exists>n. m = NetworkMode_Custom n \<and> reserved_mode n))"
proof
  show "network_mode_serialize (network_mode_deserialize s) = s" by (rule network_mode_serialize_deserialize)
  show "network_mode_deserialize (network_mode_serialize m) = m \<longleftrightarrow> \<not> (\<exists>n. m = NetworkMode_Custom n \<and> reserved_mode n)"
    by (cases m) (simp_all add: network_mode_serialize_def network_mode_deserialize_def reserved_mode_def)
qed

lemma validate_services_find:
  "validate_services svcs =
     (case find (\<lambda>(name, svc). svc_image svc = None \<and> svc_build svc = None) svcs of
        None \<Rightarrow> Ok () | Some (name, svc) \<Rightarrow> Err (ParseError_MissingImageOrBuild name))"
  by (induction svcs rule: validate_services.induct) auto

text \<open>
  A document is accepted exactly when the TOML parser accepts it and every service has an
  image or a build; otherwise the error is the parser's, or names the first such service in key
  order.
\<close>

theorem parse_str_result:
  "parse_str from_str s source_path =
     (case from_str s of
        Err te \<Rightarrow> Err (ParseError_Toml (case source_path of Some p \<Rightarrow> p | None \<Rightarrow> ''<input>'') te)
      | Ok c \<Rightarrow>
          (case find (\<lambda>(name, svc). svc_image svc = None \<and> svc_build svc = None) (cmp_services c) of
             None \<Rightarrow> Ok c
           | Some (name, svc) \<Rightarrow> Err (ParseError_MissingImageOrBuild name)))"
proof (cases "from_str s")
  case (Inr c)
  then show ?thesis by (auto simp: parse_str_def validate_def Let_def validate_services_find split: option.splits)
qed (simp add: parse_str_def Let_def)

text \<open>
  A suggestion is a candidate at distance at most three, no other candidate is nearer, and
  there is none only when every candidate is further away.
\<close>

theorem did_you_mean_nearest:
  "case did_you_mean lev input candidates of
     None \<Rightarrow> \<forall>c\<in>set candidates. 3 < lev input c
   | Some c \<Rightarrow> c \<in> set candidates \<and> lev input c \<le> 3 \<and> (\<forall>c'\<in>set candidates. lev input c \<le> lev input c')"
proof -
  let ?xs = "filter (\<lambda>(c, dist). dist \<le> 3) (map (\<lambda>c. (c, lev input c)) candidates)"
  show ?thesis
  proof (cases "min_by_key snd ?xs")
    case None
    then have "?xs = []" by (simp only: min_by_key_None)
    then have "\<forall>c\<in>set candidates. 3 < lev input c" by (auto simp: filter_empty_conv not_le)
    with None show ?thesis by (simp add: did_you_mean_def)
  next
    case (Some m)
    from min_by_key_Some [OF this] obtain us vs where xs: "?xs = us @ m # vs"
      and min: "\<forall>u\<in>set us. snd m < snd u" "\<forall>v\<in>set vs. snd m \<le> snd v" by blast
    have "m \<in> set ?xs" by (simp only: xs) simp
    then have m: "fst m \<in> set candidates" "snd m = lev input (fst m)" "snd m \<le> 3" by auto
    have "snd m \<le> lev input c" if "c \<in> set candidates" for c
    proof (cases "lev input c \<le> 3")
      case True
      with that have "(c, lev input c) \<in> set ?xs" by auto
      then have "(c, lev input c) \<in> set (us @ m # vs)" by (simp only: xs)
      with min show ?thesis by auto
    qed (use m in simp)
    with m Some show ?thesis by (simp add: did_you_mean_def)
  qed
qed

theorem did_you_mean_nearest_witness:
  "did_you_mean (\<lambda>a b. if a = b then 0 else 2) ''image'' [''imag'', ''build''] = Some ''imag''"
proof -
  let ?r = "did_you_mean (\<lambda>a b. if a = b then 0 else 2) ''image'' [''imag'', ''build'']"
  have "?r = Some ''imag''" by code_simp
  with did_you_mean_nearest [where lev = "\<lambda>a b. if a = b then 0 else 2" and input = "''image''" and
      candidates = "[''imag'', ''build'']"]
  show ?thesis by simp
qed

end
