(* ===== verification/Lexer.thy ===== *)
theory Lexer
  imports Rust_Str
begin

text \<open>
  The template lexer of crate \<open>selur-compose-interp\<close> (\<open>lexer.rs\<close>): the index loop of \<open>lex\<close>,
  \<open>parse_expansion\<close>, and the grammar it accepts as a predicate on token lists (\<open>canonical\<close>)
  with the printer \<open>unlex\<close>.  The loop is proved to refine a scanner that consumes the string
  structurally, and the scanner to be the inverse of printing.
\<close>

section \<open>Tokens\<close>

datatype token =
    Literal string
  | Escape
  | VarPlain string nat
  | VarDefault string string bool nat
  | VarRequired string string bool nat

section \<open>The content of an expansion\<close>

definition is_name_char :: "char \<Rightarrow> bool" where
  "is_name_char b =
     (let n = (of_char b :: nat) in
      48 \<le> n \<and> n \<le> 57 \<or> 65 \<le> n \<and> n \<le> 90 \<or> 97 \<le> n \<and> n \<le> 122 \<or> b = CHR ''_'')"

definition memchr_byte :: "char \<Rightarrow> string \<Rightarrow> nat option" where
  "memchr_byte needle haystack = position (\<lambda>b. b = needle) haystack"

text \<open>The branches of \<open>match rest.as_bytes()\<close>, in order.\<close>

definition parse_modifier :: "string \<Rightarrow> string \<Rightarrow> string \<Rightarrow> nat \<Rightarrow> string + token" where
  "parse_modifier inner name rest offset =
     (if prefix '':-'' rest then Ok (VarDefault name (drop 2 rest) True offset)
      else if prefix ''-'' rest then Ok (VarDefault name (drop 1 rest) False offset)
      else if prefix '':?'' rest then Ok (VarRequired name (drop 2 rest) True offset)
      else if prefix ''?'' rest then Ok (VarRequired name (drop 1 rest) False offset)
      else Err (''unrecognised modifier `'' @ rest @ ''` in `${'' @ inner @ ''}` at byte '' @ show_nat offset))"

definition parse_expansion :: "string \<Rightarrow> nat \<Rightarrow> string + token" where
  "parse_expansion inner offset =
     (if inner = []
      then Err (''`${}` '' @ [CHR 0xE2, CHR 0x80, CHR 0x94] @ '' empty variable name at byte '' @ show_nat offset)
      else
        let name_end = (case position (\<lambda>b. \<not> is_name_char b) inner of Some n \<Rightarrow> n | None \<Rightarrow> length inner) in
        if name_end = 0
        then Err (''invalid variable name in `${'' @ inner @ ''}` at byte '' @ show_nat offset @
                  '': names must start with [A-Za-z_]'')
        else
          let name = take name_end inner; rest = drop name_end inner in
          if rest = [] then Ok (VarPlain name offset)
          else parse_modifier inner name rest offset)"

section \<open>The loop\<close>

text \<open>The macro \<open>flush_literal!\<close>.\<close>

definition flush_literal :: "string \<Rightarrow> nat \<Rightarrow> nat \<Rightarrow> token list \<Rightarrow> token list" where
  "flush_literal input lit_start end tokens =
     (if lit_start < end then tokens @ [Literal (slice input lit_start end)] else tokens)"

definition unterminated_msg :: "string \<Rightarrow> nat \<Rightarrow> string" where
  "unterminated_msg input dollar_pos =
     ''unterminated `${` at byte '' @ show_nat dollar_pos @ '' in `'' @ input @ ''`''"

function lex_loop :: "string \<Rightarrow> nat \<Rightarrow> nat \<Rightarrow> token list \<Rightarrow> (nat \<times> string) + token list" where
  "lex_loop input i lit_start tokens =
     (if \<not> i < length input then Ok (flush_literal input lit_start (length input) tokens)
      else if input ! i \<noteq> CHR ''$'' then lex_loop input (i + 1) lit_start tokens
      else if i + 1 \<ge> length input then lex_loop input (i + 1) lit_start tokens
      else if input ! (i + 1) = CHR ''$''
      then lex_loop input (i + 2) (i + 2) (flush_literal input lit_start i tokens @ [Escape])
      else if input ! (i + 1) = CHR ''{''
      then (let brace_start = i + 2 in
            case memchr_byte (CHR ''}'') (drop brace_start input) of
              None \<Rightarrow> Err (i, unterminated_msg input i)
            | Some rel \<Rightarrow>
                let brace_end = brace_start + rel; inner = slice input brace_start brace_end in
                bind_res (map_err (Pair i) (parse_expansion inner i)) (\<lambda>token.
                  lex_loop input (brace_end + 1) (brace_end + 1)
                    (flush_literal input lit_start i tokens @ [token])))
      else lex_loop input (i + 1) lit_start tokens)"
  by pat_completeness auto
termination by (relation "measure (\<lambda>(input, i, _, _). length input - i)") auto

declare lex_loop.simps [simp del]

definition lex :: "string \<Rightarrow> (nat \<times> string) + token list" where
  "lex input = lex_loop input 0 0 []"

section \<open>Printing tokens, and the token lists the grammar allows\<close>

fun unlex :: "token \<Rightarrow> string" where
  "unlex (Literal s) = s"
| "unlex Escape = ''$$''"
| "unlex (VarPlain name _) = ''${'' @ name @ ''}''"
| "unlex (VarDefault name dflt colon _) =
     ''${'' @ name @ (if colon then '':-'' else ''-'') @ dflt @ ''}''"
| "unlex (VarRequired name msg colon _) =
     ''${'' @ name @ (if colon then '':?'' else ''?'') @ msg @ ''}''"

definition unlex_all :: "token list \<Rightarrow> string" where
  "unlex_all ts = concat (map unlex ts)"

text \<open>Text in which no \<open>$\<close> starts an escape or an expansion.\<close>

fun quiet :: "string \<Rightarrow> bool" where
  "quiet (c # d # s) = (\<not> (c = CHR ''$'' \<and> (d = CHR ''$'' \<or> d = CHR ''{'')) \<and> quiet (d # s))"
| "quiet _ = True"

definition is_name :: "string \<Rightarrow> bool" where
  "is_name name = (name \<noteq> [] \<and> list_all is_name_char name)"

definition no_brace :: "string \<Rightarrow> bool" where
  "no_brace s = (CHR ''}'' \<notin> set s)"

fun token_ok :: "nat \<Rightarrow> token \<Rightarrow> bool" where
  "token_ok off (Literal s) = (s \<noteq> [] \<and> quiet s)"
| "token_ok off Escape = True"
| "token_ok off (VarPlain name p) = (is_name name \<and> p = off)"
| "token_ok off (VarDefault name dflt _ p) = (is_name name \<and> no_brace dflt \<and> p = off)"
| "token_ok off (VarRequired name msg _ p) = (is_name name \<and> no_brace msg \<and> p = off)"

definition is_literal :: "token \<Rightarrow> bool" where
  "is_literal t = (case t of Literal _ \<Rightarrow> True | _ \<Rightarrow> False)"

text \<open>
  \<open>canonical off ts\<close>: the tokens are well formed, every recorded offset is the position its text
  has when the list is printed from offset \<open>off\<close>, and a literal is followed by no literal and,
  unless it is last, does not end in \<open>$\<close>.
\<close>

fun canonical :: "nat \<Rightarrow> token list \<Rightarrow> bool" where
  "canonical off [] = True"
| "canonical off (t # ts) =
     (token_ok off t \<and>
      (is_literal t \<and> ts \<noteq> [] \<longrightarrow> last (unlex t) \<noteq> CHR ''$'' \<and> \<not> is_literal (hd ts)) \<and>
      canonical (off + length (unlex t)) ts)"

section \<open>A structural scanner\<close>

definition lit :: "string \<Rightarrow> token list" where
  "lit cur = (if cur = [] then [] else [Literal cur])"

function scan :: "string \<Rightarrow> nat \<Rightarrow> string \<Rightarrow> string \<Rightarrow> (nat \<times> string) + token list" where
  "scan w off cur [] = Ok (lit cur)"
| "scan w off cur [c] = Ok (lit (cur @ [c]))"
| "scan w off cur (c # d # s) =
     (if c = CHR ''$'' \<and> d = CHR ''$''
      then map_res (\<lambda>ts. lit cur @ Escape # ts) (scan w (off + 2) [] s)
      else if c = CHR ''$'' \<and> d = CHR ''{''
      then (case position (\<lambda>b. b = CHR ''}'') s of
              None \<Rightarrow> Err (off, unterminated_msg w off)
            | Some r \<Rightarrow>
                bind_res (map_err (Pair off) (parse_expansion (take r s) off)) (\<lambda>t.
                  map_res (\<lambda>ts. lit cur @ t # ts) (scan w (off + r + 3) [] (drop (r + 1) s))))
      else scan w (off + 1) (cur @ [c]) (d # s))"
  by pat_completeness auto
termination by (relation "measure (\<lambda>(w, off, cur, s). length s)") auto

text \<open>The index loop computes what the scanner computes on the rest of the input.\<close>

lemma flush_slice:
  "lit_start \<le> i \<Longrightarrow> i \<le> length input \<Longrightarrow>
     flush_literal input lit_start i tokens = tokens @ lit (slice input lit_start i)"
  by (auto simp: flush_literal_def lit_def slice_empty)

lemma lex_loop_scan:
  "lit_start \<le> i \<Longrightarrow> i \<le> length input \<Longrightarrow>
     lex_loop input i lit_start tokens =
       map_res ((@) tokens) (scan input i (slice input lit_start i) (drop i input))"
proof (induction input i lit_start tokens rule: lex_loop.induct)
  case (1 input i lit_start tokens)
  note IH = "1.IH" and le = "1.prems"
  show ?case
  proof (cases "i < length input")
    case False
    with le show ?thesis by (simp add: lex_loop.simps flush_slice)
  next
    case i: True
    then have dr: "drop i input = input ! i # drop (Suc i) input"
      by (simp add: Cons_nth_drop_Suc)
    have sl: "slice input lit_start (Suc i) = slice input lit_start i @ [input ! i]"
      using le i by (simp add: slice_Suc)
    show ?thesis
    proof (cases "i + 1 < length input")
      case False
      with i have last: "i + 1 = length input" by simp
      then have "lex_loop input i lit_start tokens = lex_loop input (i + 1) lit_start tokens"
        using i by (simp add: lex_loop.simps [of input i])
      also have "\<dots> = Ok (tokens @ lit (slice input lit_start (Suc i)))"
        using le last by (simp add: lex_loop.simps flush_slice)
      finally show ?thesis using last by (simp add: dr sl)
    next
      case i1: True
      then have dr2: "drop (Suc i) input = input ! Suc i # drop (i + 2) input"
        by (simp add: Cons_nth_drop_Suc numeral_2_eq_2)
      show ?thesis
      proof (cases "input ! i = CHR ''$'' \<and> (input ! Suc i = CHR ''$'' \<or> input ! Suc i = CHR ''{'')")
        case False
        then have "lex_loop input i lit_start tokens = lex_loop input (i + 1) lit_start tokens"
          using i i1 by (simp add: lex_loop.simps [of input i])
        moreover have "lex_loop input (i + 1) lit_start tokens =
            map_res ((@) tokens) (scan input (i + 1) (slice input lit_start (i + 1)) (drop (i + 1) input))"
          using IH(1,2,5) i i1 le False by (cases "input ! i = CHR ''$''") auto
        ultimately show ?thesis using False by (auto simp: dr dr2 sl)
      next
        case spec: True
        show ?thesis
        proof (cases "input ! Suc i = CHR ''$''")
          case True
          with spec i i1 le IH(3) show ?thesis
            by (simp add: lex_loop.simps [of input i] dr dr2 flush_slice comp_def)
        next
          case False
          with spec have b: "input ! i = CHR ''$''" "input ! Suc i = CHR ''{''" by auto
          show ?thesis
          proof (cases "position (\<lambda>b. b = CHR ''}'') (drop (i + 2) input)")
            case None
            with b i i1 show ?thesis
              by (simp add: lex_loop.simps [of input i] dr dr2 memchr_byte_def)
          next
            case (Some r)
            then have r: "i + 2 + r < length input" by (auto simp: position_Some)
            have sl: "slice input (i + 2) (i + 2 + r) = take r (drop (i + 2) input)"
              by (simp add: slice_def)
            show ?thesis
            proof (cases "parse_expansion (take r (drop (i + 2) input)) i")
              case (Inl e)
              with b i i1 Some sl show ?thesis
                by (simp add: lex_loop.simps [of input i] dr dr2 memchr_byte_def Let_def)
            next
              case (Inr t)
              have "lex_loop input (i + r + 3) (i + r + 3) (flush_literal input lit_start i tokens @ [t]) =
                  map_res (\<lambda>ts. flush_literal input lit_start i tokens @ t # ts)
                    (scan input (i + r + 3) [] (drop (i + r + 3) input))"
                using IH(4) [of "i + 2" r "i + 2 + r" "take r (drop (i + 2) input)" t]
                  b i i1 Some sl Inr r by (simp add: memchr_byte_def numeral_3_eq_3 comp_def add.commute add.left_commute)
              with b i i1 Some sl Inr le show ?thesis
                by (simp add: lex_loop.simps [of input i] dr dr2 memchr_byte_def Let_def flush_slice
                    comp_def numeral_3_eq_3 add.commute add.left_commute)
            qed
          qed
        qed
      qed
    qed
  qed
qed

lemma lex_scan: "lex input = scan input 0 [] input"
  by (cases "scan input 0 [] input") (simp_all add: lex_def lex_loop_scan)

section \<open>What an expansion accepts\<close>

lemma is_name_char_facts [simp]:
  "\<not> is_name_char (CHR '':'')" "\<not> is_name_char (CHR ''-'')" "\<not> is_name_char (CHR ''?'')"
  "\<not> is_name_char (CHR ''}'')"
  by (simp_all add: is_name_char_def)

lemma name_end_take:
  "(case position (\<lambda>b. \<not> is_name_char b) s of Some n \<Rightarrow> n | None \<Rightarrow> length s) = length (takeWhile is_name_char s)"
  by (induction s) (auto split: option.splits)

lemma parse_expansion_alt:
  "parse_expansion inner off =
     (if inner = [] \<or> takeWhile is_name_char inner = [] then Err (projl (parse_expansion inner off))
      else if dropWhile is_name_char inner = [] then Ok (VarPlain (takeWhile is_name_char inner) off)
      else parse_modifier inner (takeWhile is_name_char inner) (dropWhile is_name_char inner) off)"
  unfolding parse_expansion_def name_end_take
  by (simp add: Let_def takeWhile_eq_take [symmetric] dropWhile_eq_drop [symmetric])

lemma takeWhile_name: "is_name (takeWhile is_name_char s) \<longleftrightarrow> takeWhile is_name_char s \<noteq> []"
  by (auto simp: is_name_def list_all_iff dest: set_takeWhileD)

lemma takeWhile_name_app:
  "is_name name \<Longrightarrow> rest = [] \<or> \<not> is_name_char (hd rest) \<Longrightarrow>
     takeWhile is_name_char (name @ rest) = name \<and> dropWhile is_name_char (name @ rest) = rest"
  by (cases rest) (auto simp: is_name_def list_all_iff takeWhile_append dropWhile_append)

text \<open>On brace-free content the parser succeeds exactly with the token that prints as that content.\<close>

lemma parse_modifier_sound:
  "parse_modifier inner name rest off = Ok t \<Longrightarrow> is_name name \<Longrightarrow> no_brace rest \<Longrightarrow>
     token_ok off t \<and> \<not> is_literal t \<and> unlex t = ''${'' @ name @ rest @ ''}''"
  by (auto simp: parse_modifier_def is_literal_def no_brace_def prefix_def split: if_splits)

lemma parse_expansion_sound:
  assumes p: "parse_expansion inner off = Ok t" and nb: "no_brace inner"
  shows "token_ok off t \<and> \<not> is_literal t \<and> unlex t = ''${'' @ inner @ ''}''"
proof -
  let ?n = "takeWhile is_name_char inner" and ?r = "dropWhile is_name_char inner"
  have eq: "?n @ ?r = inner" by simp
  from p have ne: "?n \<noteq> []" by (subst (asm) parse_expansion_alt) (auto split: if_splits)
  then have name: "is_name ?n" by (simp add: takeWhile_name)
  from nb eq have nb': "no_brace ?r" by (metis no_brace_def set_dropWhileD)
  show ?thesis
  proof (cases "?r = []")
    case True
    with p ne eq have t: "t = VarPlain ?n off" and i: "?n = inner"
      by (subst (asm) parse_expansion_alt, auto split: if_splits)+
    with name show ?thesis by (simp add: is_literal_def)
  next
    case False
    with p ne have "parse_modifier inner ?n ?r off = Ok t"
      by (subst (asm) parse_expansion_alt) (auto split: if_splits)
    from parse_modifier_sound [OF this name nb'] eq show ?thesis by (metis append.assoc)
  qed
qed

lemma parse_expansion_complete:
  assumes "token_ok off t" "\<not> is_literal t" "t \<noteq> Escape"
  shows "\<exists>inner. unlex t = ''${'' @ inner @ ''}'' \<and> no_brace inner \<and> parse_expansion inner off = Ok t"
proof -
  have name_nb: "is_name name \<Longrightarrow> no_brace name" for name
    by (auto simp: is_name_def no_brace_def list_all_iff)
  have ne: "is_name name \<Longrightarrow> name \<noteq> []" for name by (simp add: is_name_def)
  have one: "parse_expansion (name @ rest) off =
      (if rest = [] then Ok (VarPlain name off) else parse_modifier (name @ rest) name rest off)"
    if "is_name name" "rest = [] \<or> \<not> is_name_char (hd rest)" for name rest
    using takeWhile_name_app [OF that] ne [OF that(1)] that(1)
    by (subst parse_expansion_alt) (auto simp: is_name_def list_all_iff)
  show ?thesis
  proof (cases t)
    case (VarPlain name p)
    with assms one [of name "[]"] name_nb show ?thesis by (intro exI [of _ name]) simp
  next
    case (VarDefault name d colon p)
    note tok = this
    define r where "r = (if colon then '':-'' else ''-'') @ d"
    with assms tok one [of name r] name_nb show ?thesis
      by (intro exI [of _ "name @ (if colon then '':-'' else ''-'') @ d"])
        (simp add: parse_modifier_def no_brace_def)
  next
    case (VarRequired name m colon p)
    note tok = this
    define r where "r = (if colon then '':?'' else ''?'') @ m"
    with assms tok one [of name r] name_nb show ?thesis
      by (intro exI [of _ "name @ (if colon then '':?'' else ''?'') @ m"])
        (simp add: parse_modifier_def no_brace_def)
  qed (use assms in \<open>simp_all add: is_literal_def\<close>)
qed

section \<open>The scanner inverts printing\<close>

lemma quiet_snoc: "quiet (s @ [c]) \<longleftrightarrow> quiet s \<and> \<not> (s \<noteq> [] \<and> last s = CHR ''$'' \<and> (c = CHR ''$'' \<or> c = CHR ''{''))"
  by (induction s rule: quiet.induct) auto

lemma quiet_append1: "quiet (s @ t) \<Longrightarrow> quiet s"
  by (induction s rule: quiet.induct) auto

lemma scan_quiet:
  "quiet s \<Longrightarrow> rest = [] \<or> s = [] \<or> last s \<noteq> CHR ''$'' \<Longrightarrow>
     scan w off cur (s @ rest) = scan w (off + length s) (cur @ s) rest"
proof (induction s arbitrary: off cur rule: quiet.induct)
  case (1 c d s)
  then have "scan w off cur ((c # d # s) @ rest) = scan w (off + 1) (cur @ [c]) ((d # s) @ rest)"
    by auto
  with 1 show ?case by simp
qed (simp, cases rest, auto)

lemma scan_token:
  assumes "token_ok off t" "\<not> is_literal t"
  shows "scan w off cur (unlex t @ rest) =
    map_res (\<lambda>ts. lit cur @ t # ts) (scan w (off + length (unlex t)) [] rest)"
proof (cases "t = Escape")
  case False
  from parse_expansion_complete [OF assms False] obtain inner where
    i: "unlex t = ''${'' @ inner @ ''}''" "no_brace inner" "parse_expansion inner off = Ok t" by blast
  from i(2) have "position (\<lambda>b. b = CHR ''}'') inner = None"
    by (auto simp: position_None no_brace_def)
  then have pos: "position (\<lambda>b. b = CHR ''}'') (inner @ CHR ''}'' # rest) = Some (length inner)"
    by (simp add: position_append)
  show ?thesis by (simp add: i pos numeral_3_eq_3 add.commute add.left_commute)
qed simp

lemma scan_complete:
  "canonical off ts \<Longrightarrow> cur = [] \<or> ts = [] \<or> \<not> is_literal (hd ts) \<Longrightarrow>
     scan w off cur (unlex_all ts) = Ok (lit cur @ ts)"
proof (induction ts arbitrary: off cur)
  case Nil
  then show ?case by (simp add: unlex_all_def)
next
  case (Cons t ts)
  have all: "unlex_all (t # ts) = unlex t @ unlex_all ts" by (simp add: unlex_all_def)
  from Cons.prems(1) have tok: "token_ok off t" and rest: "canonical (off + length (unlex t)) ts" by auto
  show ?case
  proof (cases "is_literal t")
    case False
    from Cons.IH [OF rest, of "[]"] show ?thesis
      by (simp add: all scan_token [OF tok False] lit_def)
  next
    case True
    then obtain s where t: "t = Literal s" by (cases t) (auto simp: is_literal_def)
    with Cons.prems True have s: "s \<noteq> []" "quiet s" "cur = []"
      "ts = [] \<or> last s \<noteq> CHR ''$'' \<and> \<not> is_literal (hd ts)" by auto
    then have "unlex_all ts = [] \<or> s = [] \<or> last s \<noteq> CHR ''$''" by (auto simp: unlex_all_def)
    from scan_quiet [OF s(2) this] have "scan w off [] (s @ unlex_all ts) = scan w (off + length s) s (unlex_all ts)"
      by simp
    also have "\<dots> = Ok (lit s @ ts)" using Cons.IH [of "off + length s" s] rest s(4) t by auto
    finally show ?thesis using s all by (simp add: t lit_def)
  qed
qed

lemma canonical_lit_token:
  "quiet (cur @ [CHR ''$'']) \<Longrightarrow> length cur \<le> off \<Longrightarrow> token_ok off t \<Longrightarrow> \<not> is_literal t \<Longrightarrow>
     canonical (off + length (unlex t)) ts \<Longrightarrow> canonical (off - length cur) (lit cur @ t # ts)"
  by (auto simp: lit_def quiet_snoc is_literal_def)

lemma scan_sound:
  "scan w off cur s = Ok ts \<Longrightarrow> quiet (cur @ take 1 s) \<Longrightarrow> length cur \<le> off \<Longrightarrow>
     canonical (off - length cur) ts \<and> unlex_all ts = cur @ s"
proof (induction w off cur s arbitrary: ts rule: scan.induct)
  case (1 w off cur)
  then show ?case by (auto simp: lit_def unlex_all_def)
next
  case (2 w off cur c)
  then show ?case by (auto simp: lit_def unlex_all_def)
next
  case (3 w off cur c d s)
  consider (esc) "c = CHR ''$''" "d = CHR ''$''" | (var) "c = CHR ''$''" "d = CHR ''{''"
    | (plain) "\<not> (c = CHR ''$'' \<and> (d = CHR ''$'' \<or> d = CHR ''{''))" by blast
  then show ?case
  proof cases
    case esc
    with "3.prems" obtain ts' where ts': "scan w (off + 2) [] s = Ok ts'" "ts = lit cur @ Escape # ts'"
      by (auto simp: res_simps)
    from "3.IH"(1) [OF _ ts'(1)] esc have can: "canonical (off + 2) ts'" "unlex_all ts' = s"
      by (cases s; simp)+
    have "canonical (off - length cur) (lit cur @ Escape # ts')"
      by (rule canonical_lit_token) (use "3.prems" esc can in \<open>auto simp: is_literal_def\<close>)
    with can esc ts' show ?thesis by (auto simp: unlex_all_def lit_def)
  next
    case var
    with "3.prems"(1) obtain r t ts' where r: "position (\<lambda>b. b = CHR ''}'') s = Some r"
      and t: "parse_expansion (take r s) off = Ok t"
      and ts': "scan w (off + r + 3) [] (drop (r + 1) s) = Ok ts'" "ts = lit cur @ t # ts'"
      by (auto simp: res_simps split: option.splits)
    from r have rl: "r < length s" "s ! r = CHR ''}''" "\<forall>j<r. s ! j \<noteq> CHR ''}''"
      by (auto simp: position_Some)
    then have nb: "no_brace (take r s)" by (auto simp: no_brace_def in_set_conv_nth)
    from parse_expansion_sound [OF t nb] have tok: "token_ok off t" "\<not> is_literal t"
      and un: "unlex t = ''${'' @ take r s @ ''}''" by auto
    have can: "canonical (off + r + 3) ts'" "unlex_all ts' = drop (r + 1) s"
      using "3.IH"(2) [OF _ _ r ts'(1)] var by (cases "drop (r + 1) s"; simp)+
    have len: "off + length (unlex t) = off + r + 3" using un rl by simp
    have "canonical (off - length cur) (lit cur @ t # ts')"
      by (rule canonical_lit_token) (use "3.prems"(2,3) var can tok in \<open>simp_all add: len\<close>)
    moreover have "unlex_all (lit cur @ t # ts') = cur @ c # d # s"
      using can un var rl id_take_nth_drop [OF rl(1)] by (auto simp: unlex_all_def lit_def)
    ultimately show ?thesis using ts' by simp
  next
    case plain
    then have "scan w (off + 1) (cur @ [c]) (d # s) = Ok ts" using "3.prems"(1) by (auto split: if_splits)
    moreover have "quiet ((cur @ [c]) @ take 1 (d # s))"
      using "3.prems"(2) plain quiet_snoc [of "cur @ [c]" d] by auto
    ultimately have "canonical (off + 1 - length (cur @ [c])) ts \<and> unlex_all ts = (cur @ [c]) @ d # s"
      using "3.IH"(3) "3.prems"(3) plain by auto
    then show ?thesis by simp
  qed
qed

theorem lex_iff: "lex s = Ok ts \<longleftrightarrow> canonical 0 ts \<and> unlex_all ts = s"
proof
  assume "lex s = Ok ts"
  then have "scan s 0 [] s = Ok ts" by (simp add: lex_scan)
  moreover have "quiet (take 1 s)" by (cases s) auto
  ultimately show "canonical 0 ts \<and> unlex_all ts = s" using scan_sound [of s 0 "[]" s ts] by simp
next
  assume "canonical 0 ts \<and> unlex_all ts = s"
  then show "lex s = Ok ts" using scan_complete [of 0 ts "[]" s] by (simp add: lex_scan lit_def)
qed

section \<open>Where and why lexing fails\<close>

lemma scan_error:
  "scan w off cur s = Err (p, m) \<Longrightarrow> quiet (cur @ take 1 s) \<Longrightarrow> length cur \<le> off \<Longrightarrow>
     \<exists>ts rest. canonical (off - length cur) (ts @ [Escape]) \<and> cur @ s = unlex_all ts @ ''${'' @ rest \<and>
       p = off - length cur + length (unlex_all ts) \<and>
       (case position (\<lambda>b. b = CHR ''}'') rest of
          None \<Rightarrow> m = unterminated_msg w p
        | Some r \<Rightarrow> parse_expansion (take r rest) p = Err m)"
proof (induction w off cur s rule: scan.induct)
  case (3 w off cur c d s)
  let ?P = "\<lambda>off cur s ts rest. canonical (off - length cur) (ts @ [Escape]) \<and>
      cur @ s = unlex_all ts @ ''${'' @ rest \<and> p = off - length cur + length (unlex_all ts) \<and>
      (case position (\<lambda>b. b = CHR ''}'') rest of None \<Rightarrow> m = unterminated_msg w p
       | Some r \<Rightarrow> parse_expansion (take r rest) p = Err m)"
  have later: "\<exists>ts rest. ?P off cur (c # d # s) ts rest"
    if dollar: "c = CHR ''$''" and t: "token_ok off t" "\<not> is_literal t"
      and s: "c # d # s = unlex t @ s'" and P: "?P (off + length (unlex t)) [] s' ts rest" for t s' ts rest
  proof -
    have "canonical (off - length cur) (lit cur @ t # ts @ [Escape])"
      by (rule canonical_lit_token) (use "3.prems"(2,3) dollar t P in auto)
    moreover have "unlex_all (lit cur @ t # ts) = cur @ unlex t @ unlex_all ts"
      by (simp add: unlex_all_def lit_def)
    ultimately show ?thesis
      using P s "3.prems"(3) by (intro exI [of _ "lit cur @ t # ts"] exI [of _ rest]) simp
  qed
  have here: "\<exists>ts rest. ?P off cur (c # d # s) ts rest"
    if "c = CHR ''$''" "d = CHR ''{''" "p = off" "case position (\<lambda>b. b = CHR ''}'') s of
      None \<Rightarrow> m = unterminated_msg w p | Some r \<Rightarrow> parse_expansion (take r s) p = Err m"
  proof -
    have "canonical (off - length cur) (lit cur @ [Escape])"
      using "3.prems"(2,3) that(1) by (auto simp: lit_def quiet_snoc is_literal_def)
    with that "3.prems"(3) show ?thesis
      by (intro exI [of _ "lit cur"] exI [of _ s]) (simp add: unlex_all_def lit_def)
  qed
  consider (esc) "c = CHR ''$''" "d = CHR ''$''" | (var) "c = CHR ''$''" "d = CHR ''{''"
    | (plain) "\<not> (c = CHR ''$'' \<and> (d = CHR ''$'' \<or> d = CHR ''{''))" by blast
  then show ?case
  proof cases
    case esc
    with "3.prems"(1) have "scan w (off + 2) [] s = Err (p, m)" by (auto simp: res_simps)
    with "3.IH"(1) esc obtain ts rest where "?P (off + 2) [] s ts rest" by (cases s) fastforce+
    with later [of Escape s ts rest] esc show ?thesis by (simp add: is_literal_def)
  next
    case var
    show ?thesis
    proof (cases "position (\<lambda>b. b = CHR ''}'') s")
      case None
      with var "3.prems"(1) show ?thesis by (intro here) auto
    next
      case (Some r)
      then have rl: "r < length s" "s ! r = CHR ''}''" "\<forall>j<r. s ! j \<noteq> CHR ''}''"
        by (auto simp: position_Some)
      then have nb: "no_brace (take r s)" by (auto simp: no_brace_def in_set_conv_nth)
      show ?thesis
      proof (cases "parse_expansion (take r s) off")
        case (Inl e)
        with var Some "3.prems"(1) show ?thesis by (intro here) auto
      next
        case (Inr t)
        from parse_expansion_sound [OF Inr nb] have tok: "token_ok off t" "\<not> is_literal t"
          and un: "unlex t = ''${'' @ take r s @ ''}''" by auto
        have len: "length (unlex t) = r + 3" using un rl by simp
        from var Some Inr "3.prems"(1) have "scan w (off + r + 3) [] (drop (r + 1) s) = Err (p, m)"
          by (simp add: res_simps)
        moreover have "quiet ([] @ take 1 (drop (r + 1) s))" by (cases "drop (r + 1) s") simp_all
        ultimately obtain ts rest where "?P (off + r + 3) [] (drop (r + 1) s) ts rest"
          using "3.IH"(2) [OF _ _ Some] var by auto
        moreover have "c # d # s = unlex t @ drop (r + 1) s"
          using un var rl id_take_nth_drop [OF rl(1)] by simp
        ultimately show ?thesis
          using later [of t "drop (r + 1) s" ts rest] var tok len by (simp add: add.assoc)
      qed
    qed
  next
    case plain
    then have "scan w (off + 1) (cur @ [c]) (d # s) = Err (p, m)" using "3.prems"(1) by (auto split: if_splits)
    moreover have "quiet ((cur @ [c]) @ take 1 (d # s))"
      using "3.prems"(2) plain quiet_snoc [of "cur @ [c]" d] by auto
    ultimately obtain ts rest where "?P (off + 1) (cur @ [c]) (d # s) ts rest"
      using "3.IH"(3) "3.prems"(3) plain by auto
    then show ?thesis by (intro exI [of _ ts] exI [of _ rest]) simp
  qed
qed simp_all

lemma lex_error:
  "lex s = Err (p, m) \<Longrightarrow>
     \<exists>ts rest. canonical 0 (ts @ [Escape]) \<and> s = unlex_all ts @ ''${'' @ rest \<and> p = length (unlex_all ts) \<and>
       (case position (\<lambda>b. b = CHR ''}'') rest of
          None \<Rightarrow> m = unterminated_msg s p
        | Some r \<Rightarrow> parse_expansion (take r rest) p = Err m)"
proof -
  assume "lex s = Err (p, m)"
  moreover have "quiet ([] @ take 1 s)" by (cases s) auto
  ultimately show ?thesis using scan_error [of s 0 "[]" s p m] by (simp add: lex_scan)
qed

text \<open>Text without \<open>$$\<close> and \<open>${\<close> is one literal.\<close>

lemma lex_quiet: "quiet s \<Longrightarrow> lex s = Ok (lit s)"
  using lex_iff [of s "lit s"] by (simp add: lit_def unlex_all_def is_literal_def)

end
