(* ===== verification/Expander.thy ===== *)
theory Expander
  imports Lexer Env_Map
begin

text \<open>
  \<open>expand\<close> of crate \<open>selur-compose-interp\<close> (\<open>expander.rs\<close>): the loop over the tokens with its
  two shortcuts, and its meaning as a fold of one-token meanings.
\<close>

section \<open>The loop over the tokens\<close>

text \<open>The default of \<open>:-\<close> also applies to an empty value.\<close>

definition use_default :: "string option \<Rightarrow> bool \<Rightarrow> bool" where
  "use_default resolved colon =
     (case resolved of None \<Rightarrow> True | Some v \<Rightarrow> colon \<and> v = [])"

text \<open>The body of the loop: what one token pushes on \<open>out\<close>, or the error it returns.\<close>

fun expand_token :: "string \<Rightarrow> env_map \<Rightarrow> token \<Rightarrow> interp_error + string" where
  "expand_token input env (Literal s) = Ok s"
| "expand_token input env Escape = Ok ''$''"
| "expand_token input env (VarPlain name offset) =
     (case env_get env name of Some val \<Rightarrow> Ok val | None \<Rightarrow> Err (Undefined name input))"
| "expand_token input env (VarDefault name dflt colon offset) =
     (let resolved = env_get env name in
      if use_default resolved colon then Ok dflt else Ok (the resolved))"
| "expand_token input env (VarRequired name msg colon offset) =
     (case env_get env name of
        Some v \<Rightarrow>
          if \<not> (colon \<and> v = []) then Ok v
          else Err (MissingRequired name msg (offset, offset + length name + 3))
      | None \<Rightarrow> Err (MissingRequired name msg (offset, offset + length name + 3)))"

fun expand_loop :: "string \<Rightarrow> env_map \<Rightarrow> token list \<Rightarrow> string \<Rightarrow> interp_error + string" where
  "expand_loop input env [] out = Ok out"
| "expand_loop input env (t # ts) out =
     bind_res (expand_token input env t) (\<lambda>s. expand_loop input env ts (out @ s))"

definition expand :: "string \<Rightarrow> env_map \<Rightarrow> interp_error + string" where
  "expand input env =
     bind_res (map_err (\<lambda>(pos, msg). Unterminated input pos) (lex input)) (\<lambda>tokens.
       case tokens of
         [] \<Rightarrow> Ok []
       | [Literal s] \<Rightarrow> Ok s
       | _ \<Rightarrow> expand_loop input env tokens [])"

section \<open>The meaning of a template\<close>

lemma expand_loop_collect:
  "expand_loop input env ts out =
     map_res (\<lambda>ss. out @ concat ss) (collect_res (expand_token input env) ts)"
proof (induction ts arbitrary: out)
  case (Cons t ts)
  then show ?case
    by (cases "expand_token input env t"; cases "collect_res (expand_token input env) ts") simp_all
qed simp

text \<open>The shortcuts do not change the result.\<close>

lemma expand_tokens:
  "expand input env =
     (case lex input of
        Err (pos, _) \<Rightarrow> Err (Unterminated input pos)
      | Ok ts \<Rightarrow> map_res concat (collect_res (expand_token input env) ts))"
proof (cases "lex input")
  case (Inl e)
  then show ?thesis by (cases e) (simp add: expand_def)
next
  case (Inr ts)
  then show ?thesis
    by (auto simp: expand_def expand_loop_collect split: list.split token.split)
qed

text \<open>The canonical token list is the only one that matters.\<close>

lemma expand_canonical:
  "canonical 0 ts \<Longrightarrow>
     expand (unlex_all ts) env = map_res concat (collect_res (expand_token (unlex_all ts) env) ts)"
proof -
  assume "canonical 0 ts"
  then have "lex (unlex_all ts) = Ok ts" by (simp add: lex_iff)
  then show ?thesis by (simp add: expand_tokens)
qed

lemma expand_Ok:
  "expand s env = Ok out \<longleftrightarrow>
     (\<exists>ts outs. canonical 0 ts \<and> unlex_all ts = s \<and>
        list_all2 (\<lambda>t o'. expand_token s env t = Ok o') ts outs \<and> out = concat outs)"
proof -
  have "(\<exists>ts outs. canonical 0 ts \<and> unlex_all ts = s \<and>
        list_all2 (\<lambda>t o'. expand_token s env t = Ok o') ts outs \<and> out = concat outs) \<longleftrightarrow>
      (\<exists>ts outs. lex s = Ok ts \<and>
        list_all2 (\<lambda>t o'. expand_token s env t = Ok o') ts outs \<and> out = concat outs)"
    unfolding lex_iff conj_assoc ..
  also have "\<dots> \<longleftrightarrow> expand s env = Ok out"
    by (cases "lex s") (auto simp: expand_tokens res_simps)
  finally show ?thesis ..
qed

text \<open>The variables a token, and a template, mention.\<close>

fun token_var :: "token \<Rightarrow> string option" where
  "token_var (VarPlain name _) = Some name"
| "token_var (VarDefault name _ _ _) = Some name"
| "token_var (VarRequired name _ _ _) = Some name"
| "token_var _ = None"

definition template_vars :: "string \<Rightarrow> string set" where
  "template_vars s = (case lex s of Err _ \<Rightarrow> {} | Ok ts \<Rightarrow> {x. Some x \<in> token_var ` set ts})"

lemma expand_token_cong:
  "(\<And>x. token_var t = Some x \<Longrightarrow> env_get e1 x = env_get e2 x) \<Longrightarrow>
     expand_token input e1 t = expand_token input e2 t"
  by (cases t) auto

lemma expand_only_vars:
  assumes "\<And>x. x \<in> template_vars s \<Longrightarrow> env_get e1 x = env_get e2 x"
  shows "expand s e1 = expand s e2"
proof (cases "lex s")
  case (Inl e)
  then show ?thesis by (cases e) (simp add: expand_tokens)
next
  case (Inr ts)
  have "expand_token s e1 t = expand_token s e2 t" if "t \<in> set ts" for t
  proof (rule expand_token_cong)
    fix x
    assume "token_var t = Some x"
    then have "x \<in> template_vars s" using that Inr by (force simp: template_vars_def image_iff)
    then show "env_get e1 x = env_get e2 x" by (rule assms)
  qed
  then have "collect_res (expand_token s e1) ts = collect_res (expand_token s e2) ts"
    by (intro collect_res_cong) simp_all
  with Inr show ?thesis by (simp add: expand_tokens)
qed

text \<open>Text without an escape or an expansion is returned unchanged, in every environment.\<close>

lemma expand_quiet: "quiet s \<Longrightarrow> expand s env = Ok s"
  by (simp add: expand_tokens lex_quiet lit_def)

text \<open>Doubling the dollars of a text protects it: expansion gives the text back.\<close>

definition escape_dollars :: "string \<Rightarrow> string" where
  "escape_dollars s = concat (map (\<lambda>c. if c = CHR ''$'' then ''$$'' else [c]) s)"

lemma quiet_no_dollar: "CHR ''$'' \<notin> set s \<Longrightarrow> quiet s"
  by (induction s rule: quiet.induct) auto

fun escape_tokens :: "string \<Rightarrow> string \<Rightarrow> token list" where
  "escape_tokens cur [] = lit cur"
| "escape_tokens cur (c # s) =
     (if c = CHR ''$'' then lit cur @ Escape # escape_tokens [] s else escape_tokens (cur @ [c]) s)"

lemma escape_tokens_canonical:
  "CHR ''$'' \<notin> set cur \<Longrightarrow> canonical off (escape_tokens cur s) \<and>
     unlex_all (escape_tokens cur s) = cur @ escape_dollars s \<and>
     map_res concat (collect_res (expand_token input env) (escape_tokens cur s)) = Ok (cur @ s)"
proof (induction s arbitrary: cur off)
  case Nil
  then show ?case by (simp add: lit_def unlex_all_def escape_dollars_def quiet_no_dollar)
next
  case (Cons c s)
  show ?case
  proof (cases "c = CHR ''$''")
    case True
    have IH: "canonical (off + length cur + 2) (escape_tokens [] s)" "unlex_all (escape_tokens [] s) = escape_dollars s"
      "map_res concat (collect_res (expand_token input env) (escape_tokens [] s)) = Ok s"
      using Cons.IH [of "[]"] by simp_all
    then obtain outs where "collect_res (expand_token input env) (escape_tokens [] s) = Ok outs" "concat outs = s"
      by (cases "collect_res (expand_token input env) (escape_tokens [] s)") auto
    moreover have "cur \<noteq> [] \<Longrightarrow> last cur \<noteq> CHR ''$''" using Cons.prems last_in_set by metis
    ultimately show ?thesis using IH True Cons.prems
      by (auto simp: lit_def unlex_all_def escape_dollars_def quiet_no_dollar is_literal_def)
  next
    case False
    with Cons.prems Cons.IH [of "cur @ [c]" off] show ?thesis by (simp add: escape_dollars_def)
  qed
qed

lemma expand_escape: "expand (escape_dollars s) env = Ok s"
proof -
  have "canonical 0 (escape_tokens [] s)" "unlex_all (escape_tokens [] s) = escape_dollars s"
    using escape_tokens_canonical [of "[]" 0 s] by simp_all
  with expand_canonical [of "escape_tokens [] s" env] escape_tokens_canonical [of "[]" 0 s "escape_dollars s" env]
  show ?thesis by simp
qed

end
