(* ===== verification/Visit.thy ===== *)
theory Visit
  imports Expander
begin

text \<open>
  The visitor of crate \<open>selur-compose-interp\<close> (\<open>visit.rs\<close>): one function per type, in the order
  in which the code evaluates the fields, and for every type the list of the strings it
  interpolates (\<open>\<dots>_strings\<close>).  The locale \<open>traversal\<close> states the contract all visitors share: a
  visitor is the traversal of its strings.
\<close>

section \<open>Collecting into a BTreeMap\<close>

definition collect_btree ::
    "('v \<Rightarrow> 'e + 'w) \<Rightarrow> ('k::linorder, 'v) btree_map \<Rightarrow> 'e + ('k, 'w) btree_map" where
  "collect_btree f m =
     map_res bt_from_iter (collect_res (\<lambda>(k, v). bind_res (f v) (\<lambda>v'. Ok (k, v'))) m)"

section \<open>The visitors\<close>

definition visit_project :: "project \<Rightarrow> env_map \<Rightarrow> interp_error + project" where
  "visit_project p env = bind_res (expand (prj_name p) env) (\<lambda>n. Ok \<lparr>prj_name = n\<rparr>)"

definition expand_opt :: "string option \<Rightarrow> env_map \<Rightarrow> interp_error + string option" where
  "expand_opt o' env = transpose_res (\<lambda>s. expand s env) o'"

definition expand_list :: "string list \<Rightarrow> env_map \<Rightarrow> interp_error + string list" where
  "expand_list xs env = collect_res (\<lambda>s. expand s env) xs"

definition expand_map :: "string str_map \<Rightarrow> env_map \<Rightarrow> interp_error + string str_map" where
  "expand_map m env = collect_btree (\<lambda>v. expand v env) m"

definition visit_build :: "build \<Rightarrow> env_map \<Rightarrow> interp_error + build" where
  "visit_build b env =
     bind_res (expand_map (build_args b) env) (\<lambda>args.
     bind_res (expand_opt (build_target b) env) (\<lambda>target.
     bind_res (expand_map (build_labels b) env) (\<lambda>labels.
     Ok \<lparr>build_context = build_context b, build_dockerfile = build_dockerfile b,
         build_args = args, build_target = target, build_labels = labels,
         build_no_cache = build_no_cache b\<rparr>)))"

definition visit_string_or_list :: "string_or_list \<Rightarrow> env_map \<Rightarrow> interp_error + string_or_list" where
  "visit_string_or_list sol env =
     (case sol of
        StringOrList_String s \<Rightarrow> map_res StringOrList_String (expand s env)
      | StringOrList_List items \<Rightarrow> map_res StringOrList_List (expand_list items env))"

definition visit_env_map :: "service_env \<Rightarrow> env_map \<Rightarrow> interp_error + service_env" where
  "visit_env_map em env =
     (case em of
        EnvMap_Empty \<Rightarrow> Ok EnvMap_Empty
      | EnvMap_List items \<Rightarrow> map_res EnvMap_List (expand_list items env)
      | EnvMap_Map m \<Rightarrow> map_res EnvMap_Map (collect_btree (\<lambda>v. expand_opt v env) m))"

definition visit_mount :: "mount_spec \<Rightarrow> env_map \<Rightarrow> interp_error + mount_spec" where
  "visit_mount m env =
     (case m of
        MountSpec_Short s \<Rightarrow> map_res MountSpec_Short (expand s env)
      | MountSpec_Long l \<Rightarrow> Ok (MountSpec_Long l))"

definition visit_network_mode :: "network_mode \<Rightarrow> env_map \<Rightarrow> interp_error + network_mode" where
  "visit_network_mode nm env =
     (case nm of
        NetworkMode_Custom s \<Rightarrow> map_res NetworkMode_Custom (expand s env)
      | NetworkMode_Container s \<Rightarrow> map_res NetworkMode_Container (expand s env)
      | other \<Rightarrow> Ok other)"

definition visit_depends_on :: "depends_on \<Rightarrow> env_map \<Rightarrow> interp_error + depends_on" where
  "visit_depends_on d env = Ok d"

definition visit_healthcheck_test :: "healthcheck_test \<Rightarrow> env_map \<Rightarrow> interp_error + healthcheck_test" where
  "visit_healthcheck_test t env =
     (case t of
        HealthcheckTest_Shell s \<Rightarrow> map_res HealthcheckTest_Shell (expand s env)
      | HealthcheckTest_Exec items \<Rightarrow> map_res HealthcheckTest_Exec (expand_list items env))"

definition visit_healthcheck :: "healthcheck \<Rightarrow> env_map \<Rightarrow> interp_error + healthcheck" where
  "visit_healthcheck h env =
     bind_res (visit_healthcheck_test (hc_test h) env) (\<lambda>test.
     Ok \<lparr>hc_test = test, hc_interval = hc_interval h, hc_timeout = hc_timeout h,
         hc_retries = hc_retries h, hc_start_period = hc_start_period h, hc_disable = hc_disable h\<rparr>)"

definition visit_secret_ref :: "secret_ref \<Rightarrow> env_map \<Rightarrow> interp_error + secret_ref" where
  "visit_secret_ref sr env =
     (case sr of
        SecretRef_Name n \<Rightarrow> map_res SecretRef_Name (expand n env)
      | SecretRef_Long l \<Rightarrow>
          bind_res (expand (sref_source l) env) (\<lambda>source.
          bind_res (expand_opt (sref_uid l) env) (\<lambda>uid.
          bind_res (expand_opt (sref_gid l) env) (\<lambda>gid.
          Ok (SecretRef_Long \<lparr>sref_source = source, sref_target = sref_target l,
            sref_uid = uid, sref_gid = gid, sref_mode = sref_mode l\<rparr>)))))"

definition visit_config_ref :: "config_ref \<Rightarrow> env_map \<Rightarrow> interp_error + config_ref" where
  "visit_config_ref cr env =
     (case cr of
        ConfigRef_Name n \<Rightarrow> map_res ConfigRef_Name (expand n env)
      | ConfigRef_Long l \<Rightarrow>
          bind_res (expand (cref_source l) env) (\<lambda>source.
          bind_res (expand_opt (cref_uid l) env) (\<lambda>uid.
          bind_res (expand_opt (cref_gid l) env) (\<lambda>gid.
          Ok (ConfigRef_Long \<lparr>cref_source = source, cref_target = cref_target l,
            cref_uid = uid, cref_gid = gid, cref_mode = cref_mode l\<rparr>)))))"

definition visit_service :: "service \<Rightarrow> env_map \<Rightarrow> interp_error + service" where
  "visit_service svc env =
     bind_res (expand_opt (svc_image svc) env) (\<lambda>image.
     bind_res (transpose_res (\<lambda>b. visit_build b env) (svc_build svc)) (\<lambda>build.
     bind_res (transpose_res (\<lambda>c. visit_string_or_list c env) (svc_command svc)) (\<lambda>command.
     bind_res (transpose_res (\<lambda>e. visit_string_or_list e env) (svc_entrypoint svc)) (\<lambda>entrypoint.
     bind_res (visit_env_map (svc_environment svc) env) (\<lambda>environment.
     bind_res (collect_res (\<lambda>m. visit_mount m env) (svc_volumes svc)) (\<lambda>volumes.
     bind_res (expand_list (svc_networks svc) env) (\<lambda>networks.
     bind_res (transpose_res (\<lambda>nm. visit_network_mode nm env) (svc_network_mode svc)) (\<lambda>network_mode.
     bind_res (visit_depends_on (svc_depends_on svc) env) (\<lambda>depends_on.
     bind_res (transpose_res (\<lambda>h. visit_healthcheck h env) (svc_healthcheck svc)) (\<lambda>healthcheck.
     bind_res (expand_list (svc_profiles svc) env) (\<lambda>profiles.
     bind_res (collect_res (\<lambda>s. visit_secret_ref s env) (svc_secrets svc)) (\<lambda>secrets.
     bind_res (collect_res (\<lambda>c. visit_config_ref c env) (svc_configs svc)) (\<lambda>configs.
     bind_res (expand_opt (svc_user svc) env) (\<lambda>user.
     bind_res (expand_opt (svc_working_dir svc) env) (\<lambda>working_dir.
     bind_res (expand_opt (svc_hostname svc) env) (\<lambda>hostname.
     bind_res (expand_list (svc_cap_add svc) env) (\<lambda>cap_add.
     bind_res (expand_list (svc_cap_drop svc) env) (\<lambda>cap_drop.
     bind_res (expand_opt (svc_stop_signal svc) env) (\<lambda>stop_signal.
     Ok \<lparr>svc_image = image, svc_build = build, svc_command = command, svc_entrypoint = entrypoint,
         svc_environment = environment, svc_env_file = svc_env_file svc, svc_ports = svc_ports svc,
         svc_volumes = volumes, svc_networks = networks, svc_network_mode = network_mode,
         svc_depends_on = depends_on, svc_healthcheck = healthcheck, svc_restart = svc_restart svc,
         svc_profiles = profiles, svc_secrets = secrets, svc_configs = configs, svc_user = user,
         svc_working_dir = working_dir, svc_hostname = hostname, svc_cap_add = cap_add,
         svc_cap_drop = cap_drop, svc_init = svc_init svc, svc_stop_signal = stop_signal,
         svc_stop_grace_period = svc_stop_grace_period svc\<rparr>)))))))))))))))))))"

definition visit_network :: "network \<Rightarrow> env_map \<Rightarrow> interp_error + network" where
  "visit_network n env =
     bind_res (expand_opt (net_driver n) env) (\<lambda>driver.
     bind_res (expand_map (net_driver_opts n) env) (\<lambda>driver_opts.
     bind_res (expand_opt (net_name n) env) (\<lambda>name.
     bind_res (expand_map (net_labels n) env) (\<lambda>labels.
     Ok \<lparr>net_driver = driver, net_driver_opts = driver_opts, net_external = net_external n,
         net_name = name, net_ipam = net_ipam n, net_labels = labels,
         net_internal = net_internal n\<rparr>))))"

definition visit_volume :: "volume \<Rightarrow> env_map \<Rightarrow> interp_error + volume" where
  "visit_volume v env =
     bind_res (expand_opt (vol_driver v) env) (\<lambda>driver.
     bind_res (expand_map (vol_driver_opts v) env) (\<lambda>driver_opts.
     bind_res (expand_opt (vol_name v) env) (\<lambda>name.
     bind_res (expand_map (vol_labels v) env) (\<lambda>labels.
     Ok \<lparr>vol_driver = driver, vol_driver_opts = driver_opts, vol_external = vol_external v,
         vol_name = name, vol_labels = labels\<rparr>))))"

definition visit_secret :: "secret \<Rightarrow> env_map \<Rightarrow> interp_error + secret" where
  "visit_secret s env =
     bind_res (expand_opt (secret_name s) env) (\<lambda>name.
     Ok \<lparr>secret_file = secret_file s, secret_external = secret_external s, secret_name = name\<rparr>)"

definition visit_config_def :: "config \<Rightarrow> env_map \<Rightarrow> interp_error + config" where
  "visit_config_def c env =
     bind_res (expand_opt (config_name c) env) (\<lambda>name.
     Ok \<lparr>config_file = config_file c, config_external = config_external c, config_name = name\<rparr>)"

definition visit_compose :: "'x compose \<Rightarrow> env_map \<Rightarrow> interp_error + 'x compose" where
  "visit_compose c env =
     bind_res (transpose_res (\<lambda>p. visit_project p env) (cmp_project c)) (\<lambda>project.
     bind_res (collect_btree (\<lambda>v. visit_service v env) (cmp_services c)) (\<lambda>services.
     bind_res (collect_btree (\<lambda>v. visit_network v env) (cmp_networks c)) (\<lambda>networks.
     bind_res (collect_btree (\<lambda>v. visit_volume v env) (cmp_volumes c)) (\<lambda>volumes.
     bind_res (collect_btree (\<lambda>v. visit_secret v env) (cmp_secrets c)) (\<lambda>secrets.
     bind_res (collect_btree (\<lambda>v. visit_config_def v env) (cmp_configs c)) (\<lambda>configs.
     Ok \<lparr>cmp_project = project, cmp_services = services, cmp_networks = networks,
         cmp_volumes = volumes, cmp_secrets = secrets, cmp_configs = configs,
         cmp_extensions = cmp_extensions c\<rparr>))))))"

section \<open>The strings of a document, in walk order\<close>

definition opt_strings :: "('a \<Rightarrow> string list) \<Rightarrow> 'a option \<Rightarrow> string list" where
  "opt_strings f o' = (case o' of None \<Rightarrow> [] | Some x \<Rightarrow> f x)"

definition list_strings :: "('a \<Rightarrow> string list) \<Rightarrow> 'a list \<Rightarrow> string list" where
  "list_strings f xs = concat (map f xs)"

definition map_strings :: "('a \<Rightarrow> string list) \<Rightarrow> (string, 'a) btree_map \<Rightarrow> string list" where
  "map_strings f m = concat (map (\<lambda>(k, v). f v) m)"

definition one_string :: "string \<Rightarrow> string list" where
  "one_string s = [s]"

definition build_strings :: "build \<Rightarrow> string list" where
  "build_strings b =
     map_strings one_string (build_args b) @ opt_strings one_string (build_target b) @
     map_strings one_string (build_labels b)"

definition sol_strings :: "string_or_list \<Rightarrow> string list" where
  "sol_strings sol = (case sol of StringOrList_String s \<Rightarrow> [s] | StringOrList_List xs \<Rightarrow> xs)"

definition service_env_strings :: "service_env \<Rightarrow> string list" where
  "service_env_strings em =
     (case em of EnvMap_Empty \<Rightarrow> [] | EnvMap_List xs \<Rightarrow> xs
      | EnvMap_Map m \<Rightarrow> map_strings (opt_strings one_string) m)"

definition mount_strings :: "mount_spec \<Rightarrow> string list" where
  "mount_strings m = (case m of MountSpec_Short s \<Rightarrow> [s] | MountSpec_Long _ \<Rightarrow> [])"

definition network_mode_strings :: "network_mode \<Rightarrow> string list" where
  "network_mode_strings nm =
     (case nm of NetworkMode_Custom s \<Rightarrow> [s] | NetworkMode_Container s \<Rightarrow> [s] | _ \<Rightarrow> [])"

definition healthcheck_strings :: "healthcheck \<Rightarrow> string list" where
  "healthcheck_strings h =
     (case hc_test h of HealthcheckTest_Shell s \<Rightarrow> [s] | HealthcheckTest_Exec xs \<Rightarrow> xs)"

definition secret_ref_strings :: "secret_ref \<Rightarrow> string list" where
  "secret_ref_strings sr =
     (case sr of SecretRef_Name n \<Rightarrow> [n]
      | SecretRef_Long l \<Rightarrow>
          sref_source l # opt_strings one_string (sref_uid l) @ opt_strings one_string (sref_gid l))"

definition config_ref_strings :: "config_ref \<Rightarrow> string list" where
  "config_ref_strings cr =
     (case cr of ConfigRef_Name n \<Rightarrow> [n]
      | ConfigRef_Long l \<Rightarrow>
          cref_source l # opt_strings one_string (cref_uid l) @ opt_strings one_string (cref_gid l))"

definition service_strings :: "service \<Rightarrow> string list" where
  "service_strings svc =
     opt_strings one_string (svc_image svc) @ opt_strings build_strings (svc_build svc) @
     opt_strings sol_strings (svc_command svc) @ opt_strings sol_strings (svc_entrypoint svc) @
     service_env_strings (svc_environment svc) @ list_strings mount_strings (svc_volumes svc) @
     svc_networks svc @ opt_strings network_mode_strings (svc_network_mode svc) @
     opt_strings healthcheck_strings (svc_healthcheck svc) @ svc_profiles svc @
     list_strings secret_ref_strings (svc_secrets svc) @ list_strings config_ref_strings (svc_configs svc) @
     opt_strings one_string (svc_user svc) @ opt_strings one_string (svc_working_dir svc) @
     opt_strings one_string (svc_hostname svc) @ svc_cap_add svc @ svc_cap_drop svc @
     opt_strings one_string (svc_stop_signal svc)"

definition network_strings :: "network \<Rightarrow> string list" where
  "network_strings n =
     opt_strings one_string (net_driver n) @ map_strings one_string (net_driver_opts n) @
     opt_strings one_string (net_name n) @ map_strings one_string (net_labels n)"

definition volume_strings :: "volume \<Rightarrow> string list" where
  "volume_strings v =
     opt_strings one_string (vol_driver v) @ map_strings one_string (vol_driver_opts v) @
     opt_strings one_string (vol_name v) @ map_strings one_string (vol_labels v)"

definition secret_strings :: "secret \<Rightarrow> string list" where
  "secret_strings s = opt_strings one_string (secret_name s)"

definition config_strings :: "config \<Rightarrow> string list" where
  "config_strings c = opt_strings one_string (config_name c)"

definition project_strings :: "project \<Rightarrow> string list" where
  "project_strings p = [prj_name p]"

definition compose_strings :: "'x compose \<Rightarrow> string list" where
  "compose_strings c =
     opt_strings project_strings (cmp_project c) @ map_strings service_strings (cmp_services c) @
     map_strings network_strings (cmp_networks c) @ map_strings volume_strings (cmp_volumes c) @
     map_strings secret_strings (cmp_secrets c) @ map_strings config_strings (cmp_configs c)"

text \<open>Every map of the document is a \<open>BTreeMap\<close>: its entries are in key order.\<close>

definition opt_ok :: "('a \<Rightarrow> bool) \<Rightarrow> 'a option \<Rightarrow> bool" where
  "opt_ok P o' = (case o' of None \<Rightarrow> True | Some x \<Rightarrow> P x)"

definition map_ok :: "('a \<Rightarrow> bool) \<Rightarrow> (string, 'a) btree_map \<Rightarrow> bool" where
  "map_ok P m = (bt_ok m \<and> list_all (\<lambda>(k, v). P v) m)"

definition build_ok :: "build \<Rightarrow> bool" where
  "build_ok b = (bt_ok (build_args b) \<and> bt_ok (build_labels b))"

definition service_env_ok :: "service_env \<Rightarrow> bool" where
  "service_env_ok em = (case em of EnvMap_Map m \<Rightarrow> bt_ok m | _ \<Rightarrow> True)"

definition service_ok :: "service \<Rightarrow> bool" where
  "service_ok svc = (opt_ok build_ok (svc_build svc) \<and> service_env_ok (svc_environment svc))"

definition network_ok :: "network \<Rightarrow> bool" where
  "network_ok n = (bt_ok (net_driver_opts n) \<and> bt_ok (net_labels n))"

definition volume_ok :: "volume \<Rightarrow> bool" where
  "volume_ok v = (bt_ok (vol_driver_opts v) \<and> bt_ok (vol_labels v))"

definition compose_ok :: "'x compose \<Rightarrow> bool" where
  "compose_ok c =
     (map_ok service_ok (cmp_services c) \<and> map_ok network_ok (cmp_networks c) \<and>
      map_ok volume_ok (cmp_volumes c) \<and> bt_ok (cmp_secrets c) \<and> bt_ok (cmp_configs c))"

section \<open>The contract of a visitor\<close>

lemma collect_res_append [simp]:
  "collect_res f (xs @ ys) =
     bind_res (collect_res f xs) (\<lambda>a. bind_res (collect_res f ys) (\<lambda>b. Ok (a @ b)))"
  by (induction xs) (auto simp: bind_res_def split: sum.splits)

lemma bind_res_assoc [simp]: "bind_res (bind_res r f) g = bind_res r (\<lambda>x. bind_res (f x) g)"
  by (cases r) auto

lemma map_bind_res [simp]: "map_res f (bind_res r g) = bind_res r (\<lambda>x. map_res f (g x))"
  by (cases r) auto

lemma bind_res_unit [simp]: "bind_res r Ok = r"
  by (cases r) auto

lemma map_res_bind: "map_res f r = bind_res r (\<lambda>x. Ok (f x))"
  by (cases r) auto

lemma collect_pairs_Ok:
  "collect_res (\<lambda>(k, v). bind_res (f v) (\<lambda>v'. Ok (k, v'))) m = Ok m' \<longleftrightarrow>
     list_all2 (\<lambda>(k, v) (k', v'). k' = k \<and> f v = Ok v') m m'"
proof -
  have "(\<lambda>x y. (case x of (k, v) \<Rightarrow> bind_res (f v) (\<lambda>v'. Ok (k, v'))) = Ok y) =
      (\<lambda>(k, v) (k', v'). k' = k \<and> f v = Ok v')"
    by (auto simp: fun_eq_iff bind_res_Ok)
  then show ?thesis
    unfolding collect_res_Ok by (rule arg_cong [where f = "\<lambda>P. list_all2 P m m'"])
qed

lemma list_all2_keys:
  "list_all2 (\<lambda>(k, v) (k', v'). k' = k \<and> P v v') m m' \<Longrightarrow> bt_keys m' = bt_keys m"
  by (induction rule: list_all2_induct) (auto simp: bt_keys_def)

lemma collect_btree_keys:
  assumes "bt_ok m"
  shows "collect_btree f m = collect_res (\<lambda>(k, v). bind_res (f v) (\<lambda>v'. Ok (k, v'))) m"
proof (cases "collect_res (\<lambda>(k, v). bind_res (f v) (\<lambda>v'. Ok (k, v'))) m")
  case (Inr m')
  then have "bt_keys m' = bt_keys m" unfolding collect_pairs_Ok by (rule list_all2_keys)
  with assms have "bt_ok m'" by (simp add: bt_ok_def)
  with Inr show ?thesis by (simp add: collect_btree_def bt_from_iter_id)
qed (simp add: collect_btree_def)

lemma collect_btree_Ok:
  "bt_ok m \<Longrightarrow> collect_btree f m = Ok m' \<longleftrightarrow>
     list_all2 (\<lambda>(k, v) (k', v'). k' = k \<and> f v = Ok v') m m'"
  by (simp only: collect_btree_keys collect_pairs_Ok)

text \<open>
  A visitor is a traversal: it interpolates the strings of its argument in order, fails with the
  first failing one, changes nothing else when they are fixed points, and keeps the argument's
  maps ordered.
\<close>

locale traversal =
  fixes ok :: "'a \<Rightarrow> bool"
    and visit :: "'a \<Rightarrow> env_map \<Rightarrow> interp_error + 'a"
    and strings :: "'a \<Rightarrow> string list"
  assumes run: "ok x \<Longrightarrow> collect_res (\<lambda>s. expand s env) (strings x) = map_res strings (visit x env)"
    and fixed: "ok x \<Longrightarrow> (\<forall>s\<in>set (strings x). expand s env = Ok s) \<Longrightarrow> visit x env = Ok x"
begin

lemma visit_fails: "ok x \<Longrightarrow> visit x env = Err e \<longleftrightarrow> collect_res (\<lambda>s. expand s env) (strings x) = Err e"
  using run [of x env] by (simp add: map_res_Err)

lemma visit_strings:
  "ok x \<Longrightarrow> visit x env = Ok y \<Longrightarrow> list_all2 (\<lambda>s t. expand s env = Ok t) (strings x) (strings y)"
  using run [of x env] by (simp add: collect_res_Ok)

lemma visit_plain: "ok x \<Longrightarrow> (\<forall>s\<in>set (strings x). quiet s) \<Longrightarrow> visit x env = Ok x"
  by (rule fixed) (auto simp: expand_quiet)

lemma run_opt:
  "opt_ok ok o' \<Longrightarrow>
     collect_res (\<lambda>s. expand s env) (opt_strings strings o') =
     map_res (opt_strings strings) (transpose_res (\<lambda>x. visit x env) o')"
  by (cases o') (simp_all add: opt_ok_def opt_strings_def run)

lemma fixed_opt:
  "opt_ok ok o' \<Longrightarrow> (\<forall>s\<in>set (opt_strings strings o'). expand s env = Ok s) \<Longrightarrow>
     transpose_res (\<lambda>x. visit x env) o' = Ok o'"
  by (cases o') (simp_all add: opt_ok_def opt_strings_def fixed)

lemma run_list:
  "list_all ok xs \<Longrightarrow>
     collect_res (\<lambda>s. expand s env) (list_strings strings xs) =
     map_res (list_strings strings) (collect_res (\<lambda>x. visit x env) xs)"
  by (induction xs) (simp_all add: list_strings_def run)

lemma fixed_list:
  "list_all ok xs \<Longrightarrow> (\<forall>s\<in>set (list_strings strings xs). expand s env = Ok s) \<Longrightarrow>
     collect_res (\<lambda>x. visit x env) xs = Ok xs"
  by (induction xs) (simp_all add: list_strings_def fixed)

lemma run_map:
  assumes "map_ok ok m"
  shows "collect_res (\<lambda>s. expand s env) (map_strings strings m) =
    map_res (map_strings strings) (collect_btree (\<lambda>x. visit x env) m)"
proof -
  have "list_all (\<lambda>(k, v). ok v) xs \<Longrightarrow>
      collect_res (\<lambda>s. expand s env) (map_strings strings xs) =
      map_res (map_strings strings) (collect_res (\<lambda>(k, v). bind_res (visit v env) (\<lambda>v'. Ok (k, v'))) xs)" for xs
    by (induction xs) (auto simp: map_strings_def run)
  with assms show ?thesis by (simp add: map_ok_def collect_btree_keys)
qed

lemma fixed_map:
  assumes "map_ok ok m" "\<forall>s\<in>set (map_strings strings m). expand s env = Ok s"
  shows "collect_btree (\<lambda>x. visit x env) m = Ok m"
proof -
  have "list_all (\<lambda>(k, v). ok v) xs \<Longrightarrow> (\<forall>s\<in>set (map_strings strings xs). expand s env = Ok s) \<Longrightarrow>
      collect_res (\<lambda>(k, v). bind_res (visit v env) (\<lambda>v'. Ok (k, v'))) xs = Ok xs" for xs
    by (induction xs) (auto simp: map_strings_def fixed)
  with assms show ?thesis by (simp add: map_ok_def collect_btree_keys)
qed

end

section \<open>Every visitor is a traversal\<close>

interpretation str: traversal "\<lambda>_. True" expand one_string
  by unfold_locales (simp_all add: one_string_def map_res_bind)

lemma opt_ok_True [simp]: "opt_ok (\<lambda>_. True) o'"
  by (simp add: opt_ok_def split: option.split)

lemma map_ok_True [simp]: "map_ok (\<lambda>_. True) m = bt_ok m"
  by (simp add: map_ok_def list_all_iff)

lemma list_all_True [simp]: "list_all (\<lambda>_. True) xs"
  by (simp add: list_all_iff)

lemma expand_opt_run: "collect_res (\<lambda>s. expand s env) (opt_strings one_string o') = map_res (opt_strings one_string) (expand_opt o' env)"
  by (simp add: expand_opt_def str.run_opt)

lemma expand_opt_fixed: "\<forall>s\<in>set (opt_strings one_string o'). expand s env = Ok s \<Longrightarrow> expand_opt o' env = Ok o'"
  by (simp add: expand_opt_def str.fixed_opt)

lemma expand_list_fixed:
  "\<forall>s\<in>set xs. expand s env = Ok s \<Longrightarrow> collect_res (\<lambda>s. expand s env) xs = Ok xs"
  using str.fixed_list [of xs env] by (simp add: list_strings_def one_string_def)

lemma expand_map_run:
  "bt_ok m \<Longrightarrow> collect_res (\<lambda>s. expand s env) (map_strings one_string m) = map_res (map_strings one_string) (expand_map m env)"
  by (simp add: expand_map_def str.run_map)

lemma expand_map_fixed:
  "bt_ok m \<Longrightarrow> \<forall>s\<in>set (map_strings one_string m). expand s env = Ok s \<Longrightarrow> expand_map m env = Ok m"
  by (simp add: expand_map_def str.fixed_map)

lemmas expand_runs = expand_opt_run expand_map_run expand_list_def
lemmas expand_fixed = expand_opt_fixed expand_map_fixed expand_list_fixed

interpretation build: traversal build_ok visit_build build_strings
  by unfold_locales
    (auto simp: build_ok_def visit_build_def build_strings_def expand_runs expand_fixed map_res_bind)

interpretation sol: traversal "\<lambda>_. True" visit_string_or_list sol_strings
  by unfold_locales
    (auto simp: visit_string_or_list_def sol_strings_def expand_runs expand_fixed map_res_bind
      split: string_or_list.split)

interpretation opt_str: traversal "\<lambda>_. True" expand_opt "opt_strings one_string"
  by unfold_locales (simp_all add: expand_runs expand_fixed)

interpretation senv: traversal service_env_ok visit_env_map service_env_strings
  by unfold_locales
    (auto simp: service_env_ok_def visit_env_map_def service_env_strings_def expand_runs expand_fixed
      opt_str.run_map opt_str.fixed_map map_res_bind split: service_env.splits)

interpretation mount: traversal "\<lambda>_. True" visit_mount mount_strings
  by unfold_locales (auto simp: visit_mount_def mount_strings_def map_res_bind split: mount_spec.splits)

interpretation netmode: traversal "\<lambda>_. True" visit_network_mode network_mode_strings
  by unfold_locales
    (auto simp: visit_network_mode_def network_mode_strings_def map_res_bind split: network_mode.splits)

interpretation hcheck: traversal "\<lambda>_. True" visit_healthcheck healthcheck_strings
  by unfold_locales
    (auto simp: visit_healthcheck_def visit_healthcheck_test_def healthcheck_strings_def expand_runs
      expand_fixed map_res_bind split: healthcheck_test.splits)

interpretation sref: traversal "\<lambda>_. True" visit_secret_ref secret_ref_strings
  by unfold_locales
    (auto simp: visit_secret_ref_def secret_ref_strings_def expand_runs expand_fixed map_res_bind
      split: secret_ref.splits)

interpretation cref: traversal "\<lambda>_. True" visit_config_ref config_ref_strings
  by unfold_locales
    (auto simp: visit_config_ref_def config_ref_strings_def expand_runs expand_fixed map_res_bind
      split: config_ref.splits)

interpretation net: traversal network_ok visit_network network_strings
  by unfold_locales
    (auto simp: network_ok_def visit_network_def network_strings_def expand_runs expand_fixed map_res_bind)

interpretation vol: traversal volume_ok visit_volume volume_strings
  by unfold_locales
    (auto simp: volume_ok_def visit_volume_def volume_strings_def expand_runs expand_fixed map_res_bind)

interpretation sec: traversal "\<lambda>_. True" visit_secret secret_strings
  by unfold_locales (auto simp: visit_secret_def secret_strings_def expand_runs expand_fixed map_res_bind)

interpretation conf: traversal "\<lambda>_. True" visit_config_def config_strings
  by unfold_locales (auto simp: visit_config_def_def config_strings_def expand_runs expand_fixed map_res_bind)

interpretation proj: traversal "\<lambda>_. True" visit_project project_strings
  by unfold_locales (auto simp: visit_project_def project_strings_def map_res_bind)

lemmas part_runs = expand_runs build.run_opt sol.run_opt senv.run mount.run_list netmode.run_opt
  hcheck.run_opt sref.run_list cref.run_list
lemmas part_fixed = expand_fixed build.fixed_opt sol.fixed_opt senv.fixed mount.fixed_list
  netmode.fixed_opt hcheck.fixed_opt sref.fixed_list cref.fixed_list

interpretation svc: traversal service_ok visit_service service_strings
proof unfold_locales
  fix x env
  assume ok: "service_ok x"
  then show "collect_res (\<lambda>s. expand s env) (service_strings x) = map_res service_strings (visit_service x env)"
    by (simp add: service_ok_def service_strings_def visit_service_def visit_depends_on_def part_runs map_res_bind)
  assume "\<forall>s\<in>set (service_strings x). expand s env = Ok s"
  with ok show "visit_service x env = Ok x"
    by (simp add: service_ok_def service_strings_def visit_service_def visit_depends_on_def part_fixed
        expand_list_def)
qed

interpretation comp: traversal compose_ok visit_compose compose_strings
  by unfold_locales
    (auto simp: compose_ok_def compose_strings_def visit_compose_def proj.run_opt svc.run_map net.run_map
      vol.run_map sec.run_map conf.run_map proj.fixed_opt svc.fixed_map net.fixed_map vol.fixed_map
      sec.fixed_map conf.fixed_map map_res_bind)

section \<open>What interpolation leaves alone\<close>

definition service_untouched :: "service \<Rightarrow> service \<Rightarrow> bool" where
  "service_untouched svc svc' \<longleftrightarrow>
     svc_depends_on svc' = svc_depends_on svc \<and> svc_ports svc' = svc_ports svc \<and>
     svc_env_file svc' = svc_env_file svc \<and> svc_restart svc' = svc_restart svc \<and>
     svc_init svc' = svc_init svc \<and> svc_stop_grace_period svc' = svc_stop_grace_period svc \<and>
     (svc_image svc' = None \<longleftrightarrow> svc_image svc = None) \<and> (svc_build svc' = None \<longleftrightarrow> svc_build svc = None) \<and>
     map_option build_context (svc_build svc') = map_option build_context (svc_build svc) \<and>
     map_option build_dockerfile (svc_build svc') = map_option build_dockerfile (svc_build svc) \<and>
     map_option hc_disable (svc_healthcheck svc') = map_option hc_disable (svc_healthcheck svc) \<and>
     length (svc_volumes svc') = length (svc_volumes svc) \<and>
     (\<forall>i<length (svc_volumes svc). \<forall>l. svc_volumes svc ! i = MountSpec_Long l \<longrightarrow> svc_volumes svc' ! i = MountSpec_Long l)"

lemma expand_opt_None: "expand_opt o' env = Ok r \<Longrightarrow> r = None \<longleftrightarrow> o' = None"
  by (cases o') (auto simp: expand_opt_def res_simps)

lemma visit_build_paths:
  "visit_build b env = Ok b' \<Longrightarrow> build_context b' = build_context b \<and> build_dockerfile b' = build_dockerfile b"
  by (auto simp: visit_build_def res_simps)

lemma visit_service_untouched: "visit_service svc env = Ok svc' \<Longrightarrow> service_untouched svc svc'"
proof -
  assume "visit_service svc env = Ok svc'"
  then obtain image build volumes hc where
    parts: "expand_opt (svc_image svc) env = Ok image" "transpose_res (\<lambda>b. visit_build b env) (svc_build svc) = Ok build"
      "collect_res (\<lambda>m. visit_mount m env) (svc_volumes svc) = Ok volumes"
      "transpose_res (\<lambda>h. visit_healthcheck h env) (svc_healthcheck svc) = Ok hc"
    and new: "svc_image svc' = image" "svc_build svc' = build" "svc_volumes svc' = volumes"
      "svc_healthcheck svc' = hc" "svc_depends_on svc' = svc_depends_on svc" "svc_ports svc' = svc_ports svc"
      "svc_env_file svc' = svc_env_file svc" "svc_restart svc' = svc_restart svc"
      "svc_init svc' = svc_init svc" "svc_stop_grace_period svc' = svc_stop_grace_period svc"
    unfolding visit_service_def visit_depends_on_def bind_res_Ok by fastforce
  from parts(2) have b: "build = None \<longleftrightarrow> svc_build svc = None"
    "map_option build_context build = map_option build_context (svc_build svc)"
    "map_option build_dockerfile build = map_option build_dockerfile (svc_build svc)"
    by (auto simp: res_simps dest: visit_build_paths)
  from parts(4) have h: "map_option hc_disable hc = map_option hc_disable (svc_healthcheck svc)"
    by (auto simp: res_simps visit_healthcheck_def)
  from parts(3) have "list_all2 (\<lambda>m m'. visit_mount m env = Ok m') (svc_volumes svc) volumes"
    by (simp add: collect_res_Ok)
  then have v: "length volumes = length (svc_volumes svc)"
    "\<forall>i<length (svc_volumes svc). \<forall>l. svc_volumes svc ! i = MountSpec_Long l \<longrightarrow> volumes ! i = MountSpec_Long l"
    by (auto simp: list_all2_conv_all_nth visit_mount_def split: mount_spec.splits)
  show ?thesis
    unfolding service_untouched_def new using b h v expand_opt_None [OF parts(1)] by blast
qed

lemma list_all2_bt_get:
  "list_all2 (\<lambda>(k, v) (k', v'). k' = k \<and> P v v') m m' \<Longrightarrow> bt_get m' k = Some v' \<Longrightarrow>
     \<exists>v. bt_get m k = Some v \<and> P v v'"
proof (induction m m' rule: list_all2_induct)
  case (Cons x xs y ys)
  then show ?case by (cases x; cases y) (auto simp: bt_get_def split: if_splits)
qed (simp add: bt_get_def)

lemma visit_compose_parts:
  assumes "visit_compose c env = Ok c'"
  shows "collect_btree (\<lambda>v. visit_service v env) (cmp_services c) = Ok (cmp_services c')"
    "collect_btree (\<lambda>v. visit_network v env) (cmp_networks c) = Ok (cmp_networks c')"
    "collect_btree (\<lambda>v. visit_volume v env) (cmp_volumes c) = Ok (cmp_volumes c')"
    "collect_btree (\<lambda>v. visit_secret v env) (cmp_secrets c) = Ok (cmp_secrets c')"
    "collect_btree (\<lambda>v. visit_config_def v env) (cmp_configs c) = Ok (cmp_configs c')"
    "cmp_extensions c' = cmp_extensions c"
  using assms by (auto simp: visit_compose_def bind_res_Ok)

lemma collect_btree_same_keys: "bt_ok m \<Longrightarrow> collect_btree f m = Ok m' \<Longrightarrow> bt_keys m' = bt_keys m"
  unfolding collect_btree_Ok by (rule list_all2_keys)

lemma visit_compose_preserves:
  assumes ok: "compose_ok c" and v: "visit_compose c env = Ok c'"
  shows "bt_keys (cmp_services c') = bt_keys (cmp_services c)"
    and "bt_keys (cmp_networks c') = bt_keys (cmp_networks c)"
    and "bt_keys (cmp_volumes c') = bt_keys (cmp_volumes c)"
    and "bt_keys (cmp_secrets c') = bt_keys (cmp_secrets c)"
    and "bt_keys (cmp_configs c') = bt_keys (cmp_configs c)"
    and "bt_get (cmp_services c') name = Some svc' \<Longrightarrow>
      \<exists>svc. bt_get (cmp_services c) name = Some svc \<and> service_untouched svc svc'"
proof -
  note p = visit_compose_parts [OF v]
  from ok have oks: "bt_ok (cmp_services c)" "bt_ok (cmp_networks c)" "bt_ok (cmp_volumes c)"
    "bt_ok (cmp_secrets c)" "bt_ok (cmp_configs c)" by (auto simp: compose_ok_def map_ok_def)
  show "bt_keys (cmp_services c') = bt_keys (cmp_services c)" "bt_keys (cmp_networks c') = bt_keys (cmp_networks c)"
    "bt_keys (cmp_volumes c') = bt_keys (cmp_volumes c)" "bt_keys (cmp_secrets c') = bt_keys (cmp_secrets c)"
    "bt_keys (cmp_configs c') = bt_keys (cmp_configs c)"
    using oks p(1-5) by (auto intro: collect_btree_same_keys)
  from p(1) oks(1) have
    "list_all2 (\<lambda>(k, v) (k', v'). k' = k \<and> visit_service v env = Ok v') (cmp_services c) (cmp_services c')"
    by (simp add: collect_btree_Ok)
  from list_all2_bt_get [OF this]
  show "bt_get (cmp_services c') name = Some svc' \<Longrightarrow>
      \<exists>svc. bt_get (cmp_services c) name = Some svc \<and> service_untouched svc svc'"
    by (blast intro: visit_service_untouched)
qed

end
