(* ===== verification/Interp_Properties.thy ===== *)
theory Interp_Properties
  imports Visit Examples
begin

text \<open>The properties of the interpolation crate: lexer, expander, visitor and environment.\<close>

section \<open>Lexer\<close>

text \<open>
  C13: lexing is the inverse of printing: a string has a token list exactly when some well-formed
  token list prints as it, and then that list, with the offset of every expansion, is the result.
\<close>

theorem lex_inverts_printing: "lex s = Ok ts \<longleftrightarrow> canonical 0 ts \<and> unlex_all ts = s"
  by (rule lex_iff)

text \<open>
  A lexing error points at the first expansion that is not well formed: what precedes it is a
  well-formed token list, and it has no closing brace or content the grammar rejects.
\<close>

theorem lex_error_position:
  assumes "lex s = Err (p, m)"
  shows "\<exists>ts rest. canonical 0 (ts @ [Escape]) \<and> s = unlex_all ts @ ''${'' @ rest \<and> p = length (unlex_all ts) \<and>
     (case position (\<lambda>b. b = CHR ''}'') rest of
        None \<Rightarrow> m = unterminated_msg s p
      | Some r \<Rightarrow> parse_expansion (take r rest) p = Err m)"
  using lex_error [OF assms] .

theorem lex_error_position_witness:
  "\<exists>ts rest. ''ab${C'' = unlex_all ts @ ''${'' @ rest \<and> 2 = length (unlex_all ts)"
proof -
  have "lex ''ab${C'' = Err (2, unterminated_msg ''ab${C'' 2)" by code_simp
  from lex_error_position [OF this] show ?thesis by blast
qed

section \<open>Expander\<close>



text \<open>A text whose dollars are doubled expands to the text, in every environment.\<close>

theorem expand_unescapes: "expand (escape_dollars s) env = Ok s"
  by (rule expand_escape)

text \<open>Expansion depends only on the variables the text mentions.\<close>

theorem expand_reads_mentioned_variables:
  assumes "\<And>x. x \<in> template_vars s \<Longrightarrow> env_get e1 x = env_get e2 x"
  shows "expand s e1 = expand s e2"
  using expand_only_vars [OF assms] .

theorem expand_reads_mentioned_variables_witness:
  "expand ''${A}'' (env_from_iter [(''A'', ''1''), (''B'', ''2'')]) = expand ''${A}'' (env_from_iter [(''A'', ''1'')])"
proof (rule expand_reads_mentioned_variables)
  fix x
  assume "x \<in> template_vars ''${A}''"
  moreover have "template_vars ''${A}'' = {''A''}"
  proof -
    have "lex ''${A}'' = Ok [VarPlain ''A'' 0]" by code_simp
    then show ?thesis by (auto simp: template_vars_def)
  qed
  ultimately have "x = ''A''" by simp
  moreover have "env_get (env_from_iter [(''A'', ''1''), (''B'', ''2'')]) ''A'' = env_get (env_from_iter [(''A'', ''1'')]) ''A''"
    by code_simp
  ultimately show "env_get (env_from_iter [(''A'', ''1''), (''B'', ''2'')]) x = env_get (env_from_iter [(''A'', ''1'')]) x"
    by simp
qed

section \<open>Visitor\<close>

lemma demo_compose_ok: "compose_ok demo"
  by code_simp



text \<open>
  Interpolation keeps the document's structure: the keys of every section, and for each
  service its dependencies, ports, env files, restart policy, build paths and long mounts.
\<close>

theorem visit_keeps_structure:
  assumes "compose_ok c" "visit_compose c env = Ok c'"
  shows "bt_keys (cmp_services c') = bt_keys (cmp_services c) \<and> bt_keys (cmp_networks c') = bt_keys (cmp_networks c) \<and>
    bt_keys (cmp_volumes c') = bt_keys (cmp_volumes c) \<and> bt_keys (cmp_secrets c') = bt_keys (cmp_secrets c) \<and>
    bt_keys (cmp_configs c') = bt_keys (cmp_configs c) \<and>
    (\<forall>name svc'. bt_get (cmp_services c') name = Some svc' \<longrightarrow>
       (\<exists>svc. bt_get (cmp_services c) name = Some svc \<and> service_untouched svc svc'))"
  using visit_compose_preserves [OF assms] by blast

theorem visit_keeps_structure_witness:
  "bt_keys (cmp_services (projr (visit_compose demo env_default))) = [''api'', ''db'', ''web'']"
proof -
  have "is_ok (visit_compose demo env_default)" by code_simp
  then have "visit_compose demo env_default = Ok (projr (visit_compose demo env_default))"
    by (cases "visit_compose demo env_default") simp_all
  moreover have "bt_keys (cmp_services demo) = [''api'', ''db'', ''web'']" by code_simp
  ultimately show ?thesis using visit_keeps_structure [OF demo_compose_ok] by simp
qed

text \<open>C0: a document none of whose strings has an escape or an expansion is left unchanged.\<close>

theorem visit_plain_identity:
  assumes "compose_ok c" "\<forall>s\<in>set (compose_strings c). quiet s"
  shows "visit_compose c env = Ok c"
  using comp.visit_plain [OF assms] .

theorem visit_plain_identity_witness:
  "visit_compose (demo\<lparr>cmp_services := drop 1 (cmp_services demo)\<rparr>) env = Ok (demo\<lparr>cmp_services := drop 1 (cmp_services demo)\<rparr>)"
proof -
  have "compose_ok (demo\<lparr>cmp_services := drop 1 (cmp_services demo)\<rparr>)" by code_simp
  moreover have "\<forall>s\<in>set (compose_strings (demo\<lparr>cmp_services := drop 1 (cmp_services demo)\<rparr>)). quiet s" by code_simp
  ultimately show ?thesis by (rule visit_plain_identity)
qed

section \<open>Well-formed results\<close>

text \<open>Collecting sorts: the result is well formed whatever the order of the entries collected.\<close>

lemma collect_btree_ok:
  assumes "collect_btree f m = Ok m'"
  shows "bt_ok m'" "\<And>k v'. (k, v') \<in> set m' \<Longrightarrow> \<exists>v. f v = Ok v'"
proof -
  from assms obtain xs where xs: "collect_res (\<lambda>(k, v). bind_res (f v) (\<lambda>v'. Ok (k, v'))) m = Ok xs"
    and m': "m' = bt_from_iter xs"
    by (auto simp: collect_btree_def res_simps)
  show ok: "bt_ok m'" by (simp add: m' bt_ok_from_iter)
  fix k v'
  assume "(k, v') \<in> set m'"
  with ok have "bt_get m' k = Some v'" by (simp add: bt_mem)
  then have "(k, v') \<in> set xs" by (auto simp: m' bt_get_from_iter dest: map_of_SomeD)
  moreover from xs have "list_all2 (\<lambda>(k, v) p. \<exists>v'. f v = Ok v' \<and> p = (k, v')) m xs"
    by (auto simp: collect_res_Ok bind_res_Ok elim!: list_all2_mono)
  then have "\<forall>p\<in>set xs. \<exists>v. f v = Ok (snd p)"
    by (induction m xs rule: list_all2_induct) auto
  ultimately show "\<exists>v. f v = Ok v'" by fastforce
qed

lemma collect_btree_map_ok: "collect_btree f m = Ok m' \<Longrightarrow> (\<And>v v'. f v = Ok v' \<Longrightarrow> P v') \<Longrightarrow> map_ok P m'"
  using collect_btree_ok[of f m m'] by (fastforce simp: map_ok_def list_all_iff)

lemma visited_service_ok: "visit_service svc env = Ok svc' \<Longrightarrow> service_ok svc'"
proof -
  assume "visit_service svc env = Ok svc'"
  then obtain build environment where
    b: "transpose_res (\<lambda>b. visit_build b env) (svc_build svc) = Ok build"
    and e: "visit_env_map (svc_environment svc) env = Ok environment"
    and new: "svc_build svc' = build" "svc_environment svc' = environment"
    unfolding visit_service_def bind_res_Ok by fastforce
  from b have "opt_ok build_ok build"
    by (auto simp: res_simps opt_ok_def visit_build_def expand_map_def build_ok_def
        dest: collect_btree_ok(1) split: option.splits)
  moreover from e have "service_env_ok environment"
    by (auto simp: res_simps visit_env_map_def service_env_ok_def dest: collect_btree_ok(1) split: service_env.splits)
  ultimately show ?thesis by (simp add: service_ok_def new)
qed

text \<open>
  Interpolation yields a well-formed document, in which every map is a \<open>BTreeMap\<close> with its keys
  in order, whatever the document it is given.
\<close>

theorem visit_well_formed:
  assumes "visit_compose c env = Ok c'"
  shows "compose_ok c'"
proof -
  note p = visit_compose_parts [OF assms]
  have "map_ok service_ok (cmp_services c')"
    using p(1) visited_service_ok by (rule collect_btree_map_ok)
  moreover have "map_ok network_ok (cmp_networks c')"
    by (rule collect_btree_map_ok [OF p(2)])
      (auto simp: visit_network_def res_simps expand_map_def network_ok_def dest: collect_btree_ok(1))
  moreover have "map_ok volume_ok (cmp_volumes c')"
    by (rule collect_btree_map_ok [OF p(3)])
      (auto simp: visit_volume_def res_simps expand_map_def volume_ok_def dest: collect_btree_ok(1))
  ultimately show ?thesis
    using collect_btree_ok(1) [OF p(4)] collect_btree_ok(1) [OF p(5)] by (simp add: compose_ok_def)
qed

theorem visit_well_formed_witness: "compose_ok (projr (visit_compose demo env_default))"
proof -
  have "is_ok (visit_compose demo env_default)" by code_simp
  then have "visit_compose demo env_default = Ok (projr (visit_compose demo env_default))"
    by (cases "visit_compose demo env_default") simp_all
  then show ?thesis by (rule visit_well_formed)
qed

section \<open>Environment\<close>

text \<open>
  An override decides the value of its key (the first of several for a key); every other key
  keeps its value.
\<close>

theorem overrides_win:
  assumes "env_ok m"
  shows "env_get (with_overrides m kvs) k = (case map_of kvs k of Some v \<Rightarrow> Some v | None \<Rightarrow> env_get m k)"
  unfolding with_overrides_def by (simp only: store.look_layers env_get_ok [OF assms])

theorem overrides_win_witness:
  "env_get (with_overrides (env_from_iter [(''A'', ''0''), (''B'', ''9'')]) [(''A'', ''1'')]) ''A'' = Some ''1''"
  using overrides_win [OF env_ok_from_iter] by simp

text \<open>
  Layering \<open>.env\<close> files never changes a variable that is already set; a variable that is not
  gets the value of the first file that defines it, so an earlier file wins over a later one.
\<close>

theorem env_files_fill_gaps:
  assumes "env_ok m" "with_env_files load m paths = Ok m'"
  shows "\<exists>fs. list_all2 (\<lambda>p kvs. load p = Ok kvs) paths fs \<and> env_ok m' \<and>
    (\<forall>k. env_get m' k = (case env_get m k of Some v \<Rightarrow> Some v | None \<Rightarrow> map_of (concat fs) k))"
  using with_env_files_get [OF assms] env_ok_with_env_files [OF assms(2)] by blast

definition demo_load :: "string \<Rightarrow> interp_error + (string \<times> string) list" where
  "demo_load p = (if p = ''a.env'' then Ok [(''X'', ''1'')] else Ok [(''X'', ''2''), (''Y'', ''3'')])"

theorem env_files_fill_gaps_witness:
  "env_get (projr (with_env_files demo_load env_default [''a.env'', ''b.env''])) ''X'' = Some ''1''"
proof -
  let ?r = "with_env_files demo_load env_default [''a.env'', ''b.env'']"
  have "is_ok ?r" by code_simp
  then have "?r = Ok (projr ?r)" by (cases ?r) simp_all
  from env_files_fill_gaps [OF env_ok_default this] show ?thesis
    by (auto simp: list_all2_Cons1 demo_load_def store.look_initial)
qed

lemma white_space_heads:
  assumes "w \<in> set white_space" "c \<in> set w"
  shows "\<not> is_name_char c \<and> c \<noteq> CHR 0x22"
proof -
  have "list_all (list_all (\<lambda>c. \<not> is_name_char c \<and> c \<noteq> CHR 0x22)) white_space" by code_simp
  with assms show ?thesis unfolding list_all_iff by blast
qed

lemma prefix_head: "prefix w (c # s) \<Longrightarrow> w = [] \<or> c \<in> set w"
  by (cases w) simp_all

lemma trim_start_head: "is_name_char c \<Longrightarrow> trim_start (c # s) = c # s"
  unfolding trim_start_def
proof (rule strip_leading_fix, rule ballI)
  fix w
  assume "is_name_char c" "w \<in> set white_space"
  then have "c \<notin> set w" using white_space_heads [of w c] by blast
  then show "w = [] \<or> \<not> prefix w (c # s)" using prefix_head [of w c s] by blast
qed

lemma trim_end_last: "is_name_char c \<or> c = CHR 0x22 \<Longrightarrow> trim_end (s @ [c]) = s @ [c]"
proof -
  assume c: "is_name_char c \<or> c = CHR 0x22"
  have "strip_leading (map rev white_space) (c # rev s) = c # rev s"
  proof (rule strip_leading_fix, rule ballI)
    fix w
    assume "w \<in> set (map rev white_space)"
    then obtain v where v: "v \<in> set white_space" "w = rev v" unfolding set_map by blast
    then have "c \<notin> set w" using white_space_heads [OF v(1), of c] c by auto
    then show "w = [] \<or> \<not> prefix w (c # rev s)" using prefix_head [of w c "rev s"] by blast
  qed
  then show ?thesis by (simp add: trim_end_def)
qed

lemma trim_name: "is_name k \<Longrightarrow> trim k = k"
proof -
  assume k: "is_name k"
  then obtain c s where cs: "k = c # s" by (cases k) (auto simp: is_name_def)
  have "k = butlast k @ [last k]" using k by (simp add: is_name_def)
  moreover have "is_name_char (last k)" using k by (auto simp: is_name_def list_all_iff)
  ultimately have "trim_end k = k" using trim_end_last [of "last k" "butlast k"] by simp
  moreover have "trim_start k = k" using k cs by (simp add: is_name_def trim_start_head)
  ultimately show ?thesis by (simp add: trim_def)
qed

text \<open>
  A line \<open>KEY="value"\<close> of a \<open>.env\<close> file defines the key with exactly the text between the
  quotes, also where that holds quotes, \<open>#\<close>, \<open>=\<close> or white space.
\<close>

theorem env_line_quoted:
  assumes "is_name k"
  shows "parse_env_line path n (k @ ''='' @ [CHR 0x22] @ v @ [CHR 0x22]) = Ok (Some (k, v))"
proof -
  let ?val = "CHR 0x22 # v @ [CHR 0x22]"
  let ?line = "k @ CHR ''='' # ?val"
  obtain c s where cs: "k = c # s" using assms by (cases k) (auto simp: is_name_def)
  have all: "\<forall>c\<in>set k. is_name_char c" using assms by (auto simp: is_name_def list_all_iff)
  have "trim_start ?line = ?line" using cs all by (simp add: trim_start_head)
  moreover have "trim_end (xs @ [CHR 0x22]) = xs @ [CHR 0x22]" for xs by (rule trim_end_last) simp
  from this [of "k @ CHR ''='' # CHR 0x22 # v"] this [of "CHR 0x22 # v"]
  have "trim_end ?line = ?line" "trim_end ?val = ?val" by simp_all
  ultimately have line: "trim ?line = ?line" and val: "trim_end ?val = ?val" by (simp_all add: trim_def)
  have "\<not> is_name_char (CHR ''='')" "\<not> is_name_char (CHR ''#'')" by (simp_all add: is_name_char_def)
  with all have "position (\<lambda>c. c = CHR ''='') k = None" and hash: "\<not> prefix ''#'' ?line"
    by (auto simp: position_None cs)
  then have pos: "position (\<lambda>c. c = CHR ''='') ?line = Some (length k)" by (simp add: position_append)
  have "strip_quotes ?val = v" by (simp add: strip_quotes_def val Let_def slice_def)
  then show ?thesis
    using hash pos trim_name [OF assms] by (simp add: parse_env_line_def line Let_def slice_def cs [symmetric]) (simp add: cs)
qed

theorem env_line_quoted_witness:
  "parse_env_line ''.env'' 0 (''A'' @ ''='' @ [CHR 0x22] @ ''x # y'' @ [CHR 0x22]) = Ok (Some (''A'', ''x # y''))"
  by (rule env_line_quoted) code_simp

end
