(* ===== verification/Plan_Facts.thy ===== *)
theory Plan_Facts
  imports Planner
begin

text \<open>
  What \<open>plan\<close> computes: when it succeeds, the operations it lists as a function of the waves, and
  the ordering the driver relies on.
\<close>

section \<open>Validation\<close>

lemma check_services_Ok [res_simps]:
  "check_services active svcs = Ok u \<longleftrightarrow> (\<forall>s\<in>set svcs. bt_contains active s)"
  by (induction active svcs rule: check_services.induct) auto

definition network_declared :: "'x compose \<Rightarrow> string \<Rightarrow> bool" where
  "network_declared c net \<longleftrightarrow> net = ''default'' \<or> bt_contains (cmp_networks c) net"

lemma check_networks_Ok [res_simps]:
  "check_networks c s nets = Ok u \<longleftrightarrow> (\<forall>net\<in>set nets. network_declared c net)"
  by (induction c s nets rule: check_networks.induct)
    (auto simp: network_declared_def bt_contains_def bt_get_def Let_def)

lemma check_networks_Err [res_simps]:
  "check_networks c s nets = Err e \<longleftrightarrow>
     (\<exists>net. find (\<lambda>net. \<not> network_declared c net) nets = Some net \<and> e = UnknownNetwork s net)"
  by (induction c s nets rule: check_networks.induct)
    (auto simp: network_declared_def bt_contains_def bt_get_def Let_def)

text \<open>The volume a mount refers to by name, if it is not a bind mount.\<close>

definition mount_volume_name :: "mount_spec \<Rightarrow> string option" where
  "mount_volume_name m =
     (case m of
        MountSpec_Short s \<Rightarrow>
          let source = takeWhile (\<lambda>ch. ch \<noteq> CHR '':'') s in
          if prefix ''.'' source \<or> prefix ''/'' source then None else Some source
      | MountSpec_Long l \<Rightarrow> if mount_type l = ''volume'' then mount_source l else None)"

definition mount_declared :: "'x compose \<Rightarrow> mount_spec \<Rightarrow> bool" where
  "mount_declared c m \<longleftrightarrow> (\<forall>v. mount_volume_name m = Some v \<longrightarrow> bt_contains (cmp_volumes c) v)"

lemma check_mount_Ok [res_simps]: "check_mount c s m = Ok u \<longleftrightarrow> mount_declared c m"
  by (auto simp: check_mount_def mount_declared_def mount_volume_name_def Let_def
      split: mount_spec.splits option.splits)

lemma check_mounts_Ok [res_simps]: "check_mounts c s ms = Ok u \<longleftrightarrow> (\<forall>m\<in>set ms. mount_declared c m)"
  by (induction c s ms rule: check_mounts.induct) (auto simp: res_simps)

definition references_ok :: "'x compose \<Rightarrow> service \<Rightarrow> bool" where
  "references_ok c svc \<longleftrightarrow>
     (\<forall>net\<in>set (svc_networks svc). network_declared c net) \<and> (\<forall>m\<in>set (svc_volumes svc). mount_declared c m)"

lemma validate_references_Ok [res_simps]:
  "validate_references c svcs = Ok u \<longleftrightarrow> (\<forall>(s, svc)\<in>set svcs. references_ok c svc)"
  by (induction c svcs rule: validate_references.induct) (auto simp: res_simps references_ok_def)

section \<open>The operations of the waves\<close>

text \<open>The elements of a list that are not yet in another, each once, in order.\<close>

fun fresh :: "'a list \<Rightarrow> 'a list \<Rightarrow> 'a list" where
  "fresh em [] = []"
| "fresh em (x # xs) = (if x \<in> set em then fresh em xs else x # fresh (em @ [x]) xs)"

lemma fresh_append: "fresh em (xs @ ys) = fresh em xs @ fresh (em @ fresh em xs) ys"
  by (induction em xs rule: fresh.induct) auto

lemma set_fresh: "set (fresh em xs) = set xs - set em"
  by (induction em xs rule: fresh.induct) auto

lemma distinct_fresh: "distinct (fresh em xs)"
  by (induction em xs rule: fresh.induct) (auto simp: set_fresh)

lemma emit_waits_fresh:
  "emit_waits p deps (ops, em) = (ops @ map (wait_op p) (fresh em deps), em @ fresh em deps)"
  by (induction p deps "(ops, em)" arbitrary: ops em rule: emit_waits.induct) auto

definition service_of :: "service str_map \<Rightarrow> string \<Rightarrow> service" where
  "service_of active s = the (bt_get active s)"

definition healthy_of :: "service str_map \<Rightarrow> string \<Rightarrow> string list" where
  "healthy_of active s = healthy_dependencies (service_of active s)"

definition run_op :: "(service \<Rightarrow> 'ce + string) \<Rightarrow> string \<Rightarrow> service str_map \<Rightarrow> string \<Rightarrow> op" where
  "run_op hash p active s =
     RunContainer (run_spec_of p s (service_of active s) (projr (hash (service_of active s))))"

text \<open>
  The specification of step 9: for each wave, a wait for every dependency required healthy that
  has had none, then the containers of the wave.
\<close>

fun scheduled_ops ::
    "(service \<Rightarrow> 'ce + string) \<Rightarrow> string \<Rightarrow> service str_map \<Rightarrow> string list \<Rightarrow> string list list \<Rightarrow> op list" where
  "scheduled_ops hash p active em [] = []"
| "scheduled_ops hash p active em (w # ws) =
     (let ds = fresh em (concat (map (healthy_of active) w)) in
      map (wait_op p) ds @ map (run_op hash p active) w @ scheduled_ops hash p active (em @ ds) ws)"

definition hashed :: "(service \<Rightarrow> 'ce + string) \<Rightarrow> service str_map \<Rightarrow> string \<Rightarrow> bool" where
  "hashed hash active s \<longleftrightarrow> is_ok (hash (service_of active s))"

abbreviation nname :: "service_graph \<Rightarrow> node_id \<Rightarrow> string" where
  "nname g v \<equiv> sg_names g ! node_index v"

lemma node_service_valid:
  "sg_names g = bt_keys active \<Longrightarrow> v \<in> set (nodes g) \<Longrightarrow>
     node_service active g v = Ok (nname g v, service_of active (nname g v))"
proof -
  assume names: "sg_names g = bt_keys active" and v: "v \<in> set (nodes g)"
  then have "nname g v \<in> set (bt_keys active)" by (metis in_nodes nth_mem)
  then obtain svc where "bt_get active (nname g v) = Some svc"
    using bt_contains_iff [of active] by (auto simp: bt_contains_def)
  with v show ?thesis by (simp add: node_service_def graph_name_def in_nodes service_of_def)
qed

lemma wait_loop_valid:
  assumes "sg_names g = bt_keys active"
  shows "set ns \<subseteq> set (nodes g) \<Longrightarrow>
    wait_loop p active g ns (ops, em) =
      Ok (let ds = fresh em (concat (map (\<lambda>v. healthy_of active (nname g v)) ns))
          in (ops @ map (wait_op p) ds, em @ ds))"
  using assms
  by (induction ns arbitrary: ops em)
    (simp_all add: node_service_valid emit_waits_fresh Let_def fresh_append healthy_of_def)

lemma run_loop_valid:
  assumes "sg_names g = bt_keys active"
  shows "set ns \<subseteq> set (nodes g) \<Longrightarrow> \<forall>v\<in>set ns. hashed hash active (nname g v) \<Longrightarrow>
    run_loop hash p active g ns (ops, ids) =
      Ok (ops @ map (\<lambda>v. run_op hash p active (nname g v)) ns, ids @ ns)"
  using assms
  by (induction ns arbitrary: ops ids)
    (auto simp: node_service_valid hashed_def is_ok_ex run_op_def)

lemma run_loop_unhashed:
  assumes "sg_names g = bt_keys active"
  shows "set ns \<subseteq> set (nodes g) \<Longrightarrow> \<exists>v\<in>set ns. \<not> hashed hash active (nname g v) \<Longrightarrow>
    \<exists>s e. (run_loop hash p active g ns (ops, ids) :: ('te, 'ce) plan_error fault + _) = Err (Fault (ConfigHash s e)) \<and>
      s \<in> set (bt_keys active) \<and> hash (service_of active s) = Err e"
proof (induction ns arbitrary: ops ids)
  case (Cons v ns)
  from Cons.prems(1) assms have ns: "(node_service active g v :: ('te, 'ce) plan_error fault + _) = Ok (nname g v, service_of active (nname g v))"
    by (simp add: node_service_valid)
  from Cons.prems(1) assms have "nname g v \<in> set (bt_keys active)" by (simp add: in_nodes)
  with ns Cons show ?case
    by (cases "hash (service_of active (nname g v))") (auto simp: hashed_def)
qed simp

lemma waves_loop_valid:
  assumes "sg_names g = bt_keys active"
  shows "set (concat ws) \<subseteq> set (nodes g) \<Longrightarrow> \<forall>v\<in>set (concat ws). hashed hash active (nname g v) \<Longrightarrow>
    \<exists>em'. (waves_loop hash p active g ws (ops, em, idx) :: ('te, 'ce) plan_error fault + _) =
      Ok (ops @ scheduled_ops hash p active em (wave_names g ws), em', idx @ ws)"
proof (induction ws arbitrary: ops em idx)
  case Nil
  then show ?case by (simp add: wave_names_def)
next
  case (Cons w ws)
  have w: "set w \<subseteq> set (nodes g)" "\<forall>v\<in>set w. hashed hash active (nname g v)"
    using Cons.prems by auto
  let ?ds = "fresh em (concat (map (\<lambda>v. healthy_of active (nname g v)) w))"
  let ?ops = "ops @ map (wait_op p) ?ds @ map (\<lambda>v. run_op hash p active (nname g v)) w"
  have "set (concat ws) \<subseteq> set (nodes g)" "\<forall>v\<in>set (concat ws). hashed hash active (nname g v)"
    using Cons.prems by auto
  from Cons.IH [OF this, of ?ops "em @ ?ds" "idx @ [w]"] obtain em' where
    "(waves_loop hash p active g ws (?ops, em @ ?ds, idx @ [w]) :: ('te, 'ce) plan_error fault + _) =
      Ok (?ops @ scheduled_ops hash p active (em @ ?ds) (wave_names g ws), em', (idx @ [w]) @ ws)" by blast
  with w show ?case
    by (simp add: wait_loop_valid [OF assms] run_loop_valid [OF assms] Let_def wave_names_def comp_def)
qed

lemma waves_loop_unhashed:
  assumes "sg_names g = bt_keys active"
  shows "set (concat ws) \<subseteq> set (nodes g) \<Longrightarrow> \<exists>v\<in>set (concat ws). \<not> hashed hash active (nname g v) \<Longrightarrow>
    \<exists>s e. (waves_loop hash p active g ws (ops, em, idx) :: ('te, 'ce) plan_error fault + _) = Err (Fault (ConfigHash s e)) \<and>
      s \<in> set (bt_keys active) \<and> hash (service_of active s) = Err e"
proof (induction ws arbitrary: ops em idx)
  case (Cons w ws)
  have w: "set w \<subseteq> set (nodes g)" using Cons.prems by auto
  note wl = wait_loop_valid [OF assms w, of p ops em]
  show ?case
  proof (cases "\<forall>v\<in>set w. hashed hash active (nname g v)")
    case True
    with Cons.prems have "\<exists>v\<in>set (concat ws). \<not> hashed hash active (nname g v)" by auto
    with Cons.IH Cons.prems show ?thesis
      by (simp add: wl Let_def run_loop_valid [OF assms w True])
  next
    case False
    let ?ds = "fresh em (concat (map (\<lambda>v. healthy_of active (nname g v)) w))"
    from False run_loop_unhashed [OF assms w, of hash p "ops @ map (wait_op p) ?ds" "[]"] obtain s e where
      "(run_loop hash p active g w (ops @ map (wait_op p) ?ds, []) :: ('te, 'ce) plan_error fault + _) = Err (Fault (ConfigHash s e))"
      "s \<in> set (bt_keys active)" "hash (service_of active s) = Err e" by blast
    then show ?thesis by (simp add: wl Let_def)
  qed
qed simp

section \<open>Order of the scheduled operations\<close>

definition is_run :: "string \<Rightarrow> op \<Rightarrow> bool" where
  "is_run s x \<longleftrightarrow> (\<exists>r. x = RunContainer r \<and> rspec_service r = s)"

definition is_wait :: "string \<Rightarrow> op \<Rightarrow> bool" where
  "is_wait s x \<longleftrightarrow> (\<exists>w. x = WaitHealthy w \<and> wspec_service w = s)"

lemma is_run_op [simp]: "is_run s (run_op hash p active t) \<longleftrightarrow> s = t"
  by (auto simp: is_run_def run_op_def run_spec_of_def Let_def)

lemma is_wait_op [simp]: "is_wait s (wait_op p t) \<longleftrightarrow> s = t"
  by (auto simp: is_wait_def wait_op_def)

lemma not_run_wait [simp]: "\<not> is_run s (wait_op p t)" "\<not> is_wait s (run_op hash p active t)"
  by (auto simp: is_run_def is_wait_def wait_op_def run_op_def)

text \<open>The services waited for, over all waves.\<close>

fun waited :: "service str_map \<Rightarrow> string list \<Rightarrow> string list list \<Rightarrow> string list" where
  "waited active em [] = []"
| "waited active em (w # ws) =
     (let ds = fresh em (concat (map (healthy_of active) w)) in ds @ waited active (em @ ds) ws)"

lemma waited_fresh: "waited active em ws = fresh em (concat (map (healthy_of active) (concat ws)))"
  by (induction ws arbitrary: em) (simp_all add: Let_def fresh_append)

lemma scheduled_snoc:
  "scheduled_ops hash p active em (ws @ [w]) =
     scheduled_ops hash p active em ws @
     map (wait_op p) (fresh (em @ waited active em ws) (concat (map (healthy_of active) w))) @
     map (run_op hash p active) w"
  by (induction ws arbitrary: em) (simp_all add: Let_def)

lemma scheduled_runs: "filter (\<lambda>x. \<exists>s. is_run s x) (scheduled_ops hash p active em ws) = map (run_op hash p active) (concat ws)"
proof (induction ws arbitrary: em)
  case (Cons w ws)
  have "filter (\<lambda>x. \<exists>s. is_run s x) (map (wait_op p) ds) = []" for ds by (simp add: filter_empty_conv)
  moreover have "filter (\<lambda>x. \<exists>s. is_run s x) (map (run_op hash p active) w) = map (run_op hash p active) w"
    by (simp add: filter_id_conv)
  ultimately show ?case using Cons.IH by (simp add: Let_def)
qed simp

lemma scheduled_waits: "filter (\<lambda>x. \<exists>s. is_wait s x) (scheduled_ops hash p active em ws) = map (wait_op p) (waited active em ws)"
proof (induction ws arbitrary: em)
  case (Cons w ws)
  have "filter (\<lambda>x. \<exists>s. is_wait s x) (map (run_op hash p active) w) = []" by (simp add: filter_empty_conv)
  moreover have "filter (\<lambda>x. \<exists>s. is_wait s x) (map (wait_op p) ds) = map (wait_op p) ds" for ds
    by (simp add: filter_id_conv)
  ultimately show ?case using Cons.IH by (simp add: Let_def)
qed simp

text \<open>\<open>y\<close>s come only after an \<open>x\<close>.\<close>

definition preceded :: "('a \<Rightarrow> bool) \<Rightarrow> ('a \<Rightarrow> bool) \<Rightarrow> 'a list \<Rightarrow> bool" where
  "preceded P Q xs \<longleftrightarrow> (\<forall>pre y post. xs = pre @ y # post \<longrightarrow> Q y \<longrightarrow> (\<exists>x\<in>set pre. P x))"

lemma preceded_append:
  "preceded P Q (xs @ ys) \<longleftrightarrow> preceded P Q xs \<and> ((\<exists>x\<in>set xs. P x) \<or> preceded P Q ys)"
proof
  assume l: "preceded P Q (xs @ ys)"
  have "preceded P Q xs"
    unfolding preceded_def
  proof (intro allI impI)
    fix pre y post
    assume "xs = pre @ y # post" "Q y"
    with l show "\<exists>x\<in>set pre. P x" unfolding preceded_def by (metis append.assoc append_Cons)
  qed
  moreover have "preceded P Q ys" if "\<not> (\<exists>x\<in>set xs. P x)"
    unfolding preceded_def
  proof (intro allI impI)
    fix pre y post
    assume "ys = pre @ y # post" "Q y"
    then have "\<exists>x\<in>set (xs @ pre). P x" using l unfolding preceded_def by (metis append.assoc)
    with that show "\<exists>x\<in>set pre. P x" by auto
  qed
  ultimately show "preceded P Q xs \<and> ((\<exists>x\<in>set xs. P x) \<or> preceded P Q ys)" by blast
next
  assume r: "preceded P Q xs \<and> ((\<exists>x\<in>set xs. P x) \<or> preceded P Q ys)"
  show "preceded P Q (xs @ ys)"
    unfolding preceded_def
  proof (intro allI impI)
    fix pre y post
    assume eq: "xs @ ys = pre @ y # post" and Q: "Q y"
    then consider us where "xs = pre @ y # us" | us where "pre = xs @ us" "ys = us @ y # post"
      by (auto simp: append_eq_append_conv2 append_eq_Cons_conv)
    then show "\<exists>x\<in>set pre. P x"
    proof cases
      case 1
      with r Q show ?thesis unfolding preceded_def by blast
    next
      case 2
      with r Q have "(\<exists>x\<in>set xs. P x) \<or> (\<exists>x\<in>set us. P x)" unfolding preceded_def by blast
      with 2(1) show ?thesis by auto
    qed
  qed
qed

lemma preceded_none: "(\<And>y. y \<in> set ys \<Longrightarrow> \<not> Q y) \<Longrightarrow> preceded P Q ys"
  by (auto simp: preceded_def)

text \<open>
  In waves that respect dependencies, the container of a service comes after those of its
  dependencies, after the waits for those it requires healthy, and such a wait after the
  container it waits for.
\<close>

definition waves_respect :: "service str_map \<Rightarrow> string list list \<Rightarrow> bool" where
  "waves_respect active ws \<longleftrightarrow>
     (\<forall>k<length ws. \<forall>s\<in>set (ws ! k). \<forall>d. depends active s d \<longrightarrow> d \<in> set (concat (take k ws)))"

lemma waves_respect_snoc:
  "waves_respect active (ws @ [w]) \<longleftrightarrow>
     waves_respect active ws \<and> (\<forall>s\<in>set w. \<forall>d. depends active s d \<longrightarrow> d \<in> set (concat ws))"
  unfolding waves_respect_def length_append_singleton All_less_Suc
  by (auto simp: nth_append simp del: set_concat)

lemma set_scheduled_run: "(\<exists>x\<in>set (scheduled_ops hash p active em ws). is_run s x) \<longleftrightarrow> s \<in> set (concat ws)"
proof -
  have "(\<exists>x\<in>set (scheduled_ops hash p active em ws). is_run s x) \<longleftrightarrow>
      (\<exists>x\<in>set (filter (\<lambda>x. \<exists>s. is_run s x) (scheduled_ops hash p active em ws)). is_run s x)" by auto
  then show ?thesis unfolding scheduled_runs by simp
qed

lemma set_scheduled_wait: "(\<exists>x\<in>set (scheduled_ops hash p active em ws). is_wait s x) \<longleftrightarrow> s \<in> set (waited active em ws)"
proof -
  have "(\<exists>x\<in>set (scheduled_ops hash p active em ws). is_wait s x) \<longleftrightarrow>
      (\<exists>x\<in>set (filter (\<lambda>x. \<exists>s. is_wait s x) (scheduled_ops hash p active em ws)). is_wait s x)" by auto
  then show ?thesis unfolding scheduled_waits by simp
qed

lemma scheduled_order:
  assumes "waves_respect active ws"
    and healthy: "\<And>s d. s \<in> set (concat ws) \<Longrightarrow> d \<in> set (healthy_of active s) \<Longrightarrow> depends active s d"
  shows "depends active s d \<Longrightarrow> preceded (is_run d) (is_run s) (scheduled_ops hash p active [] ws)"
    and "d \<in> set (healthy_of active s) \<Longrightarrow> preceded (is_wait d) (is_run s) (scheduled_ops hash p active [] ws)"
    and "preceded (is_run d) (is_wait d) (scheduled_ops hash p active [] ws)"
proof -
  let ?S = "scheduled_ops hash p active []"
  have "(depends active s d \<longrightarrow> preceded (is_run d) (is_run s) (?S ws)) \<and>
      (d \<in> set (healthy_of active s) \<longrightarrow> preceded (is_wait d) (is_run s) (?S ws)) \<and>
      preceded (is_run d) (is_wait d) (?S ws)"
    using assms
  proof (induction ws rule: rev_induct)
    case Nil
    then show ?case by (simp add: preceded_def)
  next
    case (snoc w ws)
    let ?ds = "fresh (waited active [] ws) (concat (map (healthy_of active) w))"
    have split: "?S (ws @ [w]) = ?S ws @ map (wait_op p) ?ds @ map (run_op hash p active) w"
      by (simp add: scheduled_snoc)
    from snoc.prems(1) have r: "waves_respect active ws"
      and w: "\<And>s d. s \<in> set w \<Longrightarrow> depends active s d \<Longrightarrow> d \<in> set (concat ws)" by (auto simp: waves_respect_snoc)
    have IH: "depends active s d \<Longrightarrow> preceded (is_run d) (is_run s) (?S ws)"
      "d \<in> set (healthy_of active s) \<Longrightarrow> preceded (is_wait d) (is_run s) (?S ws)"
      "preceded (is_run d) (is_wait d) (?S ws)"
      using snoc.IH [OF r] snoc.prems(2) by auto
    have ds: "set ?ds = (\<Union>s\<in>set w. set (healthy_of active s)) - set (waited active [] ws)"
      by (simp add: set_fresh)
    have run: "preceded P (is_run s) (map (wait_op p) ?ds)" for P by (rule preceded_none) auto
    have wait: "preceded P (is_wait d) (map (run_op hash p active) w)" for P by (rule preceded_none) auto
    show ?case
    proof (intro conjI impI)
      assume d: "depends active s d"
      show "preceded (is_run d) (is_run s) (?S (ws @ [w]))"
      proof (cases "s \<in> set w")
        case True
        with w d have "\<exists>x\<in>set (?S ws). is_run d x" unfolding set_scheduled_run by blast
        with IH(1) [OF d] show ?thesis unfolding split preceded_append by blast
      next
        case False
        then have "preceded (is_run d) (is_run s) (map (run_op hash p active) w)" by (intro preceded_none) auto
        with IH(1) [OF d] run show ?thesis unfolding split preceded_append by blast
      qed
    next
      assume h: "d \<in> set (healthy_of active s)"
      show "preceded (is_wait d) (is_run s) (?S (ws @ [w]))"
      proof (cases "s \<in> set w")
        case True
        with h ds have "d \<in> set (waited active [] ws) \<or> d \<in> set ?ds" by blast
        then have "(\<exists>x\<in>set (?S ws). is_wait d x) \<or> (\<exists>x\<in>set (map (wait_op p) ?ds). is_wait d x)"
          unfolding set_scheduled_wait by auto
        with IH(2) [OF h] run show ?thesis unfolding split preceded_append by blast
      next
        case False
        then have "preceded (is_wait d) (is_run s) (map (run_op hash p active) w)" by (intro preceded_none) auto
        with IH(2) [OF h] run show ?thesis unfolding split preceded_append by blast
      qed
    next
      show "preceded (is_run d) (is_wait d) (?S (ws @ [w]))"
      proof (cases "d \<in> set ?ds")
        case True
        then obtain t where "t \<in> set w" "d \<in> set (healthy_of active t)" using ds by blast
        with w snoc.prems(2) [of t d] have "\<exists>x\<in>set (?S ws). is_run d x" unfolding set_scheduled_run by auto
        with IH(3) show ?thesis unfolding split preceded_append by blast
      next
        case False
        then have "preceded (is_run d) (is_wait d) (map (wait_op p) ?ds)" by (intro preceded_none) auto
        with IH(3) wait show ?thesis unfolding split preceded_append by blast
      qed
    qed
  qed
  then show "depends active s d \<Longrightarrow> preceded (is_run d) (is_run s) (?S ws)"
    "d \<in> set (healthy_of active s) \<Longrightarrow> preceded (is_wait d) (is_run s) (?S ws)"
    "preceded (is_run d) (is_wait d) (?S ws)" by blast+
qed

section \<open>When planning succeeds\<close>

definition deps_closed :: "service str_map \<Rightarrow> bool" where
  "deps_closed active \<longleftrightarrow> (\<forall>s d. depends active s d \<longrightarrow> bt_contains active d)"

definition active_services :: "'x compose \<Rightarrow> string list \<Rightarrow> service str_map" where
  "active_services c profiles = filter (\<lambda>(name, svc). profile_active profiles svc) (cmp_services c)"

definition plan_valid :: "(service \<Rightarrow> 'ce + string) \<Rightarrow> 'x compose \<Rightarrow> plan_options \<Rightarrow> bool" where
  "plan_valid hash c opts \<longleftrightarrow>
     (let active = active_services c (opt_profiles opts) in
      set (opt_profiles opts) \<subseteq> set (all_profiles c) \<and>
      (\<forall>s\<in>set (opt_services opts). bt_contains active s) \<and>
      (\<forall>(s, svc)\<in>set active. references_ok c svc) \<and>
      deps_closed active \<and> acyclic {(d, s). depends active s d} \<and>
      (\<forall>(s, svc)\<in>set active. is_ok (hash svc)))"

lemma deps_closed_iff:
  "bt_ok active \<Longrightarrow> deps_closed active \<longleftrightarrow>
     (\<forall>(s, svc)\<in>set active. \<forall>d\<in>fst ` set (deps_of svc). d \<in> set (bt_keys active))"
proof -
  assume ok: "bt_ok active"
  have "deps_closed active \<longleftrightarrow>
      (\<forall>s svc. (s, svc) \<in> set active \<longrightarrow> (\<forall>d\<in>fst ` set (deps_of svc). d \<in> set (bt_keys active)))"
    unfolding deps_closed_def depends_def bt_contains_iff bt_mem [OF ok] by blast
  then show ?thesis by blast
qed

lemma acyclic_names:
  assumes ok: "bt_ok active" and b: "(build_graph active :: ('te, 'ce) plan_error fault + _) = Ok g"
  shows "acyclic {(u, v). edge g u v} \<longleftrightarrow> acyclic {(d, s). depends active s d}"
proof -
  let ?E = "{(u, v). edge g u v}" and ?R = "{(d, s). depends active s d}"
  from build_graph_Ok [OF ok b] have g: "graph_ok g" and names: "sg_names g = bt_keys active"
    and closed: "\<And>s svc d. (s, svc) \<in> set active \<Longrightarrow> d \<in> fst ` set (deps_of svc) \<Longrightarrow> d \<in> set (bt_keys active)"
    and edge: "\<And>u v. edge g u v \<longleftrightarrow> u \<in> set (nodes g) \<and> v \<in> set (nodes g) \<and>
       depends active (nname g v) (nname g u)"
    unfolding depends_def by blast+
  have keys: "d \<in> set (bt_keys active) \<and> s \<in> set (bt_keys active)" if "depends active s d" for s d
  proof -
    from that obtain svc where svc: "bt_get active s = Some svc" "d \<in> fst ` set (deps_of svc)"
      by (auto simp: depends_def)
    then have "(s, svc) \<in> set active" by (simp add: bt_mem [OF ok])
    with svc(2) closed show ?thesis by (force simp: bt_keys_def)
  qed
  have finR: "finite ?R" by (rule finite_subset [of _ "set (bt_keys active) \<times> set (bt_keys active)"]) (use keys in auto)
  have finE: "finite ?E" by (rule finite_subset [of _ "set (nodes g) \<times> set (nodes g)"]) (use edge in auto)
  define ident where "ident s = (SOME v. v \<in> set (nodes g) \<and> nname g v = s)" for s
  have ident: "ident s \<in> set (nodes g) \<and> nname g (ident s) = s" if "s \<in> set (bt_keys active)" for s
  proof -
    from that obtain i where "i < length (sg_names g)" "sg_names g ! i = s"
      unfolding names by (auto simp: in_set_conv_nth)
    then have "NodeId i \<in> set (nodes g) \<and> nname g (NodeId i) = s" by (simp add: in_nodes)
    then show ?thesis unfolding ident_def by (rule someI)
  qed
  have "?E \<subseteq> inv_image ?R (nname g)" by (auto simp: edge inv_image_def)
  moreover have "?R \<subseteq> inv_image ?E ident" using keys ident by (auto simp: edge inv_image_def)
  ultimately show ?thesis
    using finite_acyclic_wf [OF finR] finite_acyclic_wf [OF finE] wf_acyclic wf_inv_image wf_subset by metis
qed

lemma topological_waves_valid:
  assumes ok: "bt_ok active" and b: "(build_graph active :: ('te, 'ce) plan_error fault + _) = Ok g"
  shows "(\<exists>ws. (topological_waves g :: ('te, 'ce) plan_error fault + _) = Ok ws) \<longleftrightarrow> acyclic {(d, s). depends active s d}"
proof -
  have "graph_ok g" using build_graph_Ok [OF ok b] by blast
  from topological_waves_acyclic [OF this, where 'te = 'te and 'ce = 'ce] acyclic_names [OF ok b]
  show ?thesis by simp
qed

lemma waves_respect_services:
  assumes ok: "bt_ok active" and b: "(build_graph active :: ('te, 'ce) plan_error fault + _) = Ok g"
    and t: "(topological_waves g :: ('te, 'ce) plan_error fault + _) = Ok waves"
  shows "waves_respect active (wave_names g waves)"
  unfolding waves_respect_def
proof (intro allI impI ballI)
  fix k s d
  assume k: "k < length (wave_names g waves)" "s \<in> set (wave_names g waves ! k)" "depends active s d"
  then have "k < length waves" by (simp add: wave_names_def)
  from waves_of_services(3) [OF ok b t this k(2,3)] obtain j where j: "j < k" "d \<in> set (wave_names g waves ! j)" by blast
  with k(1) have "wave_names g waves ! j \<in> set (take k (wave_names g waves))"
    by (auto simp: in_set_conv_nth intro!: exI [of _ j])
  with j(2) show "d \<in> set (concat (take k (wave_names g waves)))" by auto
qed

lemma healthy_depends: "d \<in> set (healthy_of active s) \<Longrightarrow> bt_get active s \<noteq> None \<Longrightarrow> depends active s d"
  by (auto simp: healthy_of_def service_of_def healthy_dependencies_def depends_def deps_of_def
      image_iff case_prod_beta split: depends_on.splits) force

text \<open>The operations before the waves.\<close>

definition setup_ops :: "'x compose \<Rightarrow> plan_options \<Rightarrow> op list" where
  "setup_ops c opts =
     (let p = resolve_project_name c opts in
      network_ops p c @ volume_ops p c @ image_ops p (active_services c (opt_profiles opts)))"

text \<open>
  A valid document is planned, and the plan is the setup followed by the scheduled operations of
  waves that list the active services once each and respect their dependencies.
\<close>

lemma plan_valid_Ok:
  assumes ok: "bt_ok (cmp_services c)" and v: "plan_valid hash c opts"
  obtains p ws where "(plan hash c opts :: ('te, 'ce) plan_error fault + _) = Ok p"
    "plan_project_name p = resolve_project_name c opts"
    "map length (plan_waves p) = map length ws"
    "plan_ops p = setup_ops c opts @
       scheduled_ops hash (plan_project_name p) (active_services c (opt_profiles opts)) [] ws"
    "distinct (concat ws)" "set (concat ws) = set (bt_keys (active_services c (opt_profiles opts)))"
    "waves_respect (active_services c (opt_profiles opts)) ws"
proof -
  let ?active = "active_services c (opt_profiles opts)" and ?p = "resolve_project_name c opts"
  have okA: "bt_ok ?active" using ok by (simp add: active_services_def bt_ok_filter)
  from v have
    f: "(filter_services c (opt_profiles opts) :: ('te, 'ce) plan_error + _) = Ok ?active"
    and s: "(check_services ?active (opt_services opts) :: ('te, 'ce) plan_error + _) = Ok ()"
    and r: "(validate_references c ?active :: ('te, 'ce) plan_error + _) = Ok ()"
    and cl: "deps_closed ?active" and ac: "acyclic {(d, s). depends ?active s d}"
    and h: "\<And>s svc. (s, svc) \<in> set ?active \<Longrightarrow> is_ok (hash svc)"
    by (auto simp: plan_valid_def Let_def filter_services_Ok [OF ok] active_services_def res_simps)
  from build_graph_iff [OF okA, where 'te = 'te and 'ce = 'ce] cl obtain g where
    b: "(build_graph ?active :: ('te, 'ce) plan_error fault + _) = Ok g" by (auto simp: deps_closed_iff [OF okA])
  from topological_waves_valid [OF okA b] ac obtain ws where
    t: "(topological_waves g :: ('te, 'ce) plan_error fault + _) = Ok ws" by blast
  from build_graph_Ok [OF okA b] have gk: "graph_ok g" and names: "sg_names g = bt_keys ?active" by auto
  from topological_waves_spec [OF gk, where 'te = 'te and 'ce = 'ce] t have
    nodes: "set (concat ws) \<subseteq> set (nodes g)" by simp
  have "\<forall>v\<in>set (concat ws). hashed hash ?active (nname g v)"
  proof
    fix v
    assume "v \<in> set (concat ws)"
    with nodes have "nname g v \<in> set (bt_keys ?active)" using names by (metis in_nodes nth_mem subsetD)
    then obtain svc where "bt_get ?active (nname g v) = Some svc"
      using bt_contains_iff [of ?active] by (auto simp: bt_contains_def)
    with h [of "nname g v" svc] show "hashed hash ?active (nname g v)"
      by (simp add: hashed_def service_of_def bt_mem [OF okA])
  qed
  from waves_loop_valid [OF names nodes this, of ?p "setup_ops c opts" "[]" "[]", where 'te = 'te] obtain em' where
    w: "(waves_loop hash ?p ?active g ws (setup_ops c opts, [], []) :: ('te, 'ce) plan_error fault + _) =
      Ok (setup_ops c opts @ scheduled_ops hash ?p ?active [] (wave_names g ws), em', ws)" by auto
  let ?plan = "\<lparr>plan_ops = setup_ops c opts @ scheduled_ops hash ?p ?active [] (wave_names g ws),
      plan_waves = ws, plan_project_name = ?p\<rparr>"
  have "(plan hash c opts :: ('te, 'ce) plan_error fault + _) = Ok ?plan"
    using w by (simp add: plan_def Let_def f s r b t setup_ops_def)
  then show thesis
    using waves_of_services(1,2) [OF okA b t] waves_respect_services [OF okA b t]
    by (intro that [of ?plan "wave_names g ws"]) (simp_all add: wave_names_def)
qed

lemma plan_not_valid:
  assumes ok: "bt_ok (cmp_services c)" and v: "\<not> plan_valid hash c opts"
  shows "\<exists>e. (plan hash c opts :: ('te, 'ce) plan_error fault + _) = Err (Fault e)"
proof (rule ccontr)
  let ?active = "active_services c (opt_profiles opts)" and ?p = "resolve_project_name c opts"
  have okA: "bt_ok ?active" using ok by (simp add: active_services_def bt_ok_filter)
  assume no: "\<not> ?thesis"
  have f: "(filter_services c (opt_profiles opts) :: ('te, 'ce) plan_error + _) = Ok ?active"
    and sub: "set (opt_profiles opts) \<subseteq> set (all_profiles c)"
  proof -
    show "(filter_services c (opt_profiles opts) :: ('te, 'ce) plan_error + _) = Ok ?active"
      using no by (cases "filter_services c (opt_profiles opts) :: ('te, 'ce) plan_error + _")
        (auto simp: plan_def filter_services_Ok [OF ok] active_services_def)
    then show "set (opt_profiles opts) \<subseteq> set (all_profiles c)" by (simp add: filter_services_Ok [OF ok])
  qed
  have s: "(check_services ?active (opt_services opts) :: ('te, 'ce) plan_error + _) = Ok ()"
    using no by (cases "check_services ?active (opt_services opts) :: ('te, 'ce) plan_error + _")
      (auto simp: plan_def f)
  have r: "(validate_references c ?active :: ('te, 'ce) plan_error + _) = Ok ()"
    using no by (cases "validate_references c ?active :: ('te, 'ce) plan_error + _") (auto simp: plan_def f s)
  obtain g where b: "(build_graph ?active :: ('te, 'ce) plan_error fault + _) = Ok g"
  proof (cases "build_graph ?active :: ('te, 'ce) plan_error fault + _")
    case (Inl e)
    with build_graph_Err [OF okA Inl] no show ?thesis by (auto simp: plan_def f s r)
  qed
  from build_graph_Ok [OF okA b] have gk: "graph_ok g" and names: "sg_names g = bt_keys ?active" by auto
  obtain ws where t: "(topological_waves g :: ('te, 'ce) plan_error fault + _) = Ok ws"
  proof (cases "topological_waves g :: ('te, 'ce) plan_error fault + _")
    case (Inl e)
    with topological_waves_spec [OF gk, where 'te = 'te and 'ce = 'ce] no show ?thesis
      by (auto simp: plan_def f s r b)
  qed
  from topological_waves_spec [OF gk, where 'te = 'te and 'ce = 'ce] t have
    nodes: "set (concat ws) \<subseteq> set (nodes g)" "set (concat ws) = set (nodes g)" by simp_all
  have "\<forall>v\<in>set (concat ws). hashed hash ?active (nname g v)"
  proof (rule ccontr)
    assume "\<not> ?thesis"
    then have "\<exists>v\<in>set (concat ws). \<not> hashed hash ?active (nname g v)" by blast
    from waves_loop_unhashed [OF names nodes(1) this, of ?p "setup_ops c opts" "[]" "[]", where 'te = 'te] no
    show False by (auto simp: plan_def f s r b t setup_ops_def Let_def)
  qed
  then have "is_ok (hash svc)" if "(s, svc) \<in> set ?active" for s svc
  proof -
    from that have "s \<in> set (sg_names g)" unfolding names by (force simp: bt_keys_def)
    then obtain i where "i < length (sg_names g)" "sg_names g ! i = s" by (auto simp: in_set_conv_nth)
    then have "NodeId i \<in> set (concat ws)" "nname g (NodeId i) = s" unfolding nodes(2) by (simp_all add: in_nodes)
    moreover have "service_of ?active s = svc" using that by (simp add: service_of_def bt_mem [OF okA])
    ultimately show ?thesis
      using \<open>\<forall>v\<in>set (concat ws). hashed hash ?active (nname g v)\<close> by (metis hashed_def)
  qed
  moreover have "deps_closed ?active"
    using build_graph_iff [OF okA, where 'te = 'te and 'ce = 'ce] b deps_closed_iff [OF okA] by blast
  moreover have "acyclic {(d, s). depends ?active s d}" using topological_waves_valid [OF okA b] t by blast
  moreover have "(\<forall>s\<in>set (opt_services opts). bt_contains ?active s)" "(\<forall>(s, svc)\<in>set ?active. references_ok c svc)"
    using s r by (simp_all add: res_simps)
  ultimately have "plan_valid hash c opts" using sub by (auto simp: plan_valid_def Let_def)
  with v show False by simp
qed

section \<open>Every plan has the planned shape\<close>

lemma plan_Ok_valid:
  assumes "bt_ok (cmp_services c)" "(plan hash c opts :: ('te, 'ce) plan_error fault + _) = Ok p"
  shows "plan_valid hash c opts"
  using plan_not_valid [OF assms(1), of hash opts, where 'te = 'te] assms(2) by auto

lemma plan_structure:
  assumes ok: "bt_ok (cmp_services c)" and p: "(plan hash c opts :: ('te, 'ce) plan_error fault + _) = Ok p"
  obtains ws where "plan_ops p = setup_ops c opts @
       scheduled_ops hash (plan_project_name p) (active_services c (opt_profiles opts)) [] ws"
    "distinct (concat ws)" "set (concat ws) = set (bt_keys (active_services c (opt_profiles opts)))"
    "waves_respect (active_services c (opt_profiles opts)) ws"
    "map length (plan_waves p) = map length ws"
proof -
  from plan_valid_Ok [OF ok plan_Ok_valid [OF ok p], where 'te = 'te] obtain q ws where
    "(plan hash c opts :: ('te, 'ce) plan_error fault + _) = Ok q"
    "plan_ops q = setup_ops c opts @
       scheduled_ops hash (plan_project_name q) (active_services c (opt_profiles opts)) [] ws"
    "distinct (concat ws)" "set (concat ws) = set (bt_keys (active_services c (opt_profiles opts)))"
    "waves_respect (active_services c (opt_profiles opts)) ws"
    "map length (plan_waves q) = map length ws" by blast
  with p that show thesis by simp
qed

lemma setup_not_run: "x \<in> set (setup_ops c opts) \<Longrightarrow> \<not> is_run s x \<and> \<not> is_wait s x"
  by (auto simp: setup_ops_def network_ops_def volume_ops_def image_ops_def image_op_def Let_def is_run_def
      is_wait_def split: option.splits)

lemma preceded_setup:
  "preceded P (is_run s) ops \<Longrightarrow> preceded P (is_run s) (setup_ops c opts @ ops)"
  "preceded P (is_wait s) ops \<Longrightarrow> preceded P (is_wait s) (setup_ops c opts @ ops)"
  by (simp_all add: preceded_append preceded_none setup_not_run)

lemma healthy_depends_active:
  assumes "set (concat ws) = set (bt_keys active)" "t \<in> set (concat ws)" "d \<in> set (healthy_of active t)"
  shows "depends active t d"
proof -
  from assms(1,2) have "bt_get active t \<noteq> None" using bt_contains_iff [of active t] by (simp add: bt_contains_def)
  with assms(3) show ?thesis by (rule healthy_depends)
qed

text \<open>The order in which a plan starts and awaits services.\<close>

lemma plan_order:
  assumes ok: "bt_ok (cmp_services c)" and p: "(plan hash c opts :: ('te, 'ce) plan_error fault + _) = Ok p"
  shows "depends (active_services c (opt_profiles opts)) s d \<Longrightarrow> preceded (is_run d) (is_run s) (plan_ops p)"
    and "d \<in> set (healthy_of (active_services c (opt_profiles opts)) s) \<Longrightarrow> preceded (is_wait d) (is_run s) (plan_ops p)"
    and "preceded (is_run d) (is_wait d) (plan_ops p)"
proof -
  from plan_structure [OF ok p] obtain ws where ws: "plan_ops p = setup_ops c opts @
       scheduled_ops hash (plan_project_name p) (active_services c (opt_profiles opts)) [] ws"
    "set (concat ws) = set (bt_keys (active_services c (opt_profiles opts)))"
    "waves_respect (active_services c (opt_profiles opts)) ws" by blast
  show "preceded (is_run d) (is_run s) (plan_ops p)" if d: "depends (active_services c (opt_profiles opts)) s d"
    unfolding ws(1) by (intro preceded_setup scheduled_order(1) [OF ws(3) _ d] healthy_depends_active [OF ws(2)])
  show "preceded (is_wait d) (is_run s) (plan_ops p)"
    if d: "d \<in> set (healthy_of (active_services c (opt_profiles opts)) s)"
    unfolding ws(1) by (intro preceded_setup scheduled_order(2) [OF ws(3) _ d] healthy_depends_active [OF ws(2)])
  show "preceded (is_run d) (is_wait d) (plan_ops p)"
    unfolding ws(1) by (intro preceded_setup scheduled_order(3) [OF ws(3)] healthy_depends_active [OF ws(2)])
qed

section \<open>What a plan starts and awaits\<close>

lemma started_ops [simp]:
  "started (map (wait_op p) ds) = []" "started (map (run_op hash p active) w) = w"
  by (simp_all add: started_def comp_def wait_op_def run_op_def run_spec_of_def Let_def concat_map_singleton)

lemma waited_for_ops [simp]:
  "waited_for (map (wait_op p) ds) = ds" "waited_for (map (run_op hash p active) w) = []"
  by (simp_all add: waited_for_def comp_def wait_op_def run_op_def concat_map_singleton)

lemma started_scheduled: "started (scheduled_ops hash p active em ws) = concat ws"
  by (induction ws arbitrary: em) (simp_all add: Let_def)

lemma waited_for_scheduled: "waited_for (scheduled_ops hash p active em ws) = waited active em ws"
  by (induction ws arbitrary: em) (simp_all add: Let_def)

lemma setup_starts_nothing: "started (setup_ops c opts) = []" "waited_for (setup_ops c opts) = []"
proof -
  have "x \<in> set (setup_ops c opts) \<Longrightarrow> (\<forall>r. x \<noteq> RunContainer r) \<and> (\<forall>w. x \<noteq> WaitHealthy w)" for x
    using setup_not_run [of x c opts] by (auto simp: is_run_def is_wait_def)
  then show "started (setup_ops c opts) = []" "waited_for (setup_ops c opts) = []"
    by (auto simp: started_def waited_for_def concat_eq_Nil_conv split: op.splits)
qed

end
