(* ===== verification/Plan_Properties.thy ===== *)
theory Plan_Properties
  imports Plan_Facts Examples
begin

text \<open>The properties of the planner and of its dependency graph.\<close>

section \<open>Properties\<close>

text \<open>
  C7: a plan is produced exactly when the requested profiles and services exist, every reference
  to a network or volume is declared, the dependencies of the active services are active and
  acyclic, and every active service can be hashed.
\<close>

theorem plan_succeeds_iff:
  assumes "bt_ok (cmp_services c)"
  shows "(\<exists>p. (plan hash c opts :: ('te, 'ce) plan_error fault + _) = Ok p) \<longleftrightarrow> plan_valid hash c opts"
proof
  assume "plan_valid hash c opts"
  from plan_valid_Ok [OF assms this, where 'te = 'te] show "\<exists>p. (plan hash c opts :: ('te, 'ce) plan_error fault + _) = Ok p"
    by blast
qed (use plan_Ok_valid [OF assms] in blast)

theorem plan_succeeds_iff_witness: "plan_valid demo_hash demo demo_opts"
proof -
  have "\<exists>p. (plan demo_hash demo demo_opts :: (unit, unit) plan_error fault + _) = Ok p"
    using demo_planned by blast
  then show ?thesis using plan_succeeds_iff [OF demo_ok, of demo_hash demo_opts, where 'te = unit] by simp
qed

text \<open>
  Planning a document never panics: no index is out of range, no degree or counter underflows.
\<close>

theorem plan_never_panics:
  assumes "bt_ok (cmp_services c)"
  shows "plan hash c opts \<noteq> Err Panic"
proof (cases "plan_valid hash c opts")
  case True
  from plan_valid_Ok [OF assms this] show ?thesis by (metis sum.distinct(1))
next
  case False
  from plan_not_valid [OF assms this] show ?thesis by (metis fault.distinct(1) sum.inject(1))
qed

theorem plan_never_panics_witness: "(plan demo_hash demo demo_opts :: (unit, unit) plan_error fault + _) \<noteq> Err Panic"
  by (rule plan_never_panics [OF demo_ok])

text \<open>
  C5: in a plan, the container of a service is started only after the containers of all the
  services it depends on.
\<close>

theorem plan_starts_dependencies_first:
  assumes ok: "bt_ok (cmp_services c)" and p: "(plan hash c opts :: ('te, 'ce) plan_error fault + _) = Ok p"
    and d: "depends (active_services c (opt_profiles opts)) s d"
  shows "preceded (is_run d) (is_run s) (plan_ops p)"
  by (rule plan_order(1) [OF ok p d])

theorem plan_starts_dependencies_first_witness:
  "preceded (is_run ''api'') (is_run ''web'') (plan_ops (projr demo_result))"
proof -
  have "bt_get (active_services demo (opt_profiles demo_opts)) ''web'' =
      Some (service_default\<lparr>svc_image := Some ''w:1'', svc_depends_on := DependsOn_List [''api'', ''db'']\<rparr>)"
    by code_simp
  then have "depends (active_services demo (opt_profiles demo_opts)) ''web'' ''api''"
    by (simp add: depends_def deps_of_def)
  then show ?thesis by (rule plan_starts_dependencies_first [OF demo_ok demo_planned])
qed

text \<open>
  C1: where a service requires a dependency to be healthy, the plan waits for that dependency
  after starting it and before starting the service.
\<close>

theorem plan_waits_in_between:
  assumes ok: "bt_ok (cmp_services c)" and p: "(plan hash c opts :: ('te, 'ce) plan_error fault + _) = Ok p"
    and d: "d \<in> set (healthy_of (active_services c (opt_profiles opts)) s)"
  shows "preceded (is_wait d) (is_run s) (plan_ops p) \<and> preceded (is_run d) (is_wait d) (plan_ops p)"
  using plan_order(2,3) [OF ok p] d by blast

theorem plan_waits_in_between_witness:
  "preceded (is_wait ''db'') (is_run ''api'') (plan_ops (projr demo_result)) \<and>
   preceded (is_run ''db'') (is_wait ''db'') (plan_ops (projr demo_result))"
proof -
  have "''db'' \<in> set (healthy_of (active_services demo (opt_profiles demo_opts)) ''api'')" by code_simp
  then show ?thesis by (rule plan_waits_in_between [OF demo_ok demo_planned])
qed

text \<open>
  C17: a plan starts every active service exactly once and nothing else, and its waves partition
  them.
\<close>

theorem plan_starts_each_service_once:
  assumes ok: "bt_ok (cmp_services c)" and p: "(plan hash c opts :: ('te, 'ce) plan_error fault + _) = Ok p"
  shows "distinct (started (plan_ops p)) \<and>
    set (started (plan_ops p)) = set (bt_keys (active_services c (opt_profiles opts))) \<and>
    sum_list (map length (plan_waves p)) = length (active_services c (opt_profiles opts))"
proof -
  let ?active = "active_services c (opt_profiles opts)"
  from plan_structure [OF ok p] obtain ws where ws: "plan_ops p = setup_ops c opts @
       scheduled_ops hash (plan_project_name p) ?active [] ws" "distinct (concat ws)"
    "set (concat ws) = set (bt_keys ?active)" "map length (plan_waves p) = map length ws" by blast
  have "bt_ok ?active" using ok by (simp add: active_services_def bt_ok_filter)
  then have "distinct (bt_keys ?active)" using bt_ok_distinct by (simp add: bt_keys_def)
  then have "length (concat ws) = length (bt_keys ?active)"
    using distinct_card [OF ws(2)] ws(3) by (metis distinct_card)
  then show ?thesis
    using ws by (simp add: setup_starts_nothing started_scheduled length_concat bt_keys_def)
qed

theorem plan_starts_each_service_once_witness:
  "distinct (started (plan_ops (projr demo_result))) \<and>
   set (started (plan_ops (projr demo_result))) = {''api'', ''db'', ''web''}"
proof -
  have "set (bt_keys (active_services demo (opt_profiles demo_opts))) = set [''api'', ''db'', ''web'']"
    by code_simp
  then show ?thesis using plan_starts_each_service_once [OF demo_ok demo_planned] by simp
qed

text \<open>
  A plan waits at most once for a service, and waits exactly for the services some active
  service requires healthy.
\<close>

theorem plan_waits_once:
  assumes ok: "bt_ok (cmp_services c)" and p: "(plan hash c opts :: ('te, 'ce) plan_error fault + _) = Ok p"
  shows "distinct (waited_for (plan_ops p)) \<and>
    set (waited_for (plan_ops p)) =
      (\<Union>s\<in>set (bt_keys (active_services c (opt_profiles opts))). set (healthy_of (active_services c (opt_profiles opts)) s))"
proof -
  let ?active = "active_services c (opt_profiles opts)"
  from plan_structure [OF ok p] obtain ws where ws: "plan_ops p = setup_ops c opts @
       scheduled_ops hash (plan_project_name p) ?active [] ws"
    "set (concat ws) = set (bt_keys ?active)" by blast
  have "waited_for (plan_ops p) = fresh [] (concat (map (healthy_of ?active) (concat ws)))"
    by (simp add: ws(1) setup_starts_nothing waited_for_scheduled waited_fresh)
  moreover have "set (concat (map (healthy_of ?active) (concat ws))) = (\<Union>s\<in>set (bt_keys ?active). set (healthy_of ?active s))"
    unfolding ws(2) [symmetric] by simp
  ultimately show ?thesis by (simp add: distinct_fresh set_fresh del: set_concat)
qed

theorem plan_waits_once_witness:
  "distinct (waited_for (plan_ops (projr demo_result))) \<and> set (waited_for (plan_ops (projr demo_result))) = {''db''}"
proof -
  have "(\<Union>s\<in>set (bt_keys (active_services demo (opt_profiles demo_opts))).
      set (healthy_of (active_services demo (opt_profiles demo_opts)) s)) = {''db''}" by code_simp
  then show ?thesis using plan_waits_once [OF demo_ok demo_planned] by simp
qed

text \<open>
  The \<open>services\<close> filter of the options is only checked: a plan made with it is the plan of all
  active services.
\<close>

theorem plan_ignores_services_filter:
  assumes "(plan hash c opts :: ('te, 'ce) plan_error fault + _) = Ok p"
  shows "(plan hash c (opts\<lparr>opt_services := []\<rparr>) :: ('te, 'ce) plan_error fault + _) = Ok p"
  using assms by (auto simp: plan_def Let_def res_simps resolve_project_name_def)

definition demo_db_result :: "(unit, unit) plan_error fault + compose_plan" where
  "demo_db_result = plan demo_hash demo (demo_opts\<lparr>opt_services := [''db'']\<rparr>)"

theorem plan_ignores_services_filter_witness:
  "(plan demo_hash demo (demo_opts\<lparr>opt_services := []\<rparr>) :: (unit, unit) plan_error fault + _) = Ok (projr demo_db_result)"
proof -
  have "is_ok demo_db_result" by code_simp
  then have "(plan demo_hash demo (demo_opts\<lparr>opt_services := [''db'']\<rparr>) :: (unit, unit) plan_error fault + _) =
      Ok (projr demo_db_result)" by (cases demo_db_result) (simp_all add: demo_db_result_def)
  from plan_ignores_services_filter [OF this] show ?thesis by simp
qed

lemma scheduled_mem:
  "RunContainer r \<in> set (scheduled_ops hash p active em ws) \<Longrightarrow>
     \<exists>s\<in>set (concat ws). RunContainer r = run_op hash p active s"
proof (induction ws arbitrary: em)
  case (Cons w ws)
  then consider "RunContainer r \<in> run_op hash p active ` set w" | "\<exists>s\<in>set (concat ws). RunContainer r = run_op hash p active s"
    by (auto simp: Let_def wait_op_def)
  then show ?case by cases auto
qed simp

lemma run_labels:
  assumes "r = run_spec_of p s svc h"
  shows "bt_get (rspec_labels r) project_label = Some p \<and> bt_get (rspec_labels r) service_label = Some s \<and>
    bt_get (rspec_labels r) config_hash_label = Some h"
proof -
  have l: "rspec_labels r = bt_insert config_hash_label h (bt_insert service_label s (bt_insert project_label p []))"
    by (simp add: assms run_spec_of_def Let_def)
  have d: "service_label \<noteq> project_label" "config_hash_label \<noteq> service_label" "config_hash_label \<noteq> project_label"
    by (simp_all add: service_label_def project_label_def config_hash_label_def)
  have ok: "bt_ok (bt_insert project_label p [])" "bt_ok (bt_insert service_label s (bt_insert project_label p []))"
    by (intro bt_ok_insert bt_ok_Nil)+
  show ?thesis
    unfolding l using d by (simp add: bt_get_insert [OF ok(2)] bt_get_insert [OF ok(1)] bt_get_insert [OF bt_ok_Nil]
        del: bt_insert.simps)
qed

text \<open>The container of a \<open>RunContainer\<close> operation.\<close>

lemma plan_container:
  assumes ok: "bt_ok (cmp_services c)" and p: "(plan hash c opts :: ('te, 'ce) plan_error fault + _) = Ok p"
    and r: "RunContainer r \<in> set (plan_ops p)"
  shows "\<exists>svc h. bt_get (active_services c (opt_profiles opts)) (rspec_service r) = Some svc \<and> hash svc = Ok h \<and>
    rspec_container_name r = plan_project_name p @ ''_'' @ rspec_service r \<and>
    bt_get (rspec_labels r) project_label = Some (plan_project_name p) \<and>
    bt_get (rspec_labels r) service_label = Some (rspec_service r) \<and>
    bt_get (rspec_labels r) config_hash_label = Some h"
proof -
  let ?active = "active_services c (opt_profiles opts)"
  have okA: "bt_ok ?active" using ok by (simp add: active_services_def bt_ok_filter)
  from plan_structure [OF ok p] obtain ws where ws: "plan_ops p = setup_ops c opts @
       scheduled_ops hash (plan_project_name p) ?active [] ws" "set (concat ws) = set (bt_keys ?active)" by blast
  have "RunContainer r \<notin> set (setup_ops c opts)" using setup_not_run [of "RunContainer r"] by (auto simp: is_run_def)
  with r ws(1) have "RunContainer r \<in> set (scheduled_ops hash (plan_project_name p) ?active [] ws)" by auto
  from scheduled_mem [OF this] obtain s where s: "s \<in> set (concat ws)"
    "r = run_spec_of (plan_project_name p) s (service_of ?active s) (projr (hash (service_of ?active s)))"
    by (auto simp: run_op_def)
  from s(1) ws(2) obtain svc where svc: "bt_get ?active s = Some svc"
    using bt_contains_iff [of ?active s] by (auto simp: bt_contains_def)
  then have "(s, svc) \<in> set ?active" by (simp add: bt_mem [OF okA])
  with plan_Ok_valid [OF ok p] obtain h where h: "hash svc = Ok h"
    by (auto simp: plan_valid_def Let_def is_ok_ex)
  have name: "rspec_service r = s" "rspec_container_name r = plan_project_name p @ ''_'' @ s"
    by (simp_all add: s(2) run_spec_of_def container_name_def Let_def)
  from run_labels [OF s(2)] svc h name show ?thesis by (simp add: service_of_def)
qed

text \<open>
  C32: every container of a plan belongs to an active service, is named after the project and the
  service, and carries the labels of its project, its service and the service's config hash.
\<close>

theorem plan_container_labels:
  assumes ok: "bt_ok (cmp_services c)" and p: "(plan hash c opts :: ('te, 'ce) plan_error fault + _) = Ok p"
    and r: "RunContainer r \<in> set (plan_ops p)"
  shows "\<exists>svc h. bt_get (active_services c (opt_profiles opts)) (rspec_service r) = Some svc \<and> hash svc = Ok h \<and>
    rspec_container_name r = plan_project_name p @ ''_'' @ rspec_service r \<and>
    bt_get (rspec_labels r) project_label = Some (plan_project_name p) \<and>
    bt_get (rspec_labels r) service_label = Some (rspec_service r) \<and>
    bt_get (rspec_labels r) config_hash_label = Some h"
  by (rule plan_container [OF ok p r])

theorem plan_container_labels_witness:
  "\<exists>r. RunContainer r \<in> set (plan_ops (projr demo_result)) \<and>
     bt_get (rspec_labels r) config_hash_label = Some ''h''"
proof -
  have "list_ex (\<lambda>x. case x of RunContainer r \<Rightarrow> True | _ \<Rightarrow> False) (plan_ops (projr demo_result))" by code_simp
  then obtain x where x: "x \<in> set (plan_ops (projr demo_result))" and run: "case x of RunContainer r \<Rightarrow> True | _ \<Rightarrow> False"
    unfolding list_ex_iff by blast
  from run obtain r where "x = RunContainer r" by (simp split: op.splits)
  with x have r: "RunContainer r \<in> set (plan_ops (projr demo_result))" by simp
  from plan_container_labels [OF demo_ok demo_planned r] r show ?thesis by (auto simp: demo_hash_def)
qed

section \<open>The dependency graph\<close>

text \<open>
  C31: the graph of the active services has an edge from one node to another exactly when the
  second service depends on the first, its degrees count the edges, and it is built exactly when
  every dependency is active.
\<close>

theorem build_graph_correct:
  assumes ok: "bt_ok active"
  shows "case (build_graph active :: ('te, 'ce) plan_error fault + _) of
      Ok g \<Rightarrow> deps_closed active \<and> graph_ok g \<and> sg_names g = bt_keys active \<and>
        (\<forall>u v. edge g u v \<longleftrightarrow> u \<in> set (nodes g) \<and> v \<in> set (nodes g) \<and> depends active (nname g v) (nname g u))
    | Err e \<Rightarrow> \<exists>s d. e = Fault (MissingDependency s d) \<and> depends active s d \<and> \<not> bt_contains active d"
proof (cases "build_graph active :: ('te, 'ce) plan_error fault + _")
  case (Inl e)
  from build_graph_Err [OF ok Inl] Inl show ?thesis
    by (auto simp: depends_def bt_contains_iff bt_mem [OF ok])
next
  case (Inr g)
  from build_graph_Ok [OF ok Inr] Inr show ?thesis
    unfolding deps_closed_iff [OF ok] depends_def by simp
qed

theorem build_graph_correct_witness:
  "deps_closed (cmp_services demo)"
proof -
  have "is_ok (build_graph (cmp_services demo) :: (unit, unit) plan_error fault + _)" by code_simp
  then show ?thesis
    using build_graph_correct [OF demo_ok, where 'te = unit and 'ce = unit]
    by (cases "build_graph (cmp_services demo) :: (unit, unit) plan_error fault + _") simp_all
qed

text \<open>
  C15: the waves of a graph list every node once, each after all its predecessors and as early as
  that allows; when there are none, the reported path names services each of which depends on
  another of them.
\<close>

theorem waves_layered:
  assumes "graph_ok g"
  shows "case (topological_waves g :: ('te, 'ce) plan_error fault + _) of
      Ok waves \<Rightarrow> layered g waves \<and> distinct (concat waves) \<and> set (concat waves) = set (nodes g)
    | Err e \<Rightarrow>
        \<exists>R. e = Fault (Cycle (remdups (sort (map (nname g) R)))) \<and>
          R \<noteq> [] \<and> set R \<subseteq> set (nodes g) \<and> (\<forall>v\<in>set R. \<exists>u\<in>set R. edge g u v)"
  using topological_waves_spec [OF assms, where 'te = 'te and 'ce = 'ce] .

text \<open>A graph has waves exactly when it is acyclic.\<close>

theorem waves_iff_acyclic:
  assumes "graph_ok g"
  shows "(\<exists>waves. topological_waves g = (Ok waves :: ('te, 'ce) plan_error fault + _)) \<longleftrightarrow> acyclic {(u, v). edge g u v}"
  using topological_waves_acyclic [OF assms] .

definition demo_graph :: service_graph where
  "demo_graph = projr (build_graph (cmp_services demo) :: (unit, unit) plan_error fault + _)"

lemma demo_graph_ok: "graph_ok demo_graph"
proof -
  have "is_ok (build_graph (cmp_services demo) :: (unit, unit) plan_error fault + _)" by code_simp
  then have "(build_graph (cmp_services demo) :: (unit, unit) plan_error fault + _) = Ok demo_graph"
    by (cases "build_graph (cmp_services demo) :: (unit, unit) plan_error fault + _") (simp_all add: demo_graph_def)
  from build_graph_Ok [OF demo_ok this] show ?thesis by blast
qed

lemma demo_waves: "topological_waves demo_graph = (Ok [[NodeId 1], [NodeId 0], [NodeId 2]] :: (unit, unit) plan_error fault + _)"
  by code_simp

theorem waves_layered_witness: "layered demo_graph [[NodeId 1], [NodeId 0], [NodeId 2]]"
  using waves_layered [OF demo_graph_ok, where 'te = unit and 'ce = unit] by (simp add: demo_waves)

theorem waves_iff_acyclic_witness: "acyclic {(u, v). edge demo_graph u v}"
  using waves_iff_acyclic [OF demo_graph_ok, where 'te = unit and 'ce = unit] by (simp add: demo_waves)

text \<open>
  C0: the waves do not depend on the iteration order of the hash maps: two graphs with the same
  names and edges get the same waves.
\<close>

lemma layered_unique_set:
  assumes l: "layered g ws" "distinct (concat ws)" "set (concat ws) = N"
    and l': "layered g ws'" "distinct (concat ws')" "set (concat ws') = N"
  shows "k < length ws \<Longrightarrow> v \<in> set (ws ! k) \<Longrightarrow> k < length ws' \<and> v \<in> set (ws' ! k)"
  using l l'
proof (induction k arbitrary: v ws ws' rule: less_induct)
  case (less k)
  have uniq: "i = j" if "distinct (concat xs)" "i < length xs" "j < length xs" "v \<in> set (xs ! i)" "v \<in> set (xs ! j)"
    for xs :: "node_id list list" and i j v
  proof (rule ccontr)
    assume "i \<noteq> j"
    with that show False
    proof (induction xs arbitrary: i j)
      case (Cons x xs)
      then show ?case by (cases i; cases j) (auto simp: disjoint_iff dest: nth_mem)
    qed simp
  qed
  from less.prems have "v \<in> set (concat ws')" using nth_mem by fastforce
  then obtain j where j: "j < length ws'" "v \<in> set (ws' ! j)"
    by (metis UN_iff in_set_conv_nth set_concat)
  consider "j < k" | "j = k" | "k < j" by linarith
  then show ?case
  proof cases
    case 1
    from less.IH [OF 1 j less.prems(6-8,3-5)] uniq [OF less.prems(4) _ less.prems(1) _ less.prems(2), of j] 1
    show ?thesis by auto
  next
    case 2
    with j show ?thesis by simp
  next
    case 3
    with less.prems(6) j obtain u where u: "u \<in> set (ws' ! (j - 1))" "edge g u v"
      unfolding layered_def wave_ok_def by (metis less_nat_zero_code not_gr_zero)
    with less.prems(1-3) obtain i where i: "i < k" "u \<in> set (ws ! i)" unfolding layered_def wave_ok_def by blast
    from less.IH [OF i(1) _ i(2) less.prems(3-8)] less.prems(1) i(1) have "i < length ws'" "u \<in> set (ws' ! i)" by auto
    with uniq [OF less.prems(7), of i "j - 1" u] u j 3 i show ?thesis by auto
  qed
qed

lemma layered_unique:
  assumes l: "layered g ws" "distinct (concat ws)" "set (concat ws) = N"
    and l': "layered g ws'" "distinct (concat ws')" "set (concat ws') = N"
  shows "ws = ws'"
proof -
  have sub: "length xs \<le> length ys" if "layered g xs" "distinct (concat xs)" "set (concat xs) = N"
    "layered g ys" "distinct (concat ys)" "set (concat ys) = N" for xs ys
  proof (rule ccontr)
    assume "\<not> length xs \<le> length ys"
    then have k: "length ys < length xs" by simp
    with that(1) have "xs ! length ys \<noteq> []" by (simp add: layered_def wave_ok_def)
    then obtain v where "v \<in> set (xs ! length ys)" by (cases "xs ! length ys") auto
    from layered_unique_set [OF that k this] show False by simp
  qed
  show ?thesis
  proof (rule nth_equalityI)
    show len: "length ws = length ws'" using sub [OF l l'] sub [OF l' l] by simp
    fix k
    assume k: "k < length ws"
    have "set (ws ! k) = set (ws' ! k)"
      using layered_unique_set [OF l l' k] layered_unique_set [OF l' l] k len by auto
    moreover have "sorted_wrt (<) (ws ! k)" "sorted_wrt (<) (ws' ! k)"
      using l(1) l'(1) k len by (auto simp: layered_def wave_ok_def)
    ultimately show "ws ! k = ws' ! k" using strict_sorted_equal by blast
  qed
qed

theorem waves_canonical:
  assumes "graph_ok g" "graph_ok g'" "sg_names g = sg_names g'" "\<And>u v. edge g u v = edge g' u v"
    and "(topological_waves g :: ('te, 'ce) plan_error fault + _) = Ok ws"
    and "(topological_waves g' :: ('te, 'ce) plan_error fault + _) = Ok ws'"
  shows "ws = ws'"
proof -
  have "layered g' ws = layered g ws" "nodes g = nodes g'"
    using assms(3,4) by (simp_all add: layered_def wave_ok_def nodes_def)
  with assms(5,6) topological_waves_spec [OF assms(1), where 'te = 'te and 'ce = 'ce]
    topological_waves_spec [OF assms(2), where 'te = 'te and 'ce = 'ce]
  show ?thesis by (intro layered_unique [of g' ws "set (nodes g')" ws']) simp_all
qed

end
