(* ===== verification/Effects.thy ===== *)
theory Effects
  imports Prelude
begin

text \<open>
  Stateful code: effects, which change a state and may fail, and processes, which may also panic or
  not return at all (\<open>None\<close>).
\<close>

section \<open>Effects\<close>

text \<open>An operation that may fail and changes the state; \<open>bind_st\<close> is \<open>.await?\<close>.\<close>

type_synonym ('w, 'e, 'a) effect = "'w \<Rightarrow> ('e + 'a) \<times> 'w"

definition return_st :: "'a \<Rightarrow> ('w, 'e, 'a) effect" where
  "return_st a w = (Ok a, w)"

definition fail_st :: "'e \<Rightarrow> ('w, 'e, 'a) effect" where
  "fail_st e w = (Err e, w)"

definition lift_st :: "'e + 'a \<Rightarrow> ('w, 'e, 'a) effect" where
  "lift_st r w = (r, w)"

definition bind_st :: "('w, 'e, 'a) effect \<Rightarrow> ('a \<Rightarrow> ('w, 'e, 'b) effect) \<Rightarrow> ('w, 'e, 'b) effect" where
  "bind_st m f w = (case m w of (Err e, w') \<Rightarrow> (Err e, w') | (Ok a, w') \<Rightarrow> f a w')"

section \<open>Processes: effects that may panic or not return\<close>

type_synonym ('w, 'e, 'a) process = "'w \<Rightarrow> (('e fault + 'a) \<times> 'w) option"

definition call_pr :: "('w, 'e, 'a) effect \<Rightarrow> ('w, 'e, 'a) process" where
  "call_pr m w = (case m w of (r, w') \<Rightarrow> Some (map_err Fault r, w'))"

definition return_pr :: "'a \<Rightarrow> ('w, 'e, 'a) process" where
  "return_pr a w = Some (Ok a, w)"

definition bind_pr :: "('w, 'e, 'a) process \<Rightarrow> ('a \<Rightarrow> ('w, 'e, 'b) process) \<Rightarrow> ('w, 'e, 'b) process" where
  "bind_pr m f w =
     (case m w of None \<Rightarrow> None | Some (Err e, w') \<Rightarrow> Some (Err e, w') | Some (Ok a, w') \<Rightarrow> f a w')"

section \<open>Lemmas\<close>

lemma return_st_simp [simp]: "return_st a w = (Ok a, w)"
  by (simp add: return_st_def)

lemma fail_st_simp [simp]: "fail_st e w = (Err e, w)"
  by (simp add: fail_st_def)

lemma lift_st_simp [simp]: "lift_st r w = (r, w)"
  by (simp add: lift_st_def)

lemma bind_st_return [simp]: "bind_st (return_st a) f = f a"
  by (simp add: bind_st_def fun_eq_iff)

lemma bind_st_Ok: "bind_st m f w = (Ok b, w') \<longleftrightarrow> (\<exists>a w1. m w = (Ok a, w1) \<and> f a w1 = (Ok b, w'))"
  by (auto simp: bind_st_def split: prod.splits sum.splits)

lemma bind_st_Err:
  "bind_st m f w = (Err e, w') \<longleftrightarrow> m w = (Err e, w') \<or> (\<exists>a w1. m w = (Ok a, w1) \<and> f a w1 = (Err e, w'))"
  by (auto simp: bind_st_def split: prod.splits sum.splits)

lemma bind_st_assoc: "bind_st (bind_st m f) g = bind_st m (\<lambda>a. bind_st (f a) g)"
  by (auto simp: bind_st_def fun_eq_iff split: prod.splits sum.splits)

section \<open>Process lemmas\<close>

lemma return_pr_simp [simp]: "return_pr a w = Some (Ok a, w)"
  by (simp add: return_pr_def)

lemma map_err_Fault [simp]: "map_err Fault r \<noteq> Err Panic" "map_err Fault r = Ok a \<longleftrightarrow> r = Ok a"
    "map_err Fault r = Err (Fault e) \<longleftrightarrow> r = Err e"
    "Ok a = map_err Fault r \<longleftrightarrow> r = Ok a" "Err (Fault e) = map_err Fault r \<longleftrightarrow> r = Err e"
    "Err Panic \<noteq> map_err Fault r"
  by (cases r; auto)+

lemma call_pr_Some: "call_pr m w = Some (r, w') \<longleftrightarrow> (\<exists>r0. m w = (r0, w') \<and> r = map_err Fault r0)"
  by (auto simp: call_pr_def split: prod.splits)

lemma call_pr_not_None [simp]: "call_pr m w \<noteq> None"
  by (simp add: call_pr_def split: prod.splits)

lemma bind_pr_assoc: "bind_pr (bind_pr m f) g = bind_pr m (\<lambda>a. bind_pr (f a) g)"
  by (auto simp: bind_pr_def fun_eq_iff split: option.splits prod.splits sum.splits)

lemma bind_return_pr [simp]: "bind_pr (return_pr a) f = f a" "bind_pr m return_pr = m"
  by (auto simp: bind_pr_def return_pr_def fun_eq_iff split: option.splits prod.splits sum.splits)

lemma bind_pr_Ok:
  "bind_pr m f w = Some (Ok b, w') \<longleftrightarrow> (\<exists>a w1. m w = Some (Ok a, w1) \<and> f a w1 = Some (Ok b, w'))"
  by (auto simp: bind_pr_def split: option.splits prod.splits sum.splits)

lemma bind_pr_Err:
  "bind_pr m f w = Some (Err e, w') \<longleftrightarrow>
     m w = Some (Err e, w') \<or> (\<exists>a w1. m w = Some (Ok a, w1) \<and> f a w1 = Some (Err e, w'))"
  by (auto simp: bind_pr_def split: option.splits prod.splits sum.splits)

lemma bind_pr_None:
  "bind_pr m f w = None \<longleftrightarrow> m w = None \<or> (\<exists>a w1. m w = Some (Ok a, w1) \<and> f a w1 = None)"
  by (auto simp: bind_pr_def split: option.splits prod.splits sum.splits)

end
