(* ===== verification/Driver.thy ===== *)
theory Driver
  imports Plan_Types Effects
begin

text \<open>
  The driver interface of crate \<open>selur-compose-driver\<close> (\<open>lib.rs\<close>): identifiers, container and
  health states, errors, and the trait \<open>Driver\<close> as a record of operations on a state \<open>'w\<close> (the
  outside world, or the fields of a test double).  \<open>'io\<close> and \<open>'je\<close> are the I/O and JSON error
  types, \<open>'ls\<close> the type of a log stream.
\<close>

section \<open>Identifiers and states\<close>

datatype image_id = ImageId string

datatype container_id = ContainerId (container_id_str: string)

datatype health_status = Healthy | Starting | Unhealthy | Health_None | Unknown string

definition health_status_from :: "string \<Rightarrow> health_status" where
  "health_status_from s =
     (if s = ''healthy'' then Healthy
      else if s = ''unhealthy'' then Unhealthy
      else if s = ''starting'' then Starting
      else if s = ''none'' then Health_None
      else Unknown s)"

record health_state =
  hs_status :: health_status
  hs_failing_streak :: nat

record container_state =
  cst_name :: string
  cst_status :: string
  cst_pid :: nat
  cst_exit_code :: int
  cst_health :: "health_state option"

record container_summary =
  csum_id :: string
  csum_name :: string
  csum_image :: string
  csum_state :: string
  csum_ports :: "string list"
  csum_service :: "string option"

section \<open>Errors\<close>

datatype ('io, 'je) driver_error =
    Podman_Error "string list" int string
  | HealthcheckTimeout string duration
  | Unhealthy_Error string nat
  | PrivilegedPort string nat
  | Io_Error 'io
  | Json_Error 'je

section \<open>The trait\<close>

record ('w, 'io, 'je, 'ls) driver =
  drv_build :: "build_spec \<Rightarrow> ('w, ('io, 'je) driver_error, image_id) effect"
  drv_pull :: "string \<Rightarrow> ('w, ('io, 'je) driver_error, image_id) effect"
  drv_create_network :: "network_spec \<Rightarrow> ('w, ('io, 'je) driver_error, unit) effect"
  drv_create_volume :: "volume_spec \<Rightarrow> ('w, ('io, 'je) driver_error, unit) effect"
  drv_run :: "run_spec \<Rightarrow> ('w, ('io, 'je) driver_error, container_id) effect"
  drv_inspect :: "container_id \<Rightarrow> ('w, ('io, 'je) driver_error, container_state) effect"
  drv_healthcheck_run :: "container_id \<Rightarrow> ('w, ('io, 'je) driver_error, health_state) effect"
  drv_stop :: "container_id \<Rightarrow> duration \<Rightarrow> ('w, ('io, 'je) driver_error, unit) effect"
  drv_rm :: "container_id \<Rightarrow> bool \<Rightarrow> ('w, ('io, 'je) driver_error, unit) effect"
  drv_logs :: "container_id \<Rightarrow> bool \<Rightarrow> ('w, ('io, 'je) driver_error, 'ls) effect"
  drv_ps :: "string \<Rightarrow> ('w, ('io, 'je) driver_error, container_summary list) effect"

end
