(* ===== verification/Healthcheck.thy ===== *)
theory Healthcheck
  imports Driver
begin

text \<open>
  The polling loop of crate \<open>selur-compose-driver\<close> (\<open>healthcheck.rs\<close>): \<open>wait_healthy\<close> and
  \<open>HealthGate\<close>.  Reading the monotonic clock and sleeping are the parameter \<open>clk\<close>; times and
  durations are in nanoseconds.  A loop that never ends is \<open>None\<close>, a panic (a \<open>Duration\<close> or a \<open>u32\<close>
  out of range) is the error \<open>Panic\<close>.
\<close>

section \<open>Time\<close>

record 'w clock =
  clk_now :: "'w \<Rightarrow> nat"
  clk_sleep :: "duration \<Rightarrow> 'w \<Rightarrow> 'w"

section \<open>wait_healthy\<close>

definition secs :: "nat \<Rightarrow> duration" where
  "secs n = n * 1000000000"

definition default_poll_interval :: duration where
  "default_poll_interval = secs 2"

definition timeout_slack :: duration where
  "timeout_slack = secs 5"

text \<open>\<open>Duration::MAX\<close>; the checked product and sum panic above it, as does \<open>retries + 1\<close> above \<open>u32::MAX\<close>.\<close>

definition duration_max :: duration where
  "duration_max = 2 ^ 64 * 1000000000 - 1"

definition health_timeout :: "duration \<Rightarrow> duration \<Rightarrow> nat \<Rightarrow> duration option" where
  "health_timeout start_period interval retries =
     (if retries + 1 < 2 ^ 32 \<and> interval * (retries + 1) \<le> duration_max \<and>
         start_period + interval * (retries + 1) + timeout_slack \<le> duration_max
      then Some (start_period + interval * (retries + 1) + timeout_slack) else None)"

partial_function (option) poll_loop ::
    "('w, 'io, 'je, 'ls) driver \<Rightarrow> 'w clock \<Rightarrow> container_id \<Rightarrow> string \<Rightarrow> duration \<Rightarrow> duration \<Rightarrow> nat
     \<Rightarrow> 'w \<Rightarrow> ((('io, 'je) driver_error fault + health_state) \<times> 'w) option" where
  [code]: "poll_loop drv clk i service timeout poll deadline w =
     (case drv_inspect drv i w of
        (Err e, w1) \<Rightarrow> Some (Err (Fault e), w1)
      | (Ok state, w1) \<Rightarrow>
          (case cst_health state of
             None \<Rightarrow> Some (Ok \<lparr>hs_status = Health_None, hs_failing_streak = 0\<rparr>, w1)
           | Some hs \<Rightarrow>
               if hs_status hs = Healthy then Some (Ok hs, w1)
               else if hs_status hs = Unhealthy
               then Some (Err (Fault (Unhealthy_Error service (hs_failing_streak hs))), w1)
               else if deadline \<le> clk_now clk w1
               then Some (Err (Fault (HealthcheckTimeout service timeout)), w1)
               else poll_loop drv clk i service timeout poll deadline (clk_sleep clk poll w1)))"

definition wait_healthy ::
    "('w, 'io, 'je, 'ls) driver \<Rightarrow> 'w clock \<Rightarrow> container_id \<Rightarrow> string \<Rightarrow> duration \<Rightarrow> duration \<Rightarrow> nat
     \<Rightarrow> ('w, ('io, 'je) driver_error, health_state) process" where
  "wait_healthy drv clk i service start_period interval retries w =
     (case health_timeout start_period interval retries of
        None \<Rightarrow> Some (Err Panic, w)
      | Some timeout \<Rightarrow>
          let poll = min interval default_poll_interval; deadline = clk_now clk w + timeout in
          poll_loop drv clk i service timeout poll deadline w)"

section \<open>HealthGate\<close>

text \<open>The cell keeps the first result that the poll loop returned; the error is kept as its text.\<close>

record health_gate =
  hg_service :: string
  hg_cell :: "(string + health_state) option"

definition health_gate_new :: "string \<Rightarrow> health_gate" where
  "health_gate_new service = \<lparr>hg_service = service, hg_cell = None\<rparr>"

text \<open>\<open>get_or_init\<close> leaves the cell empty when the initialiser panics.\<close>

definition health_gate_wait ::
    "(('io, 'je) driver_error \<Rightarrow> string) \<Rightarrow> ('w, 'io, 'je, 'ls) driver \<Rightarrow> 'w clock \<Rightarrow> container_id
     \<Rightarrow> duration \<Rightarrow> duration \<Rightarrow> nat \<Rightarrow> health_gate \<times> 'w
     \<Rightarrow> ((('io, 'je) driver_error fault + health_state) \<times> health_gate \<times> 'w) option" where
  "health_gate_wait display drv clk i start_period interval retries gw =
     (case gw of (gate, w) \<Rightarrow>
      let resurface = (\<lambda>result. case result of
            Ok hs \<Rightarrow> Ok hs | Err _ \<Rightarrow> Err (Fault (HealthcheckTimeout (hg_service gate) 0))) in
      case hg_cell gate of
        Some result \<Rightarrow> Some (resurface result, gate, w)
      | None \<Rightarrow>
          (case wait_healthy drv clk i (hg_service gate) start_period interval retries w of
             None \<Rightarrow> None
           | Some (Err Panic, w') \<Rightarrow> Some (Err Panic, gate, w')
           | Some (Err (Fault e), w') \<Rightarrow>
               Some (resurface (Err (display e)), gate\<lparr>hg_cell := Some (Err (display e))\<rparr>, w')
           | Some (Ok hs, w') \<Rightarrow> Some (resurface (Ok hs), gate\<lparr>hg_cell := Some (Ok hs)\<rparr>, w')))"

section \<open>What the loop does\<close>

text \<open>
  One turn of the loop: \<open>verdict\<close> is what an inspected state decides (nothing while the container
  is starting), \<open>polling n w w'\<close> says that \<open>n\<close> turns decided nothing and led from \<open>w\<close> to \<open>w'\<close>.
\<close>

definition verdict :: "string \<Rightarrow> container_state \<Rightarrow> (('io, 'je) driver_error + health_state) option" where
  "verdict service state =
     (case cst_health state of
        None \<Rightarrow> Some (Ok \<lparr>hs_status = Health_None, hs_failing_streak = 0\<rparr>)
      | Some hs \<Rightarrow>
          if hs_status hs = Healthy then Some (Ok hs)
          else if hs_status hs = Unhealthy then Some (Err (Unhealthy_Error service (hs_failing_streak hs)))
          else None)"

definition undecided :: "container_state \<Rightarrow> bool" where
  "undecided state =
     (case cst_health state of None \<Rightarrow> False | Some hs \<Rightarrow> hs_status hs \<noteq> Healthy \<and> hs_status hs \<noteq> Unhealthy)"

inductive polling ::
    "('w, 'io, 'je, 'ls) driver \<Rightarrow> 'w clock \<Rightarrow> container_id \<Rightarrow> duration \<Rightarrow> nat \<Rightarrow> nat \<Rightarrow> 'w \<Rightarrow> 'w \<Rightarrow> bool"
  for drv :: "('w, 'io, 'je, 'ls) driver" and clk i poll deadline
where
  polling_0: "polling drv clk i poll deadline 0 w w"
| polling_Suc:
    "drv_inspect drv i w = (Ok state, w1) \<Longrightarrow> undecided state
     \<Longrightarrow> clk_now clk w1 < deadline
     \<Longrightarrow> polling drv clk i poll deadline n (clk_sleep clk poll w1) w2
     \<Longrightarrow> polling drv clk i poll deadline (Suc n) w w2"

inductive_cases polling_SucE: "polling drv clk i poll deadline (Suc n) w w2"

text \<open>The last turn.\<close>

definition last_turn ::
    "('w, 'io, 'je, 'ls) driver \<Rightarrow> 'w clock \<Rightarrow> container_id \<Rightarrow> string \<Rightarrow> duration \<Rightarrow> nat \<Rightarrow> 'w
     \<Rightarrow> ((('io, 'je) driver_error + health_state) \<times> 'w) option" where
  "last_turn drv clk i service timeout deadline w =
     (case drv_inspect drv i w of
        (Err e, w1) \<Rightarrow> Some (Err e, w1)
      | (Ok state, w1) \<Rightarrow>
          (case verdict service state of
             Some r \<Rightarrow> Some (r, w1)
           | None \<Rightarrow> if deadline \<le> clk_now clk w1 then Some (Err (HealthcheckTimeout service timeout), w1) else None))"

lemma verdict_None [simp]: "verdict s state = None \<longleftrightarrow> undecided state"
  by (auto simp: verdict_def undecided_def split: option.splits)

lemma poll_loop_turn:
  "poll_loop drv clk i service timeout poll deadline w =
     (case last_turn drv clk i service timeout deadline w of
        Some (r, w1) \<Rightarrow> Some (map_err Fault r, w1)
      | None \<Rightarrow>
          poll_loop drv clk i service timeout poll deadline (clk_sleep clk poll (snd (drv_inspect drv i w))))"
  by (subst poll_loop.simps)
    (auto simp: last_turn_def verdict_def split: prod.splits sum.splits option.splits)

lemma last_turn_None:
  "last_turn drv clk i service timeout deadline w = None \<longleftrightarrow>
     (\<exists>state w1. drv_inspect drv i w = (Ok state, w1) \<and> undecided state \<and> clk_now clk w1 < deadline)"
  by (auto simp: last_turn_def verdict_def undecided_def
      split: prod.splits sum.splits option.splits if_splits)

lemma poll_loop_decided:
  "last_turn drv clk i service timeout deadline w = Some (r, w1) \<Longrightarrow>
     poll_loop drv clk i service timeout poll deadline w = Some (map_err Fault r, w1)"
  by (subst poll_loop_turn) simp

lemma poll_loop_polling:
  assumes "polling drv clk i poll deadline n w wn"
  shows "poll_loop drv clk i service timeout poll deadline w =
           poll_loop drv clk i service timeout poll deadline wn"
  using assms
proof (induction rule: polling.induct)
  case (polling_Suc w state w1 n w2)
  then have "last_turn drv clk i service timeout deadline w = None"
    by (auto simp: last_turn_None)
  with polling_Suc show ?case
    by (subst poll_loop_turn) simp
qed simp

lemma poll_loop_last:
  fixes drv :: "('w, 'io, 'je, 'ls) driver"
  assumes "poll_loop drv clk i service timeout poll deadline w = Some (r, w')"
  shows "\<exists>n wn r0. polling drv clk i poll deadline n w wn \<and>
           last_turn drv clk i service timeout deadline wn = Some (r0, w') \<and> r = map_err Fault r0"
proof -
  define Q where "Q = (\<lambda>w (rw :: (('io, 'je) driver_error fault + health_state) \<times> 'w).
    \<exists>n wn r0. polling drv clk i poll deadline n w wn \<and>
      last_turn drv clk i service timeout deadline wn = Some (r0, snd rw) \<and> fst rw = map_err Fault r0)"
  have "Q w (r, w')"
  proof (rule poll_loop.raw_induct[of "\<lambda>drv' clk' i' service' timeout' poll' deadline' w rw.
      drv' = drv \<and> clk' = clk \<and> i' = i \<and> service' = service \<and> timeout' = timeout \<and> poll' = poll \<and> deadline' = deadline
      \<longrightarrow> Q w rw" drv clk i service timeout poll deadline w "(r, w')", THEN mp])
    fix rec drv' clk' i' service' timeout' poll' deadline' w0 rw
    assume IH: "\<And>drv' clk' i' service' timeout' poll' deadline' w rw.
        rec drv' clk' i' service' timeout' poll' deadline' w = Some rw \<Longrightarrow>
        drv' = drv \<and> clk' = clk \<and> i' = i \<and> service' = service \<and> timeout' = timeout \<and> poll' = poll \<and> deadline' = deadline
        \<longrightarrow> Q w rw"
      and eq: "(case drv_inspect drv' i' w0 of
        (Err e, w1) \<Rightarrow> Some (Err (Fault e), w1)
      | (Ok state, w1) \<Rightarrow>
          (case cst_health state of
             None \<Rightarrow> Some (Ok \<lparr>hs_status = Health_None, hs_failing_streak = 0\<rparr>, w1)
           | Some hs \<Rightarrow>
               if hs_status hs = Healthy then Some (Ok hs, w1)
               else if hs_status hs = Unhealthy
               then Some (Err (Fault (Unhealthy_Error service' (hs_failing_streak hs))), w1)
               else if deadline' \<le> clk_now clk' w1
               then Some (Err (Fault (HealthcheckTimeout service' timeout')), w1)
               else rec drv' clk' i' service' timeout' poll' deadline' (clk_sleep clk' poll' w1))) = Some rw"
    show "drv' = drv \<and> clk' = clk \<and> i' = i \<and> service' = service \<and> timeout' = timeout \<and> poll' = poll \<and> deadline' = deadline
      \<longrightarrow> Q w0 rw"
    proof (intro impI, elim conjE)
      assume same: "drv' = drv" "clk' = clk" "i' = i" "service' = service" "timeout' = timeout" "poll' = poll" "deadline' = deadline"
      show "Q w0 rw"
      proof (cases "last_turn drv clk i service timeout deadline w0")
        case None
        then obtain state w1 where st: "drv_inspect drv i w0 = (Ok state, w1)"
          "undecided state" "clk_now clk w1 < deadline"
          by (auto simp: last_turn_None)
        with eq have "rec drv clk i service timeout poll deadline (clk_sleep clk poll w1) = Some rw"
          by (auto simp: same undecided_def split: option.splits if_splits)
        then have "Q (clk_sleep clk poll w1) rw"
          using IH by blast
        then show ?thesis
          unfolding Q_def using polling_Suc[OF st] by blast
      next
        case (Some rw0)
        with eq have "last_turn drv clk i service timeout deadline w0 = Some (fst rw0, snd rw)"
          "fst rw = map_err Fault (fst rw0)"
          by (auto simp: same last_turn_def verdict_def split: prod.splits sum.splits option.splits if_splits)
        then show ?thesis
          unfolding Q_def
          by (intro exI[of _ 0] exI[of _ w0] exI[of _ "fst rw0"]) (simp add: polling_0)
      qed
    qed
  next
    show "poll_loop drv clk i service timeout poll deadline w = Some (r, w')"
      by (rule assms)
  qed simp
  then show ?thesis
    by (simp add: Q_def)
qed

text \<open>\<open>wait_healthy\<close> as a whole: undecided turns, then a deciding one.\<close>

lemma wait_healthy_last:
  assumes "wait_healthy drv clk i service start_period interval retries w = Some (r, w')"
  shows "(health_timeout start_period interval retries = None \<and> r = Err Panic \<and> w' = w) \<or>
    (\<exists>timeout n wn r0. health_timeout start_period interval retries = Some timeout \<and>
       polling drv clk i (min interval default_poll_interval) (clk_now clk w + timeout) n w wn \<and>
       last_turn drv clk i service timeout (clk_now clk w + timeout) wn = Some (r0, w') \<and> r = map_err Fault r0)"
  using assms poll_loop_last by (fastforce simp: wait_healthy_def Let_def split: option.splits)

section \<open>Clocks that only go forward\<close>

text \<open>
  The interface to time: sleeping lets at least the duration pass, and an inspection does not turn
  the clock back.  Under it the loop ends, after a bounded number of turns.
\<close>

locale forward_clock =
  fixes drv :: "('w, 'io, 'je, 'ls) driver" and clk :: "'w clock"
  assumes sleep_advances: "clk_now clk w + d \<le> clk_now clk (clk_sleep clk d w)"
    and inspect_keeps: "clk_now clk w \<le> clk_now clk (snd (drv_inspect drv i w))"
begin

lemma polling_advances: "polling drv clk i poll deadline n w wn \<Longrightarrow> clk_now clk w + n * poll \<le> clk_now clk wn"
proof (induction rule: polling.induct)
  case (polling_Suc w state w1 n w2)
  then show ?case
    using inspect_keeps[of w i] sleep_advances[of w1 poll] by simp
qed simp

lemma polling_bound:
  "polling drv clk i poll deadline n w wn \<Longrightarrow> 0 < n \<Longrightarrow> clk_now clk w + (n - 1) * poll < deadline"
proof (induction rule: polling.induct)
  case (polling_Suc w state w1 n w2)
  then show ?case
    using inspect_keeps[of w i] sleep_advances[of w1 poll] by (cases n) auto
qed simp

lemma poll_loop_returns:
  assumes "0 < poll"
  shows "\<exists>r w'. poll_loop drv clk i service timeout poll deadline w = Some (r, w')"
proof (induction "deadline - clk_now clk w" arbitrary: w rule: less_induct)
  case less
  show ?case
  proof (cases "last_turn drv clk i service timeout deadline w")
    case None
    then obtain state w1 where st: "drv_inspect drv i w = (Ok state, w1)" "clk_now clk w1 < deadline"
      by (auto simp: last_turn_None)
    then have "deadline - clk_now clk (clk_sleep clk poll w1) < deadline - clk_now clk w"
      using inspect_keeps[of w i] sleep_advances[of w1 poll] assms by simp
    then show ?thesis
      using less[of "clk_sleep clk poll w1"] None st by (subst poll_loop_turn) simp
  next
    case (Some a)
    then show ?thesis
      by (subst poll_loop_turn) (auto split: prod.splits)
  qed
qed

lemma wait_returns:
  assumes "0 < interval"
  shows "\<exists>r w'. wait_healthy drv clk i service start_period interval retries w = Some (r, w')"
  using assms poll_loop_returns[of "min interval default_poll_interval"]
  by (auto simp: wait_healthy_def Let_def default_poll_interval_def secs_def split: option.splits)

end

end
