(* ===== verification/Argv.thy ===== *)
theory Argv
  imports Driver
begin

text \<open>
  The argument vectors of crate \<open>selur-compose-driver\<close> (\<open>argv.rs\<close>).  \<open>json\<close> is
  \<open>serde_json::to_string\<close> on a list of strings (\<open>None\<close> if it fails).
\<close>

definition build_argv :: "build_spec \<Rightarrow> string list" where
  "build_argv spec =
     [''podman'', ''build''] @
     (if bspec_no_cache spec then [''--no-cache''] else []) @
     [''--tag'', bspec_tag spec] @
     (case bspec_dockerfile spec of Some df \<Rightarrow> [''--file'', df] | None \<Rightarrow> []) @
     (case bspec_target spec of Some target \<Rightarrow> [''--target'', target] | None \<Rightarrow> []) @
     concat (map (\<lambda>(key, val). [''--build-arg'', key @ ''='' @ val]) (bspec_args spec)) @
     [bspec_context spec]"

definition pull_argv :: "string \<Rightarrow> string list" where
  "pull_argv img = [''podman'', ''pull'', img]"

definition label_args :: "string str_map \<Rightarrow> string list" where
  "label_args labels = concat (map (\<lambda>(key, val). [''--label'', key @ ''='' @ val]) labels)"

definition network_create_argv :: "network_spec \<Rightarrow> string list" where
  "network_create_argv spec =
     [''podman'', ''network'', ''create''] @
     (case nspec_driver spec of Some driver \<Rightarrow> [''--driver'', driver] | None \<Rightarrow> []) @
     label_args (nspec_labels spec) @ [nspec_name spec]"

definition volume_create_argv :: "volume_spec \<Rightarrow> string list" where
  "volume_create_argv spec =
     [''podman'', ''volume'', ''create''] @
     (case vspec_driver spec of Some driver \<Rightarrow> [''--driver'', driver] | None \<Rightarrow> []) @
     label_args (vspec_labels spec) @ [vspec_name spec]"

definition run_argv :: "(string list \<Rightarrow> string option) \<Rightarrow> run_spec \<Rightarrow> string list" where
  "run_argv json spec =
     [''podman'', ''run'', ''--detach'', ''--name'', rspec_container_name spec] @
     (case rspec_network_mode spec of
        Some mode \<Rightarrow> [''--network'', mode]
      | None \<Rightarrow> concat (map (\<lambda>net. [''--network'', net]) (rspec_networks spec))) @
     (if rspec_restart spec \<noteq> [] \<and> rspec_restart spec \<noteq> ''no''
      then [''--restart'', rspec_restart spec] else []) @
     concat (map (\<lambda>e. [''--env'', e]) (rspec_environment spec)) @
     concat (map (\<lambda>v. [''--volume'', v]) (rspec_volumes spec)) @
     concat (map (\<lambda>p. [''--publish'', p]) (rspec_ports spec)) @
     label_args (rspec_labels spec) @
     (case rspec_entrypoint spec of
        Some ep \<Rightarrow> [''--entrypoint'', (case json ep of Some j \<Rightarrow> j | None \<Rightarrow> join '' '' ep)]
      | None \<Rightarrow> []) @
     [rspec_image spec] @
     (case rspec_command spec of Some cmd \<Rightarrow> cmd | None \<Rightarrow> [])"

definition stop_argv :: "string \<Rightarrow> nat \<Rightarrow> string list" where
  "stop_argv i grace_secs = [''podman'', ''stop'', ''--time'', show_nat grace_secs, i]"

definition rm_argv :: "string \<Rightarrow> bool \<Rightarrow> string list" where
  "rm_argv i force = [''podman'', ''rm''] @ (if force then [''--force''] else []) @ [i]"

definition inspect_argv :: "string \<Rightarrow> string list" where
  "inspect_argv i = [''podman'', ''inspect'', ''--format'', ''json'', i]"

definition healthcheck_run_argv :: "string \<Rightarrow> string list" where
  "healthcheck_run_argv i = [''podman'', ''healthcheck'', ''run'', i]"

definition logs_argv :: "string \<Rightarrow> bool \<Rightarrow> string list" where
  "logs_argv i follow =
     [''podman'', ''logs''] @ (if follow then [''--follow''] else []) @ [''--timestamps'', i]"

definition ps_argv :: "string \<Rightarrow> string list" where
  "ps_argv project =
     [''podman'', ''ps'', ''--all'', ''--filter'', ''label=io.podman.compose.project='' @ project,
      ''--format'', ''json'']"

definition network_ls_argv :: "string \<Rightarrow> string list" where
  "network_ls_argv project =
     [''podman'', ''network'', ''ls'', ''--filter'', ''label=io.podman.compose.project='' @ project,
      ''--format'', ''json'']"

definition volume_ls_argv :: "string \<Rightarrow> string list" where
  "volume_ls_argv project =
     [''podman'', ''volume'', ''ls'', ''--filter'', ''label=io.podman.compose.project='' @ project,
      ''--format'', ''json'']"

text \<open>
  What podman reads back from a \<open>run\<close> command line built for flags with one value each: the
  options up to the first word that is none of them, which is the image, then the command.
\<close>

definition run_flags :: "string list" where
  "run_flags = [''--name'', ''--network'', ''--restart'', ''--env'', ''--volume'', ''--publish'', ''--label'', ''--entrypoint'']"

fun read_run :: "string list \<Rightarrow> (string \<times> string) list \<times> string list" where
  "read_run (f # v # rest) =
     (if f \<in> set run_flags then (case read_run rest of (opts, tail) \<Rightarrow> ((f, v) # opts, tail)) else ([], f # v # rest))"
| "read_run rest = ([], rest)"

lemma read_run_flags:
  "f \<in> set run_flags \<Longrightarrow>
     read_run (concat (map (\<lambda>v. [f, v]) vs) @ rest) =
       (map (Pair f) vs @ fst (read_run rest), snd (read_run rest))"
  by (induction vs) (simp_all add: case_prod_beta)

lemma read_run_labels:
  "read_run (label_args labels @ rest) =
     (map (\<lambda>(k, v). (''--label'', k @ ''='' @ v)) labels @ fst (read_run rest), snd (read_run rest))"
  by (induction labels) (auto simp: label_args_def run_flags_def case_prod_beta)

lemma read_run_image: "img \<notin> set run_flags \<Longrightarrow> read_run (img # cmd) = ([], img # cmd)"
  by (cases cmd) simp_all

text \<open>The labels stand together on the command line.\<close>

lemma run_argv_labels:
  "\<exists>pre post. run_argv json spec = pre @ label_args (rspec_labels spec) @ post"
proof -
  have "\<exists>pre post. a @ b @ c @ e @ v @ p @ l @ rest = pre @ l @ post" for a b c e v p l rest :: "string list"
    by (intro exI[of _ "a @ b @ c @ e @ v @ p"] exI[of _ rest]) simp
  then show ?thesis
    unfolding run_argv_def .
qed

end
