(* ===== verification/Mock.thy ===== *)
theory Mock
  imports Argv
begin

text \<open>
  The recording test double of crate \<open>selur-compose-driver\<close> (\<open>mock.rs\<close>).  The fields behind mutexes
  are the fields of a record, which is the state its methods act on; a poisoned lock is entered all
  the same (\<open>lock\<close>), so taking it is no step of the model.  \<open>display\<close> is \<open>DriverError::to_string\<close>,
  which prints foreign error types, and \<open>empty_stream\<close> is \<open>tokio::io::empty\<close>.
\<close>

section \<open>Calls and state\<close>

datatype mock_call =
    Call_Build build_spec
  | Call_Pull string
  | Call_CreateNetwork network_spec
  | Call_CreateVolume volume_spec
  | Call_Run run_spec
  | Call_Inspect container_id
  | Call_HealthcheckRun container_id
  | Call_Stop container_id duration
  | Call_Rm container_id bool
  | Call_Logs container_id bool
  | Call_Ps string

record ('io, 'je) mock_driver =
  md_calls :: "mock_call list"
  md_run_response :: "(('io, 'je) driver_error + container_id) option"
  md_build_response :: "(('io, 'je) driver_error + image_id) option"
  md_pull_response :: "(('io, 'je) driver_error + image_id) option"
  md_inspect_map :: "(string, ('io, 'je) driver_error + container_state) hash_map"
  md_healthcheck_map :: "(string, ('io, 'je) driver_error + health_state) hash_map"
  md_ps_response :: "(('io, 'je) driver_error + container_summary list) option"

definition mock_new :: "('io, 'je) mock_driver" where
  "mock_new =
     \<lparr>md_calls = [], md_run_response = None, md_build_response = None, md_pull_response = None,
      md_inspect_map = [], md_healthcheck_map = [], md_ps_response = None\<rparr>"

definition mock_default :: "('io, 'je) mock_driver" where
  "mock_default = mock_new"

text \<open>\<open>calls\<close>: a snapshot of the recorded calls.\<close>

definition mock_calls :: "('io, 'je, 'z) mock_driver_scheme \<Rightarrow> mock_call list" where
  "mock_calls m = md_calls m"

definition mock_record :: "mock_call \<Rightarrow> ('io, 'je, 'z) mock_driver_scheme \<Rightarrow> ('io, 'je, 'z) mock_driver_scheme" where
  "mock_record c m = m\<lparr>md_calls := md_calls m @ [c]\<rparr>"

definition set_run_response where
  "set_run_response r m = m\<lparr>md_run_response := Some r\<rparr>"

definition set_build_response where
  "set_build_response r m = m\<lparr>md_build_response := Some r\<rparr>"

definition set_pull_response where
  "set_pull_response r m = m\<lparr>md_pull_response := Some r\<rparr>"

definition set_inspect_response where
  "set_inspect_response i r m =
     m\<lparr>md_inspect_map := hm_insert (container_id_str i) r (md_inspect_map m)\<rparr>"

definition set_healthcheck_response where
  "set_healthcheck_response i r m =
     m\<lparr>md_healthcheck_map := hm_insert (container_id_str i) r (md_healthcheck_map m)\<rparr>"

definition set_ps_response where
  "set_ps_response r m = m\<lparr>md_ps_response := Some r\<rparr>"

definition default_health_state :: health_state where
  "default_health_state = \<lparr>hs_status = Healthy, hs_failing_streak = 0\<rparr>"

definition default_container_state :: container_state where
  "default_container_state =
     \<lparr>cst_name = ''mock_container'', cst_status = ''running'', cst_pid = 1, cst_exit_code = 0,
      cst_health = Some default_health_state\<rparr>"

section \<open>The methods\<close>

definition mock_error ::
    "(('io, 'je) driver_error \<Rightarrow> string) \<Rightarrow> ('io, 'je) driver_error \<Rightarrow> ('io, 'je) driver_error" where
  "mock_error display e = Podman_Error [''mock''] (- 1) (display e)"

text \<open>Replay a canned response, or a default.\<close>

definition replay ::
    "(('io, 'je) driver_error \<Rightarrow> string) \<Rightarrow> (('io, 'je) driver_error + 'a) option \<Rightarrow> 'a
     \<Rightarrow> ('io, 'je) driver_error + 'a" where
  "replay display canned dflt =
     (case canned of Some (Ok a) \<Rightarrow> Ok a | Some (Err e) \<Rightarrow> Err (mock_error display e) | None \<Rightarrow> Ok dflt)"

definition mock_build where
  "mock_build display spec m =
     (let m = mock_record (Call_Build spec) m in
      (replay display (md_build_response m) (ImageId ''sha256:mock0000build''), m))"

definition mock_pull where
  "mock_pull display img m =
     (let m = mock_record (Call_Pull img) m in
      (replay display (md_pull_response m) (ImageId (''sha256:mock0000'' @ img)), m))"

definition mock_create_network ::
    "network_spec \<Rightarrow> ('io, 'je, 'z) mock_driver_scheme \<Rightarrow> (('io, 'je) driver_error + unit) \<times> ('io, 'je, 'z) mock_driver_scheme" where
  "mock_create_network n m = (Ok (), mock_record (Call_CreateNetwork n) m)"

definition mock_create_volume ::
    "volume_spec \<Rightarrow> ('io, 'je, 'z) mock_driver_scheme \<Rightarrow> (('io, 'je) driver_error + unit) \<times> ('io, 'je, 'z) mock_driver_scheme" where
  "mock_create_volume v m = (Ok (), mock_record (Call_CreateVolume v) m)"

definition mock_run where
  "mock_run display spec m =
     (let m = mock_record (Call_Run spec) m in
      (replay display (md_run_response m) (ContainerId (''mock_'' @ rspec_container_name spec)), m))"

definition mock_inspect where
  "mock_inspect display i m =
     (let m = mock_record (Call_Inspect i) m in
      (replay display (hm_get (md_inspect_map m) (container_id_str i)) default_container_state, m))"

definition mock_healthcheck_run where
  "mock_healthcheck_run display i m =
     (let m = mock_record (Call_HealthcheckRun i) m in
      (replay display (hm_get (md_healthcheck_map m) (container_id_str i)) default_health_state, m))"

definition mock_stop ::
    "container_id \<Rightarrow> duration \<Rightarrow> ('io, 'je, 'z) mock_driver_scheme \<Rightarrow> (('io, 'je) driver_error + unit) \<times> ('io, 'je, 'z) mock_driver_scheme" where
  "mock_stop i grace m = (Ok (), mock_record (Call_Stop i grace) m)"

definition mock_rm ::
    "container_id \<Rightarrow> bool \<Rightarrow> ('io, 'je, 'z) mock_driver_scheme \<Rightarrow> (('io, 'je) driver_error + unit) \<times> ('io, 'je, 'z) mock_driver_scheme" where
  "mock_rm i force m = (Ok (), mock_record (Call_Rm i force) m)"

definition mock_logs ::
    "'ls \<Rightarrow> container_id \<Rightarrow> bool \<Rightarrow> ('io, 'je, 'z) mock_driver_scheme \<Rightarrow> (('io, 'je) driver_error + 'ls) \<times> ('io, 'je, 'z) mock_driver_scheme" where
  "mock_logs empty_stream i follow m = (Ok empty_stream, mock_record (Call_Logs i follow) m)"

definition mock_ps where
  "mock_ps display project m =
     (let m = mock_record (Call_Ps project) m in (replay display (md_ps_response m) [], m))"

definition mock_as_driver ::
    "(('io, 'je) driver_error \<Rightarrow> string) \<Rightarrow> 'ls \<Rightarrow> (('io, 'je, 'z) mock_driver_scheme, 'io, 'je, 'ls) driver" where
  "mock_as_driver display empty_stream =
     \<lparr>drv_build = mock_build display, drv_pull = mock_pull display,
      drv_create_network = mock_create_network, drv_create_volume = mock_create_volume,
      drv_run = mock_run display, drv_inspect = mock_inspect display,
      drv_healthcheck_run = mock_healthcheck_run display, drv_stop = mock_stop, drv_rm = mock_rm,
      drv_logs = mock_logs empty_stream, drv_ps = mock_ps display\<rparr>"

section \<open>Lemmas\<close>

named_theorems mock_simps \<open>the methods of the mock, unfolded\<close>

lemmas mock_methods [mock_simps] =
  mock_as_driver_def mock_build_def mock_pull_def mock_create_network_def mock_create_volume_def
  mock_run_def mock_inspect_def mock_healthcheck_run_def mock_stop_def mock_rm_def mock_logs_def
  mock_ps_def mock_record_def Let_def

lemma replay_simps [simp]:
  "replay display None d = Ok d"
  "replay display (Some (Ok a)) d = Ok a"
  "replay display (Some (Err e)) d = Err (Podman_Error [''mock''] (- 1) (display e))"
  by (simp_all add: replay_def mock_error_def)

text \<open>What a setter stores is what the method replays; the methods leave the responses alone.\<close>

lemma mock_inspect_after_set:
  "fst (mock_inspect display j (set_inspect_response i (Ok st) m)) =
     (if container_id_str j = container_id_str i then Ok st else fst (mock_inspect display j m))"
  by (simp add: set_inspect_response_def hm_get_insert mock_simps)

end
