(* ===== verification/Podman.thy ===== *)
theory Podman
  imports Argv
begin

text \<open>
  The production driver of crate \<open>selur-compose-driver\<close> (\<open>exec.rs\<close>, \<open>podman.rs\<close>).  Starting a
  process is the parameter \<open>spawn\<close>: program and arguments to an I/O error or the process's exit
  code and output.  \<open>lossy\<close> is \<open>String::from_utf8_lossy\<close>, \<open>from_json_inspect\<close> and \<open>from_json_ps\<close>
  are \<open>serde_json::from_str\<close> at the two adapter types, \<open>json\<close> is \<open>serde_json::to_string\<close>.
\<close>

section \<open>exec.rs\<close>

text \<open>The exit code is \<open>None\<close> for a process ended by a signal; success is exit code 0.\<close>

record proc_output =
  out_code :: "int option"
  out_stdout :: string
  out_stderr :: string

type_synonym ('w, 'io) spawner = "string \<Rightarrow> string list \<Rightarrow> 'w \<Rightarrow> ('io + proc_output) \<times> 'w"

definition run_podman ::
    "('w, 'io) spawner \<Rightarrow> (string \<Rightarrow> string) \<Rightarrow> string list \<Rightarrow> ('w, ('io, 'je) driver_error, proc_output) effect" where
  "run_podman spawn lossy argv =
     (let program = (case argv of p # _ \<Rightarrow> p | [] \<Rightarrow> ''podman''); args = drop 1 argv in
      bind_st (\<lambda>w. case spawn program args w of (r, w') \<Rightarrow> (map_err Io_Error r, w')) (\<lambda>out.
        if out_code out = Some 0 then return_st out
        else
          fail_st (Podman_Error argv (case out_code out of Some c \<Rightarrow> c | None \<Rightarrow> - 1)
            (lossy (out_stderr out)))))"

text \<open>\<open>str::split_whitespace\<close>.\<close>

fun span_word :: "string \<Rightarrow> string \<times> string" where
  "span_word [] = ([], [])"
| "span_word (c # cs) =
     (if list_ex (\<lambda>w. prefix w (c # cs)) white_space then ([], c # cs)
      else (case span_word cs of (a, b) \<Rightarrow> (c # a, b)))"

fun split_words :: "nat \<Rightarrow> string \<Rightarrow> string list" where
  "split_words 0 s = []"
| "split_words (Suc n) s =
     (case trim_start s of [] \<Rightarrow> []
      | t \<Rightarrow> (case span_word t of (word, rest) \<Rightarrow> word # split_words n rest))"

definition split_whitespace :: "string \<Rightarrow> string list" where
  "split_whitespace s = split_words (length s) s"

text \<open>\<open>token.rsplit(':').next()\<close> is what follows the last colon.\<close>

definition after_last_colon :: "string \<Rightarrow> string" where
  "after_last_colon token = rev (takeWhile (\<lambda>c. c \<noteq> CHR '':'') (rev token))"

fun find_privileged :: "string list \<Rightarrow> nat option" where
  "find_privileged [] = None"
| "find_privileged (token # rest) =
     (let token = trim_end_matches '',.;:'' token in
      case parse_u16 (after_last_colon token) of
        Some port \<Rightarrow> if port < 1024 then Some port else find_privileged rest
      | None \<Rightarrow> find_privileged rest)"

definition detect_privileged_port :: "string \<Rightarrow> nat option" where
  "detect_privileged_port stderr =
     (if \<not> str_contains stderr ''permission denied'' \<and> \<not> str_contains stderr ''EACCES'' then None
      else find_privileged (split_whitespace stderr))"

section \<open>The JSON adapters of podman.rs\<close>

record podman_health_json =
  phj_status :: string
  phj_failing_streak :: nat

record podman_state_json =
  psj_status :: string
  psj_pid :: nat
  psj_exit_code :: int
  psj_health :: "podman_health_json option"

record podman_container_json =
  pcj_name :: string
  pcj_state :: podman_state_json

definition into_container_state :: "podman_container_json \<Rightarrow> container_state" where
  "into_container_state c =
     (let st = pcj_state c in
      \<lparr>cst_name = pcj_name c, cst_status = psj_status st, cst_pid = psj_pid st,
       cst_exit_code = psj_exit_code st,
       cst_health = map_option (\<lambda>h. \<lparr>hs_status = health_status_from (phj_status h),
         hs_failing_streak = phj_failing_streak h\<rparr>) (psj_health st)\<rparr>)"

record podman_port_json =
  ppj_host_ip :: string
  ppj_container_port :: nat
  ppj_host_port :: nat
  ppj_protocol :: string

record podman_ps_json =
  pps_id :: string
  pps_names :: "string list"
  pps_image :: string
  pps_state :: string
  pps_ports :: "podman_port_json list option"
  pps_labels :: "(string, string) hash_map"

definition ps_port_string :: "podman_port_json \<Rightarrow> string" where
  "ps_port_string p =
     (if ppj_host_ip p = []
      then show_nat (ppj_host_port p) @ '':'' @ show_nat (ppj_container_port p) @ ''/'' @ ppj_protocol p
      else ppj_host_ip p @ '':'' @ show_nat (ppj_host_port p) @ '':'' @ show_nat (ppj_container_port p) @
        ''/'' @ ppj_protocol p)"

definition into_summary :: "podman_ps_json \<Rightarrow> container_summary" where
  "into_summary i =
     \<lparr>csum_id = pps_id i,
      csum_name = (case pps_names i of n # _ \<Rightarrow> n | [] \<Rightarrow> []),
      csum_image = pps_image i, csum_state = pps_state i,
      csum_ports = map ps_port_string (case pps_ports i of Some ps \<Rightarrow> ps | None \<Rightarrow> []),
      csum_service = hm_get (pps_labels i) ''io.podman.compose.service''\<rparr>"

section \<open>PodmanCli\<close>

record podman_cli =
  pc_binary :: string

definition podman_cli_default :: podman_cli where
  "podman_cli_default = \<lparr>pc_binary = ''podman''\<rparr>"

definition with_binary :: "string \<Rightarrow> podman_cli" where
  "with_binary binary = \<lparr>pc_binary = binary\<rparr>"

definition patch_argv :: "podman_cli \<Rightarrow> string list \<Rightarrow> string list" where
  "patch_argv cli argv = (case argv of first # rest \<Rightarrow> pc_binary cli # rest | [] \<Rightarrow> [])"

text \<open>The library code the methods use.\<close>

record ('w, 'io, 'je, 'ls) podman_env =
  pe_spawn :: "('w, 'io) spawner"
  pe_spawn_stream :: "string \<Rightarrow> string list \<Rightarrow> 'w \<Rightarrow> ('io + 'ls) \<times> 'w"
  pe_lossy :: "string \<Rightarrow> string"
  pe_json :: "string list \<Rightarrow> string option"
  pe_from_json_inspect :: "string \<Rightarrow> 'je + podman_container_json list"
  pe_from_json_ps :: "string \<Rightarrow> 'je + podman_ps_json list"

definition podman_exec ::
    "('w, 'io, 'je, 'ls) podman_env \<Rightarrow> podman_cli \<Rightarrow> string list \<Rightarrow> ('w, ('io, 'je) driver_error, proc_output) effect" where
  "podman_exec pe cli argv = run_podman (pe_spawn pe) (pe_lossy pe) (patch_argv cli argv)"

text \<open>The last non-empty line of the output.\<close>

definition podman_build ::
    "('w, 'io, 'je, 'ls) podman_env \<Rightarrow> podman_cli \<Rightarrow> build_spec \<Rightarrow> ('w, ('io, 'je) driver_error, image_id) effect" where
  "podman_build pe cli spec =
     bind_st (podman_exec pe cli (build_argv spec)) (\<lambda>out.
       let lines = filter (\<lambda>l. l \<noteq> []) (str_lines (pe_lossy pe (out_stdout out))) in
       return_st (ImageId (trim (if lines = [] then [] else last lines))))"

definition podman_pull ::
    "('w, 'io, 'je, 'ls) podman_env \<Rightarrow> podman_cli \<Rightarrow> string \<Rightarrow> ('w, ('io, 'je) driver_error, image_id) effect" where
  "podman_pull pe cli img =
     bind_st (podman_exec pe cli (pull_argv img)) (\<lambda>out.
       return_st (ImageId (trim (pe_lossy pe (out_stdout out)))))"

text \<open>Run and take a failure whose message satisfies \<open>p\<close> for success.\<close>

definition exec_tolerant ::
    "('w, 'io, 'je, 'ls) podman_env \<Rightarrow> podman_cli \<Rightarrow> (string \<Rightarrow> bool) \<Rightarrow> string list
     \<Rightarrow> ('w, ('io, 'je) driver_error, unit) effect" where
  "exec_tolerant pe cli p argv w =
     (case podman_exec pe cli argv w of
        (Ok _, w') \<Rightarrow> (Ok (), w')
      | (Err (Podman_Error a code stderr), w') \<Rightarrow>
          if p stderr then (Ok (), w') else (Err (Podman_Error a code stderr), w')
      | (Err e, w') \<Rightarrow> (Err e, w'))"

definition podman_create_network ::
    "('w, 'io, 'je, 'ls) podman_env \<Rightarrow> podman_cli \<Rightarrow> network_spec \<Rightarrow> ('w, ('io, 'je) driver_error, unit) effect" where
  "podman_create_network pe cli n =
     exec_tolerant pe cli (\<lambda>stderr. str_contains stderr ''already exists'') (network_create_argv n)"

definition podman_create_volume ::
    "('w, 'io, 'je, 'ls) podman_env \<Rightarrow> podman_cli \<Rightarrow> volume_spec \<Rightarrow> ('w, ('io, 'je) driver_error, unit) effect" where
  "podman_create_volume pe cli v =
     exec_tolerant pe cli (\<lambda>stderr. str_contains stderr ''already exists'') (volume_create_argv v)"

definition podman_run ::
    "('w, 'io, 'je, 'ls) podman_env \<Rightarrow> podman_cli \<Rightarrow> run_spec \<Rightarrow> ('w, ('io, 'je) driver_error, container_id) effect" where
  "podman_run pe cli spec w =
     (case podman_exec pe cli (run_argv (pe_json pe) spec) w of
        (Ok out, w') \<Rightarrow> (Ok (ContainerId (trim (pe_lossy pe (out_stdout out)))), w')
      | (Err (Podman_Error argv code stderr), w') \<Rightarrow>
          (case detect_privileged_port stderr of
             Some port \<Rightarrow> (Err (PrivilegedPort (rspec_service spec) port), w')
           | None \<Rightarrow> (Err (Podman_Error argv code stderr), w'))
      | (Err e, w') \<Rightarrow> (Err e, w'))"

definition podman_inspect ::
    "('w, 'io, 'je, 'ls) podman_env \<Rightarrow> podman_cli \<Rightarrow> container_id
     \<Rightarrow> ('w, ('io, 'je) driver_error, container_state) effect" where
  "podman_inspect pe cli i =
     bind_st (podman_exec pe cli (inspect_argv (container_id_str i))) (\<lambda>out.
     bind_st (lift_st (map_err Json_Error (pe_from_json_inspect pe (pe_lossy pe (out_stdout out))))) (\<lambda>items.
       case items of
         [] \<Rightarrow> fail_st (Podman_Error (patch_argv cli (inspect_argv (container_id_str i))) 0 ''empty inspect response'')
       | item # _ \<Rightarrow> return_st (into_container_state item)))"

definition podman_healthcheck_run ::
    "('w, 'io, 'je, 'ls) podman_env \<Rightarrow> podman_cli \<Rightarrow> container_id
     \<Rightarrow> ('w, ('io, 'je) driver_error, health_state) effect" where
  "podman_healthcheck_run pe cli i w =
     (case podman_exec pe cli (healthcheck_run_argv (container_id_str i)) w :: (('io, 'je) driver_error + proc_output) \<times> 'w of
        (_, w') \<Rightarrow>
          bind_st (podman_inspect pe cli i) (\<lambda>state.
            return_st (case cst_health state of Some h \<Rightarrow> h
              | None \<Rightarrow> \<lparr>hs_status = Health_None, hs_failing_streak = 0\<rparr>)) w')"

text \<open>\<open>Duration::as_secs\<close> of a number of nanoseconds.\<close>

definition as_secs :: "duration \<Rightarrow> nat" where
  "as_secs d = d div 1000000000"

definition podman_stop ::
    "('w, 'io, 'je, 'ls) podman_env \<Rightarrow> podman_cli \<Rightarrow> container_id \<Rightarrow> duration
     \<Rightarrow> ('w, ('io, 'je) driver_error, unit) effect" where
  "podman_stop pe cli i grace =
     bind_st (podman_exec pe cli (stop_argv (container_id_str i) (as_secs grace))) (\<lambda>_. return_st ())"

definition podman_rm ::
    "('w, 'io, 'je, 'ls) podman_env \<Rightarrow> podman_cli \<Rightarrow> container_id \<Rightarrow> bool
     \<Rightarrow> ('w, ('io, 'je) driver_error, unit) effect" where
  "podman_rm pe cli i force =
     exec_tolerant pe cli
       (\<lambda>stderr. str_contains stderr ''no such container'' \<or> str_contains stderr ''No such container'')
       (rm_argv (container_id_str i) force)"

text \<open>Spawn without waiting and return the child's stdout; \<open>argv[0]\<close> exists since \<open>patch_argv\<close> keeps it.\<close>

definition podman_logs ::
    "('w, 'io, 'je, 'ls) podman_env \<Rightarrow> podman_cli \<Rightarrow> container_id \<Rightarrow> bool \<Rightarrow> ('w, ('io, 'je) driver_error, 'ls) effect" where
  "podman_logs pe cli i follow w =
     (let argv = patch_argv cli (logs_argv (container_id_str i) follow) in
      case pe_spawn_stream pe (hd argv) (tl argv) w of (r, w') \<Rightarrow> (map_err Io_Error r, w'))"

definition podman_ps ::
    "('w, 'io, 'je, 'ls) podman_env \<Rightarrow> podman_cli \<Rightarrow> string
     \<Rightarrow> ('w, ('io, 'je) driver_error, container_summary list) effect" where
  "podman_ps pe cli project =
     bind_st (podman_exec pe cli (ps_argv project)) (\<lambda>out.
       let json = pe_lossy pe (out_stdout out) in
       if trim json = [] \<or> trim json = ''null'' then return_st []
       else bind_st (lift_st (map_err Json_Error (pe_from_json_ps pe json))) (\<lambda>items.
              return_st (map into_summary items)))"

definition podman_driver ::
    "('w, 'io, 'je, 'ls) podman_env \<Rightarrow> podman_cli \<Rightarrow> ('w, 'io, 'je, 'ls) driver" where
  "podman_driver pe cli =
     \<lparr>drv_build = podman_build pe cli, drv_pull = podman_pull pe cli,
      drv_create_network = podman_create_network pe cli, drv_create_volume = podman_create_volume pe cli,
      drv_run = podman_run pe cli, drv_inspect = podman_inspect pe cli,
      drv_healthcheck_run = podman_healthcheck_run pe cli, drv_stop = podman_stop pe cli,
      drv_rm = podman_rm pe cli, drv_logs = podman_logs pe cli, drv_ps = podman_ps pe cli\<rparr>"

end
