(* ===== verification/Executor.thy ===== *)
theory Executor
  imports Healthcheck Mock Podman
begin

text \<open>
  The plan executor of crate \<open>selur-compose-driver\<close> (\<open>executor.rs\<close>).  \<open>parallelism\<close> is
  \<open>available_parallelism()\<close>; a semaphore without permits blocks for ever (\<open>None\<close>).  The counters are
  natural numbers: each is at most the length of the plan.
\<close>

section \<open>Options and report\<close>

record exec_opts =
  eo_no_build :: bool
  eo_no_pull :: bool
  eo_healthcheck_start_period :: "duration option"

definition exec_opts_default :: exec_opts where
  "exec_opts_default = \<lparr>eo_no_build = False, eo_no_pull = False, eo_healthcheck_start_period = None\<rparr>"

record exec_report =
  er_containers :: "(string, container_id) hash_map"
  er_images_built :: nat
  er_images_pulled :: nat
  er_networks_created :: nat
  er_volumes_created :: nat

definition exec_report_default :: exec_report where
  "exec_report_default =
     \<lparr>er_containers = [], er_images_built = 0, er_images_pulled = 0, er_networks_created = 0,
      er_volumes_created = 0\<rparr>"

section \<open>execute\<close>

text \<open>
  The local state of the loop: the report and the container ids by service.
\<close>

record exec_state =
  es_report :: exec_report
  es_ids :: "(string, container_id) hash_map"

definition build_slots :: "nat option \<Rightarrow> nat" where
  "build_slots parallelism = min (case parallelism of Some n \<Rightarrow> n | None \<Rightarrow> 4) 8"

fun execute_op ::
    "('w, 'io, 'je, 'ls) driver \<Rightarrow> 'w clock \<Rightarrow> nat option \<Rightarrow> exec_opts \<Rightarrow> op \<Rightarrow> exec_state
     \<Rightarrow> ('w, ('io, 'je) driver_error, exec_state) process" where
  "execute_op drv clk parallelism opts (CreateNetwork spec) es =
     bind_pr (call_pr (drv_create_network drv spec)) (\<lambda>_.
       return_pr (es\<lparr>es_report := (es_report es)\<lparr>er_networks_created := er_networks_created (es_report es) + 1\<rparr>\<rparr>))"
| "execute_op drv clk parallelism opts (CreateVolume spec) es =
     bind_pr (call_pr (drv_create_volume drv spec)) (\<lambda>_.
       return_pr (es\<lparr>es_report := (es_report es)\<lparr>er_volumes_created := er_volumes_created (es_report es) + 1\<rparr>\<rparr>))"
| "execute_op drv clk parallelism opts (BuildImage spec) es =
     (if eo_no_build opts then return_pr es
      else if build_slots parallelism = 0 then (\<lambda>w. None)
      else
        bind_pr (call_pr (drv_build drv spec)) (\<lambda>_.
          return_pr (es\<lparr>es_report := (es_report es)\<lparr>er_images_built := er_images_built (es_report es) + 1\<rparr>\<rparr>)))"
| "execute_op drv clk parallelism opts (PullImage spec) es =
     (if eo_no_pull opts then return_pr es
      else
        bind_pr (call_pr (drv_pull drv (pspec_image spec))) (\<lambda>_.
          return_pr (es\<lparr>es_report := (es_report es)\<lparr>er_images_pulled := er_images_pulled (es_report es) + 1\<rparr>\<rparr>)))"
| "execute_op drv clk parallelism opts (RunContainer spec) es =
     bind_pr (call_pr (drv_run drv spec)) (\<lambda>cid.
       return_pr
         (es\<lparr>es_ids := hm_insert (rspec_service spec) cid (es_ids es),
            es_report := (es_report es)
              \<lparr>er_containers := hm_insert (rspec_service spec) cid (er_containers (es_report es))\<rparr>\<rparr>))"
| "execute_op drv clk parallelism opts (WaitHealthy spec) es =
     (let cid = (case hm_get (es_ids es) (wspec_service spec) of
                   Some cid \<Rightarrow> cid | None \<Rightarrow> ContainerId (wspec_container_name spec));
          start_period = (case eo_healthcheck_start_period opts of Some d \<Rightarrow> d | None \<Rightarrow> secs 0);
          interval = secs 30; retries = 3 in
      bind_pr (wait_healthy drv clk cid (wspec_service spec) start_period interval retries) (\<lambda>_. return_pr es))"
| "execute_op drv clk parallelism opts (StopContainer spec) es =
     bind_pr (call_pr (drv_stop drv (ContainerId (sspec_container_name spec)) (secs (sspec_timeout_secs spec))))
       (\<lambda>_. return_pr es)"
| "execute_op drv clk parallelism opts (RemoveContainer spec) es =
     bind_pr (call_pr (drv_rm drv (ContainerId (rmspec_container_name spec)) (rmspec_force spec)))
       (\<lambda>_. return_pr es)"

fun execute_loop ::
    "('w, 'io, 'je, 'ls) driver \<Rightarrow> 'w clock \<Rightarrow> nat option \<Rightarrow> exec_opts \<Rightarrow> op list \<Rightarrow> exec_state
     \<Rightarrow> ('w, ('io, 'je) driver_error, exec_state) process" where
  "execute_loop drv clk parallelism opts [] es = return_pr es"
| "execute_loop drv clk parallelism opts (op # ops) es =
     bind_pr (execute_op drv clk parallelism opts op es) (execute_loop drv clk parallelism opts ops)"

definition execute ::
    "('w, 'io, 'je, 'ls) driver \<Rightarrow> 'w clock \<Rightarrow> nat option \<Rightarrow> op list \<Rightarrow> exec_opts
     \<Rightarrow> ('w, ('io, 'je) driver_error, exec_report) process" where
  "execute drv clk parallelism ops opts =
     bind_pr (execute_loop drv clk parallelism opts ops \<lparr>es_report = exec_report_default, es_ids = []\<rparr>)
       (\<lambda>es. return_pr (es_report es))"

section \<open>execute_wave_concurrent\<close>

text \<open>
  The results of the spawned tasks in the order in which they finish: a task's own result, or the
  message of its panic or cancellation.  \<open>other\<close> is \<open>std::io::Error::other\<close>.
\<close>

datatype ('io, 'je) join_result = Joined "('io, 'je) driver_error + unit" | Join_Error string

fun join_loop :: "(string \<Rightarrow> 'io) \<Rightarrow> ('io, 'je) join_result list \<Rightarrow> ('io, 'je) driver_error list" where
  "join_loop other [] = []"
| "join_loop other (Joined (Ok ()) # rest) = join_loop other rest"
| "join_loop other (Joined (Err e) # rest) = [e]"
| "join_loop other (Join_Error msg # rest) = [Io_Error (other msg)]"

definition execute_wave_concurrent ::
    "(string \<Rightarrow> 'io) \<Rightarrow> ('io, 'je) join_result list \<Rightarrow> ('io, 'je) driver_error + unit list" where
  "execute_wave_concurrent other finished =
     (case join_loop other finished of e # _ \<Rightarrow> Err e | [] \<Rightarrow> Ok [])"

section \<open>Lemmas\<close>

lemma execute_loop_append:
  "execute_loop drv clk p opts (xs @ ys) es =
     bind_pr (execute_loop drv clk p opts xs es) (execute_loop drv clk p opts ys)"
proof (induction xs arbitrary: es)
  case (Cons op xs)
  then have "execute_loop drv clk p opts (xs @ ys) =
      (\<lambda>es. bind_pr (execute_loop drv clk p opts xs es) (execute_loop drv clk p opts ys))"
    by (rule ext)
  then show ?case
    by (simp add: bind_pr_assoc)
qed simp

text \<open>The containers in the report are the ids the loop keeps.\<close>

lemma execute_op_ids:
  assumes "execute_op drv clk p opts op es w = Some (Ok es', w')" "er_containers (es_report es) = es_ids es"
  shows "er_containers (es_report es') = es_ids es'"
  using assms by (cases op) (auto simp: bind_pr_Ok call_pr_Some Let_def split: if_splits)

section \<open>What the executor calls\<close>

text \<open>
  The call an operation makes, waits apart, and the calls that are not inspections.
\<close>

fun op_calls :: "exec_opts \<Rightarrow> op \<Rightarrow> mock_call list" where
  "op_calls opts (CreateNetwork spec) = [Call_CreateNetwork spec]"
| "op_calls opts (CreateVolume spec) = [Call_CreateVolume spec]"
| "op_calls opts (BuildImage spec) = (if eo_no_build opts then [] else [Call_Build spec])"
| "op_calls opts (PullImage spec) = (if eo_no_pull opts then [] else [Call_Pull (pspec_image spec)])"
| "op_calls opts (RunContainer spec) = [Call_Run spec]"
| "op_calls opts (WaitHealthy spec) = []"
| "op_calls opts (StopContainer spec) =
     [Call_Stop (ContainerId (sspec_container_name spec)) (secs (sspec_timeout_secs spec))]"
| "op_calls opts (RemoveContainer spec) = [Call_Rm (ContainerId (rmspec_container_name spec)) (rmspec_force spec)]"

fun is_inspect :: "mock_call \<Rightarrow> bool" where
  "is_inspect (Call_Inspect i) = True"
| "is_inspect c = False"

definition acts :: "mock_call list \<Rightarrow> mock_call list" where
  "acts cs = filter (\<lambda>c. \<not> is_inspect c) cs"

definition plan_calls :: "exec_opts \<Rightarrow> op list \<Rightarrow> mock_call list" where
  "plan_calls opts ops = concat (map (op_calls opts) ops)"

lemma plan_calls_simps [simp]:
  "plan_calls opts [] = []"
  "plan_calls opts (op # ops) = op_calls opts op @ plan_calls opts ops"
  "plan_calls opts (xs @ ys) = plan_calls opts xs @ plan_calls opts ys"
  by (simp_all add: plan_calls_def)

lemma acts_simps [simp]:
  "acts [] = []" "acts (xs @ ys) = acts xs @ acts ys"
  "acts (c # cs) = (if is_inspect c then acts cs else c # acts cs)"
  "acts (replicate n (Call_Inspect i)) = []"
  by (simp_all add: acts_def)

lemma acts_op_calls [simp]: "acts (op_calls opts op) = op_calls opts op"
  by (cases op) auto

text \<open>
  The interface to a driver whose calls can be observed: each operation the executor uses appends
  one call to the log, sleeping appends nothing.
\<close>

locale recorded_driver =
  fixes drv :: "('w, 'io, 'je, 'ls) driver" and clk :: "'w clock"
    and log :: "'w \<Rightarrow> 'c list" and enc :: "mock_call \<Rightarrow> 'c"
  assumes log_network: "log (snd (drv_create_network drv n w)) = log w @ [enc (Call_CreateNetwork n)]"
    and log_volume: "log (snd (drv_create_volume drv v w)) = log w @ [enc (Call_CreateVolume v)]"
    and log_build: "log (snd (drv_build drv b w)) = log w @ [enc (Call_Build b)]"
    and log_pull: "log (snd (drv_pull drv img w)) = log w @ [enc (Call_Pull img)]"
    and log_run: "log (snd (drv_run drv spec w)) = log w @ [enc (Call_Run spec)]"
    and log_inspect: "log (snd (drv_inspect drv i w)) = log w @ [enc (Call_Inspect i)]"
    and log_stop: "log (snd (drv_stop drv i grace w)) = log w @ [enc (Call_Stop i grace)]"
    and log_rm: "log (snd (drv_rm drv i force w)) = log w @ [enc (Call_Rm i force)]"
    and log_sleep: "log (clk_sleep clk d w) = log w"
begin

lemma log_calls:
  "drv_create_network drv n w = (r0, w') \<Longrightarrow> log w' = log w @ [enc (Call_CreateNetwork n)]"
  "drv_create_volume drv v w = (r0, w') \<Longrightarrow> log w' = log w @ [enc (Call_CreateVolume v)]"
  "drv_build drv b w = (r1, w') \<Longrightarrow> log w' = log w @ [enc (Call_Build b)]"
  "drv_pull drv img w = (r1, w') \<Longrightarrow> log w' = log w @ [enc (Call_Pull img)]"
  "drv_run drv spec w = (r2, w') \<Longrightarrow> log w' = log w @ [enc (Call_Run spec)]"
  "drv_inspect drv i w = (r3, w') \<Longrightarrow> log w' = log w @ [enc (Call_Inspect i)]"
  "drv_stop drv i grace w = (r0, w') \<Longrightarrow> log w' = log w @ [enc (Call_Stop i grace)]"
  "drv_rm drv i force w = (r0, w') \<Longrightarrow> log w' = log w @ [enc (Call_Rm i force)]"
  using log_network[of n w] log_volume[of v w] log_build[of b w] log_pull[of img w] log_run[of spec w]
    log_inspect[of i w] log_stop[of i grace w] log_rm[of i force w]
  by simp_all

lemma log_polling:
  "polling drv clk i poll deadline n w wn \<Longrightarrow> log wn = log w @ replicate n (enc (Call_Inspect i))"
proof (induction rule: polling.induct)
  case (polling_Suc w state w1 n w2)
  then show ?case
    by (simp add: log_calls(6)[OF polling_Suc.hyps(1)] log_sleep)
qed simp

lemma log_wait:
  assumes "wait_healthy drv clk i service sp interval retries w = Some (r, w')" "r \<noteq> Err Panic"
  shows "\<exists>n. log w' = log w @ replicate (Suc n) (enc (Call_Inspect i))"
proof -
  obtain timeout n wn r0 where *: "polling drv clk i (min interval default_poll_interval) (clk_now clk w + timeout) n w wn"
    "last_turn drv clk i service timeout (clk_now clk w + timeout) wn = Some (r0, w')"
    using wait_healthy_last[OF assms(1)] assms(2) by auto
  from *(2) obtain ri where "drv_inspect drv i wn = (ri, w')"
    by (auto simp: last_turn_def split: prod.splits sum.splits option.splits if_splits)
  from log_calls(6)[OF this] log_polling[OF *(1)] show ?thesis
    by (intro exI[of _ n]) (simp add: replicate_append_same)
qed

text \<open>An operation makes its call, whatever its outcome; waiting makes inspections only.\<close>

lemma log_op:
  assumes "execute_op drv clk p opts op es w = Some (r, w')"
  shows "\<exists>cs. log w' = log w @ map enc cs \<and> acts cs = op_calls opts op"
proof (cases op)
  case (WaitHealthy spec)
  define cid where "cid = (case hm_get (es_ids es) (wspec_service spec) of
      Some cid \<Rightarrow> cid | None \<Rightarrow> ContainerId (wspec_container_name spec))"
  from assms obtain r0 sp where *:
    "wait_healthy drv clk cid (wspec_service spec) sp (secs 30) 3 w = Some (r0, w')"
    by (auto simp: WaitHealthy cid_def[symmetric] bind_pr_def Let_def split: option.splits prod.splits sum.splits)
  have "\<exists>n. log w' = log w @ replicate n (enc (Call_Inspect cid))"
  proof (cases "r0 = Err Panic")
    case True
    then show ?thesis
      using wait_healthy_last[OF *] by (intro exI[of _ 0]) auto
  next
    case False
    from log_wait[OF * this] show ?thesis by blast
  qed
  then obtain n where "log w' = log w @ map enc (replicate n (Call_Inspect cid))"
    by auto
  then show ?thesis
    by (intro exI[of _ "replicate n (Call_Inspect cid)"]) (simp add: WaitHealthy)
qed (use assms in \<open>force simp: bind_pr_def call_pr_def dest: log_calls split: if_splits option.splits prod.splits sum.splits
       intro: exI[of _ "op_calls opts op"]\<close>)+

text \<open>
  The loop's calls are those of an initial part of the plan, all of it when it succeeds; when it
  fails, the last operation of the part is the one that failed.
\<close>

lemma log_loop:
  assumes "execute_loop drv clk p opts ops es w = Some (r, w')"
  shows "\<exists>made rest cs. ops = made @ rest \<and> log w' = log w @ map enc cs \<and> acts cs = plan_calls opts made \<and>
    (is_ok r \<longrightarrow> rest = []) \<and> (\<not> is_ok r \<longrightarrow> made \<noteq> [])"
  using assms
proof (induction ops arbitrary: es w)
  case Nil
  then show ?case
    by (intro exI[of _ "[]"]) auto
next
  case (Cons op ops)
  from Cons.prems obtain r0 w0 where op: "execute_op drv clk p opts op es w = Some (r0, w0)"
    by (auto simp: bind_pr_def split: option.splits)
  from log_op[OF this] obtain cs0 where cs0: "log w0 = log w @ map enc cs0" "acts cs0 = op_calls opts op"
    by blast
  show ?case
  proof (cases r0)
    case (Inl e)
    with Cons.prems op have "r = Err e" "w' = w0"
      by (auto simp: bind_pr_def)
    with cs0 show ?thesis
      by (intro exI[of _ "[op]"] exI[of _ ops] exI[of _ cs0]) simp
  next
    case (Inr es0)
    with Cons.prems op have "execute_loop drv clk p opts ops es0 w0 = Some (r, w')"
      by (simp add: bind_pr_def)
    from Cons.IH[OF this] obtain made rest cs where *: "ops = made @ rest" "log w' = log w0 @ map enc cs"
      "acts cs = plan_calls opts made" "is_ok r \<longrightarrow> rest = []" "\<not> is_ok r \<longrightarrow> made \<noteq> []"
      by blast
    show ?thesis
      by (intro exI[of _ "op # made"] exI[of _ rest] exI[of _ "cs0 @ cs"]) (use * cs0 in simp)
  qed
qed

lemma log_execute:
  assumes "execute drv clk p ops opts w = Some (r, w')"
  shows "\<exists>made rest cs. ops = made @ rest \<and> log w' = log w @ map enc cs \<and> acts cs = plan_calls opts made \<and>
    (is_ok r \<longrightarrow> rest = []) \<and> (\<not> is_ok r \<longrightarrow> made \<noteq> [])"
proof -
  from assms obtain r1 where "execute_loop drv clk p opts ops \<lparr>es_report = exec_report_default, es_ids = []\<rparr> w
      = Some (r1, w')" "is_ok r = is_ok r1"
    by (auto simp: execute_def bind_pr_def split: option.splits prod.splits sum.splits)
  with log_loop[OF this(1)] show ?thesis
    by simp
qed

end

section \<open>The executor returns\<close>

context forward_clock
begin

lemma execute_op_returns:
  assumes "p \<noteq> Some 0"
  shows "execute_op drv clk p opts op es w \<noteq> None"
proof (cases op)
  case (WaitHealthy spec)
  then show ?thesis
    using wait_returns[of "secs 30"] by (auto simp: bind_pr_def Let_def secs_def split: option.splits sum.splits)
qed (use assms in \<open>auto simp: bind_pr_None build_slots_def simp del: not_None_eq split: option.splits\<close>)

lemma execute_loop_returns:
  "p \<noteq> Some 0 \<Longrightarrow> execute_loop drv clk p opts ops es w \<noteq> None"
  by (induction ops arbitrary: es w) (simp_all add: bind_pr_None execute_op_returns)

lemma execute_returns_forward: "p \<noteq> Some 0 \<Longrightarrow> \<exists>r w'. execute drv clk p ops opts w = Some (r, w')"
  using execute_loop_returns[of p opts ops]
  by (auto simp: execute_def bind_pr_def split: option.splits prod.splits sum.splits)

end

section \<open>The report\<close>

definition count_ops :: "(op \<Rightarrow> bool) \<Rightarrow> op list \<Rightarrow> nat" where
  "count_ops P ops = length (filter P ops)"

fun is_build :: "op \<Rightarrow> bool" where "is_build (BuildImage _) = True" | "is_build _ = False"
fun is_pull :: "op \<Rightarrow> bool" where "is_pull (PullImage _) = True" | "is_pull _ = False"
fun is_network :: "op \<Rightarrow> bool" where "is_network (CreateNetwork _) = True" | "is_network _ = False"
fun is_volume :: "op \<Rightarrow> bool" where "is_volume (CreateVolume _) = True" | "is_volume _ = False"

text \<open>One operation adds what it does to the report.\<close>

lemma execute_op_report:
  assumes "execute_op drv clk p opts op es w = Some (Ok es', w')"
  shows "er_networks_created (es_report es') = er_networks_created (es_report es) + count_ops is_network [op]"
    and "er_volumes_created (es_report es') = er_volumes_created (es_report es) + count_ops is_volume [op]"
    and "er_images_built (es_report es') = er_images_built (es_report es) + (if eo_no_build opts then 0 else count_ops is_build [op])"
    and "er_images_pulled (es_report es') = er_images_pulled (es_report es) + (if eo_no_pull opts then 0 else count_ops is_pull [op])"
  using assms by (cases op; auto simp: bind_pr_Ok count_ops_def Let_def split: if_splits)+

lemma execute_op_started:
  assumes "execute_op drv clk p opts op es w = Some (Ok es', w')"
  shows "hm_get (es_ids es') k \<noteq> None \<longleftrightarrow> hm_get (es_ids es) k \<noteq> None \<or> k \<in> set (started [op])"
    and "k \<notin> set (started [op]) \<Longrightarrow> hm_get (es_ids es') k = hm_get (es_ids es) k"
  using assms by (cases op; auto simp: bind_pr_Ok Let_def hm_get_insert split: if_splits)+

lemma execute_loop_report:
  assumes "execute_loop drv clk p opts ops es w = Some (Ok es', w')"
  shows "er_networks_created (es_report es') = er_networks_created (es_report es) + count_ops is_network ops"
    and "er_volumes_created (es_report es') = er_volumes_created (es_report es) + count_ops is_volume ops"
    and "er_images_built (es_report es') = er_images_built (es_report es) + (if eo_no_build opts then 0 else count_ops is_build ops)"
    and "er_images_pulled (es_report es') = er_images_pulled (es_report es) + (if eo_no_pull opts then 0 else count_ops is_pull ops)"
  using assms
proof (induction ops arbitrary: es w)
  case (Cons op ops)
  {
    case 1
    then show ?case
      using Cons.IH(1) execute_op_report(1) by (fastforce simp: bind_pr_Ok count_ops_def)
  next
    case 2
    then show ?case
      using Cons.IH(2) execute_op_report(2) by (fastforce simp: bind_pr_Ok count_ops_def)
  next
    case 3
    then show ?case
      using Cons.IH(3) execute_op_report(3) by (fastforce simp: bind_pr_Ok count_ops_def)
  next
    case 4
    then show ?case
      using Cons.IH(4) execute_op_report(4) by (fastforce simp: bind_pr_Ok count_ops_def)
  }
qed (simp_all add: count_ops_def)

lemma execute_loop_started:
  assumes "execute_loop drv clk p opts ops es w = Some (Ok es', w')"
  shows "hm_get (es_ids es') k \<noteq> None \<longleftrightarrow> hm_get (es_ids es) k \<noteq> None \<or> k \<in> set (started ops)"
    and "k \<notin> set (started ops) \<Longrightarrow> hm_get (es_ids es') k = hm_get (es_ids es) k"
    and "er_containers (es_report es) = es_ids es \<Longrightarrow> er_containers (es_report es') = es_ids es'"
  using assms
proof (induction ops arbitrary: es w)
  case (Cons op ops)
  {
    case 1
    then obtain es1 w1 where "execute_op drv clk p opts op es w = Some (Ok es1, w1)"
      "execute_loop drv clk p opts ops es1 w1 = Some (Ok es', w')"
      by (auto simp: bind_pr_Ok)
    with Cons.IH(1)[of es1 w1] execute_op_started(1)[of drv clk p opts op es w es1 w1 k] show ?case
      by simp
  next
    case 2
    then obtain es1 w1 where "execute_op drv clk p opts op es w = Some (Ok es1, w1)"
      "execute_loop drv clk p opts ops es1 w1 = Some (Ok es', w')"
      by (auto simp: bind_pr_Ok)
    with 2 Cons.IH(2)[of es1 w1] execute_op_started(2)[of drv clk p opts op es w es1 w1 k] show ?case
      by simp
  next
    case 3
    then obtain es1 w1 where "execute_op drv clk p opts op es w = Some (Ok es1, w1)"
      "execute_loop drv clk p opts ops es1 w1 = Some (Ok es', w')"
      by (auto simp: bind_pr_Ok)
    with 3 Cons.IH(3)[of es1 w1] execute_op_ids[of drv clk p opts op es w es1 w1] show ?case
      by simp
  }
qed simp_all

end
