(* ===== verification/Recorded.thy ===== *)
theory Recorded
  imports Executor
begin

text \<open>
  The two drivers of the program as recorded drivers: \<open>MockDriver\<close>, whose log is its own list of
  calls, and \<open>PodmanCli\<close>, observed at the processes it spawns.  Observing is the wrapper \<open>traced\<close>
  around any spawning function; it leaves what the program sees unchanged.
\<close>

section \<open>The mock under a virtual clock\<close>

record ('io, 'je) timed_mock = "('io, 'je) mock_driver" +
  tm_now :: nat

definition mock_clock :: "('io, 'je) timed_mock clock" where
  "mock_clock = \<lparr>clk_now = tm_now, clk_sleep = (\<lambda>d m. m\<lparr>tm_now := tm_now m + d\<rparr>)\<rparr>"

definition timed_mock_new :: "('io, 'je) timed_mock" where
  "timed_mock_new = mock_driver.extend mock_new \<lparr>tm_now = 0\<rparr>"

interpretation mock_recorded: recorded_driver "mock_as_driver display empty_stream" mock_clock md_calls id
  for display :: "('io, 'je) driver_error \<Rightarrow> string" and empty_stream :: 'ls
  by unfold_locales (simp_all add: mock_simps mock_clock_def)

interpretation mock_forward: forward_clock "mock_as_driver display empty_stream" mock_clock
  for display :: "('io, 'je) driver_error \<Rightarrow> string" and empty_stream :: 'ls
  by unfold_locales (simp_all add: mock_simps mock_clock_def)

section \<open>podman observed at its processes\<close>

record 'v traced =
  tr_world :: 'v
  tr_spawned :: "string list list"

definition trace_spawn ::
    "(string \<Rightarrow> string list \<Rightarrow> 'v \<Rightarrow> 'r \<times> 'v) \<Rightarrow> string \<Rightarrow> string list \<Rightarrow> 'v traced \<Rightarrow> 'r \<times> 'v traced" where
  "trace_spawn spawn program args w =
     (case spawn program args (tr_world w) of
        (r, v) \<Rightarrow> (r, \<lparr>tr_world = v, tr_spawned = tr_spawned w @ [program # args]\<rparr>))"

definition trace_env :: "('v, 'io, 'je, 'ls) podman_env \<Rightarrow> ('v traced, 'io, 'je, 'ls) podman_env" where
  "trace_env pe =
     \<lparr>pe_spawn = trace_spawn (pe_spawn pe), pe_spawn_stream = trace_spawn (pe_spawn_stream pe),
      pe_lossy = pe_lossy pe, pe_json = pe_json pe, pe_from_json_inspect = pe_from_json_inspect pe,
      pe_from_json_ps = pe_from_json_ps pe\<rparr>"

definition trace_clock :: "'v clock \<Rightarrow> 'v traced clock" where
  "trace_clock clk =
     \<lparr>clk_now = (\<lambda>w. clk_now clk (tr_world w)),
      clk_sleep = (\<lambda>d w. w\<lparr>tr_world := clk_sleep clk d (tr_world w)\<rparr>)\<rparr>"

text \<open>The command line of a call.\<close>

fun call_argv :: "('v, 'io, 'je, 'ls) podman_env \<Rightarrow> mock_call \<Rightarrow> string list" where
  "call_argv pe (Call_Build spec) = build_argv spec"
| "call_argv pe (Call_Pull img) = pull_argv img"
| "call_argv pe (Call_CreateNetwork n) = network_create_argv n"
| "call_argv pe (Call_CreateVolume v) = volume_create_argv v"
| "call_argv pe (Call_Run spec) = run_argv (pe_json pe) spec"
| "call_argv pe (Call_Inspect i) = inspect_argv (container_id_str i)"
| "call_argv pe (Call_HealthcheckRun i) = healthcheck_run_argv (container_id_str i)"
| "call_argv pe (Call_Stop i grace) = stop_argv (container_id_str i) (as_secs grace)"
| "call_argv pe (Call_Rm i force) = rm_argv (container_id_str i) force"
| "call_argv pe (Call_Logs i follow) = logs_argv (container_id_str i) follow"
| "call_argv pe (Call_Ps project) = ps_argv project"

definition spawned_argv :: "('v, 'io, 'je, 'ls) podman_env \<Rightarrow> podman_cli \<Rightarrow> mock_call \<Rightarrow> string list" where
  "spawned_argv pe cli c = patch_argv cli (call_argv pe c)"

lemma call_argv_not_Nil [simp]: "call_argv pe c \<noteq> []"
  by (cases c) (simp_all add: build_argv_def pull_argv_def network_create_argv_def volume_create_argv_def
      run_argv_def inspect_argv_def healthcheck_run_argv_def stop_argv_def rm_argv_def logs_argv_def ps_argv_def)

lemma podman_exec_trace:
  assumes "argv \<noteq> []"
  shows "tr_spawned (snd (podman_exec (trace_env pe) cli argv w)) = tr_spawned w @ [patch_argv cli argv]"
  using assms
  by (cases argv) (auto simp: podman_exec_def run_podman_def patch_argv_def trace_env_def trace_spawn_def
      bind_st_def Let_def split: prod.splits sum.splits if_splits)

lemma bind_podman_exec_trace:
  assumes "argv \<noteq> []" "\<And>a w'. tr_spawned (snd (f a w')) = tr_spawned w'"
  shows "tr_spawned (snd (bind_st (podman_exec (trace_env pe) cli argv) f w)) =
           tr_spawned w @ [patch_argv cli argv]"
  using podman_exec_trace[OF assms(1), of pe cli w] assms(2)
  by (auto simp: bind_st_def split: prod.splits sum.splits)

lemma exec_tolerant_trace:
  assumes "argv \<noteq> []"
  shows "tr_spawned (snd (exec_tolerant (trace_env pe) cli p argv w)) = tr_spawned w @ [patch_argv cli argv]"
  using podman_exec_trace[OF assms, of pe cli w]
  by (auto simp: exec_tolerant_def split: prod.splits sum.splits driver_error.splits)

lemma podman_run_trace:
  "tr_spawned (snd (podman_run (trace_env pe) cli spec w)) = tr_spawned w @ [patch_argv cli (run_argv (pe_json pe) spec)]"
  using podman_exec_trace[of "run_argv (pe_json pe) spec" pe cli w] call_argv_not_Nil[of pe "Call_Run spec"]
  by (auto simp: podman_run_def trace_env_def split: prod.splits sum.splits driver_error.splits option.splits)

interpretation podman_recorded: recorded_driver
    "podman_driver (trace_env pe) cli" "trace_clock clk" tr_spawned "spawned_argv pe cli"
  for pe :: "('v, 'io, 'je, 'ls) podman_env" and cli and clk :: "'v clock"
proof unfold_locales
  fix n w
  show "tr_spawned (snd (drv_create_network (podman_driver (trace_env pe) cli) n w)) =
      tr_spawned w @ [spawned_argv pe cli (Call_CreateNetwork n)]"
    using call_argv_not_Nil[of pe "Call_CreateNetwork n"]
    by (simp add: podman_driver_def podman_create_network_def spawned_argv_def exec_tolerant_trace)
next
  fix v w
  show "tr_spawned (snd (drv_create_volume (podman_driver (trace_env pe) cli) v w)) =
      tr_spawned w @ [spawned_argv pe cli (Call_CreateVolume v)]"
    using call_argv_not_Nil[of pe "Call_CreateVolume v"]
    by (simp add: podman_driver_def podman_create_volume_def spawned_argv_def exec_tolerant_trace)
next
  fix b w
  show "tr_spawned (snd (drv_build (podman_driver (trace_env pe) cli) b w)) =
      tr_spawned w @ [spawned_argv pe cli (Call_Build b)]"
    using call_argv_not_Nil[of pe "Call_Build b"]
    by (simp add: podman_driver_def podman_build_def spawned_argv_def Let_def bind_podman_exec_trace)
next
  fix img w
  show "tr_spawned (snd (drv_pull (podman_driver (trace_env pe) cli) img w)) =
      tr_spawned w @ [spawned_argv pe cli (Call_Pull img)]"
    using call_argv_not_Nil[of pe "Call_Pull img"]
    by (simp add: podman_driver_def podman_pull_def spawned_argv_def bind_podman_exec_trace)
next
  fix spec w
  show "tr_spawned (snd (drv_run (podman_driver (trace_env pe) cli) spec w)) =
      tr_spawned w @ [spawned_argv pe cli (Call_Run spec)]"
    by (simp add: podman_driver_def spawned_argv_def podman_run_trace)
next
  fix i w
  have "tr_spawned (snd (podman_inspect (trace_env pe) cli i w)) =
      tr_spawned w @ [patch_argv cli (inspect_argv (container_id_str i))]"
    unfolding podman_inspect_def
    by (rule bind_podman_exec_trace)
      (auto simp: inspect_argv_def bind_st_def split: sum.splits list.splits)
  then show "tr_spawned (snd (drv_inspect (podman_driver (trace_env pe) cli) i w)) =
      tr_spawned w @ [spawned_argv pe cli (Call_Inspect i)]"
    by (simp add: podman_driver_def spawned_argv_def)
next
  fix i grace w
  show "tr_spawned (snd (drv_stop (podman_driver (trace_env pe) cli) i grace w)) =
      tr_spawned w @ [spawned_argv pe cli (Call_Stop i grace)]"
    using call_argv_not_Nil[of pe "Call_Stop i grace"]
    by (simp add: podman_driver_def podman_stop_def spawned_argv_def bind_podman_exec_trace)
next
  fix i force w
  show "tr_spawned (snd (drv_rm (podman_driver (trace_env pe) cli) i force w)) =
      tr_spawned w @ [spawned_argv pe cli (Call_Rm i force)]"
    using call_argv_not_Nil[of pe "Call_Rm i force"]
    by (simp add: podman_driver_def podman_rm_def spawned_argv_def exec_tolerant_trace)
qed (simp add: trace_clock_def)

end
