(* ===== verification/Exec_Facts.thy ===== *)
theory Exec_Facts
  imports Recorded Plan_Facts
begin

text \<open>
  What executing a plan does: the container ids it keeps, and the order of starts and waits.
\<close>

lemma execute_Ok:
  assumes "execute drv clk p ops opts w = Some (Ok report, w')"
  obtains es where "execute_loop drv clk p opts ops \<lparr>es_report = exec_report_default, es_ids = []\<rparr> w = Some (Ok es, w')"
    "report = es_report es" "er_containers report = es_ids es"
proof -
  from assms obtain es where *:
    "execute_loop drv clk p opts ops \<lparr>es_report = exec_report_default, es_ids = []\<rparr> w = Some (Ok es, w')"
    "report = es_report es"
    by (auto simp: execute_def bind_pr_Ok)
  with that[OF *] execute_loop_started(3)[OF *(1)] show thesis
    by (simp add: exec_report_default_def)
qed

lemma preceded_split:
  assumes "preceded P Q (pre @ y # post)" "Q y"
  obtains a x b where "pre = a @ x # b" "P x"
proof -
  from assms obtain x where "x \<in> set pre" "P x"
    unfolding preceded_def by blast
  with that show thesis by (meson split_list)
qed

lemma started_split:
  assumes "s \<in> set (started ops)"
  obtains a spec b where "ops = a @ RunContainer spec # b" "rspec_service spec = s"
proof -
  from assms have "\<exists>a spec b. ops = a @ RunContainer spec # b \<and> rspec_service spec = s"
  proof (induction ops)
    case (Cons op ops)
    show ?case
    proof (cases "\<exists>spec. op = RunContainer spec \<and> rspec_service spec = s")
      case True
      then show ?thesis by (metis append_Nil)
    next
      case False
      with Cons.prems have "s \<in> set (started ops)" by (auto split: op.splits)
      with Cons.IH show ?thesis by (metis append_Cons)
    qed
  qed simp
  with that show thesis by blast
qed

lemma is_run_iff: "is_run s x \<longleftrightarrow> (\<exists>spec. x = RunContainer spec \<and> rspec_service spec = s)"
  by (cases x) (auto simp: is_run_def)

lemma is_wait_iff: "is_wait s x \<longleftrightarrow> (\<exists>spec. x = WaitHealthy spec \<and> wspec_service spec = s)"
  by (cases x) (auto simp: is_wait_def)

text \<open>A container is well when podman reports it healthy, or reports no health check.\<close>

definition well :: "container_state \<Rightarrow> bool" where
  "well st = (case cst_health st of None \<Rightarrow> True | Some hs \<Rightarrow> hs_status hs = Healthy)"

lemma wait_healthy_Ok:
  assumes "wait_healthy drv clk i service sp interval retries w = Some (Ok hs, w')"
  shows "\<exists>n poll deadline wn st. polling drv clk i poll deadline n w wn \<and> drv_inspect drv i wn = (Ok st, w') \<and> well st"
proof -
  from wait_healthy_last[OF assms] obtain timeout n wn where *:
    "polling drv clk i (min interval default_poll_interval) (clk_now clk w + timeout) n w wn"
    "last_turn drv clk i service timeout (clk_now clk w + timeout) wn = Some (Ok hs, w')"
    by auto
  from *(2) obtain st where "drv_inspect drv i wn = (Ok st, w')" "well st"
    by (auto simp: last_turn_def verdict_def well_def split: prod.splits sum.splits option.splits if_splits)
  with *(1) show ?thesis by blast
qed

context recorded_driver
begin

lemma log_segment:
  assumes "execute_loop drv clk p opts ops es w = Some (Ok es', w')"
  shows "\<exists>cs. log w' = log w @ map enc cs"
  using log_loop[OF assms] by auto

lemma waits_in_between:
  assumes ex: "execute drv clk p ops opts w = Some (Ok report, w')"
    and dist: "distinct (started ops)" and s: "s \<in> set (started ops)"
    and order: "preceded (is_wait d) (is_run s) ops" "preceded (is_run d) (is_wait d) ops"
  shows "\<exists>spec_d spec_s cid st w1 w2 as bs cs ds.
    rspec_service spec_d = d \<and> rspec_service spec_s = s \<and> hm_get (er_containers report) d = Some cid \<and>
    drv_inspect drv cid w1 = (Ok st, w2) \<and> well st \<and>
    log w2 = log w @ map enc (as @ Call_Run spec_d # bs @ [Call_Inspect cid]) \<and>
    log w' = log w2 @ map enc (cs @ Call_Run spec_s # ds)"
proof -
  from started_split[OF s] obtain pre spec_s post where ops1: "ops = pre @ RunContainer spec_s # post"
    and s': "rspec_service spec_s = s" by metis
  from order(1) obtain pre1 x mid where pre: "pre = pre1 @ x # mid" "is_wait d x"
    using preceded_split[of "is_wait d" "is_run s" pre "RunContainer spec_s" post] ops1 s' by (auto simp: is_run_iff)
  then obtain ws where ws: "x = WaitHealthy ws" "wspec_service ws = d" by (auto simp: is_wait_iff)
  from order(2) obtain a y b where pre1: "pre1 = a @ y # b" "is_run d y"
    using preceded_split[of "is_run d" "is_wait d" pre1 x "mid @ RunContainer spec_s # post"] ops1 pre by auto
  then obtain spec_d where y: "y = RunContainer spec_d" "rspec_service spec_d = d" by (auto simp: is_run_iff)
  have ops: "ops = a @ RunContainer spec_d # b @ WaitHealthy ws # mid @ RunContainer spec_s # post"
    using ops1 pre pre1 ws y by simp
  from execute_Ok[OF ex] obtain es where
    es: "execute_loop drv clk p opts ops \<lparr>es_report = exec_report_default, es_ids = []\<rparr> w = Some (Ok es, w')"
    "er_containers report = es_ids es" by metis
  from es(1) obtain es1 wa es2 wb es3 wc es4 wd es5 we es6 wf where steps:
    "execute_loop drv clk p opts a \<lparr>es_report = exec_report_default, es_ids = []\<rparr> w = Some (Ok es1, wa)"
    "execute_op drv clk p opts (RunContainer spec_d) es1 wa = Some (Ok es2, wb)"
    "execute_loop drv clk p opts b es2 wb = Some (Ok es3, wc)"
    "execute_op drv clk p opts (WaitHealthy ws) es3 wc = Some (Ok es4, wd)"
    "execute_loop drv clk p opts mid es4 wd = Some (Ok es5, we)"
    "execute_op drv clk p opts (RunContainer spec_s) es5 we = Some (Ok es6, wf)"
    "execute_loop drv clk p opts post es6 wf = Some (Ok es, w')"
    unfolding ops execute_loop_append execute_loop.simps(2) bind_pr_Ok by blast
  from steps(2) obtain cid where run_d: "drv_run drv spec_d wa = (Ok cid, wb)" "hm_get (es_ids es2) d = Some cid"
    by (auto simp: bind_pr_Ok call_pr_Some hm_get_insert y)
  from steps(6) obtain cid_s where run_s: "drv_run drv spec_s we = (Ok cid_s, wf)" "es_ids es6 = hm_insert s cid_s (es_ids es5)"
    by (auto simp: bind_pr_Ok call_pr_Some s')
  have not: "d \<notin> set (started b)" "d \<notin> set (started mid)" "d \<noteq> s" "d \<notin> set (started post)"
    using dist by (auto simp: ops y s')
  have ids3: "hm_get (es_ids es3) d = Some cid"
    using execute_loop_started(2)[OF steps(3) not(1)] run_d by simp
  from steps(4) obtain sp hs where wait: "es4 = es3"
    "wait_healthy drv clk cid d sp (secs 30) 3 wc = Some (Ok hs, wd)"
    by (auto simp: bind_pr_Ok Let_def ws ids3)
  from wait_healthy_Ok[OF wait(2)] obtain n poll deadline wn st where obs:
    "polling drv clk cid poll deadline n wc wn" "drv_inspect drv cid wn = (Ok st, wd)" "well st" by blast
  have final: "hm_get (er_containers report) d = Some cid"
    using execute_loop_started(2)[OF steps(7) not(4)] execute_loop_started(2)[OF steps(5) not(2)] ids3 wait(1) run_s(2) not(3) es(2)
    by (simp add: hm_get_insert)
  from log_segment[OF steps(1)] log_segment[OF steps(3)] log_segment[OF steps(5)] log_segment[OF steps(7)]
  obtain ca cb cm cp where "log wa = log w @ map enc ca" "log wc = log wb @ map enc cb"
    "log we = log wd @ map enc cm" "log w' = log wf @ map enc cp" by blast
  with log_calls(5)[OF run_d(1)] log_calls(5)[OF run_s(1)] log_polling[OF obs(1)] log_calls(6)[OF obs(2)] y s' final obs
  show ?thesis
    by (intro exI[of _ spec_d] exI[of _ spec_s] exI[of _ cid] exI[of _ st] exI[of _ wn] exI[of _ wd]
        exI[of _ ca] exI[of _ "cb @ replicate n (Call_Inspect cid)"] exI[of _ cm] exI[of _ cp]) simp
qed

end

end
