(* ===== verification/Exec_Properties.thy ===== *)
theory Exec_Properties
  imports Exec_Facts Examples
begin

text \<open>The properties of the driver, the health-check loop and the executor, and of \<open>up\<close> as a whole.\<close>

section \<open>A podman that always succeeds\<close>

definition demo_env :: "(nat, unit, unit, unit) podman_env" where
  "demo_env =
     \<lparr>pe_spawn = (\<lambda>program args w. (Ok \<lparr>out_code = Some 0, out_stdout = ''c1'', out_stderr = []\<rparr>, w)),
      pe_spawn_stream = (\<lambda>program args w. (Ok (), w)), pe_lossy = (\<lambda>s. s), pe_json = (\<lambda>ep. None),
      pe_from_json_inspect = (\<lambda>s. Ok [\<lparr>pcj_name = ''c'', pcj_state =
         \<lparr>psj_status = ''running'', psj_pid = 1, psj_exit_code = 0, psj_health = None\<rparr>\<rparr>]),
      pe_from_json_ps = (\<lambda>s. Ok [])\<rparr>"

definition demo_clock :: "nat clock" where
  "demo_clock = \<lparr>clk_now = (\<lambda>w. w), clk_sleep = (\<lambda>d w. w + d)\<rparr>"

definition demo_world :: "nat traced" where
  "demo_world = \<lparr>tr_world = 0, tr_spawned = []\<rparr>"

definition demo_up :: "(((unit, unit) driver_error fault + exec_report) \<times> nat traced) option" where
  "demo_up = execute (podman_driver (trace_env demo_env) podman_cli_default) (trace_clock demo_clock) None
     (plan_ops (projr demo_result)) exec_opts_default demo_world"

lemma demo_exec:
  "\<exists>w'. podman_exec (trace_env demo_env) cli argv w = (Ok \<lparr>out_code = Some 0, out_stdout = ''c1'', out_stderr = []\<rparr>, w')"
  by (auto simp: podman_exec_def run_podman_def trace_env_def demo_env_def trace_spawn_def bind_st_def Let_def)

lemma demo_inspect: "\<exists>st w'. podman_inspect (trace_env demo_env) cli i w = (Ok st, w') \<and> cst_health st = None"
  using demo_exec[of cli "inspect_argv (container_id_str i)" w]
  by (auto simp: podman_inspect_def bind_st_def trace_env_def demo_env_def into_container_state_def)

lemma demo_wait:
  "\<exists>hs w'. wait_healthy (podman_driver (trace_env demo_env) cli) clk i s (secs 0) (secs 30) 3 w = Some (Ok hs, w')"
proof -
  obtain st w' where "drv_inspect (podman_driver (trace_env demo_env) cli) i w = (Ok st, w')" "cst_health st = None"
    using demo_inspect[of cli i w] by (auto simp: podman_driver_def)
  then have "last_turn (podman_driver (trace_env demo_env) cli) clk i s timeout deadline w
      = Some (Ok \<lparr>hs_status = Health_None, hs_failing_streak = 0\<rparr>, w')" for timeout deadline
    by (simp add: last_turn_def verdict_def)
  from poll_loop_decided[OF this] show ?thesis
    by (simp add: wait_healthy_def health_timeout_def secs_def duration_max_def timeout_slack_def Let_def)
qed

lemma demo_op:
  "\<exists>es' w'. execute_op (podman_driver (trace_env demo_env) cli) clk None exec_opts_default op es w = Some (Ok es', w')"
proof (cases op)
  case (WaitHealthy spec)
  then show ?thesis
    using demo_wait[of cli clk "case hm_get (es_ids es) (wspec_service spec) of
        Some cid \<Rightarrow> cid | None \<Rightarrow> ContainerId (wspec_container_name spec)" "wspec_service spec" w]
    by (auto simp: bind_pr_def Let_def exec_opts_default_def)
qed (simp_all add: bind_pr_def call_pr_def bind_st_def podman_driver_def podman_create_network_def
       podman_create_volume_def podman_build_def podman_pull_def podman_run_def podman_stop_def podman_rm_def
       exec_tolerant_def build_slots_def Let_def exec_opts_default_def podman_exec_def run_podman_def trace_env_def
       demo_env_def trace_spawn_def)

lemma demo_loop:
  "\<exists>es' w'. execute_loop (podman_driver (trace_env demo_env) cli) clk None exec_opts_default ops es w = Some (Ok es', w')"
proof (induction ops arbitrary: es w)
  case (Cons op ops)
  with demo_op[of cli clk op es w] show ?case
    by (auto simp: bind_pr_def)
qed simp

lemma demo_up_Ok:
  "execute (podman_driver (trace_env demo_env) podman_cli_default) (trace_clock demo_clock) None
     (plan_ops (projr demo_result)) exec_opts_default demo_world
     = Some (Ok (projr (fst (the demo_up))), snd (the demo_up))"
  using demo_loop[of podman_cli_default "trace_clock demo_clock" "plan_ops (projr demo_result)"
      "\<lparr>es_report = exec_report_default, es_ids = []\<rparr>" demo_world]
  by (auto simp: demo_up_def execute_def bind_pr_def)

section \<open>Bringing a document up\<close>

text \<open>
  C2: when \<open>up\<close> succeeds and a service requires a dependency to be healthy, podman is told to run
  the dependency, its container (the one the report names) is inspected and found well, and only
  then podman is told to run the service.
\<close>

theorem up_waits_for_healthy:
  assumes ok: "bt_ok (cmp_services c)" and p: "(plan hash c opts :: ('te, 'ce) plan_error fault + _) = Ok p"
    and ex: "execute (podman_driver (trace_env pe) cli) (trace_clock clk) par (plan_ops p) eopts w = Some (Ok report, w')"
    and d: "bt_contains (active_services c (opt_profiles opts)) s" "d \<in> set (healthy_of (active_services c (opt_profiles opts)) s)"
  shows "\<exists>spec_d spec_s cid st w1 w2 as bs cs ds.
    rspec_service spec_d = d \<and> rspec_service spec_s = s \<and> hm_get (er_containers report) d = Some cid \<and>
    drv_inspect (podman_driver (trace_env pe) cli) cid w1 = (Ok st, w2) \<and> well st \<and>
    tr_spawned w2 = tr_spawned w @ map (spawned_argv pe cli) (as @ Call_Run spec_d # bs @ [Call_Inspect cid]) \<and>
    tr_spawned w' = tr_spawned w2 @ map (spawned_argv pe cli) (cs @ Call_Run spec_s # ds)"
proof -
  from plan_structure [OF ok p] obtain ws where ws: "plan_ops p = setup_ops c opts @
       scheduled_ops hash (plan_project_name p) (active_services c (opt_profiles opts)) [] ws"
    "distinct (concat ws)" "set (concat ws) = set (bt_keys (active_services c (opt_profiles opts)))" by blast
  then have "distinct (started (plan_ops p))" "s \<in> set (started (plan_ops p))"
    using d(1) by (simp_all add: setup_starts_nothing started_scheduled bt_contains_iff)
  from podman_recorded.waits_in_between [OF ex this plan_order(2) [OF ok p d(2)] plan_order(3) [OF ok p]]
  show ?thesis .
qed

theorem up_waits_for_healthy_witness:
  "\<exists>cid st w1 w2. hm_get (er_containers (projr (fst (the demo_up)))) ''db'' = Some cid \<and>
     drv_inspect (podman_driver (trace_env demo_env) podman_cli_default) cid w1 = (Ok st, w2) \<and> well st"
proof -
  have "bt_contains (active_services demo (opt_profiles demo_opts)) ''api''"
    "''db'' \<in> set (healthy_of (active_services demo (opt_profiles demo_opts)) ''api'')" by code_simp+
  from up_waits_for_healthy [OF demo_ok demo_planned demo_up_Ok this] show ?thesis by blast
qed



text \<open>
  The mock driver records exactly the operations' calls, in order, inspections apart.
\<close>

theorem execute_mock_calls:
  assumes "execute (mock_as_driver display empty_stream) mock_clock par ops opts m = Some (r, m')"
  shows "\<exists>made rest cs. ops = made @ rest \<and> md_calls m' = md_calls m @ cs \<and>
    acts cs = plan_calls opts made \<and> (is_ok r \<longrightarrow> rest = []) \<and> (\<not> is_ok r \<longrightarrow> made \<noteq> [])"
  using mock_recorded.log_execute [OF assms] by simp

definition mock_ops :: "op list" where
  "mock_ops = [StopContainer \<lparr>sspec_service = ''svc'', sspec_container_name = ''test_svc'', sspec_timeout_secs = 10\<rparr>,
     RemoveContainer \<lparr>rmspec_service = ''svc'', rmspec_container_name = ''test_svc'', rmspec_force = False\<rparr>]"

theorem execute_mock_calls_witness:
  "\<exists>m'. execute (mock_as_driver (\<lambda>_. []) () :: ((unit, unit) timed_mock, unit, unit, unit) driver) mock_clock None mock_ops
      exec_opts_default timed_mock_new = Some (Ok exec_report_default, m') \<and>
    (\<exists>cs. md_calls m' = cs \<and> acts cs = plan_calls exec_opts_default mock_ops)"
proof -
  let ?r = "execute (mock_as_driver (\<lambda>_. []) () :: ((unit, unit) timed_mock, unit, unit, unit) driver) mock_clock None mock_ops
      exec_opts_default timed_mock_new"
  have r: "?r = Some (Ok exec_report_default, snd (the ?r))"
    by (simp add: execute_def mock_ops_def bind_pr_def call_pr_def mock_simps secs_def timed_mock_new_def mock_new_def
        mock_driver.defs)
  from execute_mock_calls [OF r] r show ?thesis
    by (auto simp: timed_mock_new_def mock_new_def mock_driver.defs intro!: exI[of _ "snd (the ?r)"])
qed

lemma podman_forward:
  assumes "\<And>w d. clk_now clk w + d \<le> clk_now clk (clk_sleep clk d w)"
    and "\<And>program args w. clk_now clk w \<le> clk_now clk (snd (pe_spawn pe program args w))"
  shows "forward_clock (podman_driver pe cli) clk"
proof
  fix i w
  let ?argv = "patch_argv cli (inspect_argv (container_id_str i))"
  have "clk_now clk w \<le> clk_now clk (snd (podman_exec pe cli (inspect_argv (container_id_str i)) w))"
    using assms(2)[of w "case ?argv of p # _ \<Rightarrow> p | [] \<Rightarrow> ''podman''" "drop 1 ?argv"]
    by (auto simp: podman_exec_def run_podman_def bind_st_def Let_def split: prod.splits sum.splits)
  then show "clk_now clk w \<le> clk_now clk (snd (drv_inspect (podman_driver pe cli) i w))"
    by (auto simp: podman_driver_def podman_inspect_def bind_st_def split: prod.splits sum.splits list.splits)
qed (rule assms(1))

text \<open>
  C25: executing operations with podman returns, whatever podman answers, when time goes forward:
  no sleep is shorter than asked and running a process does not turn the clock back.
\<close>

theorem execute_returns:
  assumes "\<And>w d. clk_now clk w + d \<le> clk_now clk (clk_sleep clk d w)"
    and "\<And>program args w. clk_now clk w \<le> clk_now clk (snd (pe_spawn pe program args w))"
    and "par \<noteq> Some 0"
  shows "\<exists>r w'. execute (podman_driver pe cli) clk par ops opts w = Some (r, w')"
  by (rule forward_clock.execute_returns_forward [OF podman_forward [OF assms(1,2)] assms(3)])

theorem execute_returns_witness:
  "\<exists>r w'. execute (podman_driver demo_env podman_cli_default) demo_clock None (plan_ops (projr demo_result))
     exec_opts_default 0 = Some (r, w')"
  by (rule execute_returns) (simp_all add: demo_clock_def demo_env_def)

text \<open>
  C34: the report of a successful execution counts the networks, volumes, images built and images
  pulled of the plan (none that the options skip), and names a container for exactly the started
  services.
\<close>

theorem execute_report:
  assumes "execute drv clk par ops opts w = Some (Ok report, w')"
  shows "er_networks_created report = count_ops is_network ops \<and>
    er_volumes_created report = count_ops is_volume ops \<and>
    er_images_built report = (if eo_no_build opts then 0 else count_ops is_build ops) \<and>
    er_images_pulled report = (if eo_no_pull opts then 0 else count_ops is_pull ops) \<and>
    (\<forall>s. hm_get (er_containers report) s \<noteq> None \<longleftrightarrow> s \<in> set (started ops))"
proof -
  from execute_Ok [OF assms] obtain es where
    es: "execute_loop drv clk par opts ops \<lparr>es_report = exec_report_default, es_ids = []\<rparr> w = Some (Ok es, w')"
    "report = es_report es" "er_containers report = es_ids es" by metis
  from execute_loop_report [OF es(1)] execute_loop_started(1) [OF es(1)] es(2,3) show ?thesis
    by (simp add: exec_report_default_def)
qed

theorem execute_report_witness:
  "er_volumes_created (projr (fst (the demo_up))) = 1 \<and> er_images_pulled (projr (fst (the demo_up))) = 3"
proof -
  have "count_ops is_volume (plan_ops (projr demo_result)) = 1" "count_ops is_pull (plan_ops (projr demo_result)) = 3"
    by code_simp+
  with execute_report [OF demo_up_Ok] show ?thesis by (simp add: exec_opts_default_def)
qed

section \<open>Waiting for health\<close>

text \<open>
  C23: \<open>wait_healthy\<close> ends with an inspection: it succeeds when that reports a healthy container or
  one without health check, and fails when it fails, when it reports an unhealthy container, or
  when the container is still starting and the clock has passed the timeout.
\<close>

theorem wait_healthy_verdict:
  assumes "wait_healthy drv clk i service start_period interval retries w = Some (r, w')"
    and "health_timeout start_period interval retries = Some timeout"
  shows "\<exists>w1. (\<exists>e. drv_inspect drv i w1 = (Err e, w') \<and> r = Err (Fault e)) \<or>
    (\<exists>st. drv_inspect drv i w1 = (Ok st, w') \<and>
      (case cst_health st of
         None \<Rightarrow> r = Ok \<lparr>hs_status = Health_None, hs_failing_streak = 0\<rparr>
       | Some hs \<Rightarrow>
           if hs_status hs = Healthy then r = Ok hs
           else if hs_status hs = Unhealthy then r = Err (Fault (Unhealthy_Error service (hs_failing_streak hs)))
           else r = Err (Fault (HealthcheckTimeout service timeout)) \<and> clk_now clk w + timeout \<le> clk_now clk w'))"
proof -
  from wait_healthy_last [OF assms(1)] assms(2) obtain n wn r0 where
    "last_turn drv clk i service timeout (clk_now clk w + timeout) wn = Some (r0, w')" "r = map_err Fault r0"
    by auto
  then show ?thesis
    by (intro exI[of _ wn])
      (auto simp: last_turn_def verdict_def split: prod.splits sum.splits option.splits if_splits)
qed

definition unwell_mock :: "(unit, unit) timed_mock" where
  "unwell_mock = set_inspect_response (ContainerId ''c1'')
     (Ok \<lparr>cst_name = ''c1'', cst_status = ''running'', cst_pid = 1, cst_exit_code = 0,
          cst_health = Some \<lparr>hs_status = Unhealthy, hs_failing_streak = 5\<rparr>\<rparr>) timed_mock_new"

lemma unwell_wait:
  "\<exists>m'. wait_healthy (mock_as_driver (\<lambda>_. []) () :: ((unit, unit) timed_mock, unit, unit, unit) driver) mock_clock
     (ContainerId ''c1'') ''svc'' 0 1000000 3 unwell_mock = Some (Err (Fault (Unhealthy_Error ''svc'' 5)), m')"
proof -
  let ?drv = "mock_as_driver (\<lambda>_. []) () :: ((unit, unit) timed_mock, unit, unit, unit) driver"
  have "last_turn ?drv mock_clock (ContainerId ''c1'') ''svc'' timeout deadline unwell_mock
      = Some (Err (Unhealthy_Error ''svc'' 5), mock_record (Call_Inspect (ContainerId ''c1'')) unwell_mock)"
    for timeout deadline
    by (simp add: last_turn_def verdict_def mock_simps unwell_mock_def set_inspect_response_def hm_get_insert)
  from poll_loop_decided [OF this] show ?thesis
    by (simp add: wait_healthy_def health_timeout_def secs_def duration_max_def timeout_slack_def Let_def)
qed

theorem wait_healthy_verdict_witness:
  "\<exists>m1 m' st. wait_healthy (mock_as_driver (\<lambda>_. []) () :: ((unit, unit) timed_mock, unit, unit, unit) driver) mock_clock
     (ContainerId ''c1'') ''svc'' 0 1000000 3 unwell_mock = Some (Err (Fault (Unhealthy_Error ''svc'' 5)), m') \<and>
    (drv_inspect (mock_as_driver (\<lambda>_. []) () :: ((unit, unit) timed_mock, unit, unit, unit) driver)
      (ContainerId ''c1'') m1 = (Ok st, m') \<and> (\<exists>hs. cst_health st = Some hs \<and> hs_status hs = Unhealthy) \<or>
    (\<exists>e. drv_inspect (mock_as_driver (\<lambda>_. []) () :: ((unit, unit) timed_mock, unit, unit, unit) driver)
      (ContainerId ''c1'') m1 = (Err e, m')))"
proof -
  have t: "health_timeout 0 1000000 3 = Some 5004000000"
    by (simp add: health_timeout_def timeout_slack_def secs_def duration_max_def)
  from unwell_wait obtain m' where
    w: "wait_healthy (mock_as_driver (\<lambda>_. []) () :: ((unit, unit) timed_mock, unit, unit, unit) driver) mock_clock
     (ContainerId ''c1'') ''svc'' 0 1000000 3 unwell_mock = Some (Err (Fault (Unhealthy_Error ''svc'' 5)), m')" ..
  from wait_healthy_verdict [OF w t] w show ?thesis
    by (fastforce split: option.splits if_splits)
qed

text \<open>
  C35: waiting spawns one inspection per turn and nothing else, and all turns but the last two begin
  a full poll interval apart within the timeout: with time going forward there are at most
  \<open>timeout / poll + 2\<close> of them.
\<close>

theorem wait_healthy_bounded:
  assumes clock: "\<And>w d. clk_now clk w + d \<le> clk_now clk (clk_sleep clk d w)"
    "\<And>program args w. clk_now clk w \<le> clk_now clk (snd (pe_spawn pe program args w))"
    and wait: "wait_healthy (podman_driver (trace_env pe) cli) (trace_clock clk) i service start_period interval retries w
      = Some (r, w')"
    and timeout: "health_timeout start_period interval retries = Some timeout" and "0 < interval"
  shows "\<exists>n. tr_spawned w' = tr_spawned w @ replicate (Suc n) (spawned_argv pe cli (Call_Inspect i)) \<and>
    n \<le> timeout div min interval default_poll_interval + 1"
proof -
  let ?drv = "podman_driver (trace_env pe) cli" and ?clk = "trace_clock clk" and ?poll = "min interval default_poll_interval"
  have "forward_clock ?drv ?clk"
    using clock by (intro podman_forward) (simp_all add: trace_clock_def trace_env_def trace_spawn_def case_prod_beta)
  note bound = forward_clock.polling_bound [OF this]
  from wait_healthy_last [OF wait] timeout obtain n wn r0 where
    n: "polling ?drv ?clk i ?poll (clk_now ?clk w + timeout) n w wn"
    and last: "last_turn ?drv ?clk i service timeout (clk_now ?clk w + timeout) wn = Some (r0, w')"
    by auto
  from last obtain ri where "drv_inspect ?drv i wn = (ri, w')"
    by (auto simp: last_turn_def split: prod.splits sum.splits option.splits if_splits)
  from podman_recorded.log_calls(6) [OF this] podman_recorded.log_polling [OF n]
  have spawned: "tr_spawned w' = tr_spawned w @ replicate (Suc n) (spawned_argv pe cli (Call_Inspect i))"
    by (simp add: replicate_append_same)
  have "0 < ?poll"
    using \<open>0 < interval\<close> by (simp add: default_poll_interval_def secs_def)
  moreover have "(n - 1) * ?poll \<le> timeout"
    using bound [OF n] by (cases n) auto
  ultimately have "n - 1 \<le> timeout div ?poll"
    by (simp add: less_eq_div_iff_mult_less_eq)
  with spawned show ?thesis by (intro exI[of _ n]) simp
qed

theorem wait_healthy_bounded_witness:
  "\<exists>hs w' n. wait_healthy (podman_driver (trace_env demo_env) podman_cli_default) (trace_clock demo_clock)
      (ContainerId ''c1'') ''db'' (secs 0) (secs 30) 3 demo_world = Some (Ok hs, w') \<and>
     tr_spawned w' = replicate (Suc n) (spawned_argv demo_env podman_cli_default (Call_Inspect (ContainerId ''c1''))) \<and>
     n \<le> 126000000000 div 2000000000"
proof -
  obtain hs w' where w: "wait_healthy (podman_driver (trace_env demo_env) podman_cli_default) (trace_clock demo_clock)
      (ContainerId ''c1'') ''db'' (secs 0) (secs 30) 3 demo_world = Some (Ok hs, w')"
    using demo_wait by blast
  have t: "health_timeout (secs 0) (secs 30) 3 = Some (secs 125)" "0 < secs 30"
    by (simp_all add: health_timeout_def timeout_slack_def secs_def duration_max_def)
  have "\<And>w d. clk_now demo_clock w + d \<le> clk_now demo_clock (clk_sleep demo_clock d w)"
    "\<And>program args w. clk_now demo_clock w \<le> clk_now demo_clock (snd (pe_spawn demo_env program args w))"
    by (simp_all add: demo_clock_def demo_env_def)
  from wait_healthy_bounded [OF this w t] w show ?thesis
    by (auto simp: demo_world_def secs_def default_poll_interval_def)
qed

end
