(* ===== verification/Driver_Properties.thy ===== *)
theory Driver_Properties
  imports Exec_Facts Plan_Properties
begin

text \<open>The properties of podman's command lines, of \<open>PodmanCli\<close>, of \<open>HealthGate\<close> and of the wave runner.\<close>

section \<open>Command lines\<close>


definition sample_run :: run_spec where
  "sample_run =
     \<lparr>rspec_service = ''web'', rspec_image = ''nginx'', rspec_container_name = ''p_web'', rspec_environment = [''A=1''],
      rspec_ports = [''80:80''], rspec_volumes = [], rspec_networks = [''n''], rspec_network_mode = None,
      rspec_command = Some [''-g''], rspec_entrypoint = None, rspec_restart = ''no'', rspec_labels = []\<rparr>"




section \<open>PodmanCli\<close>

lemma find_privileged_Some:
  "find_privileged ws = Some port \<Longrightarrow> port < 1024 \<and>
     (\<exists>word\<in>set ws. parse_u16 (after_last_colon (trim_end_matches '',.;:'' word)) = Some port)"
  by (induction ws) (auto simp: Let_def split: option.splits if_splits)

lemma podman_exec_Err:
  "podman_exec pe cli argv w = (Err e, w') \<Longrightarrow> (\<exists>io. e = Io_Error io) \<or> (\<exists>a c s. e = Podman_Error a c s)"
  by (auto simp: podman_exec_def run_podman_def bind_st_def map_err_def Let_def split: prod.splits sum.splits if_splits)

text \<open>
  A failed run is reported as a refused privileged port only for a port below 1024 that
  follows the last colon of a word of an error message about a denied permission.
\<close>

theorem podman_run_privileged:
  assumes "podman_run pe cli spec w = (Err (PrivilegedPort service port), w')"
  shows "service = rspec_service spec \<and> port < 1024 \<and>
    (\<exists>argv code stderr. podman_exec pe cli (run_argv (pe_json pe) spec) w = (Err (Podman_Error argv code stderr), w') \<and>
      (str_contains stderr ''permission denied'' \<or> str_contains stderr ''EACCES'') \<and>
      (\<exists>word\<in>set (split_whitespace stderr).
        parse_u16 (after_last_colon (trim_end_matches '',.;:'' word)) = Some port))"
proof -
  obtain r w1 where e: "podman_exec pe cli (run_argv (pe_json pe) spec) w = (r, w1)"
    by fastforce
  with assms podman_exec_Err [of pe cli "run_argv (pe_json pe) spec" w] obtain argv code stderr where
    r: "r = Err (Podman_Error argv code stderr)" "w1 = w'"
    and d: "detect_privileged_port stderr = Some port" "service = rspec_service spec"
    by (auto simp: podman_run_def split: sum.splits driver_error.splits option.splits)
  from d(1) have "find_privileged (split_whitespace stderr) = Some port"
    "str_contains stderr ''permission denied'' \<or> str_contains stderr ''EACCES''"
    by (auto simp: detect_privileged_port_def split: if_splits)
  with find_privileged_Some [OF this(1)] e r d(2) show ?thesis by simp
qed

definition refusing_env :: "(nat, unit, unit, unit) podman_env" where
  "refusing_env =
     \<lparr>pe_spawn = (\<lambda>program args w. (Ok \<lparr>out_code = Some 126, out_stdout = [],
        out_stderr = ''tcp 0.0.0.0:80: permission denied''\<rparr>, w)),
      pe_spawn_stream = (\<lambda>program args w. (Ok (), w)), pe_lossy = (\<lambda>s. s), pe_json = (\<lambda>ep. None),
      pe_from_json_inspect = (\<lambda>s. Ok []), pe_from_json_ps = (\<lambda>s. Ok [])\<rparr>"

theorem podman_run_privileged_witness:
  "podman_run refusing_env podman_cli_default sample_run 0 = (Err (PrivilegedPort ''web'' 80), 0) \<and> (80::nat) < 1024"
proof -
  have "split_whitespace ''tcp 0.0.0.0:80: permission denied'' = [''tcp'', ''0.0.0.0:80:'', ''permission'', ''denied'']"
    "str_contains ''tcp 0.0.0.0:80: permission denied'' ''permission denied''"
    "after_last_colon (trim_end_matches '',.;:'' ''tcp'') = ''tcp''"
    "after_last_colon (trim_end_matches '',.;:'' ''0.0.0.0:80:'') = ''80''"
    by code_simp+
  moreover have "parse_u16 ''tcp'' = None" "parse_u16 ''80'' = Some 80"
    by (simp_all add: parse_u16_def is_digit_def digits_val_def digit_val_def)
  ultimately have "detect_privileged_port ''tcp 0.0.0.0:80: permission denied'' = Some 80"
    by (simp add: detect_privileged_port_def Let_def)
  then have "podman_run refusing_env podman_cli_default sample_run 0 = (Err (PrivilegedPort ''web'' 80), 0)"
    by (simp add: podman_run_def podman_exec_def run_podman_def refusing_env_def bind_st_def Let_def sample_run_def)
  with podman_run_privileged [OF this] show ?thesis by simp
qed

lemma exec_tolerant_Ok:
  "fst (exec_tolerant pe cli p argv w) = Ok () \<longleftrightarrow>
     is_ok (fst (podman_exec pe cli argv w)) \<or>
     (\<exists>a c s. fst (podman_exec pe cli argv w) = Err (Podman_Error a c s) \<and> p s)"
  by (auto simp: exec_tolerant_def split: prod.splits sum.splits driver_error.splits)

text \<open>
  Removing a container succeeds exactly when podman does or says there is no such container, and
  creating a network or a volume exactly when podman does or says it already exists: \<open>up\<close> and
  \<open>down\<close> can be repeated.
\<close>

theorem podman_idempotent:
  "(fst (podman_rm pe cli i force w) = Ok () \<longleftrightarrow>
      is_ok (fst (podman_exec pe cli (rm_argv (container_id_str i) force) w)) \<or>
      (\<exists>a c s. fst (podman_exec pe cli (rm_argv (container_id_str i) force) w) = Err (Podman_Error a c s) \<and>
        (str_contains s ''no such container'' \<or> str_contains s ''No such container''))) \<and>
   (fst (podman_create_network pe cli n w) = Ok () \<longleftrightarrow>
      is_ok (fst (podman_exec pe cli (network_create_argv n) w)) \<or>
      (\<exists>a c s. fst (podman_exec pe cli (network_create_argv n) w) = Err (Podman_Error a c s) \<and>
        str_contains s ''already exists'')) \<and>
   (fst (podman_create_volume pe cli v w) = Ok () \<longleftrightarrow>
      is_ok (fst (podman_exec pe cli (volume_create_argv v) w)) \<or>
      (\<exists>a c s. fst (podman_exec pe cli (volume_create_argv v) w) = Err (Podman_Error a c s) \<and>
        str_contains s ''already exists''))"
  by (simp add: podman_rm_def podman_create_network_def podman_create_volume_def exec_tolerant_Ok)

section \<open>HealthGate\<close>

text \<open>
  Once a gate has answered, every later caller gets the same answer, whatever driver, container
  and limits it brings, and without a call to the driver; an error is always a timeout of zero.
\<close>

theorem health_gate_once:
  assumes "health_gate_wait display drv clk i sp interval retries (gate, w) = Some (r, gate', w')" "r \<noteq> Err Panic"
  shows "health_gate_wait display' drv' clk' i' sp' interval' retries' (gate', v) = Some (r, gate', v) \<and>
    (\<forall>e. r = Err e \<longrightarrow> e = Fault (HealthcheckTimeout (hg_service gate) 0)) \<and>
    (hg_cell gate = None \<longrightarrow> (\<forall>hs. r = Ok hs \<longleftrightarrow>
      wait_healthy drv clk i (hg_service gate) sp interval retries w = Some (Ok hs, w')))"
  using assms
  by (auto simp: health_gate_wait_def Let_def split: option.splits sum.splits prod.splits fault.splits)

theorem health_gate_once_witness:
  "\<exists>m' gate'. health_gate_wait (\<lambda>_. []) (mock_as_driver (\<lambda>_. []) () :: ((unit, unit) timed_mock, unit, unit, unit) driver)
       mock_clock (ContainerId ''c2'') 0 0 0 (gate', m') = Some (Ok default_health_state, gate', m') \<and>
     md_calls m' = [Call_Inspect (ContainerId ''c1'')]"
proof -
  let ?drv = "mock_as_driver (\<lambda>_. []) () :: ((unit, unit) timed_mock, unit, unit, unit) driver"
  let ?m = "mock_record (Call_Inspect (ContainerId ''c1'')) timed_mock_new :: (unit, unit) timed_mock"
  have "last_turn ?drv mock_clock (ContainerId ''c1'') ''db'' timeout deadline timed_mock_new = Some (Ok default_health_state, ?m)"
    for timeout deadline
    by (simp add: last_turn_def verdict_def mock_simps timed_mock_new_def mock_new_def mock_driver.defs
        default_container_state_def default_health_state_def)
  from poll_loop_decided [OF this]
  have "wait_healthy ?drv mock_clock (ContainerId ''c1'') ''db'' 0 1 3 timed_mock_new = Some (Ok default_health_state, ?m)"
    by (simp add: wait_healthy_def health_timeout_def secs_def duration_max_def timeout_slack_def Let_def)
  then have "\<exists>gate'. health_gate_wait (\<lambda>_. []) ?drv mock_clock (ContainerId ''c1'') 0 1 3 (health_gate_new ''db'', timed_mock_new)
      = Some (Ok default_health_state, gate', ?m)"
    by (simp add: health_gate_wait_def health_gate_new_def Let_def)
  then obtain gate' where g: "health_gate_wait (\<lambda>_. []) ?drv mock_clock (ContainerId ''c1'') 0 1 3
      (health_gate_new ''db'', timed_mock_new) = Some (Ok default_health_state, gate', ?m)" ..
  have "health_gate_wait (\<lambda>_. []) ?drv mock_clock (ContainerId ''c2'') 0 0 0 (gate', ?m) = Some (Ok default_health_state, gate', ?m)"
    by (rule conjunct1 [OF health_gate_once [OF g]]) simp
  moreover have "md_calls ?m = [Call_Inspect (ContainerId ''c1'')]"
    by (simp add: mock_record_def timed_mock_new_def mock_new_def mock_driver.defs)
  ultimately show ?thesis by blast
qed

section \<open>execute_wave_concurrent\<close>

text \<open>What a finished task reports as an error.\<close>

definition join_error :: "(string \<Rightarrow> 'io) \<Rightarrow> ('io, 'je) join_result \<Rightarrow> ('io, 'je) driver_error option" where
  "join_error other j = (case j of Joined (Ok _) \<Rightarrow> None | Joined (Err e) \<Rightarrow> Some e | Join_Error msg \<Rightarrow> Some (Io_Error (other msg)))"

text \<open>
  Running a wave succeeds exactly when every task does, and otherwise fails with the error of
  the task that failed first in time.
\<close>

theorem wave_first_error:
  "execute_wave_concurrent other finished =
     (case filter (\<lambda>j. join_error other j \<noteq> None) finished of
        [] \<Rightarrow> Ok []
      | j # _ \<Rightarrow> Err (the (join_error other j)))"
proof -
  have "join_loop other finished =
      (case filter (\<lambda>j. join_error other j \<noteq> None) finished of [] \<Rightarrow> [] | j # _ \<Rightarrow> [the (join_error other j)])"
    by (induction other finished rule: join_loop.induct) (simp_all add: join_error_def)
  then show ?thesis
    by (auto simp: execute_wave_concurrent_def split: list.splits)
qed

end
