(* ===== verification/Logs.thy ===== *)
theory Logs
  imports Driver
begin

text \<open>
  The log multiplexer of crate \<open>selur-compose-driver\<close> (\<open>logs.rs\<close>) as a step relation.  \<open>tail_logs\<close>
  sets up one service after the other while the reader tasks it has spawned run; all send into one
  bounded channel, whose receiver the caller gets when \<open>tail_logs\<close> returns.  \<open>open_log\<close> stands for
  \<open>driver.logs\<close>: the lines that can be read from a container before its end or a read error, or the
  text of the driver's error.
\<close>

section \<open>Lines and state\<close>

record log_line =
  ll_service :: string
  ll_line :: string

definition display_log_line :: "log_line \<Rightarrow> string" where
  "display_log_line l = ''['' @ ll_service l @ ''] '' @ ll_line l"

text \<open>
  \<open>tl_todo\<close>: services still to set up; \<open>tl_tasks\<close>: running readers with their unread lines;
  \<open>tl_chan\<close>: the buffered lines; \<open>tl_returned\<close>: \<open>tail_logs\<close> has returned and dropped its sender;
  \<open>tl_dropped\<close>: the caller has dropped the receiver; \<open>tl_out\<close>: the lines the caller has received.
\<close>

record tail_state =
  tl_todo :: "(string \<times> container_id) list"
  tl_tasks :: "(string \<times> string list) list"
  tl_chan :: "log_line list"
  tl_returned :: bool
  tl_dropped :: bool
  tl_out :: "log_line list"

definition log_line_of :: "string \<Rightarrow> string \<Rightarrow> log_line" where
  "log_line_of service line = \<lparr>ll_service = service, ll_line = line\<rparr>"

definition driver_error_line :: "string \<Rightarrow> string \<Rightarrow> log_line" where
  "driver_error_line service e = log_line_of service (''[driver error: '' @ e @ '']'')"

definition channel_capacity :: "'a list \<Rightarrow> nat" where
  "channel_capacity services = 1024 * max (length services) 1"

definition tail_start :: "(string \<times> container_id) list \<Rightarrow> tail_state" where
  "tail_start services =
     \<lparr>tl_todo = services, tl_tasks = [], tl_chan = [], tl_returned = False, tl_dropped = False, tl_out = []\<rparr>"

section \<open>Steps\<close>

inductive tail_step :: "(container_id \<Rightarrow> string + string list) \<Rightarrow> nat \<Rightarrow> tail_state \<Rightarrow> tail_state \<Rightarrow> bool"
  for open_log :: "container_id \<Rightarrow> string + string list" and cap :: nat
where
  spawn:
    "tl_todo s = (service, i) # rest \<Longrightarrow> open_log i = Ok ls \<Longrightarrow>
     tail_step open_log cap s (s\<lparr>tl_todo := rest, tl_tasks := tl_tasks s @ [(service, ls)]\<rparr>)"
| report_error:
    "tl_todo s = (service, i) # rest \<Longrightarrow> open_log i = Err e \<Longrightarrow> length (tl_chan s) < cap \<Longrightarrow>
     tail_step open_log cap s (s\<lparr>tl_todo := rest, tl_chan := tl_chan s @ [driver_error_line service e]\<rparr>)"
| return_rx:
    "tl_todo s = [] \<Longrightarrow> \<not> tl_returned s \<Longrightarrow> tail_step open_log cap s (s\<lparr>tl_returned := True\<rparr>)"
| send_line:
    "tl_tasks s = before @ (service, line # ls) # after \<Longrightarrow> length (tl_chan s) < cap \<Longrightarrow> \<not> tl_dropped s \<Longrightarrow>
     tail_step open_log cap s
       (s\<lparr>tl_tasks := before @ (service, ls) # after, tl_chan := tl_chan s @ [log_line_of service line]\<rparr>)"
| send_fails:
    "tl_tasks s = before @ (service, line # ls) # after \<Longrightarrow> tl_dropped s \<Longrightarrow>
     tail_step open_log cap s (s\<lparr>tl_tasks := before @ after\<rparr>)"
| end_of_log:
    "tl_tasks s = before @ (service, []) # after \<Longrightarrow>
     tail_step open_log cap s (s\<lparr>tl_tasks := before @ after\<rparr>)"
| receive:
    "tl_returned s \<Longrightarrow> \<not> tl_dropped s \<Longrightarrow> tl_chan s = line # rest \<Longrightarrow>
     tail_step open_log cap s (s\<lparr>tl_chan := rest, tl_out := tl_out s @ [line]\<rparr>)"
| drop_rx:
    "tl_returned s \<Longrightarrow> \<not> tl_dropped s \<Longrightarrow> tail_step open_log cap s (s\<lparr>tl_dropped := True, tl_chan := []\<rparr>)"

inductive_cases tail_stepE: "tail_step open_log cap s t"

inductive tail_reachable ::
    "(container_id \<Rightarrow> string + string list) \<Rightarrow> (string \<times> container_id) list \<Rightarrow> tail_state \<Rightarrow> bool"
  for open_log :: "container_id \<Rightarrow> string + string list" and services :: "(string \<times> container_id) list"
where
  tail_init: "tail_reachable open_log services (tail_start services)"
| tail_next: "tail_reachable open_log services s \<Longrightarrow> tail_step open_log (channel_capacity services) s t
    \<Longrightarrow> tail_reachable open_log services t"

text \<open>\<open>recv\<close> returns \<open>None\<close>: all senders are gone and the buffer is empty.\<close>

definition tail_closed :: "tail_state \<Rightarrow> bool" where
  "tail_closed s \<longleftrightarrow> tl_returned s \<and> tl_todo s = [] \<and> tl_tasks s = [] \<and> tl_chan s = []"

section \<open>Lines are neither lost nor reordered\<close>

definition task_lines :: "string \<times> string list \<Rightarrow> log_line list" where
  "task_lines task = map (log_line_of (fst task)) (snd task)"

definition expected_lines :: "(container_id \<Rightarrow> string + string list) \<Rightarrow> string \<times> container_id \<Rightarrow> log_line list" where
  "expected_lines open_log entry =
     (case open_log (snd entry) of
        Ok ls \<Rightarrow> map (log_line_of (fst entry)) ls
      | Err e \<Rightarrow> [driver_error_line (fst entry) e])"

text \<open>All lines in the system: received, buffered, unread, to come.\<close>

definition all_lines :: "(container_id \<Rightarrow> string + string list) \<Rightarrow> tail_state \<Rightarrow> log_line list" where
  "all_lines open_log s =
     tl_out s @ tl_chan s @ concat (map task_lines (tl_tasks s)) @ concat (map (expected_lines open_log) (tl_todo s))"

definition of_service :: "string \<Rightarrow> log_line list \<Rightarrow> log_line list" where
  "of_service service ls = filter (\<lambda>l. ll_service l = service) ls"

lemma of_service_Cons [simp]:
  "of_service v [] = []"
  "of_service v (l # ls) = (if ll_service l = v then l # of_service v ls else of_service v ls)"
  by (simp_all add: of_service_def)

lemma line_service [simp]: "ll_service (log_line_of v l) = v" "ll_service (driver_error_line v e) = v"
  by (simp_all add: log_line_of_def driver_error_line_def)

lemma of_service_append [simp]: "of_service v (xs @ ys) = of_service v xs @ of_service v ys"
  by (simp add: of_service_def)

lemma of_service_task [simp]: "of_service v (task_lines task) = (if fst task = v then task_lines task else [])"
  by (auto simp: of_service_def task_lines_def log_line_of_def filter_empty_conv intro!: filter_True)

lemma of_service_tasks: "v \<notin> fst ` set tasks \<Longrightarrow> of_service v (concat (map task_lines tasks)) = []"
  by (induction tasks) (auto simp: of_service_def filter_empty_conv task_lines_def log_line_of_def)

definition tail_inv ::
    "(container_id \<Rightarrow> string + string list) \<Rightarrow> (string \<times> container_id) list \<Rightarrow> tail_state \<Rightarrow> bool" where
  "tail_inv open_log services s \<longleftrightarrow>
     distinct (map fst (tl_tasks s) @ map fst (tl_todo s)) \<and> (tl_returned s \<longrightarrow> tl_todo s = []) \<and>
     (tl_dropped s \<longrightarrow> tl_returned s \<and> tl_chan s = []) \<and> length (tl_chan s) \<le> channel_capacity services \<and>
     (\<not> tl_dropped s \<longrightarrow> (\<forall>v. of_service v (all_lines open_log s) =
        of_service v (concat (map (expected_lines open_log) services))))"

lemma tail_inv_start: "distinct (map fst services) \<Longrightarrow> tail_inv open_log services (tail_start services)"
  by (simp add: tail_inv_def tail_start_def all_lines_def)

text \<open>Taking a line from its task to the end of the buffer keeps the lines of each service.\<close>

lemma all_lines_send:
  assumes "tl_tasks s = before @ (service, line # ls) # after"
    and "service \<notin> fst ` set before"
  shows "of_service v (all_lines open_log
      (s\<lparr>tl_tasks := before @ (service, ls) # after, tl_chan := tl_chan s @ [log_line_of service line]\<rparr>)) =
    of_service v (all_lines open_log s)"
proof (cases "v = service")
  case True
  then show ?thesis
    using assms of_service_tasks[of service before]
    by (simp add: all_lines_def task_lines_def)
next
  case False
  then show ?thesis
    using assms by (simp add: all_lines_def task_lines_def)
qed

lemma tail_step_inv:
  assumes "tail_step open_log (channel_capacity services) s t" "tail_inv open_log services s"
  shows "tail_inv open_log services t"
  using assms
proof (cases rule: tail_step.cases)
  case (spawn service i rest ls)
  with assms(2) show ?thesis
    by (auto simp: tail_inv_def all_lines_def expected_lines_def task_lines_def)
next
  case (report_error service i rest e)
  have keep: "of_service v (all_lines open_log t) = of_service v (all_lines open_log s)" for v
  proof (cases "v = service")
    case True
    with assms(2) report_error have "of_service v (concat (map task_lines (tl_tasks s))) = []"
      by (intro of_service_tasks) (auto simp: tail_inv_def)
    with report_error show ?thesis
      by (simp add: all_lines_def expected_lines_def)
  next
    case False
    with report_error show ?thesis
      by (simp add: all_lines_def expected_lines_def)
  qed
  with report_error assms(2) show ?thesis
    by (auto simp: tail_inv_def)
next
  case (send_line before service line ls after)
  from assms(2) send_line(2) have "service \<notin> fst ` set before"
    by (auto simp: tail_inv_def)
  from all_lines_send[OF send_line(2) this, of _ open_log] send_line assms(2) show ?thesis
    by (simp add: tail_inv_def)
next
  case (end_of_log before service after)
  with assms(2) show ?thesis
    by (auto simp: tail_inv_def all_lines_def task_lines_def)
next
  case (receive line rest)
  then have "all_lines open_log t = all_lines open_log s"
    by (simp add: all_lines_def)
  with receive assms(2) show ?thesis
    by (auto simp: tail_inv_def)
qed (auto simp: tail_inv_def all_lines_def)

lemma tail_reachable_inv:
  assumes "distinct (map fst services)" "tail_reachable open_log services s"
  shows "tail_inv open_log services s"
  using assms(2) by induction (auto intro: tail_inv_start assms(1) tail_step_inv)

section \<open>Steps run out\<close>

definition entry_weight :: "(container_id \<Rightarrow> string + string list) \<Rightarrow> string \<times> container_id \<Rightarrow> nat" where
  "entry_weight open_log entry = (case open_log (snd entry) of Ok ls \<Rightarrow> 2 * length ls + 4 | Err _ \<Rightarrow> 4)"

definition tail_measure :: "(container_id \<Rightarrow> string + string list) \<Rightarrow> tail_state \<Rightarrow> nat" where
  "tail_measure open_log s =
     sum_list (map (entry_weight open_log) (tl_todo s)) + sum_list (map (\<lambda>task. 2 * length (snd task) + 2) (tl_tasks s)) +
     length (tl_chan s) + (if tl_returned s then 0 else 1) + (if tl_dropped s then 0 else 1)"

lemma tail_step_measure: "tail_step open_log cap s t \<Longrightarrow> tail_measure open_log t < tail_measure open_log s"
  by (cases rule: tail_step.cases) (auto simp: tail_measure_def entry_weight_def)

end
