(* ===== verification/Logs_Properties.thy ===== *)
theory Logs_Properties
  imports Logs
begin

text \<open>The properties of the log multiplexer.\<close>

text \<open>
  C18: when the channel closes and the caller has kept its receiver, the caller has received, for
  every service, exactly the lines of its container in their order, or the one line that reports
  why they cannot be read.
\<close>

theorem tail_delivers_all:
  assumes "distinct (map fst services)" "tail_reachable open_log services s" "tail_closed s" "\<not> tl_dropped s"
  shows "of_service v (tl_out s) = of_service v (concat (map (expected_lines open_log) services))"
  using tail_reachable_inv [OF assms(1,2)] assms(3,4)
  by (simp add: tail_inv_def tail_closed_def all_lines_def)

definition one_log :: "container_id \<Rightarrow> string + string list" where
  "one_log i = Ok [''up'']"

lemma one_log_run:
  "\<exists>s. tail_reachable one_log [(''web'', ContainerId ''c'')] s \<and> tail_closed s \<and> \<not> tl_dropped s \<and>
     tl_out s = [log_line_of ''web'' ''up'']"
proof -
  let ?S = "[(''web'', ContainerId ''c'')]" and ?s0 = "tail_start [(''web'', ContainerId ''c'')]"
  let ?s1 = "?s0\<lparr>tl_todo := [], tl_tasks := [(''web'', [''up''])]\<rparr>"
  let ?s2 = "?s1\<lparr>tl_tasks := [(''web'', [])], tl_chan := [log_line_of ''web'' ''up'']\<rparr>"
  let ?s3 = "?s2\<lparr>tl_tasks := []\<rparr>"
  let ?s4 = "?s3\<lparr>tl_returned := True\<rparr>"
  let ?s5 = "?s4\<lparr>tl_chan := [], tl_out := [log_line_of ''web'' ''up'']\<rparr>"
  have step0: "tail_step one_log 1024 ?s0 ?s1"
    using tail_step.spawn [of ?s0 "''web''" "ContainerId ''c''" "[]" one_log "[''up'']" 1024]
    by (simp add: tail_start_def one_log_def)
  have step1: "tail_step one_log 1024 ?s1 ?s2"
    using tail_step.send_line [of ?s1 "[]" "''web''" "''up''" "[]" "[]" 1024 one_log] by (simp add: tail_start_def)
  have step2: "tail_step one_log 1024 ?s2 ?s3"
    using tail_step.end_of_log [of ?s2 "[]" "''web''" "[]" one_log 1024] by simp
  have step3: "tail_step one_log 1024 ?s3 ?s4"
    using tail_step.return_rx [of ?s3 one_log 1024] by (simp add: tail_start_def)
  have step4: "tail_step one_log 1024 ?s4 ?s5"
    using tail_step.receive [of ?s4 "log_line_of ''web'' ''up''" "[]" one_log 1024] by (simp add: tail_start_def)
  have go: "tail_reachable one_log ?S s \<Longrightarrow> tail_step one_log 1024 s t \<Longrightarrow> tail_reachable one_log ?S t" for s t
    using tail_next [of one_log ?S s t] by (simp add: channel_capacity_def)
  have "tail_reachable one_log ?S ?s5"
    by (rule go [OF go [OF go [OF go [OF go [OF tail_init step0] step1] step2] step3] step4])
  then show ?thesis
    by (intro exI [of _ ?s5]) (simp add: tail_closed_def tail_start_def)
qed

theorem tail_delivers_all_witness:
  "\<exists>s. tail_closed s \<and> of_service ''web'' (tl_out s) = [log_line_of ''web'' ''up'']"
proof -
  from one_log_run obtain s where s: "tail_reachable one_log [(''web'', ContainerId ''c'')] s" "tail_closed s" "\<not> tl_dropped s"
    by blast
  have "distinct (map fst [(''web'', ContainerId ''c'')])" by simp
  from tail_delivers_all [OF this s, of "''web''"] s(2) show ?thesis
    by (intro exI [of _ s]) (simp add: expected_lines_def one_log_def)
qed



text \<open>
  C39: A log that cannot be opened can block tailing for ever: when the container set up before it
  has written more lines than the channel holds, \<open>tail_logs\<close> may wait for room to report the error
  while nobody can receive, since it has not returned the receiver.
\<close>

theorem tail_can_block:
  assumes "open_log i = Ok ls" "2048 < length ls" "open_log j = Err e"
  shows "\<exists>s. tail_reachable open_log [(a, i), (b, j)] s \<and> \<not> tl_returned s \<and>
    (\<nexists>t. tail_step open_log (channel_capacity [(a, i), (b, j)]) s t)"
proof -
  let ?S = "[(a, i), (b, j)]"
  define st where "st n = \<lparr>tl_todo = [(b, j)], tl_tasks = [(a, drop n ls)], tl_chan = map (log_line_of a) (take n ls),
    tl_returned = False, tl_dropped = False, tl_out = []\<rparr>" for n
  have "n \<le> 2048 \<Longrightarrow> tail_reachable open_log ?S (st n)" for n
  proof (induction n)
    case 0
    have "tail_step open_log (channel_capacity ?S) (tail_start ?S) (st 0)"
      using tail_step.spawn [of "tail_start ?S" a i "[(b, j)]" open_log ls] assms(1) by (simp add: tail_start_def st_def)
    then show ?case by (rule tail_next [OF tail_init])
  next
    case (Suc n)
    then have n: "n < length ls" using assms(2) by simp
    have "tail_step open_log (channel_capacity ?S) (st n) (st (Suc n))"
      using tail_step.send_line [of "st n" "[]" a "ls ! n" "drop (Suc n) ls" "[]" "channel_capacity ?S" open_log] n Suc.prems
      by (simp add: st_def Cons_nth_drop_Suc take_Suc_conv_app_nth channel_capacity_def)
    with Suc show ?case by (auto intro: tail_next)
  qed
  then have "tail_reachable open_log ?S (st 2048)" by simp
  moreover have "\<not> tail_step open_log (channel_capacity ?S) (st 2048) t" for t
  proof
    assume "tail_step open_log (channel_capacity ?S) (st 2048) t"
    then show False
      using assms by (cases rule: tail_step.cases)
        (auto simp: st_def channel_capacity_def Cons_eq_append_conv drop_eq_Nil)
  qed
  ultimately show ?thesis
    by (intro exI [of _ "st 2048"]) (simp add: st_def)
qed

definition chatty_log :: "container_id \<Rightarrow> string + string list" where
  "chatty_log i = (if i = ContainerId ''c1'' then Ok (replicate 3000 ''tick'') else Err ''no such container'')"

theorem tail_can_block_witness:
  "\<exists>s. tail_reachable chatty_log [(''a'', ContainerId ''c1''), (''b'', ContainerId ''c2'')] s \<and> \<not> tl_returned s"
  using tail_can_block [of chatty_log "ContainerId ''c1''" "replicate 3000 ''tick''" "ContainerId ''c2''" "''no such container''"]
  by (fastforce simp: chatty_log_def)

end
