(* ===== verification/Load.thy ===== *)
theory Load
  imports Planner Visit
begin

text \<open>
  The compose-file loader of the command line tool (\<open>selur-compose/src/load.rs\<close>): discovery,
  parsing, environment, interpolation and planning in one step.  Paths are Unix paths.  An \<open>anyhow\<close>
  error is its cause under the contexts it was given, outermost first.
\<close>

section \<open>Paths\<close>

text \<open>\<open>Path::join\<close> and \<open>Path::parent\<close>; the path is stripped from its end, hence the reversal.\<close>

definition path_join :: "path \<Rightarrow> path \<Rightarrow> path" where
  "path_join p q =
     (if prefix ''/'' q then q
      else if p = [] \<or> last p = CHR ''/'' then p @ q
      else p @ ''/'' @ q)"

fun strip_separators :: "string \<Rightarrow> string" where
  "strip_separators [] = []"
| "strip_separators [c] = (if c = CHR ''/'' then [] else [c])"
| "strip_separators (c # d # ds) =
     (if c = CHR ''/'' then strip_separators (d # ds)
      else if c = CHR ''.'' \<and> d = CHR ''/'' then strip_separators ds
      else c # d # ds)"

definition path_parent :: "path \<Rightarrow> path option" where
  "path_parent p =
     (case strip_separators (rev p) of
        [] \<Rightarrow> None
      | t \<Rightarrow>
          let up = strip_separators (dropWhile (\<lambda>c. c \<noteq> CHR ''/'') t) in
          Some (if up = [] \<and> prefix ''/'' p then ''/'' else rev up))"

section \<open>Errors\<close>

datatype ('te, 'ce, 'de, 'se) cause =
    No_File
  | Io_Cause string
  | Parse_Cause "'te parse_error"
  | Interp_Cause interp_error
  | Plan_Cause "('te, 'ce) plan_error"
  | Driver_Cause 'de
  | Serialize_Cause 'se

datatype ('te, 'ce, 'de, 'se) cli_error =
    Root "('te, 'ce, 'de, 'se) cause"
  | Context string "('te, 'ce, 'de, 'se) cli_error"

definition with_context ::
    "string \<Rightarrow> ('te, 'ce, 'de, 'se) cli_error fault + 'a \<Rightarrow> ('te, 'ce, 'de, 'se) cli_error fault + 'a" where
  "with_context message r =
     map_err (\<lambda>e. case e of Panic \<Rightarrow> Panic | Fault err \<Rightarrow> Fault (Context message err)) r"

definition root_err ::
    "('e \<Rightarrow> ('te, 'ce, 'de, 'se) cause) \<Rightarrow> 'e + 'a \<Rightarrow> ('te, 'ce, 'de, 'se) cli_error fault + 'a" where
  "root_err wrap r = map_err (\<lambda>e. Fault (Root (wrap e))) r"

section \<open>Loading\<close>

text \<open>
  The process and its files: the working directory (when it can be read), which paths exist, how a
  file opens and decodes (as in \<open>Env_Map\<close>), the process's variables; the TOML parser and the
  service hash.
\<close>

record ('te, 'ce, 'x) system =
  sys_cwd :: "path option"
  sys_exists :: "path \<Rightarrow> bool"
  sys_open :: "path \<Rightarrow> string + string"
  sys_decode :: "string \<Rightarrow> string + string"
  sys_vars :: "(string \<times> string) list"
  sys_from_str :: "string \<Rightarrow> 'te + 'x compose"
  sys_hash :: "service \<Rightarrow> 'ce + string"

fun first_existing :: "(path \<Rightarrow> bool) \<Rightarrow> path list \<Rightarrow> path option" where
  "first_existing ex [] = None"
| "first_existing ex (p # ps) = (if ex p then Some p else first_existing ex ps)"

definition resolve_compose_file :: "('te, 'ce, 'x) system \<Rightarrow> path option \<Rightarrow> path option" where
  "resolve_compose_file sys explicit =
     (case explicit of
        Some p \<Rightarrow> Some p
      | None \<Rightarrow>
          let cwd = (case sys_cwd sys of Some d \<Rightarrow> d | None \<Rightarrow> ''.'') in
          first_existing (sys_exists sys) (map (path_join cwd) [''selur-compose.toml'', ''compose.toml'']))"

definition build_env ::
    "('te, 'ce, 'x) system \<Rightarrow> path \<Rightarrow> path list \<Rightarrow> ('te, 'ce, 'de, 'se) cli_error fault + env_map" where
  "build_env sys compose_path extra_env_files =
     (let load = load_env_file (sys_open sys) (sys_decode sys);
          env = env_from_process (sys_vars sys);
          compose_dir = (case path_parent compose_path of Some d \<Rightarrow> d | None \<Rightarrow> ''.'');
          dot_env = path_join compose_dir ''.env'' in
      bind_res
        (if sys_exists sys dot_env
         then with_context ''failed to load .env file from compose directory''
                (root_err Interp_Cause (with_env_files load env [dot_env]))
         else Ok env) (\<lambda>env.
      if extra_env_files \<noteq> []
      then with_context ''failed to load --env-file override''
             (root_err Interp_Cause (with_env_files load env extra_env_files))
      else Ok env))"

record 'x loaded =
  ld_compose :: "'x compose"
  ld_plan :: compose_plan
  ld_compose_path :: path

definition load_compose ::
    "('te, 'ce, 'x) system \<Rightarrow> path option \<Rightarrow> path list \<Rightarrow> string list \<Rightarrow> string option \<Rightarrow> string list
     \<Rightarrow> ('te, 'ce, 'de, 'se) cli_error fault + 'x loaded" where
  "load_compose sys file env_files profiles project_name services =
     bind_res
       (case resolve_compose_file sys file of
          Some p \<Rightarrow> Ok p
        | None \<Rightarrow>
            with_context ''could not find a compose file (tried selur-compose.toml, compose.toml)''
              (Err (Fault (Root No_File)))) (\<lambda>compose_path.
     bind_res (with_context (''failed to open '' @ compose_path) (root_err Io_Cause (sys_open sys compose_path))) (\<lambda>content.
     bind_res (with_context (''failed to read '' @ compose_path)
         (root_err Io_Cause (sys_decode sys (take (5 * 1024 * 1024) content)))) (\<lambda>toml_src.
     bind_res (with_context (''failed to parse '' @ compose_path)
         (root_err Parse_Cause (parse_str (sys_from_str sys) toml_src (Some compose_path)))) (\<lambda>compose.
     bind_res (with_context ''failed to load environment files'' (build_env sys compose_path env_files)) (\<lambda>env.
     bind_res (with_context (''variable interpolation failed for '' @ compose_path)
         (root_err Interp_Cause (visit_compose compose env))) (\<lambda>compose.
     bind_res (with_context (''planning failed for '' @ compose_path)
         (map_err (\<lambda>e. case e of Panic \<Rightarrow> Panic | Fault err \<Rightarrow> Fault (Root (Plan_Cause err)))
           (plan (sys_hash sys) compose
             \<lparr>opt_profiles = profiles, opt_project_name = project_name, opt_services = services\<rparr>))) (\<lambda>pl.
     Ok \<lparr>ld_compose = compose, ld_plan = pl, ld_compose_path = compose_path\<rparr>)))))))"

section \<open>Lemmas\<close>

lemma with_context_Ok [simp]: "with_context m r = Ok a \<longleftrightarrow> r = Ok a"
  by (cases r) (simp_all add: with_context_def)

lemma root_err_Ok [simp]: "root_err f r = Ok a \<longleftrightarrow> r = Ok a"
  by (cases r) (simp_all add: root_err_def)

lemma with_context_Panic [simp]: "with_context m r = Err Panic \<longleftrightarrow> r = Err Panic"
  by (cases r) (auto simp: with_context_def split: fault.splits)

lemma root_err_Panic [simp]: "root_err f r \<noteq> Err Panic"
  by (cases r) (simp_all add: root_err_def)

lemma strip_separators_fix:
  "c \<noteq> CHR ''/'' \<Longrightarrow> c = CHR ''.'' \<Longrightarrow> ds = [] \<or> hd ds \<noteq> CHR ''/'' \<Longrightarrow> strip_separators (c # ds) = c # ds"
  "c \<noteq> CHR ''/'' \<Longrightarrow> c \<noteq> CHR ''.'' \<Longrightarrow> strip_separators (c # ds) = c # ds"
  "strip_separators (CHR ''/'' # ds) = strip_separators ds"
  by (cases ds; simp)+

lemma path_parent_strip:
  "strip_separators (rev p) = t \<Longrightarrow> t \<noteq> [] \<Longrightarrow> strip_separators (dropWhile (\<lambda>c. c \<noteq> CHR ''/'') t) = up
     \<Longrightarrow> up \<noteq> [] \<Longrightarrow> path_parent p = Some (rev up)"
  by (cases t) (auto simp: path_parent_def)

lemma path_parent_join:
  assumes name: "name \<noteq> []" "name \<noteq> ''.''" "CHR ''/'' \<notin> set name"
    and dir: "dir \<noteq> []" "last dir \<noteq> CHR ''/''" "last dir \<noteq> CHR ''.''"
  shows "path_parent (path_join dir name) = Some dir"
proof -
  obtain n c where n: "name = n @ [c]" using name(1) by (cases name rule: rev_cases) auto
  obtain m d where m: "dir = m @ [d]" using dir(1) by (cases dir rule: rev_cases) auto
  have "\<not> prefix ''/'' name" using name(3) by (cases name) auto
  then have join: "path_join dir name = dir @ ''/'' @ name" using dir by (simp add: path_join_def)
  have "strip_separators (rev name @ CHR ''/'' # rev dir) = rev name @ CHR ''/'' # rev dir"
  proof (cases "c = CHR ''.''")
    case True
    with name(2) n have "n \<noteq> []" by auto
    then obtain n' e where "n = n' @ [e]" by (cases n rule: rev_cases) auto
    with n name(3) True show ?thesis by (auto intro!: strip_separators_fix(1))
  next
    case False
    with n name(3) show ?thesis by (auto intro!: strip_separators_fix(2))
  qed
  moreover have "dropWhile (\<lambda>c. c \<noteq> CHR ''/'') (rev name @ CHR ''/'' # rev dir) = CHR ''/'' # rev dir"
    using name(3) by (subst dropWhile_append2) auto
  moreover have "strip_separators (rev dir) = rev dir"
    using m dir by (auto intro!: strip_separators_fix(2))
  ultimately have "path_parent (path_join dir name) = Some (rev (rev dir))"
    using dir(1)
    by (intro path_parent_strip [of _ "rev name @ CHR ''/'' # rev dir"]) (simp_all add: join strip_separators_fix(3))
  then show ?thesis by simp
qed

end
