(* ===== verification/Output.thy ===== *)
theory Output
  imports Effects Rust_Str
begin

text \<open>
  The formatters of the command line tool (\<open>selur-compose/src/output.rs\<close>).  Strings are UTF-8: \<open>len\<close>
  counts bytes, padding counts characters, and a slice that cuts a character panics.  Printing JSON
  is \<open>serde_json::to_string_pretty\<close>, a parameter.
\<close>

section \<open>UTF-8 strings\<close>

definition is_continuation :: "char \<Rightarrow> bool" where
  "is_continuation c = (128 \<le> (of_char c :: nat) \<and> (of_char c :: nat) < 192)"

definition char_count :: "string \<Rightarrow> nat" where
  "char_count s = length (filter (\<lambda>c. \<not> is_continuation c) s)"

text \<open>\<open>&s[..n]\<close>, and \<open>{:<w}\<close>, \<open>{:-<w}\<close>.\<close>

definition slice_to :: "string \<Rightarrow> nat \<Rightarrow> string option" where
  "slice_to s n =
     (if n = length s \<or> (n < length s \<and> \<not> is_continuation (s ! n)) then Some (take n s) else None)"

definition pad_with :: "char \<Rightarrow> nat \<Rightarrow> string \<Rightarrow> string" where
  "pad_with fill w s = s @ replicate (w - char_count s) fill"

definition newline :: string where
  "newline = [CHR 0x0A]"

section \<open>Rows\<close>

datatype format = Fmt_Text | Fmt_Json

record container_row =
  row_service :: string
  row_container_id :: string
  row_image :: string
  row_status :: string
  row_ports :: string

definition column_width :: "(container_row \<Rightarrow> nat) \<Rightarrow> nat \<Rightarrow> container_row list \<Rightarrow> nat" where
  "column_width f least rows = max (case map f rows of [] \<Rightarrow> least | ls \<Rightarrow> Max (set ls)) least"

definition row_line :: "nat \<Rightarrow> nat \<Rightarrow> nat \<Rightarrow> nat \<Rightarrow> char \<Rightarrow> string \<Rightarrow> string \<Rightarrow> string \<Rightarrow> string \<Rightarrow> string \<Rightarrow> string" where
  "row_line w_svc w_id w_img w_stat fill svc cid img stat ports =
     pad_with fill w_svc svc @ ''  '' @ pad_with fill w_id cid @ ''  '' @ pad_with fill w_img img @ ''  '' @
     pad_with fill w_stat stat @ ''  '' @ ports @ newline"

text \<open>The text table; \<open>None\<close> is a panic on a container id cut within a character.\<close>

fun print_rows :: "nat \<Rightarrow> nat \<Rightarrow> nat \<Rightarrow> nat \<Rightarrow> container_row list \<Rightarrow> string option" where
  "print_rows w_svc w_id w_img w_stat [] = Some []"
| "print_rows w_svc w_id w_img w_stat (row # rows) =
     (case slice_to (row_container_id row) (min (length (row_container_id row)) 12) of
        None \<Rightarrow> None
      | Some cid \<Rightarrow>
          map_option (\<lambda>rest. row_line w_svc w_id w_img w_stat CHR '' '' (row_service row) cid (row_image row)
              (row_status row) (row_ports row) @ rest)
            (print_rows w_svc w_id w_img w_stat rows))"

definition print_table :: "container_row list \<Rightarrow> string option" where
  "print_table rows =
     (if rows = [] then Some (''No containers running.'' @ newline)
      else
        let w_svc = column_width (\<lambda>r. length (row_service r)) 7 rows;
            w_id = column_width (\<lambda>r. min (length (row_container_id r)) 12) 12 rows;
            w_img = column_width (\<lambda>r. length (row_image r)) 5 rows;
            w_stat = column_width (\<lambda>r. length (row_status r)) 6 rows in
        map_option (\<lambda>lines.
            row_line w_svc w_id w_img w_stat CHR '' '' ''SERVICE'' ''CONTAINER ID'' ''IMAGE'' ''STATUS'' ''PORTS'' @
            row_line w_svc w_id w_img w_stat CHR ''-'' [] [] [] [] ''-----'' @ lines)
          (print_rows w_svc w_id w_img w_stat rows))"

definition print_ps :: "(container_row list \<Rightarrow> string) \<Rightarrow> container_row list \<Rightarrow> format \<Rightarrow> string option" where
  "print_ps ps_json rows fmt =
     (case fmt of Fmt_Json \<Rightarrow> Some (ps_json rows @ newline) | Fmt_Text \<Rightarrow> print_table rows)"

definition print_summary :: "(container_row list \<Rightarrow> string) \<Rightarrow> container_row list \<Rightarrow> format \<Rightarrow> string option" where
  "print_summary ps_json rows fmt = print_ps ps_json rows fmt"

definition print_version :: "(string \<Rightarrow> string \<Rightarrow> string) \<Rightarrow> string \<Rightarrow> string \<Rightarrow> format \<Rightarrow> string" where
  "print_version version_json selur_compose_ver podman_ver fmt =
     (case fmt of
        Fmt_Json \<Rightarrow> version_json selur_compose_ver podman_ver @ newline
      | Fmt_Text \<Rightarrow> ''selur-compose '' @ selur_compose_ver @ newline @ ''podman        '' @ podman_ver @ newline)"

section \<open>Lemmas\<close>

text \<open>A string of ASCII characters, on which bytes are characters.\<close>

definition ascii :: "string \<Rightarrow> bool" where
  "ascii s \<longleftrightarrow> list_all (\<lambda>c. (of_char c :: nat) < 128) s"

lemma ascii_not_continuation: "ascii s \<Longrightarrow> c \<in> set s \<Longrightarrow> \<not> is_continuation c"
  by (auto simp: ascii_def list_all_iff is_continuation_def)

lemma ascii_char_count: "ascii s \<Longrightarrow> char_count s = length s"
  unfolding char_count_def by (subst filter_True) (auto dest: ascii_not_continuation)

lemma ascii_take: "ascii s \<Longrightarrow> ascii (take n s)"
  by (auto simp: ascii_def list_all_iff dest: in_set_takeD)

lemma ascii_slice: "ascii s \<Longrightarrow> n \<le> length s \<Longrightarrow> slice_to s n = Some (take n s)"
  by (auto simp: slice_to_def dest!: ascii_not_continuation [OF _ nth_mem] simp: le_less)

lemma length_pad: "ascii s \<Longrightarrow> length s \<le> w \<Longrightarrow> length (pad_with fill w s) = w"
  by (simp add: pad_with_def ascii_char_count)

lemma column_width_ge: "row \<in> set rows \<Longrightarrow> f row \<le> column_width f least rows" "least \<le> column_width f least rows"
proof -
  show "least \<le> column_width f least rows" by (simp add: column_width_def)
  assume row: "row \<in> set rows"
  then have "f row \<le> Max (set (map f rows))" by (intro Max_ge) auto
  with row show "f row \<le> column_width f least rows"
    by (cases rows) (auto simp: column_width_def)
qed

end
