(* ===== verification/Cli.thy ===== *)
theory Cli
  imports Load Executor Logs Output
begin

text \<open>
  The subcommands of the command line tool (\<open>selur-compose/src/cli.rs\<close>, \<open>main.rs\<close>, \<open>cmd/\<close>).  A
  command acts on the driver's world and on what it has printed to stdout.  \<open>drv\<close> is the
  \<open>PodmanCli::new()\<close> that every command makes; log messages (\<open>tracing\<close>) are not modelled.
\<close>

section \<open>Arguments\<close>

record up_args =
  up_detach :: bool
  up_build :: bool
  up_no_build :: bool
  up_no_pull :: bool
  up_force_recreate :: bool
  up_remove_orphans :: bool
  up_services :: "string list"

record down_args =
  down_volumes :: bool
  down_rmi :: "string option"
  down_remove_orphans :: bool
  down_timeout :: nat

record build_args =
  ba_no_cache :: bool
  ba_pull :: bool
  ba_services :: "string list"

record pull_args =
  pa_services :: "string list"

record ps_args =
  ps_all :: bool
  ps_quiet :: bool

record logs_args =
  la_follow :: bool
  la_tail :: "nat option"
  la_services :: "string list"

datatype config_format = Cfg_Toml | Cfg_Json

record config_args =
  ca_output :: "config_format option"

datatype command =
    Cmd_Up up_args
  | Cmd_Down down_args
  | Cmd_Build build_args
  | Cmd_Pull pull_args
  | Cmd_Ps ps_args
  | Cmd_Logs logs_args
  | Cmd_Config config_args
  | Cmd_Version

record cli =
  cli_file :: "path option"
  cli_project_name :: "string option"
  cli_env_file :: "path list"
  cli_profile :: "string list"
  cli_verbose :: nat
  cli_quiet :: bool
  cli_format :: format
  cli_dry_run :: bool
  cli_command :: command

section \<open>Effects of a command\<close>

record 'v cli_world =
  cw_world :: 'v
  cw_out :: string

type_synonym ('v, 'te, 'ce, 'de, 'se, 'a) cli_proc =
  "('v cli_world, ('te, 'ce, 'de, 'se) cli_error, 'a) process"

definition print_out :: "string \<Rightarrow> ('v, 'te, 'ce, 'de, 'se, unit) cli_proc" where
  "print_out s w = Some (Ok (), w\<lparr>cw_out := cw_out w @ s\<rparr>)"

definition println :: "string \<Rightarrow> ('v, 'te, 'ce, 'de, 'se, unit) cli_proc" where
  "println s = print_out (s @ newline)"

text \<open>A call of the driver, \<open>.await.map_err(|e| anyhow!(e))?\<close>, and of the executor.\<close>

definition drive :: "('v, 'de, 'a) effect \<Rightarrow> ('v, 'te, 'ce, 'de, 'se, 'a) cli_proc" where
  "drive m w = (case m (cw_world w) of (r, v) \<Rightarrow> Some (root_err Driver_Cause r, w\<lparr>cw_world := v\<rparr>))"

definition drive_process :: "('v, 'de, 'a) process \<Rightarrow> ('v, 'te, 'ce, 'de, 'se, 'a) cli_proc" where
  "drive_process m w =
     (case m (cw_world w) of
        None \<Rightarrow> None
      | Some (r, v) \<Rightarrow>
          Some (map_err (\<lambda>e. case e of Panic \<Rightarrow> Panic | Fault d \<Rightarrow> Fault (Root (Driver_Cause d))) r,
            w\<lparr>cw_world := v\<rparr>))"

definition lift_pr :: "'e fault + 'a \<Rightarrow> ('w, 'e, 'a) process" where
  "lift_pr r w = Some (r, w)"

fun for_pr :: "('b \<Rightarrow> ('w, 'e, unit) process) \<Rightarrow> 'b list \<Rightarrow> ('w, 'e, unit) process" where
  "for_pr f [] = return_pr ()"
| "for_pr f (x # xs) = bind_pr (f x) (\<lambda>_. for_pr f xs)"

definition print_rows_pr :: "string option \<Rightarrow> ('v, 'te, 'ce, 'de, 'se, unit) cli_proc" where
  "print_rows_pr s = (case s of Some t \<Rightarrow> print_out t | None \<Rightarrow> lift_pr (Err Panic))"

section \<open>up\<close>

fun describe_op :: "op \<Rightarrow> string" where
  "describe_op (CreateNetwork s) = ''CreateNetwork   '' @ nspec_name s"
| "describe_op (CreateVolume s) = ''CreateVolume    '' @ vspec_name s"
| "describe_op (BuildImage s) = ''BuildImage      '' @ bspec_service s @ '' (tag: '' @ bspec_tag s @ '')''"
| "describe_op (PullImage s) = ''PullImage       '' @ pspec_service s @ '' ('' @ pspec_image s @ '')''"
| "describe_op (RunContainer s) = ''RunContainer    '' @ rspec_service s @ '' ('' @ rspec_image s @ '')''"
| "describe_op (WaitHealthy s) = ''WaitHealthy     '' @ wspec_service s"
| "describe_op (StopContainer s) = ''StopContainer   '' @ sspec_service s"
| "describe_op (RemoveContainer s) = ''RemoveContainer '' @ rmspec_service s"

definition up_rows :: "exec_report \<Rightarrow> container_row list" where
  "up_rows report =
     map (\<lambda>(svc, cid). \<lparr>row_service = svc, row_container_id = container_id_str cid, row_image = [],
         row_status = ''started'', row_ports = []\<rparr>) (er_containers report)"

definition cmd_up ::
    "('v, 'io, 'je, 'ls) driver \<Rightarrow> 'v clock \<Rightarrow> nat option \<Rightarrow> (container_row list \<Rightarrow> string) \<Rightarrow> up_args
     \<Rightarrow> ('te, 'ce, ('io, 'je) driver_error, 'se) cli_error fault + 'x loaded \<Rightarrow> format \<Rightarrow> bool
     \<Rightarrow> ('v, 'te, 'ce, ('io, 'je) driver_error, 'se, unit) cli_proc" where
  "cmd_up drv clk par ps_json args loaded_or fmt dry_run =
     bind_pr (lift_pr loaded_or) (\<lambda>loaded.
       if dry_run then
         bind_pr (println (''Dry-run: planned ops for project `'' @ plan_project_name (ld_plan loaded) @ ''`'')) (\<lambda>_.
           for_pr (\<lambda>op. println (''  '' @ describe_op op)) (plan_ops (ld_plan loaded)))
       else
         (let opts = \<lparr>eo_no_build = up_no_build args, eo_no_pull = up_no_pull args,
                eo_healthcheck_start_period = None\<rparr> in
          bind_pr (drive_process (execute drv clk par (plan_ops (ld_plan loaded)) opts)) (\<lambda>report.
            print_rows_pr (print_summary ps_json (up_rows report) fmt))))"

section \<open>down\<close>

definition down_one ::
    "('v, 'io, 'je, 'ls) driver \<Rightarrow> nat \<Rightarrow> container_summary
     \<Rightarrow> ('v, 'te, 'ce, ('io, 'je) driver_error, 'se, unit) cli_proc" where
  "down_one drv grace container =
     (let cid = ContainerId (csum_id container); svc = csum_name container in
      bind_pr (drive (drv_stop drv cid grace)) (\<lambda>_.
      bind_pr (drive (drv_rm drv cid False)) (\<lambda>_.
        println (''Stopped and removed '' @ svc @ ''.''))))"

definition cmd_down ::
    "('v, 'io, 'je, 'ls) driver \<Rightarrow> down_args
     \<Rightarrow> ('te, 'ce, ('io, 'je) driver_error, 'se) cli_error fault + 'x loaded \<Rightarrow> bool
     \<Rightarrow> ('v, 'te, 'ce, ('io, 'je) driver_error, 'se, unit) cli_proc" where
  "cmd_down drv args loaded_or dry_run =
     bind_pr (lift_pr loaded_or) (\<lambda>loaded.
       let project = plan_project_name (ld_plan loaded); grace = secs (down_timeout args) in
       if dry_run then
         bind_pr (println (''Dry-run: planned ops for `down` on project `'' @ project @ ''`'')) (\<lambda>_.
           for_pr (\<lambda>op. case op of
                RunContainer s \<Rightarrow>
                  bind_pr (println (''  StopContainer   '' @ rspec_service s @ '' (grace '' @ show_nat (down_timeout args) @ ''s)''))
                    (\<lambda>_. println (''  RemoveContainer '' @ rspec_service s))
              | _ \<Rightarrow> return_pr ()) (plan_ops (ld_plan loaded)))
       else
         bind_pr (drive (drv_ps drv project)) (\<lambda>containers.
           if containers = [] then println (''No containers found for project `'' @ project @ ''`.'')
           else for_pr (down_one drv grace) (rev containers)))"

section \<open>build and pull\<close>

definition arrow :: string where
  "arrow = '' '' @ [CHR 0xE2, CHR 0x86, CHR 0x92] @ '' ''"

definition image_id_str :: "image_id \<Rightarrow> string" where
  "image_id_str i = (case i of ImageId s \<Rightarrow> s)"

definition cmd_build ::
    "('v, 'io, 'je, 'ls) driver \<Rightarrow> build_args
     \<Rightarrow> ('te, 'ce, ('io, 'je) driver_error, 'se) cli_error fault + 'x loaded \<Rightarrow> bool
     \<Rightarrow> ('v, 'te, 'ce, ('io, 'je) driver_error, 'se, unit) cli_proc" where
  "cmd_build drv args loaded_or dry_run =
     bind_pr (lift_pr loaded_or) (\<lambda>loaded.
       if dry_run then
         bind_pr (println (''Dry-run: planned build ops for project `'' @ plan_project_name (ld_plan loaded) @ ''`'')) (\<lambda>_.
           for_pr (\<lambda>op. case op of
                BuildImage spec \<Rightarrow> println (''  BuildImage  '' @ bspec_service spec @ '' (tag: '' @ bspec_tag spec @ '')'')
              | _ \<Rightarrow> return_pr ()) (plan_ops (ld_plan loaded)))
       else
         for_pr (\<lambda>op. case op of
              BuildImage spec \<Rightarrow>
                (let effective = (if ba_no_cache args then spec\<lparr>bspec_no_cache := True\<rparr> else spec) in
                 bind_pr (drive (drv_build drv effective)) (\<lambda>image.
                   println (''Built '' @ bspec_tag spec @ arrow @ image_id_str image)))
            | _ \<Rightarrow> return_pr ()) (plan_ops (ld_plan loaded)))"

definition cmd_pull ::
    "('v, 'io, 'je, 'ls) driver
     \<Rightarrow> ('te, 'ce, ('io, 'je) driver_error, 'se) cli_error fault + 'x loaded \<Rightarrow> bool
     \<Rightarrow> ('v, 'te, 'ce, ('io, 'je) driver_error, 'se, unit) cli_proc" where
  "cmd_pull drv loaded_or dry_run =
     bind_pr (lift_pr loaded_or) (\<lambda>loaded.
       if dry_run then
         bind_pr (println (''Dry-run: planned pull ops for project `'' @ plan_project_name (ld_plan loaded) @ ''`'')) (\<lambda>_.
           for_pr (\<lambda>op. case op of
                PullImage spec \<Rightarrow> println (''  PullImage  '' @ pspec_service spec @ '' ('' @ pspec_image spec @ '')'')
              | _ \<Rightarrow> return_pr ()) (plan_ops (ld_plan loaded)))
       else
         for_pr (\<lambda>op. case op of
              PullImage spec \<Rightarrow>
                bind_pr (drive (drv_pull drv (pspec_image spec))) (\<lambda>image.
                  println (''Pulled '' @ pspec_image spec @ arrow @ image_id_str image))
            | _ \<Rightarrow> return_pr ()) (plan_ops (ld_plan loaded)))"

section \<open>ps and logs\<close>

definition ps_row :: "container_summary \<Rightarrow> container_row" where
  "ps_row s =
     \<lparr>row_service = (case csum_service s of Some v \<Rightarrow> v | None \<Rightarrow> csum_name s), row_container_id = csum_id s,
      row_image = csum_image s, row_status = csum_state s, row_ports = join '', '' (csum_ports s)\<rparr>"

definition cmd_ps ::
    "('v, 'io, 'je, 'ls) driver \<Rightarrow> (container_row list \<Rightarrow> string)
     \<Rightarrow> ('te, 'ce, ('io, 'je) driver_error, 'se) cli_error fault + 'x loaded \<Rightarrow> format
     \<Rightarrow> ('v, 'te, 'ce, ('io, 'je) driver_error, 'se, unit) cli_proc" where
  "cmd_ps drv ps_json loaded_or fmt =
     bind_pr (lift_pr loaded_or) (\<lambda>loaded.
     bind_pr (drive (drv_ps drv (plan_project_name (ld_plan loaded)))) (\<lambda>summaries.
       print_rows_pr (print_ps ps_json (map ps_row summaries) fmt)))"

text \<open>The services whose logs are asked for, by the last of their containers listed.\<close>

definition logs_services :: "string list \<Rightarrow> container_summary list \<Rightarrow> (string, container_id) hash_map" where
  "logs_services wanted containers =
     hm_from_iter (List.map_filter (\<lambda>c. case csum_service c of
          None \<Rightarrow> None
        | Some svc \<Rightarrow>
            if wanted \<noteq> [] \<and> svc \<notin> set wanted then None else Some (svc, ContainerId (csum_id c))) containers)"

text \<open>
  \<open>tail\<close> is \<open>tail_logs\<close> drained to the end: the lines the caller receives (see \<open>Logs\<close>), or
  nothing when the channel never closes.
\<close>

definition cmd_logs ::
    "('v, 'io, 'je, 'ls) driver \<Rightarrow> ((string, container_id) hash_map \<Rightarrow> bool \<Rightarrow> 'v \<Rightarrow> (log_line list \<times> 'v) option)
     \<Rightarrow> logs_args \<Rightarrow> ('te, 'ce, ('io, 'je) driver_error, 'se) cli_error fault + 'x loaded
     \<Rightarrow> ('v, 'te, 'ce, ('io, 'je) driver_error, 'se, unit) cli_proc" where
  "cmd_logs drv tail args loaded_or =
     bind_pr (lift_pr loaded_or) (\<lambda>loaded.
       let project = plan_project_name (ld_plan loaded) in
       bind_pr (drive (drv_ps drv project)) (\<lambda>containers.
         let services_map = logs_services (la_services args) containers in
         if services_map = [] then println (''No running containers found for project `'' @ project @ ''`.'')
         else
           bind_pr (\<lambda>w. case tail services_map (la_follow args) (cw_world w) of
                None \<Rightarrow> None
              | Some (ls, v) \<Rightarrow> Some (Ok ls, w\<lparr>cw_world := v\<rparr>)) (\<lambda>ls.
             for_pr (\<lambda>l. println (display_log_line l)) ls)))"

section \<open>config and version\<close>

text \<open>
  The serialisers: \<open>serde_json::to_string_pretty\<close>; \<open>toml::Value::try_from\<close>, whose result is a table
  or another value; \<open>toml::to_string_pretty\<close>.
\<close>

record ('x, 'tv, 'se) serialisers =
  ser_json :: "'x compose \<Rightarrow> 'se + string"
  ser_toml_value :: "'x compose \<Rightarrow> 'se + ((string \<times> 'tv) list + 'tv)"
  ser_toml :: "(string \<times> 'tv) list + 'tv \<Rightarrow> 'se + string"

definition use_json :: "config_format option \<Rightarrow> format \<Rightarrow> bool" where
  "use_json out global_fmt =
     (case out of Some Cfg_Json \<Rightarrow> True | Some Cfg_Toml \<Rightarrow> False | None \<Rightarrow> global_fmt = Fmt_Json)"

definition retain_plain :: "(string \<times> 'tv) list + 'tv \<Rightarrow> (string \<times> 'tv) list + 'tv" where
  "retain_plain val = (case val of Inl table \<Rightarrow> Inl (filter (\<lambda>(k, _). \<not> prefix ''x-'' k) table) | Inr v \<Rightarrow> Inr v)"

definition cmd_config ::
    "('x, 'tv, 'se) serialisers \<Rightarrow> config_args \<Rightarrow> ('te, 'ce, 'de, 'se) cli_error fault + 'x loaded \<Rightarrow> format
     \<Rightarrow> ('v, 'te, 'ce, 'de, 'se, unit) cli_proc" where
  "cmd_config ser args loaded_or global_fmt =
     bind_pr (lift_pr loaded_or) (\<lambda>loaded.
       if use_json (ca_output args) global_fmt then
         bind_pr (lift_pr (with_context ''failed to serialize compose to JSON''
             (root_err Serialize_Cause (ser_json ser (ld_compose loaded))))) println
       else
         bind_pr (lift_pr (with_context ''failed to convert compose to TOML value''
             (root_err Serialize_Cause (ser_toml_value ser (ld_compose loaded))))) (\<lambda>val.
         bind_pr (lift_pr (with_context ''failed to serialize compose to TOML''
             (root_err Serialize_Cause (ser_toml ser (retain_plain val))))) print_out))"

text \<open>\<open>status_display\<close> is \<open>Display for ExitStatus\<close>.\<close>

definition query_podman_version ::
    "('v, 'io) spawner \<Rightarrow> (string \<Rightarrow> string) \<Rightarrow> (int option \<Rightarrow> string) \<Rightarrow> 'v \<Rightarrow> string \<times> 'v" where
  "query_podman_version spawn lossy status_display v =
     (case spawn ''podman'' [''--version''] v of
        (Err _, v1) \<Rightarrow> (''unknown (podman not found in PATH)'', v1)
      | (Ok out, v1) \<Rightarrow>
          if out_code out \<noteq> Some 0 then (''unknown (podman exited '' @ status_display (out_code out) @ '')'', v1)
          else (let ws = split_whitespace (lossy (out_stdout out)) in
                (trim (if ws = [] then ''unknown'' else last ws), v1)))"

definition cmd_version ::
    "('v, 'io) spawner \<Rightarrow> (string \<Rightarrow> string) \<Rightarrow> (int option \<Rightarrow> string) \<Rightarrow> (string \<Rightarrow> string \<Rightarrow> string) \<Rightarrow> string \<Rightarrow> format
     \<Rightarrow> ('v, 'te, 'ce, 'de, 'se, unit) cli_proc" where
  "cmd_version spawn lossy status_display version_json pkg_version fmt w =
     (case query_podman_version spawn lossy status_display (cw_world w) of
        (podman_ver, v) \<Rightarrow>
          print_out (print_version version_json pkg_version podman_ver fmt) (w\<lparr>cw_world := v\<rparr>))"

end
