(* ===== verification/Cli_Facts.thy ===== *)
theory Cli_Facts
  imports Cli Recorded Plan_Facts
begin

text \<open>
  What the commands of the tool do to the driver and to stdout: the laws of printing, of iterating
  over a plan, and the calls made by \<open>down\<close>, \<open>build\<close> and \<open>pull\<close> on a recorded driver.
\<close>

section \<open>Printing\<close>

lemma print_out_Some [simp]: "print_out s w = Some (Ok (), w\<lparr>cw_out := cw_out w @ s\<rparr>)"
  by (simp add: print_out_def)

lemma println_Some [simp]: "println s w = Some (Ok (), w\<lparr>cw_out := cw_out w @ s @ newline\<rparr>)"
  by (simp add: println_def)

lemma lift_pr_simp [simp]: "lift_pr r w = Some (r, w)"
  by (simp add: lift_pr_def)

lemma bind_lift_Ok [simp]: "bind_pr (lift_pr (Ok a)) f = f a"
  by (simp add: bind_pr_def fun_eq_iff)

lemma bind_lift_Err [simp]: "bind_pr (lift_pr (Err e)) f = lift_pr (Err e)"
  by (simp add: bind_pr_def fun_eq_iff)

lemma bind_println [simp]: "bind_pr (println s) f w = f () (w\<lparr>cw_out := cw_out w @ s @ newline\<rparr>)"
  by (simp add: bind_pr_def)

text \<open>A body that prints one text for each element prints their concatenation.\<close>

lemma for_prints:
  assumes "\<And>x w. x \<in> set xs \<Longrightarrow> body x w = Some (Ok (), w\<lparr>cw_out := cw_out w @ shown x\<rparr>)"
  shows "for_pr body xs w = Some (Ok (), w\<lparr>cw_out := cw_out w @ concat (map shown xs)\<rparr>)"
  using assms
proof (induction xs arbitrary: w)
  case (Cons x xs)
  then show ?case by (simp add: bind_pr_def)
qed simp

section \<open>Calls\<close>

lemma drive_Some: "drive m w = Some (r, w') \<longleftrightarrow> (\<exists>r0 v. m (cw_world w) = (r0, v) \<and> r = root_err Driver_Cause r0 \<and> w' = w\<lparr>cw_world := v\<rparr>)"
  by (auto simp: drive_def split: prod.splits)

lemma root_err_is_ok [simp]: "is_ok (root_err f r) \<longleftrightarrow> is_ok r"
  by (cases r) (simp_all add: root_err_def)

text \<open>
  \<open>m\<close> returns and appends to the log an initial part of \<open>calls\<close>, all of them when it succeeds.
\<close>

definition does :: "('v \<Rightarrow> 'c list) \<Rightarrow> 'c list \<Rightarrow> ('v cli_world, 'e, 'a) process \<Rightarrow> bool" where
  "does log calls m \<longleftrightarrow> (\<forall>w. \<exists>r w' made rest. m w = Some (r, w') \<and> calls = made @ rest \<and>
     log (cw_world w') = log (cw_world w) @ made \<and> (is_ok r \<longrightarrow> rest = []) \<and>
     (\<not> is_ok r \<longrightarrow> made \<noteq> []))"

lemma does_println [simp]: "does log [] (println s)"
  by (simp add: does_def)

lemma does_return [simp]: "does log [] (return_pr a)"
  by (simp add: does_def)

lemma does_drive:
  fixes m :: "('v, 'de, 'b) effect"
  assumes "\<And>w. log (snd (m w)) = log w @ [c]"
  shows "does log [c] (drive m)"
  unfolding does_def
proof (intro allI)
  fix w :: "'v cli_world"
  obtain r v where m: "m (cw_world w) = (r, v)" by fastforce
  then have "log v = log (cw_world w) @ [c]" using assms[of "cw_world w"] by simp
  then show "\<exists>r w' made rest. drive m w = Some (r, w') \<and> [c] = made @ rest \<and>
      log (cw_world w') = log (cw_world w) @ made \<and> (is_ok r \<longrightarrow> rest = []) \<and> (\<not> is_ok r \<longrightarrow> made \<noteq> [])"
    by (intro exI[of _ "root_err Driver_Cause r"] exI[of _ "w\<lparr>cw_world := v\<rparr>"] exI[of _ "[c]"] exI[of _ "[]"])
      (simp add: drive_def m)
qed

lemma does_bind:
  assumes m: "does log cs m" and f: "\<And>a. does log ds (f a)"
  shows "does log (cs @ ds) (bind_pr m f)"
  unfolding does_def
proof (intro allI)
  fix w 
  from m obtain r w1 made rest where *: "m w = Some (r, w1)" "cs = made @ rest"
    "log (cw_world w1) = log (cw_world w) @ made" "is_ok r \<longrightarrow> rest = []" "\<not> is_ok r \<longrightarrow> made \<noteq> []"
    unfolding does_def by blast
  show "\<exists>r w' made rest. bind_pr m f w = Some (r, w') \<and> cs @ ds = made @ rest \<and>
      log (cw_world w') = log (cw_world w) @ made \<and> (is_ok r \<longrightarrow> rest = []) \<and> (\<not> is_ok r \<longrightarrow> made \<noteq> [])"
  proof (cases r)
    case (Inl e)
    with * show ?thesis
      by (intro exI[of _ "Err e"] exI[of _ w1] exI[of _ made] exI[of _ "rest @ ds"]) (simp add: bind_pr_def)
  next
    case (Inr a)
    from f[of a] obtain r2 w2 made2 rest2 where **: "f a w1 = Some (r2, w2)" "ds = made2 @ rest2"
      "log (cw_world w2) = log (cw_world w1) @ made2" "is_ok r2 \<longrightarrow> rest2 = []" "\<not> is_ok r2 \<longrightarrow> made2 \<noteq> []"
      unfolding does_def by blast
    with * Inr show ?thesis
      by (intro exI[of _ r2] exI[of _ w2] exI[of _ "made @ made2"] exI[of _ rest2]) (auto simp: bind_pr_def)
  qed
qed

lemma does_for: "(\<And>x. does log (calls x) (body x)) \<Longrightarrow> does log (concat (map calls xs)) (for_pr body xs)"
  by (induction xs) (simp_all add: does_bind)

text \<open>
  The interface of a recorded driver that also records listings.
\<close>

locale recorded_listing = recorded_driver drv clk log enc
  for drv :: "('w, 'io, 'je, 'ls) driver" and clk :: "'w clock" and log :: "'w \<Rightarrow> 'c list" and enc :: "mock_call \<Rightarrow> 'c" +
  assumes log_ps: "log (snd (drv_ps drv project w)) = log w @ [enc (Call_Ps project)]"
begin

lemma does_ops:
  "does log [enc (Call_Stop i grace)] (drive (drv_stop drv i grace))"
  "does log [enc (Call_Rm i force)] (drive (drv_rm drv i force))"
  "does log [enc (Call_Build b)] (drive (drv_build drv b))"
  "does log [enc (Call_Pull img)] (drive (drv_pull drv img))"
  "does log [enc (Call_Ps project)] (drive (drv_ps drv project))"
  by (intro does_drive log_stop log_rm log_build log_pull log_ps)+

lemma does_and_prints:
  "does log [enc (Call_Build b)] (bind_pr (drive (drv_build drv b)) (\<lambda>a. println (s a)))"
  "does log [enc (Call_Pull img)] (bind_pr (drive (drv_pull drv img)) (\<lambda>a. println (s a)))"
  using does_bind[OF does_ops(3) does_println] does_bind[OF does_ops(4) does_println] by simp_all

text \<open>Taking down one container stops it, then removes it.\<close>

lemma does_down_one:
  "does log [enc (Call_Stop (ContainerId (csum_id c)) grace), enc (Call_Rm (ContainerId (csum_id c)) False)]
     (down_one drv grace c)"
  using does_bind[OF does_ops(1) does_bind[OF does_ops(2) does_println], of "ContainerId (csum_id c)" grace]
  by (simp add: down_one_def Let_def)

lemma does_down_all:
  "does log (concat (map (\<lambda>c. [enc (Call_Stop (ContainerId (csum_id c)) grace), enc (Call_Rm (ContainerId (csum_id c)) False)]) cs))
     (if cs = [] then println s else for_pr (down_one drv grace) cs)"
proof (cases "cs = []")
  case False
  then show ?thesis
    using does_for[of log "\<lambda>c. [enc (Call_Stop (ContainerId (csum_id c)) grace), enc (Call_Rm (ContainerId (csum_id c)) False)]",
        OF does_down_one] by simp
qed simp

end

interpretation mock_listing: recorded_listing "mock_as_driver display empty_stream" mock_clock md_calls id
  for display :: "('io, 'je) driver_error \<Rightarrow> string" and empty_stream :: 'ls
  by unfold_locales (simp add: mock_simps)

interpretation podman_listing: recorded_listing
    "podman_driver (trace_env pe) cli" "trace_clock clk" tr_spawned "spawned_argv pe cli"
  for pe :: "('v, 'io, 'je, 'ls) podman_env" and cli and clk :: "'v clock"
proof unfold_locales
  fix project w
  have "tr_spawned (snd (podman_ps (trace_env pe) cli project w)) = tr_spawned w @ [patch_argv cli (ps_argv project)]"
    unfolding podman_ps_def
    by (rule bind_podman_exec_trace) (auto simp: ps_argv_def bind_st_def Let_def split: sum.splits list.splits)
  then show "tr_spawned (snd (drv_ps (podman_driver (trace_env pe) cli) project w)) =
      tr_spawned w @ [spawned_argv pe cli (Call_Ps project)]"
    by (simp add: podman_driver_def spawned_argv_def)
qed

section \<open>Loading\<close>

lemma plan_not_Panic:
  assumes "bt_ok (cmp_services c)"
  shows "plan hash c opts \<noteq> (Err Panic :: ('te, 'ce) plan_error fault + _)"
proof (cases "plan_valid hash c opts")
  case True
  from plan_valid_Ok[OF assms this, where 'te = 'te] obtain p where
    "(plan hash c opts :: ('te, 'ce) plan_error fault + _) = Ok p"
    by blast
  then show ?thesis by simp
next
  case False
  from plan_not_valid[OF assms this, where 'te = 'te] show ?thesis by auto
qed

lemma fault_context_Panic [simp]:
  "map_err (\<lambda>e. case e of Panic \<Rightarrow> Panic | Fault err \<Rightarrow> Fault (g err)) r = Err Panic \<longleftrightarrow> r = Err Panic"
  by (cases r) (auto split: fault.splits)

lemma build_env_not_Panic: "build_env sys p files \<noteq> Err Panic"
  by (auto simp: build_env_def Let_def bind_res_Err split: if_splits)

end
