(* ===== verification/Dispatch.thy ===== *)
theory Dispatch
  imports Cli
begin

text \<open>
  The entry point of the command line tool (\<open>selur-compose/src/main.rs\<close>, \<open>print_error\<close> of
  \<open>output.rs\<close>): the log level, the dispatch of a parsed command line to its command, and the exit
  code.  The parsed command line is \<open>clap\<close>'s.
\<close>

section \<open>Log level\<close>

definition default_level :: "cli \<Rightarrow> string" where
  "default_level cli =
     (if cli_quiet cli then ''error''
      else if cli_verbose cli = 0 then ''warn''
      else if cli_verbose cli = 1 then ''info''
      else ''debug'')"

section \<open>What the commands use\<close>

text \<open>
  The driver and clock of the real world, the file system, and the libraries: JSON output of rows
  and versions, the serialisers, UTF-8 decoding, \<open>Display for ExitStatus\<close>, the drained \<open>tail_logs\<close>.
\<close>

record ('v, 'te, 'ce, 'io, 'je, 'ls, 'x, 'tv, 'se) cli_env =
  ce_system :: "('te, 'ce, 'x) system"
  ce_driver :: "('v, 'io, 'je, 'ls) driver"
  ce_clock :: "'v clock"
  ce_spawn :: "('v, 'io) spawner"
  ce_tail :: "(string, container_id) hash_map \<Rightarrow> bool \<Rightarrow> 'v \<Rightarrow> (log_line list \<times> 'v) option"
  ce_parallelism :: "nat option"
  ce_lossy :: "string \<Rightarrow> string"
  ce_status_display :: "int option \<Rightarrow> string"
  ce_ps_json :: "container_row list \<Rightarrow> string"
  ce_version_json :: "string \<Rightarrow> string \<Rightarrow> string"
  ce_serialisers :: "('x, 'tv, 'se) serialisers"
  ce_pkg_version :: string

definition dispatch ::
    "('v, 'te, 'ce, 'io, 'je, 'ls, 'x, 'tv, 'se) cli_env \<Rightarrow> cli
     \<Rightarrow> ('v, 'te, 'ce, ('io, 'je) driver_error, 'se, unit) cli_proc" where
  "dispatch env cli =
     (let load = load_compose (ce_system env) (cli_file cli) (cli_env_file cli) (cli_profile cli) (cli_project_name cli);
          drv = ce_driver env; fmt = cli_format cli; dry_run = cli_dry_run cli in
      case cli_command cli of
        Cmd_Up args \<Rightarrow>
          cmd_up drv (ce_clock env) (ce_parallelism env) (ce_ps_json env) args (load (up_services args)) fmt dry_run
      | Cmd_Down args \<Rightarrow> cmd_down drv args (load []) dry_run
      | Cmd_Build args \<Rightarrow> cmd_build drv args (load (ba_services args)) dry_run
      | Cmd_Pull args \<Rightarrow> cmd_pull drv (load (pa_services args)) dry_run
      | Cmd_Ps args \<Rightarrow> cmd_ps drv (ce_ps_json env) (load []) fmt
      | Cmd_Logs args \<Rightarrow> cmd_logs drv (ce_tail env) args (load (la_services args))
      | Cmd_Config args \<Rightarrow> cmd_config (ce_serialisers env) args (load []) fmt
      | Cmd_Version \<Rightarrow>
          cmd_version (ce_spawn env) (ce_lossy env) (ce_status_display env) (ce_version_json env) (ce_pkg_version env) fmt)"

section \<open>Errors\<close>

text \<open>\<open>messages\<close> are the message of a cause and those of its sources.\<close>

fun error_chain :: "(('te, 'ce, 'de, 'se) cause \<Rightarrow> string list) \<Rightarrow> ('te, 'ce, 'de, 'se) cli_error \<Rightarrow> string list" where
  "error_chain messages (Root c) = messages c"
| "error_chain messages (Context m e) = m # error_chain messages e"

definition print_error ::
    "(string \<Rightarrow> string list \<Rightarrow> string) \<Rightarrow> (('te, 'ce, 'de, 'se) cause \<Rightarrow> string list)
     \<Rightarrow> ('te, 'ce, 'de, 'se) cli_error \<Rightarrow> format \<Rightarrow> string" where
  "print_error error_json messages err fmt =
     (let chain = error_chain messages err in
      case fmt of
        Fmt_Json \<Rightarrow> error_json (hd chain) (tl chain) @ newline
      | Fmt_Text \<Rightarrow> ''error: '' @ join '': '' chain @ newline)"

section \<open>main\<close>

text \<open>The exit code, what the error formatter writes to stderr, and the world; a panic exits with 101.\<close>

definition main_run ::
    "(string \<Rightarrow> string list \<Rightarrow> string) \<Rightarrow> (('te, 'ce, ('io, 'je) driver_error, 'se) cause \<Rightarrow> string list)
     \<Rightarrow> ('v, 'te, 'ce, 'io, 'je, 'ls, 'x, 'tv, 'se) cli_env \<Rightarrow> cli \<Rightarrow> 'v cli_world
     \<Rightarrow> (int \<times> string \<times> 'v cli_world) option" where
  "main_run error_json messages env cli w =
     (case dispatch env cli w of
        None \<Rightarrow> None
      | Some (Ok _, w1) \<Rightarrow> Some (0, [], w1)
      | Some (Err (Fault err), w1) \<Rightarrow> Some (1, print_error error_json messages err (cli_format cli), w1)
      | Some (Err Panic, w1) \<Rightarrow> Some (101, [], w1))"

end
