(* ===== verification/Cli_Properties.thy ===== *)
theory Cli_Properties
  imports Cli_Facts Dispatch Interp_Properties Exec_Properties
begin

text \<open>The properties of the command line tool.\<close>

section \<open>down\<close>


section \<open>build and pull\<close>

text \<open>
  \<open>build\<close> spawns one \<open>podman build\<close> for each image the plan builds, in order and with the cache
  disabled when asked, \<open>pull\<close> one \<open>podman pull\<close> for each image the plan pulls, and nothing else;
  they end early only when a command fails.
\<close>

theorem build_and_pull_spawn_their_images:
  "does tr_spawned
     (concat (map (\<lambda>op. case op of
          BuildImage b \<Rightarrow> [patch_argv cli (build_argv (b\<lparr>bspec_no_cache := bspec_no_cache b \<or> ba_no_cache args\<rparr>))]
        | _ \<Rightarrow> []) (plan_ops (ld_plan loaded))))
     (cmd_build (podman_driver (trace_env pe) cli) args (Ok loaded) False) \<and>
   does tr_spawned
     (concat (map (\<lambda>op. case op of PullImage p \<Rightarrow> [patch_argv cli (pull_argv (pspec_image p))] | _ \<Rightarrow> [])
        (plan_ops (ld_plan loaded))))
     (cmd_pull (podman_driver (trace_env pe) cli) (Ok loaded) False)"
proof (rule conjI)
  have effective: "(if nc then b\<lparr>bspec_no_cache := True\<rparr> else b) = b\<lparr>bspec_no_cache := bspec_no_cache b \<or> nc\<rparr>"
    for nc and b :: build_spec
    by simp
  show "does tr_spawned
     (concat (map (\<lambda>op. case op of
          BuildImage b \<Rightarrow> [patch_argv cli (build_argv (b\<lparr>bspec_no_cache := bspec_no_cache b \<or> ba_no_cache args\<rparr>))]
        | _ \<Rightarrow> []) (plan_ops (ld_plan loaded))))
     (cmd_build (podman_driver (trace_env pe) cli) args (Ok loaded) False)"
    unfolding cmd_build_def bind_lift_Ok if_False effective Let_def
    by (intro does_for)
      (simp add: podman_listing.does_and_prints[unfolded spawned_argv_def call_argv.simps] split: op.split)
  show "does tr_spawned
     (concat (map (\<lambda>op. case op of PullImage p \<Rightarrow> [patch_argv cli (pull_argv (pspec_image p))] | _ \<Rightarrow> [])
        (plan_ops (ld_plan loaded))))
     (cmd_pull (podman_driver (trace_env pe) cli) (Ok loaded) False)"
    unfolding cmd_pull_def bind_lift_Ok if_False
    by (intro does_for)
      (simp add: podman_listing.does_and_prints[unfolded spawned_argv_def call_argv.simps] split: op.split)
qed

section \<open>Dry runs\<close>

text \<open>
  A dry run of \<open>up\<close> prints the project and a line for each operation of the plan, in order,
  and calls nothing; that of \<open>down\<close>, \<open>build\<close> and \<open>pull\<close> prints and calls nothing.
\<close>

theorem dry_run_only_prints:
  "cmd_up drv clk par ps_json ua (Ok loaded) fmt True w =
     Some (Ok (), w\<lparr>cw_out := cw_out w @
       ''Dry-run: planned ops for project `'' @ plan_project_name (ld_plan loaded) @ ''`'' @ newline @
       concat (map (\<lambda>op. ''  '' @ describe_op op @ newline) (plan_ops (ld_plan loaded)))\<rparr>) \<and>
   (\<exists>out. cmd_down drv da (Ok loaded) True w = Some (Ok (), w\<lparr>cw_out := out\<rparr>)) \<and>
   (\<exists>out. cmd_build drv ba (Ok loaded) True w = Some (Ok (), w\<lparr>cw_out := out\<rparr>)) \<and>
   (\<exists>out. cmd_pull drv (Ok loaded) True w = Some (Ok (), w\<lparr>cw_out := out\<rparr>))"
proof (intro conjI)
  show "cmd_up drv clk par ps_json ua (Ok loaded) fmt True w =
     Some (Ok (), w\<lparr>cw_out := cw_out w @
       ''Dry-run: planned ops for project `'' @ plan_project_name (ld_plan loaded) @ ''`'' @ newline @
       concat (map (\<lambda>op. ''  '' @ describe_op op @ newline) (plan_ops (ld_plan loaded)))\<rparr>)"
    unfolding cmd_up_def bind_lift_Ok if_True bind_println
    by (subst for_prints[where shown = "\<lambda>op. ''  '' @ describe_op op @ newline"]) simp_all
next
  show "\<exists>out. cmd_down drv da (Ok loaded) True w = Some (Ok (), w\<lparr>cw_out := out\<rparr>)"
    unfolding cmd_down_def bind_lift_Ok if_True bind_println Let_def
    by (subst for_prints[where shown = "\<lambda>op. case op of
            RunContainer s \<Rightarrow> ''  StopContainer   '' @ rspec_service s @ '' (grace '' @ show_nat (down_timeout da) @ ''s)'' @
              newline @ ''  RemoveContainer '' @ rspec_service s @ newline
          | _ \<Rightarrow> []"]) (auto split: op.split)
next
  show "\<exists>out. cmd_build drv ba (Ok loaded) True w = Some (Ok (), w\<lparr>cw_out := out\<rparr>)"
    unfolding cmd_build_def bind_lift_Ok if_True bind_println
    by (subst for_prints[where shown = "\<lambda>op. case op of
            BuildImage b \<Rightarrow> ''  BuildImage  '' @ bspec_service b @ '' (tag: '' @ bspec_tag b @ '')'' @ newline
          | _ \<Rightarrow> []"]) (auto split: op.split)
next
  show "\<exists>out. cmd_pull drv (Ok loaded) True w = Some (Ok (), w\<lparr>cw_out := out\<rparr>)"
    unfolding cmd_pull_def bind_lift_Ok if_True bind_println
    by (subst for_prints[where shown = "\<lambda>op. case op of
            PullImage p \<Rightarrow> ''  PullImage  '' @ pspec_service p @ '' ('' @ pspec_image p @ '')'' @ newline
          | _ \<Rightarrow> []"]) (auto split: op.split)
qed

section \<open>Tables\<close>

text \<open>
  The table of \<open>ps\<close> is a header, a rule and a line for each row, and on ASCII rows it never
  panics and its last column starts at the same offset of every line, one at least 38 characters in.
\<close>

theorem print_table_aligned:
  assumes "rows \<noteq> []"
    and "\<forall>r\<in>set rows. ascii (row_service r) \<and> ascii (row_container_id r) \<and> ascii (row_image r) \<and> ascii (row_status r)"
  shows "\<exists>cells offset. 38 \<le> offset \<and>
    print_table rows = Some (concat (map2 (\<lambda>cell ports. cell @ ports @ newline) cells
      (''PORTS'' # ''-----'' # map row_ports rows))) \<and>
    length cells = length rows + 2 \<and> (\<forall>cell\<in>set cells. length cell = offset)"
proof -
  let ?svc = "column_width (\<lambda>r. length (row_service r)) 7 rows"
    and ?id = "column_width (\<lambda>r. min (length (row_container_id r)) 12) 12 rows"
    and ?img = "column_width (\<lambda>r. length (row_image r)) 5 rows"
    and ?stat = "column_width (\<lambda>r. length (row_status r)) 6 rows"
  let ?cell = "\<lambda>fill svc cid img stat. pad_with fill ?svc svc @ ''  '' @ pad_with fill ?id cid @ ''  '' @
    pad_with fill ?img img @ ''  '' @ pad_with fill ?stat stat @ ''  ''"
  let ?row = "\<lambda>r. ?cell CHR '' '' (row_service r) (take 12 (row_container_id r)) (row_image r) (row_status r)"
  let ?cells = "?cell CHR '' '' ''SERVICE'' ''CONTAINER ID'' ''IMAGE'' ''STATUS'' # ?cell CHR ''-'' [] [] [] [] # map ?row rows"
  have cell: "length (?cell fill svc cid img stat) = ?svc + ?id + ?img + ?stat + 8"
    if "ascii svc" "ascii cid" "ascii img" "ascii stat" "length svc \<le> ?svc" "length cid \<le> ?id" "length img \<le> ?img"
      "length stat \<le> ?stat" for fill svc cid img stat
    using that by (simp add: length_pad)
  have least: "7 \<le> ?svc" "12 \<le> ?id" "5 \<le> ?img" "6 \<le> ?stat"
    by (rule column_width_ge(2))+
  have rows: "print_rows ?svc ?id ?img ?stat rs = Some (concat (map2 (\<lambda>cell ports. cell @ ports @ newline) (map ?row rs) (map row_ports rs)))"
    if "set rs \<subseteq> set rows" for rs
    using that
  proof (induction rs)
    case (Cons r rs)
    then have "slice_to (row_container_id r) (min (length (row_container_id r)) 12) = Some (take 12 (row_container_id r))"
      using assms(2) ascii_slice[of "row_container_id r" "min (length (row_container_id r)) 12"]
      by (cases "length (row_container_id r) \<le> 12") (auto simp: min_def)
    with Cons show ?case by (simp add: row_line_def)
  qed simp
  have rule: "ascii ''SERVICE''" "ascii ''CONTAINER ID''" "ascii ''IMAGE''" "ascii ''STATUS''" "ascii []"
    by (simp_all add: ascii_def)
  have "length (?row r) = ?svc + ?id + ?img + ?stat + 8" if "r \<in> set rows" for r
    using that assms(2) column_width_ge(1)[OF that, of "\<lambda>r. length (row_service r)" 7]
      column_width_ge(1)[OF that, of "\<lambda>r. min (length (row_container_id r)) 12" 12]
      column_width_ge(1)[OF that, of "\<lambda>r. length (row_image r)" 5]
      column_width_ge(1)[OF that, of "\<lambda>r. length (row_status r)" 6]
    by (intro cell) (auto intro: ascii_take)
  then have cells: "\<forall>cell\<in>set ?cells. length cell = ?svc + ?id + ?img + ?stat + 8"
    using least cell[OF rule(1,2,3,4)] cell[OF rule(5,5,5,5)] by auto
  have "print_table rows = Some (concat (map2 (\<lambda>cell ports. cell @ ports @ newline) ?cells
      (''PORTS'' # ''-----'' # map row_ports rows)))"
    using assms(1) rows[OF subset_refl] by (simp add: print_table_def Let_def row_line_def)
  with cells least show ?thesis
    by (intro exI[of _ ?cells] exI[of _ "?svc + ?id + ?img + ?stat + 8"]) simp
qed

theorem print_table_aligned_witness:
  "\<exists>cells offset. 38 \<le> (offset :: nat) \<and>
    print_table [\<lparr>row_service = ''db'', row_container_id = ''0123456789abcdef'', row_image = ''d:1'', row_status = ''Up'',
        row_ports = ''80''\<rparr>] =
      Some (concat (map2 (\<lambda>cell ports. cell @ ports @ newline) cells [''PORTS'', ''-----'', ''80''])) \<and>
    length cells = 3 \<and> (\<forall>cell\<in>set cells. length cell = offset)"
proof -
  let ?row = "\<lparr>row_service = ''db'', row_container_id = ''0123456789abcdef'', row_image = ''d:1'', row_status = ''Up'',
      row_ports = ''80''\<rparr>"
  have "\<forall>r\<in>set [?row]. ascii (row_service r) \<and> ascii (row_container_id r) \<and> ascii (row_image r) \<and> ascii (row_status r)"
    by (simp add: ascii_def)
  from print_table_aligned [OF _ this] show ?thesis by (simp add: eval_nat_numeral)
qed

section \<open>Loading\<close>

text \<open>
  C21: the environment of a load looks each variable up in the process's variables, then in \<open>.env\<close>
  beside the compose file when there is one, then in the \<open>--env-file\<close> files in the order given: the
  first definition wins, so a later file never overrides an earlier one.
\<close>

theorem build_env_precedence:
  assumes "build_env sys compose_path files = (Ok env :: ('te, 'ce, 'de, 'se) cli_error fault + env_map)"
  shows "\<exists>layers.
    list_all2 (\<lambda>f kvs. load_env_file (sys_open sys) (sys_decode sys) f = Ok kvs)
      ((let dot_env = path_join (case path_parent compose_path of Some d \<Rightarrow> d | None \<Rightarrow> ''.'') ''.env'' in
        if sys_exists sys dot_env then [dot_env] else []) @ files) layers \<and>
    (\<forall>k. env_get env k = map_of (sys_vars sys @ concat layers) k)"
proof -
  let ?load = "load_env_file (sys_open sys) (sys_decode sys)" and ?env0 = "env_from_process (sys_vars sys)"
  let ?dot = "path_join (case path_parent compose_path of Some d \<Rightarrow> d | None \<Rightarrow> ''.'') ''.env''"
  let ?dots = "if sys_exists sys ?dot then [?dot] else []"
  from assms obtain env1 where one: "if sys_exists sys ?dot then with_env_files ?load ?env0 [?dot] = Ok env1 else env1 = ?env0"
    and two: "if files \<noteq> [] then with_env_files ?load env1 files = Ok env else env = env1"
    by (fastforce simp: build_env_def Let_def bind_res_Ok split: if_splits)
  have ok0: "env_ok ?env0" and get0: "\<And>k. env_get ?env0 k = map_of (sys_vars sys) k"
    using store.look_fold[OF env_ok_default, of "sys_vars sys"] store.look_initial
    by (simp_all add: env_from_process_def env_ok_from_iter) (simp add: env_from_iter_def)
  have "\<exists>fs. list_all2 (\<lambda>p kvs. ?load p = Ok kvs) ?dots fs \<and>
      (\<forall>k. env_get env1 k = (case env_get ?env0 k of Some v \<Rightarrow> Some v | None \<Rightarrow> map_of (concat fs) k))"
    using one with_env_files_get[OF ok0, of ?load "[?dot]" env1]
    by (cases "sys_exists sys ?dot") (auto intro!: exI[of _ "[]"] split: option.split)
  then obtain fs1 where fs1: "list_all2 (\<lambda>p kvs. ?load p = Ok kvs) ?dots fs1"
    "\<And>k. env_get env1 k = (case env_get ?env0 k of Some v \<Rightarrow> Some v | None \<Rightarrow> map_of (concat fs1) k)"
    by blast
  have ok1: "env_ok env1"
    using one ok0 env_ok_with_env_files[of ?load ?env0 "[?dot]" env1] by (auto split: if_splits)
  have "\<exists>fs. list_all2 (\<lambda>p kvs. ?load p = Ok kvs) files fs \<and>
      (\<forall>k. env_get env k = (case env_get env1 k of Some v \<Rightarrow> Some v | None \<Rightarrow> map_of (concat fs) k))"
    using two with_env_files_get[OF ok1, of ?load files env]
    by (cases "files = []") (auto intro!: exI[of _ "[]"] split: option.split)
  then obtain fs2 where fs2: "list_all2 (\<lambda>p kvs. ?load p = Ok kvs) files fs2"
    "\<And>k. env_get env k = (case env_get env1 k of Some v \<Rightarrow> Some v | None \<Rightarrow> map_of (concat fs2) k)"
    by blast
  have "env_get env k = map_of (sys_vars sys @ concat (fs1 @ fs2)) k" for k
    by (simp add: fs2(2) fs1(2) get0 map_add_def split: option.split)
  moreover have "list_all2 (\<lambda>p kvs. ?load p = Ok kvs) (?dots @ files) (fs1 @ fs2)"
    using fs1(1) fs2(1) by (rule list_all2_appendI)
  ultimately show ?thesis
    by (intro exI[of _ "fs1 @ fs2"]) (simp add: Let_def)
qed

lemma load_not_Panic:
  fixes sys :: "('te, 'ce, 'x) system"
  shows "load_compose sys file env_files profiles project services \<noteq> Err Panic"
proof
  assume "load_compose sys file env_files profiles project services = Err Panic"
  then obtain c c' :: "'x compose" and env where visited: "visit_compose c env = Ok c'"
    and planned: "plan (sys_hash sys) c' \<lparr>opt_profiles = profiles, opt_project_name = project, opt_services = services\<rparr>
      = (Err Panic :: ('te, 'ce) plan_error fault + _)"
    by (auto simp: load_compose_def bind_res_Err build_env_not_Panic split: option.splits)
  from collect_btree_ok(1)[OF visit_compose_parts(1)[OF visited]] have "bt_ok (cmp_services c')" .
  from plan_not_Panic[OF this] planned show False
    by blast
qed


text \<open>A file system with one compose file that holds the demo document, and a \<open>.env\<close> beside it.\<close>

definition demo_system :: "(unit, unit, unit) system" where
  "demo_system =
     \<lparr>sys_cwd = Some ''/w'', sys_exists = (\<lambda>p. p \<in> {''/w/compose.toml'', ''/w/.env''}),
      sys_open = (\<lambda>p. if p = ''/w/.env'' then Ok ''TAG=2'' else if p = ''/w/more.env'' then Ok ''TAG=3'' else Ok ''toml''),
      sys_decode = Ok, sys_vars = [(''HOME'', ''/root'')], sys_from_str = (\<lambda>s. Ok demo), sys_hash = demo_hash\<rparr>"

theorem build_env_precedence_witness:
  "\<exists>env. (build_env demo_system ''/w/compose.toml'' [''/w/more.env''] :: (unit, unit, unit, unit) cli_error fault + env_map)
      = Ok env \<and> env_get env ''TAG'' = Some ''2''"
proof -
  let ?load = "load_env_file (sys_open demo_system) (sys_decode demo_system)"
  have lines: "parse_env_str ''TAG=2'' ''/w/.env'' = Ok [(''TAG'', ''2'')]"
    "parse_env_str ''TAG=3'' ''/w/more.env'' = Ok [(''TAG'', ''3'')]"
    by code_simp+
  have loads: "?load ''/w/.env'' = Ok [(''TAG'', ''2'')]" "?load ''/w/more.env'' = Ok [(''TAG'', ''3'')]"
    using lines by (simp_all add: load_env_file_def demo_system_def)
  have beside: "path_join (case path_parent ''/w/compose.toml'' of Some d \<Rightarrow> d | None \<Rightarrow> ''.'') ''.env'' = ''/w/.env''"
    by code_simp
  have "\<exists>env. (build_env demo_system ''/w/compose.toml'' [''/w/more.env''] :: (unit, unit, unit, unit) cli_error fault + _) = Ok env"
    unfolding build_env_def Let_def beside by (simp add: with_env_files_def loads) (simp add: demo_system_def bind_res_Ok)
  then obtain env where env:
    "(build_env demo_system ''/w/compose.toml'' [''/w/more.env''] :: (unit, unit, unit, unit) cli_error fault + _) = Ok env"
    by blast
  from build_env_precedence [OF env] obtain layers where
    "list_all2 (\<lambda>f kvs. ?load f = Ok kvs) [''/w/.env'', ''/w/more.env''] layers"
    and get: "\<forall>k. env_get env k = map_of (sys_vars demo_system @ concat layers) k"
    unfolding beside Let_def by (auto simp: demo_system_def)
  then have "layers = [[(''TAG'', ''2'')], [(''TAG'', ''3'')]]"
    by (auto simp: list_all2_Cons1 loads)
  with env get show ?thesis
    by (simp add: demo_system_def)
qed

section \<open>The whole program\<close>

lemma traced_forward:
  assumes "\<And>w d. clk_now clk w + d \<le> clk_now clk (clk_sleep clk d w)"
    and "\<And>program args w. clk_now clk w \<le> clk_now clk (snd (pe_spawn pe program args w))"
  shows "forward_clock (podman_driver (trace_env pe) cli) (trace_clock clk)"
  by (rule podman_forward)
    (use assms in \<open>auto simp: trace_clock_def trace_env_def trace_spawn_def split: prod.splits\<close>,
     metis snd_conv)

text \<open>
  C3: \<open>selur-compose up\<close> ends. When the compose file cannot be loaded it exits with 1 and spawns
  nothing; otherwise it spawns the podman commands of the operations of the plan, in order and
  inspections apart, all of them when it exits with 0.
\<close>

theorem up_end_to_end:
  fixes env :: "('v traced, 'te, 'ce, 'io, 'je, 'ls, 'x, 'tv, 'se) cli_env"
    and messages :: "('te, 'ce, ('io, 'je) driver_error, 'se) cause \<Rightarrow> string list"
  assumes cmd: "cli_command cli = Cmd_Up args" "\<not> cli_dry_run cli"
    and driver: "ce_driver env = podman_driver (trace_env pe) pcli" "ce_clock env = trace_clock clk"
      "ce_parallelism env \<noteq> Some 0"
    and time: "\<And>w d. clk_now clk w + d \<le> clk_now clk (clk_sleep clk d w)"
      "\<And>program args w. clk_now clk w \<le> clk_now clk (snd (pe_spawn pe program args w))"
  shows "\<exists>code err w'. main_run error_json messages env cli w = Some (code, err, w') \<and>
    (case load_compose (ce_system env) (cli_file cli) (cli_env_file cli) (cli_profile cli) (cli_project_name cli)
        (up_services args) :: ('te, 'ce, ('io, 'je) driver_error, 'se) cli_error fault + 'x loaded of
       Err e \<Rightarrow> code = 1 \<and> w' = w
     | Ok loaded \<Rightarrow> \<exists>made rest cs. plan_ops (ld_plan loaded) = made @ rest \<and>
         tr_spawned (cw_world w') = tr_spawned (cw_world w) @ map (spawned_argv pe pcli) cs \<and>
         acts cs = plan_calls \<lparr>eo_no_build = up_no_build args, eo_no_pull = up_no_pull args,
           eo_healthcheck_start_period = None\<rparr> made \<and>
         (code = 0 \<longrightarrow> rest = []))"
proof -
  let ?opts = "\<lparr>eo_no_build = up_no_build args, eo_no_pull = up_no_pull args, eo_healthcheck_start_period = None\<rparr>"
  let ?load = "load_compose (ce_system env) (cli_file cli) (cli_env_file cli) (cli_profile cli) (cli_project_name cli)
        (up_services args) :: ('te, 'ce, ('io, 'je) driver_error, 'se) cli_error fault + 'x loaded"
  show ?thesis
  proof (cases ?load)
    case (Inl e)
    with load_not_Panic obtain err where "e = Fault err" by (cases e) fastforce+
    with Inl cmd show ?thesis
      by (simp add: main_run_def dispatch_def Let_def cmd_up_def)
  next
    case (Inr loaded)
    let ?run = "execute (podman_driver (trace_env pe) pcli) (trace_clock clk) (ce_parallelism env)
      (plan_ops (ld_plan loaded)) ?opts"
    from forward_clock.execute_returns_forward[OF traced_forward[OF time] driver(3)] obtain r v where
      run: "?run (cw_world w) = Some (r, v)" by blast
    from podman_recorded.log_execute[OF run] obtain made rest cs where log: "plan_ops (ld_plan loaded) = made @ rest"
      "tr_spawned v = tr_spawned (cw_world w) @ map (spawned_argv pe pcli) cs" "acts cs = plan_calls ?opts made"
      "is_ok r \<longrightarrow> rest = []" by blast
    have up: "dispatch env cli w = (bind_pr (drive_process ?run) (\<lambda>report.
        print_rows_pr (print_summary (ce_ps_json env) (up_rows report) (cli_format cli)))) w"
      using Inr cmd driver by (simp add: dispatch_def cmd_up_def Let_def)
    have "\<exists>code err w'. main_run error_json messages env cli w = Some (code, err, w') \<and> cw_world w' = v \<and>
        (code = 0 \<longrightarrow> is_ok r)"
    proof (cases r)
      case (Inl e)
      with up run show ?thesis
        by (cases e) (simp_all add: main_run_def bind_pr_def drive_process_def)
    next
      case (Inr report)
      with up run show ?thesis
        by (cases "print_summary (ce_ps_json env) (up_rows report) (cli_format cli)")
          (simp_all add: main_run_def bind_pr_def drive_process_def print_rows_pr_def)
    qed
    then obtain code err w' where main: "main_run error_json messages env cli w = Some (code, err, w')"
      "cw_world w' = v" "code = 0 \<longrightarrow> is_ok r" by blast
    have "\<exists>made rest cs. plan_ops (ld_plan loaded) = made @ rest \<and>
        tr_spawned (cw_world w') = tr_spawned (cw_world w) @ map (spawned_argv pe pcli) cs \<and>
        acts cs = plan_calls ?opts made \<and> (code = 0 \<longrightarrow> rest = [])"
      by (intro exI[of _ made] exI[of _ rest] exI[of _ cs]) (use log main(2,3) in simp)
    with main(1) Inr show ?thesis
      by (intro exI[of _ code] exI[of _ err] exI[of _ w']) simp
  qed
qed

definition demo_cli_env :: "(nat traced, unit, unit, unit, unit, unit, unit, unit, unit) cli_env" where
  "demo_cli_env =
     \<lparr>ce_system = demo_system, ce_driver = podman_driver (trace_env demo_env) podman_cli_default,
      ce_clock = trace_clock demo_clock, ce_spawn = (\<lambda>program args w. (Err (), w)), ce_tail = (\<lambda>m follow v. None),
      ce_parallelism = Some 4, ce_lossy = (\<lambda>s. s), ce_status_display = (\<lambda>c. []), ce_ps_json = (\<lambda>rows. []),
      ce_version_json = (\<lambda>a b. []),
      ce_serialisers = \<lparr>ser_json = (\<lambda>c. Err ()), ser_toml_value = (\<lambda>c. Err ()), ser_toml = (\<lambda>v. Err ())\<rparr>,
      ce_pkg_version = ''0.1.0''\<rparr>"

definition demo_up_args :: up_args where
  "demo_up_args = \<lparr>up_detach = True, up_build = False, up_no_build = False, up_no_pull = False,
     up_force_recreate = False, up_remove_orphans = False, up_services = []\<rparr>"

definition demo_cli :: cli where
  "demo_cli = \<lparr>cli_file = None, cli_project_name = None, cli_env_file = [], cli_profile = [], cli_verbose = 0,
     cli_quiet = False, cli_format = Fmt_Text, cli_dry_run = False, cli_command = Cmd_Up demo_up_args\<rparr>"

definition demo_dotenv :: env_map where
  "demo_dotenv = fold push_entry [(''TAG'', ''2'')] (env_from_process [(''HOME'', ''/root'')])"

lemma demo_build_env:
  "(build_env demo_system ''/w/compose.toml'' [] :: (unit, unit, 'de, 'se) cli_error fault + env_map) = Ok demo_dotenv"
proof -
  have "parse_env_str ''TAG=2'' ''/w/.env'' = Ok [(''TAG'', ''2'')]" by code_simp
  then have load: "load_env_file (sys_open demo_system) (sys_decode demo_system) ''/w/.env'' = Ok [(''TAG'', ''2'')]"
    by (simp add: load_env_file_def demo_system_def)
  have beside: "path_join (case path_parent ''/w/compose.toml'' of Some d \<Rightarrow> d | None \<Rightarrow> ''.'') ''.env'' = ''/w/.env''"
    by code_simp
  have "sys_exists demo_system ''/w/.env''" "sys_vars demo_system = [(''HOME'', ''/root'')]"
    by (simp_all add: demo_system_def)
  moreover have "fold push_entry (push_pair (''TAG'', ''2'') [])
      (fold push_entry (entries (env_from_process [(''HOME'', ''/root'')])) env_default) = demo_dotenv"
    by code_simp
  ultimately show ?thesis
    unfolding build_env_def Let_def beside by (simp add: with_env_files_def load bind_res_Ok)
qed

lemma demo_load:
  "\<exists>loaded. (load_compose demo_system None [] [] None [] :: (unit, unit, 'de, 'se) cli_error fault + unit loaded) = Ok loaded"
proof -
  let ?c = "projr (visit_compose demo demo_dotenv)"
  let ?opts = "\<lparr>opt_profiles = [], opt_project_name = None, opt_services = []\<rparr>"
  have found: "resolve_compose_file demo_system None = Some ''/w/compose.toml''"
    by (simp add: resolve_compose_file_def demo_system_def path_join_def)
  have parsed: "parse_str (sys_from_str demo_system) s (Some p) = (Ok demo :: unit parse_error + _)" for s p
  proof -
    have "validate demo = (Ok () :: unit parse_error + _)" by code_simp
    then show ?thesis by (simp add: parse_str_def demo_system_def)
  qed
  have "is_ok (visit_compose demo demo_dotenv)" by code_simp
  then have visited: "visit_compose demo demo_dotenv = Ok ?c"
    by (cases "visit_compose demo demo_dotenv") simp_all
  have "is_ok (plan demo_hash ?c ?opts :: (unit, unit) plan_error fault + compose_plan)" by code_simp
  then obtain pl where planned: "(plan demo_hash ?c ?opts :: (unit, unit) plan_error fault + compose_plan) = Ok pl"
    by (cases "plan demo_hash ?c ?opts :: (unit, unit) plan_error fault + compose_plan") simp_all
  have opened: "sys_open demo_system ''/w/compose.toml'' = Ok ''toml''" "sys_decode demo_system s = Ok s"
    "sys_hash demo_system = demo_hash" for s
    by (simp_all add: demo_system_def)
  from visited obtain c where c: "visit_compose demo demo_dotenv = Ok c" "?c = c" by blast
  show ?thesis
    using planned unfolding c(2)
    by (simp add: load_compose_def found opened parsed demo_build_env c(1) bind_res_Ok res_simps)
qed

theorem up_end_to_end_witness:
  "\<exists>code err w' loaded made rest cs.
     main_run (\<lambda>m ms. m) (\<lambda>c. []) demo_cli_env demo_cli \<lparr>cw_world = demo_world, cw_out = []\<rparr> = Some (code, err, w') \<and>
     (load_compose demo_system None [] [] None [] ::
       (unit, unit, (unit, unit) driver_error, unit) cli_error fault + unit loaded) = Ok loaded \<and>
     plan_ops (ld_plan loaded) = made @ rest \<and>
     tr_spawned (cw_world w') = map (spawned_argv demo_env podman_cli_default) cs \<and>
     acts cs = plan_calls exec_opts_default made \<and> (code = 0 \<longrightarrow> rest = [])"
proof -
  obtain loaded where load: "(load_compose demo_system None [] [] None [] ::
      (unit, unit, (unit, unit) driver_error, unit) cli_error fault + unit loaded) = Ok loaded"
    using demo_load by blast
  have args: "cli_command demo_cli = Cmd_Up demo_up_args" "\<not> cli_dry_run demo_cli"
    "ce_driver demo_cli_env = podman_driver (trace_env demo_env) podman_cli_default"
    "ce_clock demo_cli_env = trace_clock demo_clock" "ce_parallelism demo_cli_env \<noteq> Some 0"
    by (simp_all add: demo_cli_def demo_cli_env_def)
  have time: "clk_now demo_clock w + d \<le> clk_now demo_clock (clk_sleep demo_clock d w)"
    "clk_now demo_clock w \<le> clk_now demo_clock (snd (pe_spawn demo_env program a w))" for w d program a
    by (simp_all add: demo_clock_def demo_env_def)
  have loaded: "(load_compose (ce_system demo_cli_env) (cli_file demo_cli) (cli_env_file demo_cli) (cli_profile demo_cli)
      (cli_project_name demo_cli) (up_services demo_up_args) ::
      (unit, unit, (unit, unit) driver_error, unit) cli_error fault + unit loaded) = Ok loaded"
    using load by (simp add: demo_cli_def demo_cli_env_def demo_up_args_def)
  have opts: "\<lparr>eo_no_build = up_no_build demo_up_args, eo_no_pull = up_no_pull demo_up_args,
      eo_healthcheck_start_period = None\<rparr> = exec_opts_default"
    by (simp add: demo_up_args_def exec_opts_default_def)
  from up_end_to_end [OF args time, of "\<lambda>m ms. m" "\<lambda>c. []" "\<lparr>cw_world = demo_world, cw_out = []\<rparr>"]
  obtain code err w' made rest cs where
    "main_run (\<lambda>m ms. m) (\<lambda>c. []) demo_cli_env demo_cli \<lparr>cw_world = demo_world, cw_out = []\<rparr> = Some (code, err, w')"
    "plan_ops (ld_plan loaded) = made @ rest"
    "tr_spawned (cw_world w') = tr_spawned demo_world @ map (spawned_argv demo_env podman_cli_default) cs"
    "acts cs = plan_calls exec_opts_default made" "code = 0 \<longrightarrow> rest = []"
    unfolding loaded opts sum.case cli_world.simps by (elim exE conjE) (rule that; assumption)
  with load show ?thesis
    by (intro exI[of _ code] exI[of _ err] exI[of _ w'] exI[of _ loaded] exI[of _ made] exI[of _ rest] exI[of _ cs])
      (simp add: demo_world_def)
qed

end
