(* ===== verification/Json.thy ===== *)
theory Json
  imports Prelude
begin

text \<open>
  \<open>serde_json::Value\<close> as the Rust client uses it.  \<open>'n\<close> is the type of JSON numbers.  An object is the
  list of its entries; its keys are distinct, so the first entry of a key is the only one.
\<close>

datatype 'n json =
    JNull
  | JBool bool
  | JNumber 'n
  | JString string
  | JArray "'n json list"
  | JObject "(string \<times> 'n json) list"

text \<open>\<open>Value::get\<close> with a string, \<open>as_str\<close>, \<open>as_bool\<close>.\<close>

fun json_get :: "'n json \<Rightarrow> string \<Rightarrow> 'n json option" where
  "json_get (JObject entries) key = map_of entries key"
| "json_get _ key = None"

fun json_as_str :: "'n json \<Rightarrow> string option" where
  "json_as_str (JString s) = Some s"
| "json_as_str _ = None"

fun json_as_bool :: "'n json \<Rightarrow> bool option" where
  "json_as_bool (JBool b) = Some b"
| "json_as_bool _ = None"

lemma json_as_bool_Some [simp]: "json_as_bool v = Some b \<longleftrightarrow> v = JBool b"
  by (cases v) auto

text \<open>An optional string inside \<open>json!\<close>.\<close>

definition json_opt_str :: "string option \<Rightarrow> 'n json" where
  "json_opt_str s = (case s of Some t \<Rightarrow> JString t | None \<Rightarrow> JNull)"

definition get_str :: "'n json \<Rightarrow> string \<Rightarrow> string option" where
  "get_str v key = Option.bind (json_get v key) json_as_str"

end
