(* ===== verification/Phoenix.thy ===== *)
theory Phoenix
  imports Json Effects Rust_Str
begin

text \<open>
  The Rust client's Phoenix channel (\<open>client/rust/src/phoenix.rs\<close>, \<open>error.rs\<close>, the trait of
  \<open>transport.rs\<close>).  A client's operations act on its fields (\<open>phoenix\<close>) and on the outside world
  \<open>'w\<close>, which holds the transport and the clock.  \<open>'x\<close> stands for the foreign error types, \<open>'n\<close>
  for JSON numbers.  Times are nanoseconds.
\<close>

section \<open>Errors\<close>

datatype ('x, 'n) client_error =
    Url_Error 'x
  | WebSocket_Error 'x
  | Transport_Error 'x
  | Json_Parse 'x
  | Protocol string
  | Rejected string "'n json"
  | Closed
  | Timeout string

text \<open>\<open>Display for Error\<close>; \<open>show_x\<close> and \<open>show_json\<close> print the foreign errors and JSON.\<close>

fun display_client_error :: "('x \<Rightarrow> string) \<Rightarrow> ('n json \<Rightarrow> string) \<Rightarrow> ('x, 'n) client_error \<Rightarrow> string" where
  "display_client_error show_x show_json (Url_Error x) = ''invalid Burble endpoint: '' @ show_x x"
| "display_client_error show_x show_json (WebSocket_Error x) = ''WebSocket error: '' @ show_x x"
| "display_client_error show_x show_json (Transport_Error x) = ''transport error: '' @ show_x x"
| "display_client_error show_x show_json (Json_Parse x) = ''invalid JSON: '' @ show_x x"
| "display_client_error show_x show_json (Protocol message) = ''Phoenix protocol error: '' @ message"
| "display_client_error show_x show_json (Rejected status response) =
     ''Burble rejected the request ('' @ status @ ''): '' @ show_json response"
| "display_client_error show_x show_json Closed = ''Burble connection closed''"
| "display_client_error show_x show_json (Timeout operation) = ''timed out waiting for '' @ operation"

text \<open>\<open>Error::source\<close>: the foreign error, if there is one.\<close>

fun error_source :: "('x, 'n) client_error \<Rightarrow> 'x option" where
  "error_source (Url_Error x) = Some x"
| "error_source (WebSocket_Error x) = Some x"
| "error_source (Transport_Error x) = Some x"
| "error_source (Json_Parse x) = Some x"
| "error_source _ = None"

section \<open>State\<close>

definition ns :: "nat \<Rightarrow> nat" where
  "ns s = s * 1000000000"

definition reply_timeout :: nat where
  "reply_timeout = ns 10"

definition heartbeat_after :: nat where
  "heartbeat_after = ns 15"

record 'n broadcast =
  bc_event :: string
  bc_payload :: "'n json"

record 'n phoenix =
  ph_topic :: "string option"
  ph_join_ref :: "string option"
  ph_next_ref :: nat
  ph_pending :: "'n broadcast list"
  ph_heartbeat_ref :: "string option"
  ph_last_send :: nat

text \<open>
  The trait \<open>TextTransport\<close>, the clock and serde_json.  Every read of the client is under
  \<open>tokio::time::timeout\<close>: \<open>tp_recv d\<close> is \<open>timeout(d, recv_text())\<close>, with \<open>None\<close> for an elapsed
  timeout, in which nothing was received.
\<close>

record ('w, 'x, 'n) client_env =
  tp_send :: "string \<Rightarrow> ('w, ('x, 'n) client_error, unit) effect"
  tp_recv :: "nat \<Rightarrow> 'w \<Rightarrow> (('x, 'n) client_error + string option) option \<times> 'w"
  tp_close :: "('w, ('x, 'n) client_error, unit) effect"
  clock_now :: "'w \<Rightarrow> nat"
  json_to_string :: "'n json \<Rightarrow> 'x + string"
  json_from_str :: "string \<Rightarrow> 'x + 'n json"
  json_display :: "'n json \<Rightarrow> string"

definition phoenix_new :: "('w, 'x, 'n) client_env \<Rightarrow> 'w \<Rightarrow> 'n phoenix" where
  "phoenix_new env w =
     \<lparr>ph_topic = None, ph_join_ref = None, ph_next_ref = 0, ph_pending = [], ph_heartbeat_ref = None,
      ph_last_send = clock_now env w\<rparr>"

section \<open>Frames\<close>

text \<open>\<open>next_ref\<close> is a \<open>u64\<close>; its increment wraps.\<close>

definition take_ref :: "'n phoenix \<Rightarrow> string \<times> 'n phoenix" where
  "take_ref s = (let r = (ph_next_ref s + 1) mod 2 ^ 64 in (show_nat r, s\<lparr>ph_next_ref := r\<rparr>))"

definition send_frame ::
    "('w, 'x, 'n) client_env \<Rightarrow> string option \<Rightarrow> string \<Rightarrow> string \<Rightarrow> string \<Rightarrow> 'n json
     \<Rightarrow> ('n phoenix \<times> 'w, ('x, 'n) client_error, unit) effect" where
  "send_frame env join_ref msg_ref topic event payload sw =
     (case sw of (s, w) \<Rightarrow>
      case json_to_string env
          (JArray [json_opt_str join_ref, JString msg_ref, JString topic, JString event, payload]) of
        Err e \<Rightarrow> (Err (Json_Parse e), s, w)
      | Ok frame \<Rightarrow>
          (case tp_send env frame w of
             (Err e, w1) \<Rightarrow> (Err e, s, w1)
           | (Ok _, w1) \<Rightarrow> (Ok (), s\<lparr>ph_last_send := clock_now env w1\<rparr>, w1)))"

type_synonym 'n frame = "string option \<times> string \<times> string \<times> 'n json"

definition take_string :: "'n json \<Rightarrow> string \<Rightarrow> ('x, 'n) client_error + string" where
  "take_string v name =
     (case json_as_str v of Some t \<Rightarrow> Ok t | None \<Rightarrow> Err (Protocol (''frame '' @ name @ '' is not a string'')))"

text \<open>\<open>read_frame\<close> on what \<open>recv_text\<close> returned.\<close>

definition parse_frame :: "('w, 'x, 'n) client_env \<Rightarrow> string \<Rightarrow> ('x, 'n) client_error + 'n frame" where
  "parse_frame env text =
     bind_res (map_err Json_Parse (json_from_str env text)) (\<lambda>val.
       case val of
         JArray parts \<Rightarrow>
           (case parts of
              [p_join, p_ref, p_topic, p_event, payload] \<Rightarrow>
                bind_res (take_string p_event ''event'') (\<lambda>event.
                bind_res (take_string p_topic ''topic'') (\<lambda>topic.
                  Ok (json_as_str p_ref, topic, event, payload)))
            | _ \<Rightarrow> Err (Protocol (''frame has '' @ show_nat (length parts) @ '' elements, expected 5'')))
       | _ \<Rightarrow> Err (Protocol (''frame is not an array: '' @ text)))"

definition read_frame ::
    "('w, 'x, 'n) client_env \<Rightarrow> ('x, 'n) client_error + string option \<Rightarrow> ('x, 'n) client_error + 'n frame" where
  "read_frame env received =
     bind_res received (\<lambda>opt. case opt of None \<Rightarrow> Err Closed | Some text \<Rightarrow> parse_frame env text)"

datatype ('x, 'n) classified =
    Reply string "('x, 'n) client_error + 'n json"
  | Broadcast "'n broadcast"
  | Consumed

text \<open>The answer in the payload of a reply.\<close>

definition reply_result :: "'n json \<Rightarrow> ('x, 'n) client_error + 'n json" where
  "reply_result payload =
     (let status = (case get_str payload ''status'' of Some t \<Rightarrow> t | None \<Rightarrow> []);
          response = (case json_get payload ''response'' of Some v \<Rightarrow> v | None \<Rightarrow> JNull) in
      if status = ''ok'' then Ok response else Err (Rejected status response))"

definition classify ::
    "('w, 'x, 'n) client_env \<Rightarrow> 'n frame \<Rightarrow> 'n phoenix
     \<Rightarrow> (('x, 'n) client_error + ('x, 'n) classified) \<times> 'n phoenix" where
  "classify env frame s =
     (case frame of (msg_ref, topic, event, payload) \<Rightarrow>
      if event = ''phx_reply'' then
        (if msg_ref \<noteq> None \<and> ph_heartbeat_ref s = msg_ref then (Ok Consumed, s\<lparr>ph_heartbeat_ref := None\<rparr>)
         else
           (case msg_ref of
              None \<Rightarrow> (Err (Protocol ''phx_reply has no ref''), s)
            | Some r \<Rightarrow> (Ok (Reply r (reply_result payload)), s)))
      else if event = ''phx_error'' then (Err (Protocol (''channel errored: '' @ json_display env payload)), s)
      else if event = ''phx_close'' then (Err Closed, s)
      else if ph_topic s \<noteq> None \<and> ph_topic s \<noteq> Some topic then (Ok Consumed, s)
      else (Ok (Broadcast \<lparr>bc_event = event, bc_payload = payload\<rparr>), s))"

section \<open>Waiting for a reply\<close>

partial_function (option) await_loop ::
    "('w, 'x, 'n) client_env \<Rightarrow> string \<Rightarrow> nat \<Rightarrow> 'n phoenix \<Rightarrow> 'w
     \<Rightarrow> ((('x, 'n) client_error + 'n json) \<times> 'n phoenix \<times> 'w) option" where
  [code]: "await_loop env wanted deadline s w =
     (let remaining = deadline - clock_now env w in
      if remaining = 0 then Some (Err (Timeout ''Phoenix reply''), s, w)
      else
        (case tp_recv env remaining w of
           (None, w1) \<Rightarrow> Some (Err (Timeout ''Phoenix reply''), s, w1)
         | (Some received, w1) \<Rightarrow>
             (case read_frame env received of
                Err e \<Rightarrow> Some (Err e, s, w1)
              | Ok frame \<Rightarrow>
                  (case classify env frame s of
                     (Err e, s1) \<Rightarrow> Some (Err e, s1, w1)
                   | (Ok c, s1) \<Rightarrow>
                       (case c of
                          Reply r response \<Rightarrow>
                            if r = wanted then Some (response, s1, w1)
                            else await_loop env wanted deadline s1 w1
                        | Broadcast message \<Rightarrow>
                            await_loop env wanted deadline (s1\<lparr>ph_pending := ph_pending s1 @ [message]\<rparr>) w1
                        | Consumed \<Rightarrow> await_loop env wanted deadline s1 w1)))))"

definition await_reply ::
    "('w, 'x, 'n) client_env \<Rightarrow> string \<Rightarrow> 'n phoenix \<times> 'w
     \<Rightarrow> ((('x, 'n) client_error + 'n json) \<times> 'n phoenix \<times> 'w) option" where
  "await_reply env wanted sw =
     (case sw of (s, w) \<Rightarrow> await_loop env wanted (clock_now env w + reply_timeout) s w)"

section \<open>The channel operations\<close>

definition phoenix_join ::
    "('w, 'x, 'n) client_env \<Rightarrow> string \<Rightarrow> 'n json \<Rightarrow> 'n phoenix \<times> 'w
     \<Rightarrow> ((('x, 'n) client_error + 'n json) \<times> 'n phoenix \<times> 'w) option" where
  "phoenix_join env topic params sw =
     (case sw of (s, w) \<Rightarrow>
      if ph_topic s \<noteq> None then Some (Err (Protocol ''client has already joined a topic''), s, w)
      else
        (case take_ref s of (msg_ref, s1) \<Rightarrow>
         case send_frame env (Some msg_ref) msg_ref topic ''phx_join'' params (s1, w) of
           (Err e, s2, w2) \<Rightarrow> Some (Err e, s2, w2)
         | (Ok _, s2, w2) \<Rightarrow>
             (case await_reply env msg_ref (s2, w2) of
                None \<Rightarrow> None
              | Some (Err e, s3, w3) \<Rightarrow> Some (Err e, s3, w3)
              | Some (Ok response, s3, w3) \<Rightarrow>
                  Some (Ok response, s3\<lparr>ph_topic := Some topic, ph_join_ref := Some msg_ref\<rparr>, w3))))"

definition phoenix_push ::
    "('w, 'x, 'n) client_env \<Rightarrow> string \<Rightarrow> 'n json \<Rightarrow> 'n phoenix \<times> 'w
     \<Rightarrow> ((('x, 'n) client_error + 'n json) \<times> 'n phoenix \<times> 'w) option" where
  "phoenix_push env event payload sw =
     (case sw of (s, w) \<Rightarrow>
      case ph_topic s of
        None \<Rightarrow> Some (Err (Protocol ''push before join''), s, w)
      | Some topic \<Rightarrow>
          (case take_ref s of (msg_ref, s1) \<Rightarrow>
           case send_frame env (ph_join_ref s) msg_ref topic event payload (s1, w) of
             (Err e, s2, w2) \<Rightarrow> Some (Err e, s2, w2)
           | (Ok _, s2, w2) \<Rightarrow> await_reply env msg_ref (s2, w2)))"

text \<open>Send a heartbeat when none is outstanding and nothing was sent for \<open>HEARTBEAT_AFTER\<close>.\<close>

definition heartbeat ::
    "('w, 'x, 'n) client_env \<Rightarrow> ('n phoenix \<times> 'w, ('x, 'n) client_error, unit) effect" where
  "heartbeat env sw =
     (case sw of (s, w) \<Rightarrow>
      if ph_heartbeat_ref s = None \<and> heartbeat_after \<le> clock_now env w - ph_last_send s then
        (case take_ref s of (msg_ref, s1) \<Rightarrow>
         case send_frame env None msg_ref ''phoenix'' ''heartbeat'' (JObject []) (s1, w) of
           (Err e, s2, w2) \<Rightarrow> (Err e, s2, w2)
         | (Ok _, s2, w2) \<Rightarrow> (Ok (), s2\<lparr>ph_heartbeat_ref := Some msg_ref\<rparr>, w2))
      else (Ok (), s, w))"

definition wait_slice :: "nat \<Rightarrow> nat \<Rightarrow> nat" where
  "wait_slice remaining elapsed = min remaining (max (heartbeat_after - elapsed) 50000000)"

partial_function (option) next_loop ::
    "('w, 'x, 'n) client_env \<Rightarrow> nat \<Rightarrow> 'n phoenix \<Rightarrow> 'w
     \<Rightarrow> ((('x, 'n) client_error + 'n broadcast option) \<times> 'n phoenix \<times> 'w) option" where
  [code]: "next_loop env deadline s w =
     (case heartbeat env (s, w) of
        (Err e, s1, w1) \<Rightarrow> Some (Err e, s1, w1)
      | (Ok u, s1, w1) \<Rightarrow>
          (let remaining = deadline - clock_now env w1 in
           if remaining = 0 then Some (Ok None, s1, w1)
           else
             (case tp_recv env (wait_slice remaining (clock_now env w1 - ph_last_send s1)) w1 of
                (None, w2) \<Rightarrow> next_loop env deadline s1 w2
              | (Some received, w2) \<Rightarrow>
                  (case read_frame env received of
                     Err e \<Rightarrow> Some (Err e, s1, w2)
                   | Ok frame \<Rightarrow>
                       (case classify env frame s1 of
                          (Err e, s2) \<Rightarrow> Some (Err e, s2, w2)
                        | (Ok c, s2) \<Rightarrow>
                            (case c of
                               Broadcast message \<Rightarrow> Some (Ok (Some message), s2, w2)
                             | Reply r response \<Rightarrow> next_loop env deadline s2 w2
                             | Consumed \<Rightarrow> next_loop env deadline s2 w2))))))"

definition next_broadcast ::
    "('w, 'x, 'n) client_env \<Rightarrow> nat \<Rightarrow> 'n phoenix \<times> 'w
     \<Rightarrow> ((('x, 'n) client_error + 'n broadcast option) \<times> 'n phoenix \<times> 'w) option" where
  "next_broadcast env wait sw =
     (case sw of (s, w) \<Rightarrow>
      case ph_pending s of
        message # rest \<Rightarrow> Some (Ok (Some message), s\<lparr>ph_pending := rest\<rparr>, w)
      | [] \<Rightarrow> next_loop env (clock_now env w + wait) s w)"

text \<open>Best effort: errors of the frame and of closing are dropped.\<close>

definition phoenix_leave :: "('w, 'x, 'n) client_env \<Rightarrow> 'n phoenix \<times> 'w \<Rightarrow> 'n phoenix \<times> 'w" where
  "phoenix_leave env sw =
     (case sw of (s, w) \<Rightarrow>
      let sw1 = (case (ph_topic s, ph_join_ref s) of
            (Some topic, Some join_ref) \<Rightarrow>
              (case take_ref s of (msg_ref, s1) \<Rightarrow>
                snd (send_frame env (Some join_ref) msg_ref topic ''phx_leave'' (JObject []) (s1, w)))
          | _ \<Rightarrow> (s, w)) in
      (fst sw1, snd (tp_close env (snd sw1))))"

end
