(* ===== verification/Transport.thy ===== *)
theory Transport
  imports Phoenix
begin

text \<open>
  The client's WebSocket transport (\<open>client/rust/src/transport.rs\<close>).  The socket is a state: the
  clock, the messages that will arrive with their times of arrival, and the texts sent.  Once the
  listed messages are used up the connection is silent; \<open>Ws_End\<close> is the end of the stream.
\<close>

datatype 'x ws_item = Ws_Text string | Ws_Close | Ws_Other | Ws_End | Ws_Error 'x

record 'x ws_socket =
  ws_now :: nat
  ws_incoming :: "(nat \<times> 'x ws_item) list"
  ws_sent :: "string list"
  ws_failing :: "'x option"

text \<open>\<open>recv_text\<close> until the time \<open>limit\<close>: \<open>None\<close> when it is still waiting then.\<close>

fun recv_text ::
    "nat \<Rightarrow> nat \<Rightarrow> (nat \<times> 'x ws_item) list
     \<Rightarrow> (('x, 'n) client_error + string option) option \<times> nat \<times> (nat \<times> 'x ws_item) list" where
  "recv_text limit now [] = (None, limit, [])"
| "recv_text limit now ((t, item) # rest) =
     (if limit < t then (None, limit, (t, item) # rest)
      else
        (case item of
           Ws_Text text \<Rightarrow> (Some (Ok (Some text)), max now t, rest)
         | Ws_Close \<Rightarrow> (Some (Ok None), max now t, rest)
         | Ws_End \<Rightarrow> (Some (Ok None), max now t, (t, item) # rest)
         | Ws_Other \<Rightarrow> recv_text limit (max now t) rest
         | Ws_Error e \<Rightarrow> (Some (Err (WebSocket_Error e)), max now t, rest)))"

definition ws_recv ::
    "nat \<Rightarrow> 'x ws_socket \<Rightarrow> (('x, 'n) client_error + string option) option \<times> 'x ws_socket" where
  "ws_recv d w =
     (case recv_text (ws_now w + d) (ws_now w) (ws_incoming w) of
        (r, now, incoming) \<Rightarrow> (r, w\<lparr>ws_now := now, ws_incoming := incoming\<rparr>))"

definition send_text :: "string \<Rightarrow> ('x ws_socket, ('x, 'n) client_error, unit) effect" where
  "send_text text w =
     (case ws_failing w of
        Some e \<Rightarrow> (Err (WebSocket_Error e), w)
      | None \<Rightarrow> (Ok (), w\<lparr>ws_sent := ws_sent w @ [text]\<rparr>))"

definition ws_close :: "('x ws_socket, ('x, 'n) client_error, unit) effect" where
  "ws_close w = (case ws_failing w of Some e \<Rightarrow> (Err (WebSocket_Error e), w) | None \<Rightarrow> (Ok (), w))"

definition websocket_env ::
    "('n json \<Rightarrow> 'x + string) \<Rightarrow> (string \<Rightarrow> 'x + 'n json) \<Rightarrow> ('n json \<Rightarrow> string)
     \<Rightarrow> ('x ws_socket, 'x, 'n) client_env" where
  "websocket_env to_string from_str display =
     \<lparr>tp_send = send_text, tp_recv = ws_recv, tp_close = ws_close, clock_now = ws_now,
      json_to_string = to_string, json_from_str = from_str, json_display = display\<rparr>"

text \<open>The texts that will be received.\<close>

definition texts_of :: "(nat \<times> 'x ws_item) list \<Rightarrow> string list" where
  "texts_of items = concat (map (\<lambda>(t, item). case item of Ws_Text text \<Rightarrow> [text] | _ \<Rightarrow> []) items)"

lemma texts_of_simps [simp]:
  "texts_of [] = []"
  "texts_of ((t, item) # rest) = (case item of Ws_Text text \<Rightarrow> [text] | _ \<Rightarrow> []) @ texts_of rest"
  by (simp_all add: texts_of_def)

lemma recv_text_texts:
  "recv_text limit now items = (r, now', items') \<Longrightarrow>
     texts_of items = (case r of Some (Ok (Some text)) \<Rightarrow> [text] | _ \<Rightarrow> []) @ texts_of items'"
  by (induction limit now items rule: recv_text.induct) (auto split: if_splits ws_item.splits)

lemma recv_text_time:
  "recv_text limit now items = (r, now', items') \<Longrightarrow> now \<le> limit \<Longrightarrow>
     now \<le> now' \<and> now' \<le> limit \<and> (r = None \<longrightarrow> now' = limit)"
proof (induction limit now items rule: recv_text.induct)
  case (2 limit now t item rest)
  then show ?case by (cases item) (auto split: if_splits)
qed auto

lemma recv_text_error:
  "recv_text limit now items = (Some (Err e), now', items') \<Longrightarrow> \<exists>x. e = WebSocket_Error x"
  by (induction limit now items rule: recv_text.induct) (auto split: if_splits ws_item.splits)

text \<open>A receive on the socket, taken apart.\<close>

lemma ws_recv_cases:
  assumes "tp_recv (websocket_env to_string from_str display) d w = (r, w')"
  obtains "recv_text (ws_now w + d) (ws_now w) (ws_incoming w) = (r, ws_now w', ws_incoming w')"
  using assms by (auto simp: websocket_env_def ws_recv_def split: prod.splits)

end
