(* ===== verification/Client_Facts.thy ===== *)
theory Client_Facts
  imports Transport
begin

text \<open>
  What the channel operations do with the frames of a transport: they terminate, and they neither
  lose, duplicate nor reorder broadcasts.
\<close>

section \<open>The broadcast in a frame\<close>

text \<open>
  What a client that has joined \<open>topic\<close> is to deliver for a received tx, if anything.
\<close>

definition broadcast_of :: "('w, 'x, 'n) client_env \<Rightarrow> string option \<Rightarrow> string \<Rightarrow> 'n broadcast list" where
  "broadcast_of env topic tx =
     (case parse_frame env tx of
        Err _ \<Rightarrow> []
      | Ok (r, t, event, payload) \<Rightarrow>
          if event \<in> {''phx_reply'', ''phx_error'', ''phx_close''} \<or> (topic \<noteq> None \<and> topic \<noteq> Some t) then []
          else [\<lparr>bc_event = event, bc_payload = payload\<rparr>])"

definition broadcasts :: "('w, 'x, 'n) client_env \<Rightarrow> string option \<Rightarrow> string list \<Rightarrow> 'n broadcast list" where
  "broadcasts env topic texts = concat (map (broadcast_of env topic) texts)"

lemma broadcasts_simps [simp]:
  "broadcasts env topic [] = []"
  "broadcasts env topic (t # ts) = broadcast_of env topic t @ broadcasts env topic ts"
  "broadcasts env topic (xs @ ys) = broadcasts env topic xs @ broadcasts env topic ys"
  by (simp_all add: broadcasts_def)

text \<open>A received tx is the reply to \<open>wanted\<close>.\<close>

definition is_reply :: "('w, 'x, 'n) client_env \<Rightarrow> string \<Rightarrow> ('x, 'n) client_error + 'n json \<Rightarrow> string \<Rightarrow> bool" where
  "is_reply env wanted answer tx \<longleftrightarrow>
     (\<exists>topic payload. parse_frame env tx = Ok (Some wanted, topic, ''phx_reply'', payload) \<and>
        answer = reply_result payload)"

text \<open>The server answered the request: it accepted or rejected it.\<close>

definition refusal :: "('x, 'n) client_error \<Rightarrow> bool" where
  "refusal e = (case e of Rejected _ _ \<Rightarrow> True | _ \<Rightarrow> False)"

definition answered :: "('x, 'n) client_error + 'a \<Rightarrow> bool" where
  "answered r = (case r of Ok _ \<Rightarrow> True | Err e \<Rightarrow> refusal e)"

lemma answered_simps [simp]:
  "answered (Ok a)" "answered (Err e) \<longleftrightarrow> refusal e"
  by (simp_all add: answered_def)

lemma refusal_simps [simp]:
  "refusal (Rejected st v)" "\<not> refusal Closed" "\<not> refusal (Protocol m)" "\<not> refusal (Json_Parse x)"
  "\<not> refusal (Timeout m)" "\<not> refusal (WebSocket_Error x)"
  by (simp_all add: refusal_def)

text \<open>The fields that reading frames leaves alone.\<close>

definition same_channel :: "'n phoenix \<Rightarrow> 'n phoenix \<Rightarrow> bool" where
  "same_channel s s' \<longleftrightarrow> ph_topic s' = ph_topic s \<and> ph_join_ref s' = ph_join_ref s"

lemma same_channel_simps [simp]: "same_channel s s"
  by (simp add: same_channel_def)

lemma same_channel_trans [trans]: "same_channel s t \<Longrightarrow> same_channel t u \<Longrightarrow> same_channel s u"
  by (simp add: same_channel_def)

lemma classify_facts:
  assumes "classify env frame s = (r, s')"
  shows "same_channel s s' \<and> ph_pending s' = ph_pending s \<and> ph_next_ref s' = ph_next_ref s \<and>
    ph_last_send s' = ph_last_send s"
  using assms by (auto simp: classify_def same_channel_def Let_def split: prod.splits if_splits option.splits)

lemma classify_broadcast:
  assumes "classify env frame s = (r, s')" "parse_frame env tx = Ok frame"
  shows "broadcast_of env (ph_topic s) tx = (case r of Ok (Broadcast b) \<Rightarrow> [b] | _ \<Rightarrow> [])"
  using assms by (auto simp: classify_def broadcast_of_def Let_def split: prod.splits if_splits option.splits)

lemma classify_reply:
  assumes "classify env frame s = (Ok (Reply wanted answer), s')" "parse_frame env tx = Ok frame"
  shows "is_reply env wanted answer tx"
  using assms by (auto simp: classify_def is_reply_def Let_def split: prod.splits if_splits option.splits)

lemma read_frame_cases:
  "read_frame env received = Ok frame \<longleftrightarrow> (\<exists>tx. received = Ok (Some tx) \<and> parse_frame env tx = Ok frame)"
  by (auto simp: read_frame_def res_simps split: option.splits)

lemma read_frame_Err:
  "read_frame env received = Err e \<Longrightarrow> received = Ok (Some tx) \<Longrightarrow> broadcast_of env topic tx = []"
  by (auto simp: read_frame_def broadcast_of_def)

lemma parse_frame_not_refusal: "parse_frame env tx = Err e \<Longrightarrow> \<not> refusal e"
  by (cases "json_from_str env tx")
    (auto simp: parse_frame_def take_string_def split: json.split_asm list.split_asm option.split_asm)

lemma classify_not_refusal: "classify env frame s = (Err e, s') \<Longrightarrow> \<not> refusal e"
  by (auto simp: classify_def split: prod.splits if_splits option.splits)

lemma send_frame_facts:
  assumes "send_frame env j r t ev p (s, w) = (res, s', w')"
  shows "same_channel s s' \<and> ph_pending s' = ph_pending s \<and> ph_next_ref s' = ph_next_ref s \<and>
    ph_heartbeat_ref s' = ph_heartbeat_ref s \<and> (w' = w \<or> (\<exists>tx. w' = snd (tp_send env tx w)))"
  using assms
  by (auto simp: send_frame_def same_channel_def split: sum.splits prod.splits) (metis snd_conv)+

lemma take_ref_facts:
  "take_ref s = (r, s') \<Longrightarrow> same_channel s s' \<and> ph_pending s' = ph_pending s"
  by (auto simp: take_ref_def same_channel_def Let_def)

lemma wait_slice_pos: "0 < remaining \<Longrightarrow> 0 < wait_slice remaining elapsed"
  by (simp add: wait_slice_def)

section \<open>Sources of frames\<close>

text \<open>
  The interface to a transport: \<open>frames\<close> are the texts it will deliver, each receive takes at most
  the next one and no longer than its timeout, and time goes forward, by the whole timeout when it
  elapses.  \<open>sent\<close> are the texts sent so far.
\<close>

locale frame_source =
  fixes env :: "('w, 'x, 'n) client_env" and frames :: "'w \<Rightarrow> string list" and sent :: "'w \<Rightarrow> string list"
  assumes recv_frames: "tp_recv env d w = (r, w') \<Longrightarrow>
      frames w = (case r of Some (Ok (Some tx)) \<Rightarrow> [tx] | _ \<Rightarrow> []) @ frames w'"
    and recv_time: "clock_now env w \<le> clock_now env (snd (tp_recv env d w))"
    and recv_limit: "clock_now env (snd (tp_recv env d w)) \<le> clock_now env w + d"
    and recv_sent: "sent (snd (tp_recv env d w)) = sent w"
    and send_sent: "tp_send env tx w = (r0, w') \<Longrightarrow> sent w' = sent w @ (if is_ok r0 then [tx] else [])"
    and recv_elapsed: "tp_recv env d w = (None, w') \<Longrightarrow> clock_now env w + d \<le> clock_now env w'"
    and recv_not_refusal: "tp_recv env d w = (Some (Err e), w') \<Longrightarrow> \<not> refusal e"
    and send_frames: "frames (snd (tp_send env tx w)) = frames w"
    and send_time: "clock_now env w \<le> clock_now env (snd (tp_send env tx w))"
begin

lemma send_frame_frames:
  assumes "send_frame env j r t ev p (s, w) = (res, s', w')"
  shows "frames w' = frames w \<and> clock_now env w \<le> clock_now env w'"
  using send_frame_facts[OF assms] send_frames send_time by auto

text \<open>The frames a turn of the loops consumes.\<close>

lemma received_text:
  assumes "tp_recv env d w = (Some received, w1)" "read_frame env received = Ok frame"
  obtains tx where "frames w = tx # frames w1" "parse_frame env tx = Ok frame"
  using recv_frames[OF assms(1)] assms(2) by (auto simp: read_frame_cases)

lemma received_bad:
  assumes "tp_recv env d w = (Some received, w1)" "read_frame env received = Err e"
  obtains read where "frames w = read @ frames w1" "broadcasts env topic read = []" "\<not> refusal e"
proof (cases "\<exists>tx. received = Ok (Some tx)")
  case True
  then obtain tx where tx: "received = Ok (Some tx)" ..
  with assms(2) have "parse_frame env tx = Err e"
    by (simp add: read_frame_def)
  with tx recv_frames[OF assms(1)] that[of "[tx]"] parse_frame_not_refusal show thesis
    by (auto simp: broadcast_of_def)
next
  case False
  then have "frames w = frames w1"
    using recv_frames[OF assms(1)] by (auto split: sum.splits option.splits)
  moreover have "\<not> refusal e"
    using assms recv_not_refusal False
    by (auto simp: read_frame_def bind_res_def split: sum.splits option.splits)
  ultimately show thesis
    using that[of "[]"] by simp
qed

lemma await_loop_facts:
  "\<exists>r s' w' read. await_loop env wanted deadline s w = Some (r, s', w') \<and> frames w = read @ frames w' \<and>
     same_channel s s' \<and> ph_next_ref s' = ph_next_ref s \<and>
     ph_pending s' = ph_pending s @ broadcasts env (ph_topic s) read \<and>
     sent w' = sent w \<and> clock_now env w' \<le> max (clock_now env w) deadline \<and>
     (answered r \<longrightarrow> read \<noteq> [] \<and> is_reply env wanted r (last read))"
proof (induction "length (frames w)" arbitrary: s w rule: less_induct)
  case less
  let ?remaining = "deadline - clock_now env w"
  obtain got w1 where recv: "tp_recv env ?remaining w = (got, w1)"
    by fastforce
  have w1: "sent w1 = sent w" "clock_now env w1 \<le> max (clock_now env w) deadline"
    using recv_sent[of ?remaining w] recv_limit[of ?remaining w] recv by auto
  note unfold = await_loop.simps[of env wanted deadline s w] Let_def
  consider "?remaining = 0" | "?remaining \<noteq> 0" "got = None"
    | received e where "?remaining \<noteq> 0" "got = Some received" "read_frame env received = Err e"
    | received frame where "?remaining \<noteq> 0" "got = Some received" "read_frame env received = Ok frame"
    by (metis option.exhaust sum.exhaust_sel)
  then show ?case
  proof cases
    case 1
    then show ?thesis
      by (subst unfold(1)) (auto intro!: exI[of _ "[]"])
  next
    case 2
    then show ?thesis
      using recv w1 recv_frames[OF recv] by (subst unfold(1)) (auto simp: Let_def intro!: exI[of _ "[]"])
  next
    case 3
    with recv obtain read where "frames w = read @ frames w1" "broadcasts env (ph_topic s) read = []" "\<not> refusal e"
      using received_bad by metis
    with 3 recv w1 show ?thesis
      by (intro exI[of _ "Err e"] exI[of _ s] exI[of _ w1] exI[of _ read]) (simp add: unfold)
  next
    case 4
    with recv obtain tx where tx: "frames w = tx # frames w1" "parse_frame env tx = Ok frame"
      using received_text by metis
    obtain c s1 where c: "classify env frame s = (c, s1)"
      by fastforce
    note facts = classify_facts[OF c] classify_broadcast[OF c tx(2)]
    show ?thesis
    proof (cases "\<exists>e. c = Err e")
      case True
      with 4 recv w1 c tx facts classify_not_refusal[of env frame s] show ?thesis
        by (subst unfold(1)) (auto simp: Let_def intro!: exI[of _ "[tx]"])
    next
      case False
      then obtain d where d: "c = Ok d" by (cases c) auto
      have shorter: "length (frames w1) < length (frames w)"
        by (simp add: tx)
      show ?thesis
      proof (cases "\<exists>answer. d = Reply wanted answer")
        case True
        then obtain answer where "d = Reply wanted answer" ..
        with 4 recv w1 c d tx facts classify_reply[of env frame s wanted answer s1 tx] show ?thesis
          by (subst unfold(1)) (auto simp: Let_def intro!: exI[of _ "[tx]"])
      next
        case False
        define s2 where "s2 = s1\<lparr>ph_pending := ph_pending s1 @ (case d of Broadcast b \<Rightarrow> [b] | _ \<Rightarrow> [])\<rparr>"
        have step: "await_loop env wanted deadline s w = await_loop env wanted deadline s2 w1"
          using 4 recv c d False by (subst unfold(1)) (cases d; simp add: Let_def s2_def)
        have s2: "same_channel s s2" "ph_next_ref s2 = ph_next_ref s" "ph_topic s2 = ph_topic s"
          "ph_pending s2 = ph_pending s @ broadcast_of env (ph_topic s) tx"
          using facts by (auto simp: s2_def d same_channel_def split: classified.splits)
        from less[OF shorter, of s2] obtain r s' w' read where IH:
          "await_loop env wanted deadline s2 w1 = Some (r, s', w')" "frames w1 = read @ frames w'" "same_channel s2 s'"
          "ph_next_ref s' = ph_next_ref s2" "ph_pending s' = ph_pending s2 @ broadcasts env (ph_topic s2) read"
          "sent w' = sent w1" "clock_now env w' \<le> max (clock_now env w1) deadline"
          "answered r \<longrightarrow> read \<noteq> [] \<and> is_reply env wanted r (last read)"
          by blast
        with step s2 w1 tx show ?thesis
          by (intro exI[of _ r] exI[of _ s'] exI[of _ w'] exI[of _ "tx # read"]) (auto simp: same_channel_def)
      qed
    qed
  qed
qed

lemma heartbeat_facts:
  assumes "heartbeat env (s, w) = (r, s1, w1)"
  shows "same_channel s s1 \<and> ph_pending s1 = ph_pending s \<and> frames w1 = frames w \<and> clock_now env w \<le> clock_now env w1"
proof (cases "ph_heartbeat_ref s = None \<and> heartbeat_after \<le> clock_now env w - ph_last_send s")
  case True
  obtain m s0 where m: "take_ref s = (m, s0)" by fastforce
  obtain q s2 w2 where q: "send_frame env None m ''phoenix'' ''heartbeat'' (JObject []) (s0, w) = (q, s2, w2)"
    using prod_cases3 by blast
  from assms True m q have "same_channel s2 s1 \<and> ph_pending s1 = ph_pending s2 \<and> w1 = w2"
    by (auto simp: heartbeat_def same_channel_def split: sum.splits)
  with take_ref_facts[OF m] send_frame_facts[OF q] send_frame_frames[OF q] show ?thesis
    by (auto simp: same_channel_def)
next
  case False
  with assms show ?thesis
    by (auto simp: heartbeat_def split: if_splits)
qed

lemma next_loop_facts:
  "\<exists>r s' w' read. next_loop env deadline s w = Some (r, s', w') \<and> frames w = read @ frames w' \<and>
     same_channel s s' \<and> ph_pending s' = ph_pending s \<and>
     broadcasts env (ph_topic s) read = (case r of Ok (Some b) \<Rightarrow> [b] | _ \<Rightarrow> [])"
proof (induction "(s, w)" arbitrary: s w
    rule: wf_induct_rule[OF wf_measures[of "[\<lambda>(s, w). length (frames w), \<lambda>(s, w). deadline - clock_now env w]"]])
  case 1
  obtain h s1 w1 where h: "heartbeat env (s, w) = (h, s1, w1)"
    using prod_cases3 by blast
  note hf = heartbeat_facts[OF h]
  let ?remaining = "deadline - clock_now env w1"
  let ?slice = "wait_slice ?remaining (clock_now env w1 - ph_last_send s1)"
  obtain got w2 where recv: "tp_recv env ?slice w1 = (got, w2)"
    by fastforce
  note unfold = next_loop.simps[of env deadline s w]
  consider e where "h = Err e" | "h = Ok ()" "?remaining = 0" | "h = Ok ()" "?remaining \<noteq> 0" "got = None"
    | received e where "h = Ok ()" "?remaining \<noteq> 0" "got = Some received" "read_frame env received = Err e"
    | received frame where "h = Ok ()" "?remaining \<noteq> 0" "got = Some received" "read_frame env received = Ok frame"
    by (metis option.exhaust sum.exhaust_sel unit.exhaust)
  then show ?case
  proof cases
    case 1
    with h hf show ?thesis
      by (subst unfold) (auto intro!: exI[of _ "[]"])
  next
    case 2
    with h hf show ?thesis
      by (subst unfold) (auto simp: Let_def intro!: exI[of _ "[]"])
  next
    case 3
    have "frames w2 = frames w1" "clock_now env w1 + ?slice \<le> clock_now env w2"
      using recv_frames[OF recv] recv_elapsed[of ?slice w1 w2] recv 3(3) by auto
    then have "((s1, w2), (s, w)) \<in> measures [\<lambda>(s, w). length (frames w), \<lambda>(s, w). deadline - clock_now env w]"
      using hf 3(2) wait_slice_pos[of ?remaining "clock_now env w1 - ph_last_send s1"] by auto
    from "1.hyps"[OF this] obtain r s' w' read where "next_loop env deadline s1 w2 = Some (r, s', w')"
      "frames w2 = read @ frames w'" "same_channel s1 s'" "ph_pending s' = ph_pending s1"
      "broadcasts env (ph_topic s1) read = (case r of Ok (Some b) \<Rightarrow> [b] | _ \<Rightarrow> [])" by blast
    with h hf 3 recv \<open>frames w2 = frames w1\<close> show ?thesis
      by (intro exI[of _ r] exI[of _ s'] exI[of _ w'] exI[of _ read]) (simp add: unfold Let_def same_channel_def)
  next
    case 4
    with recv obtain read where "frames w1 = read @ frames w2" "broadcasts env (ph_topic s) read = []"
      using received_bad by metis
    with 4 h hf recv show ?thesis
      by (intro exI[of _ "Err e"] exI[of _ s1] exI[of _ w2] exI[of _ read]) (simp add: unfold Let_def)
  next
    case 5
    with recv obtain tx where tx: "frames w1 = tx # frames w2" "parse_frame env tx = Ok frame"
      using received_text by metis
    obtain c s2 where c: "classify env frame s1 = (c, s2)"
      by fastforce
    have same: "same_channel s s2" "ph_pending s2 = ph_pending s" and topic: "ph_topic s1 = ph_topic s"
      using classify_facts[OF c] hf by (auto simp: same_channel_def)
    have bc: "broadcast_of env (ph_topic s) tx = (case c of Ok (Broadcast b) \<Rightarrow> [b] | _ \<Rightarrow> [])"
      using classify_broadcast[OF c tx(2)] topic by simp
    show ?thesis
    proof (cases "\<exists>e. c = Err e \<or> (\<exists>b. c = Ok (Broadcast b))")
      case True
      with 5 h hf recv c tx bc same show ?thesis
        by (subst unfold) (auto simp: Let_def intro!: exI[of _ "[tx]"])
    next
      case False
      have "((s2, w2), (s, w)) \<in> measures [\<lambda>(s, w). length (frames w), \<lambda>(s, w). deadline - clock_now env w]"
        using hf tx by (metis (no_types, lifting) case_prod_conv in_measures(2) length_Cons lessI)
      from "1.hyps"[OF this] obtain r s' w' read where IH: "next_loop env deadline s2 w2 = Some (r, s', w')"
        "frames w2 = read @ frames w'" "same_channel s2 s'" "ph_pending s' = ph_pending s2"
        "broadcasts env (ph_topic s2) read = (case r of Ok (Some b) \<Rightarrow> [b] | _ \<Rightarrow> [])" by blast
      moreover have "next_loop env deadline s w = next_loop env deadline s2 w2"
        using 5 h recv c False by (subst unfold) (cases c; auto simp: Let_def split: classified.splits)
      moreover have "broadcast_of env (ph_topic s) tx = []"
        using bc False by (auto split: sum.splits classified.splits)
      ultimately show ?thesis
        using tx hf same
        by (intro exI[of _ r] exI[of _ s'] exI[of _ w'] exI[of _ "tx # read"]) (auto simp: same_channel_def)
    qed
  qed
qed

text \<open>The operations: each returns; what it reads of the frames; what it leaves pending.\<close>

lemma push_facts:
  "\<exists>r s' w' read. phoenix_push env event payload (s, w) = Some (r, s', w') \<and> frames w = read @ frames w' \<and>
     same_channel s s' \<and> ph_pending s' = ph_pending s @ broadcasts env (ph_topic s) read \<and>
     ((\<exists>resp. r = Ok resp) \<longrightarrow> read \<noteq> [] \<and> is_reply env (show_nat ((ph_next_ref s + 1) mod 2 ^ 64)) r (last read))"
proof (cases "ph_topic s")
  case None
  then show ?thesis
    by (auto simp: phoenix_push_def)
next
  case (Some topic)
  obtain m s1 where m: "take_ref s = (m, s1)" by fastforce
  obtain q s2 w2 where q: "send_frame env (ph_join_ref s) m topic event payload (s1, w) = (q, s2, w2)"
    using prod_cases3 by blast
  have s2: "same_channel s s2" "ph_pending s2 = ph_pending s" "frames w2 = frames w" "ph_topic s2 = ph_topic s"
    using take_ref_facts[OF m] send_frame_facts[OF q] send_frame_frames[OF q] by (auto simp: same_channel_def)
  have m': "m = show_nat ((ph_next_ref s + 1) mod 2 ^ 64)"
    using m by (simp add: take_ref_def Let_def)
  show ?thesis
  proof (cases q)
    case (Inl e)
    with Some m q s2 show ?thesis
      by (auto simp: phoenix_push_def)
  next
    case (Inr u)
    from await_loop_facts[of m "clock_now env w2 + reply_timeout" s2 w2] obtain r s' w' read where
      "await_loop env m (clock_now env w2 + reply_timeout) s2 w2 = Some (r, s', w')" "frames w2 = read @ frames w'"
      "same_channel s2 s'" "ph_pending s' = ph_pending s2 @ broadcasts env (ph_topic s2) read"
      "answered r \<longrightarrow> read \<noteq> [] \<and> is_reply env m r (last read)" by blast
    with Some m q s2 Inr m' show ?thesis
      by (intro exI[of _ r] exI[of _ s'] exI[of _ w'] exI[of _ read])
        (auto simp: phoenix_push_def await_reply_def same_channel_def)
  qed
qed

lemma join_facts:
  "\<exists>r s' w' read. phoenix_join env topic params (s, w) = Some (r, s', w') \<and> frames w = read @ frames w' \<and>
     ph_pending s' = ph_pending s @ broadcasts env (ph_topic s) read \<and>
     (case r of
        Ok _ \<Rightarrow> ph_topic s = None \<and> ph_topic s' = Some topic \<and>
          ph_join_ref s' = Some (show_nat ((ph_next_ref s + 1) mod 2 ^ 64)) \<and>
          read \<noteq> [] \<and> is_reply env (show_nat ((ph_next_ref s + 1) mod 2 ^ 64)) r (last read)
      | Err _ \<Rightarrow> same_channel s s')"
proof (cases "ph_topic s")
  case (Some t)
  then show ?thesis
    by (auto simp: phoenix_join_def)
next
  case None
  obtain m s1 where m: "take_ref s = (m, s1)" by fastforce
  obtain q s2 w2 where q: "send_frame env (Some m) m topic ''phx_join'' params (s1, w) = (q, s2, w2)"
    using prod_cases3 by blast
  have s2: "same_channel s s2" "ph_pending s2 = ph_pending s" "frames w2 = frames w" "ph_topic s2 = ph_topic s"
    using take_ref_facts[OF m] send_frame_facts[OF q] send_frame_frames[OF q] by (auto simp: same_channel_def)
  have m': "m = show_nat ((ph_next_ref s + 1) mod 2 ^ 64)"
    using m by (simp add: take_ref_def Let_def)
  show ?thesis
  proof (cases q)
    case (Inl e)
    with None m q s2 show ?thesis
      by (auto simp: phoenix_join_def)
  next
    case (Inr u)
    from await_loop_facts[of m "clock_now env w2 + reply_timeout" s2 w2] obtain r s' w' read where *:
      "await_loop env m (clock_now env w2 + reply_timeout) s2 w2 = Some (r, s', w')" "frames w2 = read @ frames w'"
      "same_channel s2 s'" "ph_pending s' = ph_pending s2 @ broadcasts env (ph_topic s2) read"
      "answered r \<longrightarrow> read \<noteq> [] \<and> is_reply env m r (last read)" by blast
    show ?thesis
    proof (cases r)
      case (Inl e)
      with * None m q s2 Inr show ?thesis
        by (intro exI[of _ r] exI[of _ s'] exI[of _ w'] exI[of _ read])
          (auto simp: phoenix_join_def await_reply_def same_channel_def)
    next
      case (Inr resp)
      with * None m q s2 \<open>q = Inr u\<close> m' show ?thesis
        by (intro exI[of _ r] exI[of _ "s'\<lparr>ph_topic := Some topic, ph_join_ref := Some m\<rparr>"] exI[of _ w'] exI[of _ read])
          (auto simp: phoenix_join_def await_reply_def same_channel_def)
    qed
  qed
qed

lemma next_facts:
  "\<exists>r s' w' read. next_broadcast env wait (s, w) = Some (r, s', w') \<and> frames w = read @ frames w' \<and>
     same_channel s s' \<and>
     (case r of Ok (Some b) \<Rightarrow> [b] | _ \<Rightarrow> []) @ ph_pending s' = ph_pending s @ broadcasts env (ph_topic s) read"
proof (cases "ph_pending s")
  case Nil
  then show ?thesis
    using next_loop_facts[of "clock_now env w + wait" s w]
    by (fastforce simp: next_broadcast_def)
next
  case (Cons b rest)
  then show ?thesis
    by (auto simp: next_broadcast_def same_channel_def)
qed

end

section \<open>Sessions\<close>

text \<open>A joined client's use of the channel: pushes and waits for broadcasts, in any order.\<close>

datatype 'n client_op = Op_Push string "'n json" | Op_Next nat

text \<open>Run them; collect the broadcasts delivered to the caller, who carries on after an error.\<close>

fun run_session ::
    "('w, 'x, 'n) client_env \<Rightarrow> 'n client_op list \<Rightarrow> 'n phoenix \<Rightarrow> 'w
     \<Rightarrow> ('n broadcast list \<times> 'n phoenix \<times> 'w) option" where
  "run_session env [] s w = Some ([], s, w)"
| "run_session env (Op_Push event payload # ops) s w =
     (case phoenix_push env event payload (s, w) of
        None \<Rightarrow> None
      | Some (r, s1, w1) \<Rightarrow> run_session env ops s1 w1)"
| "run_session env (Op_Next wait # ops) s w =
     (case next_broadcast env wait (s, w) of
        None \<Rightarrow> None
      | Some (r, s1, w1) \<Rightarrow>
          map_option (\<lambda>(delivered, sw). ((case r of Ok (Some b) \<Rightarrow> [b] | _ \<Rightarrow> []) @ delivered, sw))
            (run_session env ops s1 w1))"

context frame_source
begin

lemma session_facts:
  "\<exists>delivered s' w' read. run_session env ops s w = Some (delivered, s', w') \<and> frames w = read @ frames w' \<and>
     same_channel s s' \<and> delivered @ ph_pending s' = ph_pending s @ broadcasts env (ph_topic s) read"
proof (induction ops arbitrary: s w)
  case (Cons op ops)
  show ?case
  proof (cases op)
    case (Op_Push event payload)
    from push_facts[of event payload s w] obtain r s1 w1 read where push:
      "phoenix_push env event payload (s, w) = Some (r, s1, w1)" "frames w = read @ frames w1" "same_channel s s1"
      "ph_pending s1 = ph_pending s @ broadcasts env (ph_topic s) read" by blast
    from Cons[of s1 w1] obtain delivered s' w' read' where rest:
      "run_session env ops s1 w1 = Some (delivered, s', w')" "frames w1 = read' @ frames w'" "same_channel s1 s'"
      "delivered @ ph_pending s' = ph_pending s1 @ broadcasts env (ph_topic s1) read'" by blast
    from push rest Op_Push show ?thesis
      by (intro exI[of _ delivered] exI[of _ s'] exI[of _ w'] exI[of _ "read @ read'"]) (auto simp: same_channel_def)
  next
    case (Op_Next wait)
    from next_facts[of wait s w] obtain r s1 w1 read got where now:
      "next_broadcast env wait (s, w) = Some (r, s1, w1)" "frames w = read @ frames w1" "same_channel s s1"
      "got = (case r of Ok (Some b) \<Rightarrow> [b] | _ \<Rightarrow> [])"
      "got @ ph_pending s1 = ph_pending s @ broadcasts env (ph_topic s) read"
      by blast
    from Cons[of s1 w1] obtain delivered s' w' read' where rest:
      "run_session env ops s1 w1 = Some (delivered, s', w')" "frames w1 = read' @ frames w'" "same_channel s1 s'"
      "delivered @ ph_pending s' = ph_pending s1 @ broadcasts env (ph_topic s1) read'" by blast
    have "(got @ delivered) @ ph_pending s' = ph_pending s @ broadcasts env (ph_topic s) (read @ read')"
    proof -
      have "(got @ delivered) @ ph_pending s' = (got @ ph_pending s1) @ broadcasts env (ph_topic s1) read'"
        by (simp add: rest(4))
      then show ?thesis
        using now(3) by (simp add: now(5) same_channel_def)
    qed
    moreover have "run_session env (op # ops) s w = Some (got @ delivered, s', w')"
      using now(1,4) rest(1) Op_Next by simp
    moreover have "same_channel s s'"
      using now(3) rest(3) by (rule same_channel_trans)
    moreover have "frames w = (read @ read') @ frames w'"
      using now(2) rest(2) by simp
    ultimately show ?thesis by blast
  qed
qed simp

end

section \<open>The WebSocket transport is a source of frames\<close>

interpretation websocket: frame_source "websocket_env to_string from_str display" "\<lambda>w. texts_of (ws_incoming w)" ws_sent
  for to_string :: "'n json \<Rightarrow> 'x + string" and from_str and display
proof
  fix d and w w' :: "'x ws_socket" and r :: "(('x, 'n) client_error + string option) option"
  assume r: "tp_recv (websocket_env to_string from_str display) d w = (r, w')"
  then have got: "recv_text (ws_now w + d) (ws_now w) (ws_incoming w) = (r, ws_now w', ws_incoming w')"
    by (rule ws_recv_cases)
  from recv_text_texts[OF got]
  show "texts_of (ws_incoming w) = (case r of Some (Ok (Some tx)) \<Rightarrow> [tx] | _ \<Rightarrow> []) @ texts_of (ws_incoming w')" .
next
  fix d and w :: "'x ws_socket"
  show "clock_now (websocket_env to_string from_str display) w
      \<le> clock_now (websocket_env to_string from_str display) (snd (tp_recv (websocket_env to_string from_str display) d w))"
    using recv_text_time[of "ws_now w + d" "ws_now w" "ws_incoming w"]
    by (auto simp: websocket_env_def ws_recv_def split: prod.splits)
next
  fix d and w :: "'x ws_socket"
  show "clock_now (websocket_env to_string from_str display) (snd (tp_recv (websocket_env to_string from_str display) d w))
      \<le> clock_now (websocket_env to_string from_str display) w + d"
    using recv_text_time[of "ws_now w + d" "ws_now w" "ws_incoming w"]
    by (auto simp: websocket_env_def ws_recv_def split: prod.splits)
next
  fix d and w w' :: "'x ws_socket"
  assume "tp_recv (websocket_env to_string from_str display) d w = (None, w')"
  then have "recv_text (ws_now w + d) (ws_now w) (ws_incoming w) =
      (None :: (('x, 'n) client_error + string option) option, ws_now w', ws_incoming w')"
    by (rule ws_recv_cases)
  from recv_text_time[OF this] show "clock_now (websocket_env to_string from_str display) w + d
      \<le> clock_now (websocket_env to_string from_str display) w'"
    by (simp add: websocket_env_def)
next
  fix d e and w w' :: "'x ws_socket"
  assume "tp_recv (websocket_env to_string from_str display) d w = (Some (Err e), w')"
  then have "recv_text (ws_now w + d) (ws_now w) (ws_incoming w) = (Some (Err e), ws_now w', ws_incoming w')"
    by (rule ws_recv_cases)
  from recv_text_error[OF this] show "\<not> refusal e"
    by auto
qed (auto simp: websocket_env_def send_text_def ws_recv_def split: option.splits prod.splits)

end
