(* ===== verification/Keepalive.thy ===== *)
theory Keepalive
  imports Client_Facts
begin

text \<open>
  What waiting for a broadcast sends: heartbeats only, at least fifteen seconds of silence before
  each, and how long it waits.
\<close>

section \<open>Heartbeat frames\<close>

definition is_heartbeat :: "('w, 'x, 'n) client_env \<Rightarrow> string \<Rightarrow> bool" where
  "is_heartbeat env tx \<longleftrightarrow>
     (\<exists>n. json_to_string env
        (JArray [JNull, JString (show_nat n), JString ''phoenix'', JString ''heartbeat'', JObject []]) = Ok tx)"

text \<open>
  From one state to another the frames \<open>hb\<close> were sent, all of them heartbeats, each after a silence of
  \<open>HEARTBEAT_AFTER\<close>; the times are those of the clock and of the last frame sent.
\<close>

definition kept_alive :: "('w, 'x, 'n) client_env \<Rightarrow> string list \<Rightarrow> nat \<times> nat \<Rightarrow> nat \<times> nat \<Rightarrow> bool" where
  "kept_alive env hb before after \<longleftrightarrow>
     list_all (is_heartbeat env) hb \<and> fst before \<le> fst after \<and>
     length hb * heartbeat_after + snd before \<le> snd after \<and>
     (if hb = [] then snd after = snd before else snd after \<le> fst after)"

lemma kept_alive_idle: "now \<le> now' \<Longrightarrow> kept_alive env [] (now, sent_at) (now', sent_at)"
  by (simp add: kept_alive_def)

lemma kept_alive_trans:
  "kept_alive env hb a b \<Longrightarrow> kept_alive env hb' b c \<Longrightarrow> kept_alive env (hb @ hb') a c"
  by (auto simp: kept_alive_def algebra_simps split: if_splits)

section \<open>Transports that send at once\<close>

locale prompt_source = frame_source env frames sent
  for env :: "('w, 'x, 'n) client_env" and frames :: "'w \<Rightarrow> string list" and sent :: "'w \<Rightarrow> string list" +
  assumes send_instant: "clock_now env (snd (tp_send env tx w)) = clock_now env w"
begin

lemma heartbeat_kept:
  assumes "heartbeat env (s, w) = (r, s1, w1)"
  shows "\<exists>hb. sent w1 = sent w @ hb \<and> clock_now env w1 = clock_now env w \<and>
    kept_alive env hb (clock_now env w, ph_last_send s) (clock_now env w1, ph_last_send s1)"
proof (cases "ph_heartbeat_ref s = None \<and> heartbeat_after \<le> clock_now env w - ph_last_send s")
  case False
  with assms show ?thesis
    by (intro exI[of _ "[]"]) (auto simp: heartbeat_def kept_alive_idle split: if_splits)
next
  case due: True
  then have silence: "heartbeat_after + ph_last_send s \<le> clock_now env w"
    by (auto simp: heartbeat_after_def ns_def)
  let ?n = "(ph_next_ref s + 1) mod 2 ^ 64"
  let ?frame = "JArray [JNull, JString (show_nat ?n), JString ''phoenix'', JString ''heartbeat'', JObject []]"
  show ?thesis
  proof (cases "json_to_string env ?frame")
    case (Inl e)
    with assms due show ?thesis
      by (intro exI[of _ "[]"])
        (auto simp: heartbeat_def take_ref_def send_frame_def Let_def json_opt_str_def kept_alive_idle)
  next
    case (Inr tx)
    then have hb: "is_heartbeat env tx" unfolding is_heartbeat_def by blast
    obtain r0 w2 where send: "tp_send env tx w = (r0, w2)" by fastforce
    have w2: "sent w2 = sent w @ (if is_ok r0 then [tx] else [])" "clock_now env w2 = clock_now env w"
      using send_sent[OF send] send_instant[of tx w] send by simp_all
    show ?thesis
    proof (cases r0)
      case (Inl e)
      with assms due Inr send w2 show ?thesis
        by (intro exI[of _ "[]"])
          (auto simp: heartbeat_def take_ref_def send_frame_def Let_def json_opt_str_def kept_alive_idle)
    next
      case (Inr u)
      with assms due \<open>json_to_string env ?frame = Ok tx\<close> send w2 hb silence show ?thesis
        by (intro exI[of _ "[tx]"])
          (auto simp: heartbeat_def take_ref_def send_frame_def Let_def json_opt_str_def kept_alive_def)
    qed
  qed
qed

lemma next_loop_kept:
  assumes "next_loop e deadline s w = Some y" "e = env"
  shows "\<exists>hb. sent (snd (snd y)) = sent w @ hb \<and> clock_now env (snd (snd y)) \<le> max (clock_now env w) deadline \<and>
    kept_alive env hb (clock_now env w, ph_last_send s) (clock_now env (snd (snd y)), ph_last_send (fst (snd y)))"
  using assms
proof (induction e deadline s w y rule: next_loop.raw_induct [rotated, consumes 1, case_names turn])
  case (turn loop e deadline s w y)
  obtain h s1 w1 where h: "heartbeat env (s, w) = (h, s1, w1)"
    using prod_cases3 by blast
  let ?slice = "wait_slice (deadline - clock_now env w1) (clock_now env w1 - ph_last_send s1)"
  obtain got w2 where recv: "tp_recv env ?slice w1 = (got, w2)"
    by fastforce
  from heartbeat_kept[OF h] obtain hb where hb: "sent w1 = sent w @ hb" "clock_now env w1 = clock_now env w"
    "kept_alive env hb (clock_now env w, ph_last_send s) (clock_now env w1, ph_last_send s1)" by blast
  have w2: "sent w2 = sent w1" "clock_now env w1 \<le> clock_now env w2" "clock_now env w2 \<le> clock_now env w1 + ?slice"
    using recv_sent[of ?slice w1] recv_time[of w1 ?slice] recv_limit[of ?slice w1] recv by simp_all
  have slice: "clock_now env w2 \<le> max (clock_now env w) deadline"
    using w2(3) hb(2) by (auto simp: wait_slice_def)
  have kept: "kept_alive env hb (clock_now env w, ph_last_send s) (clock_now env w2, ph_last_send s1)"
    using kept_alive_trans[OF hb(3) kept_alive_idle[OF w2(2), of env]] by simp
  have outcome: "snd y = (s1, w1) \<or>
      (\<exists>s2. ph_last_send s2 = ph_last_send s1 \<and> (snd y = (s2, w2) \<or> loop env deadline s2 w2 = Some y))"
  proof (cases "h = Ok () \<and> deadline - clock_now env w1 \<noteq> 0")
    case True
    with turn.hyps turn.prems h recv show ?thesis
      by (cases got) (auto simp: Let_def dest: classify_facts
          split: sum.splits prod.splits classified.splits)
  next
    case False
    with turn.hyps turn.prems h show ?thesis
      by (cases h) (auto simp: Let_def)
  qed
  then consider "snd y = (s1, w1)" | s2 where "ph_last_send s2 = ph_last_send s1" "snd y = (s2, w2)"
    | s2 where "ph_last_send s2 = ph_last_send s1" "loop env deadline s2 w2 = Some y" by blast
  then show ?case
  proof cases
    case 1
    with hb show ?thesis by (intro exI[of _ hb]) simp
  next
    case 2
    with hb(1) w2(1) kept slice show ?thesis by (intro exI[of _ hb]) simp
  next
    case 3
    from turn.IH[of env deadline s2 w2 y] 3 obtain hb' where IH: "sent (snd (snd y)) = sent w2 @ hb'"
      "clock_now env (snd (snd y)) \<le> max (clock_now env w2) deadline"
      "kept_alive env hb' (clock_now env w2, ph_last_send s1) (clock_now env (snd (snd y)), ph_last_send (fst (snd y)))"
      by auto
    with hb(1) w2(1) slice kept_alive_trans[OF kept IH(3)] show ?thesis
      by (intro exI[of _ "hb @ hb'"]) simp
  qed
qed

lemma next_kept:
  assumes "next_broadcast env wait (s, w) = Some (r, s', w')"
  shows "\<exists>hb. sent w' = sent w @ hb \<and> clock_now env w' \<le> clock_now env w + wait \<and>
    kept_alive env hb (clock_now env w, ph_last_send s) (clock_now env w', ph_last_send s')"
proof (cases "ph_pending s")
  case Nil
  with assms next_loop_kept[of env "clock_now env w + wait" s w "(r, s', w')"] show ?thesis
    by (simp add: next_broadcast_def)
next
  case (Cons b rest)
  with assms show ?thesis
    by (intro exI[of _ "[]"]) (auto simp: next_broadcast_def kept_alive_idle)
qed

end

interpretation websocket_prompt: prompt_source "websocket_env to_string from_str display"
    "\<lambda>w. texts_of (ws_incoming w)" ws_sent
  for to_string :: "'n json \<Rightarrow> 'x + string" and from_str and display
  by unfold_locales (simp add: websocket_env_def send_text_def split: option.split)

end
