(* ===== verification/Game.thy ===== *)
theory Game
  imports Transport
begin

text \<open>
  The game-session client (\<open>client/rust/src/game.rs\<close>).  \<open>Url\<close> of crate \<open>url\<close> and connecting the
  WebSocket are the parameter \<open>connector\<close>.
\<close>

datatype auth = Guest string | Token string

record join_config =
  jc_endpoint :: string
  jc_session_id :: string
  jc_game_id :: string
  jc_role :: string
  jc_auth :: auth

datatype relay_outcome = Relayed | Dropped string

datatype 'n game_broadcast =
    PeerJoined string
  | PeerLeft string
  | Command "'n json"
  | Event "'n json"
  | Other "'n broadcast"

record ('w, 'x, 'u, 'n) connector =
  url_parse :: "string \<Rightarrow> 'x + 'u"
  append_pair :: "'u \<Rightarrow> string \<Rightarrow> string \<Rightarrow> 'u"
  url_as_str :: "'u \<Rightarrow> string"
  ws_connect :: "string \<Rightarrow> ('w, ('x, 'n) client_error, unit) effect"

definition query_pairs :: "auth \<Rightarrow> (string \<times> string) list" where
  "query_pairs a =
     (''vsn'', ''2.0.0'') #
     (case a of
        Guest display_name \<Rightarrow> [(''guest'', ''true''), (''display_name'', display_name)]
      | Token token \<Rightarrow> [(''token'', token)])"

definition game_join ::
    "('w, 'x, 'u, 'n) connector \<Rightarrow> ('w, 'x, 'n) client_env \<Rightarrow> join_config \<Rightarrow> 'w
     \<Rightarrow> ((('x, 'n) client_error + 'n phoenix) \<times> 'w) option" where
  "game_join con env config w =
     (case url_parse con (jc_endpoint config) of
        Err e \<Rightarrow> Some (Err (Url_Error e), w)
      | Ok endpoint0 \<Rightarrow>
          let endpoint = fold (\<lambda>(k, v) u. append_pair con u k v) (query_pairs (jc_auth config)) endpoint0 in
          (case ws_connect con (url_as_str con endpoint) w of
             (Err e, w1) \<Rightarrow> Some (Err e, w1)
           | (Ok _, w1) \<Rightarrow>
               (case phoenix_join env (''game:'' @ jc_session_id config)
                       (JObject [(''game'', JString (jc_game_id config)), (''role'', JString (jc_role config))])
                       (phoenix_new env w1, w1) of
                  None \<Rightarrow> None
                | Some (Err e, s2, w2) \<Rightarrow> Some (Err e, w2)
                | Some (Ok _, s2, w2) \<Rightarrow> Some (Ok s2, w2))))"

definition require_string_tag :: "'n json \<Rightarrow> string \<Rightarrow> string \<Rightarrow> ('x, 'n) client_error + unit" where
  "require_string_tag val tag kind =
     (if get_str val tag \<noteq> None then Ok ()
      else Err (Protocol (kind @ '' must be an object carrying a string '' @ [CHR 0x22] @ tag @ [CHR 0x22] @ '' tag'')))"

definition relay_outcome_of :: "'n json \<Rightarrow> relay_outcome" where
  "relay_outcome_of response =
     (if Option.bind (json_get response ''relayed'') json_as_bool = Some True then Relayed
      else Dropped (case get_str response ''reason'' of Some r \<Rightarrow> r | None \<Rightarrow> ''server did not provide a reason''))"

text \<open>\<open>send_command\<close> and \<open>send_event\<close>: the tag to require, its kind, and the event to push.\<close>

definition send_tagged ::
    "('w, 'x, 'n) client_env \<Rightarrow> string \<Rightarrow> string \<Rightarrow> string \<Rightarrow> 'n json \<Rightarrow> 'n phoenix \<times> 'w
     \<Rightarrow> ((('x, 'n) client_error + relay_outcome) \<times> 'n phoenix \<times> 'w) option" where
  "send_tagged env tag kind event val sw =
     (case require_string_tag val tag kind of
        Err e \<Rightarrow> Some (Err e, sw)
      | Ok _ \<Rightarrow>
          (case phoenix_push env event val sw of
             None \<Rightarrow> None
           | Some (Err e, sw1) \<Rightarrow> Some (Err e, sw1)
           | Some (Ok response, sw1) \<Rightarrow> Some (Ok (relay_outcome_of response), sw1)))"

definition send_command ::
    "('w, 'x, 'n) client_env \<Rightarrow> 'n json \<Rightarrow> 'n phoenix \<times> 'w
     \<Rightarrow> ((('x, 'n) client_error + relay_outcome) \<times> 'n phoenix \<times> 'w) option" where
  "send_command env command = send_tagged env ''cmd'' ''command'' ''command'' command"

definition send_event ::
    "('w, 'x, 'n) client_env \<Rightarrow> 'n json \<Rightarrow> 'n phoenix \<times> 'w
     \<Rightarrow> ((('x, 'n) client_error + relay_outcome) \<times> 'n phoenix \<times> 'w) option" where
  "send_event env event = send_tagged env ''event'' ''event'' ''event'' event"

definition ping ::
    "('w, 'x, 'n) client_env \<Rightarrow> 'n phoenix \<times> 'w
     \<Rightarrow> ((('x, 'n) client_error + unit) \<times> 'n phoenix \<times> 'w) option" where
  "ping env sw =
     (case phoenix_push env ''ping'' (JObject []) sw of
        None \<Rightarrow> None
      | Some (Err e, sw1) \<Rightarrow> Some (Err e, sw1)
      | Some (Ok response, sw1) \<Rightarrow>
          Some (if Option.bind (json_get response ''pong'') json_as_bool = Some True then Ok ()
                else Err (Protocol (''invalid ping response: '' @ json_display env response)), sw1))"

definition classify_broadcast_msg :: "'n broadcast \<Rightarrow> 'n game_broadcast" where
  "classify_broadcast_msg message =
     (if bc_event message = ''peer_joined'' then
        (case get_str (bc_payload message) ''role'' of Some role \<Rightarrow> PeerJoined role | None \<Rightarrow> Other message)
      else if bc_event message = ''peer_left'' then
        (case get_str (bc_payload message) ''role'' of Some role \<Rightarrow> PeerLeft role | None \<Rightarrow> Other message)
      else if bc_event message = ''command'' then Command (bc_payload message)
      else if bc_event message = ''event'' then Event (bc_payload message)
      else Other message)"

definition next_event ::
    "('w, 'x, 'n) client_env \<Rightarrow> nat \<Rightarrow> 'n phoenix \<times> 'w
     \<Rightarrow> ((('x, 'n) client_error + 'n game_broadcast option) \<times> 'n phoenix \<times> 'w) option" where
  "next_event env wait sw =
     map_option (\<lambda>(r, sw1). (map_res (map_option classify_broadcast_msg) r, sw1)) (next_broadcast env wait sw)"

definition game_leave :: "('w, 'x, 'n) client_env \<Rightarrow> 'n phoenix \<times> 'w \<Rightarrow> 'n phoenix \<times> 'w" where
  "game_leave env sw = phoenix_leave env sw"

end
