(* ===== verification/Client_Properties.thy ===== *)
theory Client_Properties
  imports Client_Facts Keepalive Game
begin

text \<open>The properties of the Rust client on its WebSocket transport, for every run of the network.\<close>

section \<open>A small exchange\<close>

text \<open>A JSON coding good enough for one frame of the tests.\<close>

definition demo_frame :: "unit json" where
  "demo_frame = JArray [JString ''1'', JString ''2'', JString ''game:s'', JString ''phx_reply'',
     JObject [(''status'', JString ''ok''), (''response'', JObject [(''relayed'', JBool True)])]]"

definition demo_parse :: "string \<Rightarrow> unit + unit json" where
  "demo_parse tx =
     (if tx = ''joined'' then
        Ok (JArray [JString ''1'', JNull, JString ''game:s'', JString ''peer_joined'', JObject [(''role'', JString ''hacker'')]])
      else if tx = ''reply'' then Ok demo_frame else Err ())"

definition demo_client :: "(unit ws_socket, unit, unit) client_env" where
  "demo_client = websocket_env (\<lambda>v. Ok ''frame'') demo_parse (\<lambda>v. [])"

definition demo_joined :: "unit phoenix" where
  "demo_joined = \<lparr>ph_topic = Some ''game:s'', ph_join_ref = Some ''1'', ph_next_ref = 1, ph_pending = [],
     ph_heartbeat_ref = None, ph_last_send = 0\<rparr>"

definition demo_socket :: "unit ws_socket" where
  "demo_socket = \<lparr>ws_now = 0, ws_incoming = [(0, Ws_Text ''joined''), (0, Ws_Other), (0, Ws_Text ''reply'')],
     ws_sent = [], ws_failing = None\<rparr>"

section \<open>Broadcasts\<close>

text \<open>
  C11: every session returns, and the broadcasts it delivers followed by those it still holds are
  exactly those it held before followed by those in the frames it received: none is lost,
  duplicated or reordered, whatever the network sends and whenever it fails.
\<close>

theorem session_delivers_in_order:
  "\<exists>delivered s' w' read.
     run_session (websocket_env to_string from_str display) ops s w = Some (delivered, s', w') \<and>
     texts_of (ws_incoming w) = read @ texts_of (ws_incoming w') \<and>
     delivered @ ph_pending s' =
       ph_pending s @ broadcasts (websocket_env to_string from_str display) (ph_topic s) read"
  using websocket.session_facts[of to_string from_str display ops s w] by blast

text \<open>
  C22: a push returns, and when it returns a response, the last frame it received is the reply that
  carries the reference of its own request and accepts it with this response.
\<close>

theorem push_returns_own_reply:
  "\<exists>r s' w' read.
     phoenix_push (websocket_env to_string from_str display) event payload (s, w) = Some (r, s', w') \<and>
     texts_of (ws_incoming w) = read @ texts_of (ws_incoming w') \<and>
     (case r of
        Ok _ \<Rightarrow> read \<noteq> [] \<and>
          is_reply (websocket_env to_string from_str display) (show_nat ((ph_next_ref s + 1) mod 2 ^ 64)) r (last read)
      | Err _ \<Rightarrow> True)"
proof -
  obtain r s' w' read where
    "phoenix_push (websocket_env to_string from_str display) event payload (s, w) = Some (r, s', w')"
    "texts_of (ws_incoming w) = read @ texts_of (ws_incoming w')"
    "(\<exists>resp. r = Ok resp) \<longrightarrow> read \<noteq> [] \<and>
       is_reply (websocket_env to_string from_str display) (show_nat ((ph_next_ref s + 1) mod 2 ^ 64)) r (last read)"
    using websocket.push_facts[of to_string from_str display event payload s w] by blast
  then show ?thesis
    by (intro exI[of _ r] exI[of _ s'] exI[of _ w'] exI[of _ read]) (cases r; simp)
qed

text \<open>
  A push of a joined client sends one frame, with its join reference, a reference one above the
  last, its topic and the event, and returns within ten seconds.
\<close>

theorem push_sends_one_frame:
  assumes topic: "ph_topic s = Some topic" and up: "ws_failing w = None"
    and frame: "to_string (JArray [json_opt_str (ph_join_ref s), JString (show_nat ((ph_next_ref s + 1) mod 2 ^ 64)),
      JString topic, JString event, payload]) = Ok tx"
  shows "\<exists>r s' w'. phoenix_push (websocket_env to_string from_str display) event payload (s, w) = Some (r, s', w') \<and>
    ws_sent w' = ws_sent w @ [tx] \<and> ph_next_ref s' = (ph_next_ref s + 1) mod 2 ^ 64 \<and>
    ws_now w' \<le> ws_now w + 10 * 1000000000"
proof -
  let ?env = "websocket_env to_string from_str display" and ?r = "(ph_next_ref s + 1) mod 2 ^ 64"
  let ?s = "s\<lparr>ph_next_ref := ?r, ph_last_send := ws_now w\<rparr>" and ?w = "w\<lparr>ws_sent := ws_sent w @ [tx]\<rparr>"
  have send: "send_frame ?env (ph_join_ref s) (show_nat ?r) topic event payload (s\<lparr>ph_next_ref := ?r\<rparr>, w) = (Ok (), ?s, ?w)"
    using frame up by (simp add: send_frame_def websocket_env_def send_text_def)
  from websocket.await_loop_facts[of to_string from_str display "show_nat ?r" "ws_now w + reply_timeout" ?s ?w]
  obtain r s' w' where "await_loop ?env (show_nat ?r) (ws_now w + reply_timeout) ?s ?w = Some (r, s', w')"
    "ph_next_ref s' = ?r" "ws_sent w' = ws_sent ?w"
    "clock_now ?env w' \<le> max (clock_now ?env ?w) (ws_now w + reply_timeout)"
    by auto
  with topic send show ?thesis
    by (auto simp: phoenix_push_def take_ref_def await_reply_def websocket_env_def Let_def reply_timeout_def ns_def)
qed

theorem push_sends_one_frame_witness:
  "\<exists>r s' w'. phoenix_push demo_client ''command'' (JObject []) (demo_joined, demo_socket) = Some (r, s', w') \<and>
     ws_sent w' = [''frame''] \<and> ph_next_ref s' = 2"
proof -
  have "\<exists>r s' w'. phoenix_push demo_client ''command'' (JObject []) (demo_joined, demo_socket) = Some (r, s', w') \<and>
    ws_sent w' = ws_sent demo_socket @ [''frame''] \<and> ph_next_ref s' = (ph_next_ref demo_joined + 1) mod 2 ^ 64 \<and>
    ws_now w' \<le> ws_now demo_socket + 10 * 1000000000"
    unfolding demo_client_def
    by (rule push_sends_one_frame [where topic = "''game:s''"]) (simp_all add: demo_joined_def demo_socket_def)
  then show ?thesis by (auto simp: demo_joined_def demo_socket_def)
qed


text \<open>
  Joining takes effect exactly when the server accepts: then the client has the topic and the
  reference of the join as its join reference; otherwise, also when it had joined already, its
  channel is what it was.
\<close>

theorem join_all_or_nothing:
  "\<exists>r s' w'. phoenix_join (websocket_env to_string from_str display) topic params (s, w) = Some (r, s', w') \<and>
     (case r of
        Ok _ \<Rightarrow> ph_topic s = None \<and> ph_topic s' = Some topic \<and>
          ph_join_ref s' = Some (show_nat ((ph_next_ref s + 1) mod 2 ^ 64))
      | Err _ \<Rightarrow> ph_topic s' = ph_topic s \<and> ph_join_ref s' = ph_join_ref s)"
proof -
  from websocket.join_facts[of to_string from_str display topic params s w] obtain r s' w' where
    "phoenix_join (websocket_env to_string from_str display) topic params (s, w) = Some (r, s', w')"
    "case r of
        Ok _ \<Rightarrow> ph_topic s = None \<and> ph_topic s' = Some topic \<and>
          ph_join_ref s' = Some (show_nat ((ph_next_ref s + 1) mod 2 ^ 64))
      | Err _ \<Rightarrow> same_channel s s'"
    by (elim exE conjE) (force split: sum.splits)
  then show ?thesis
    by (intro exI[of _ r] exI[of _ s'] exI[of _ w']) (auto simp: same_channel_def split: sum.splits)
qed

section \<open>The game client\<close>

text \<open>
  A command without its string tag is refused with nothing sent or received; one with its tag
  is relayed exactly when the server's reply says so.
\<close>

theorem send_command_outcome:
  "(get_str command ''cmd'' = None \<longrightarrow>
      (\<exists>m. send_command env command sw = Some (Err (Protocol m), sw))) \<and>
   (get_str command ''cmd'' \<noteq> None \<longrightarrow>
      send_command env command sw =
        map_option (\<lambda>(r, sw1). (map_res relay_outcome_of r, sw1)) (phoenix_push env ''command'' command sw)) \<and>
   (relay_outcome_of response = Relayed \<longleftrightarrow> json_get response ''relayed'' = Some (JBool True))"
  by (auto simp: send_command_def send_tagged_def require_string_tag_def relay_outcome_of_def bind_eq_Some_conv
      map_res_def split: option.splits sum.splits)

theorem send_command_outcome_witness:
  "\<exists>m. send_command demo_client (JObject []) (demo_joined, demo_socket) = Some (Err (Protocol m), demo_joined, demo_socket)"
  using send_command_outcome [of "JObject []" demo_client "(demo_joined, demo_socket)" JNull]
  by (auto simp: get_str_def)

end
