(* ===== verification/Serde.thy ===== *)
theory Serde
  imports Ordered_Map
begin

text \<open>
  serde's data model and what its derive attributes mean: the vocabulary in which \<open>Schema_Serde\<close> writes
  the derived \<open>Serialize\<close> and \<open>Deserialize\<close> implementations of the compose document.

  \<open>sval\<close> is a self-describing value: what \<open>serde_json::to_value\<close> returns and what a TOML document
  holds; \<open>'o\<close> stands for the remaining scalars (floats, dates).  A struct is read as serde's
  visitors read it: entry after entry, the first unknown, repeated or ill-typed one is the error, and
  then the required fields that did not occur.
\<close>

datatype 'o sval =
    S_Null
  | S_Bool bool
  | S_Int int
  | S_Str string
  | S_Seq "'o sval list"
  | S_Map "(string \<times> 'o sval) list"
  | S_Other 'o

datatype de_error =
    Unknown_Field string
  | Duplicate_Field string
  | Missing_Field string
  | Invalid_Type string
  | Invalid_Value string
  | Unknown_Variant string
  | No_Variant string
  | Custom_Error string

text \<open>
  The formats and libraries behind it.  \<open>se_positional\<close> is a format's reading of an array as the
  fields, in order, of a struct; \<open>se_tag\<close> its reading of a value that is no string as the name of a unit
  variant; \<open>se_value\<close> is \<open>toml::Value::deserialize\<close>, \<open>se_debug\<close> prints a \<open>toml::Value\<close>, \<open>se_show\<close>
  an error, and the last two are humantime's.
\<close>

record 'o serde_env =
  se_positional :: "string list \<Rightarrow> 'o sval list \<Rightarrow> de_error + (string \<times> 'o sval) list"
  se_tag :: "'o sval \<Rightarrow> de_error + string"
  se_value :: "'o sval \<Rightarrow> de_error + 'o sval"
  se_debug :: "'o sval \<Rightarrow> string"
  se_show :: "de_error \<Rightarrow> string"
  se_format :: "nat \<Rightarrow> string"
  se_parse :: "string \<Rightarrow> string + nat"

section \<open>Serialization\<close>

text \<open>A skipped field is \<open>None\<close>.\<close>

definition entries_of :: "(string \<times> 'o sval option) list \<Rightarrow> (string \<times> 'o sval) list" where
  "entries_of fs = List.map_filter (\<lambda>(k, f). map_option (Pair k) f) fs"

definition ser_struct :: "(string \<times> 'o sval option) list \<Rightarrow> 'o sval" where
  "ser_struct fs = S_Map (entries_of fs)"

definition ser_strs :: "string list \<Rightarrow> 'o sval" where
  "ser_strs xs = S_Seq (map S_Str xs)"

definition ser_map :: "('a \<Rightarrow> 'o sval) \<Rightarrow> (string, 'a) btree_map \<Rightarrow> 'o sval" where
  "ser_map f m = S_Map (map (\<lambda>(k, v). (k, f v)) m)"

definition ser_opt :: "('a \<Rightarrow> 'o sval) \<Rightarrow> 'a option \<Rightarrow> 'o sval" where
  "ser_opt f x = (case x of None \<Rightarrow> S_Null | Some y \<Rightarrow> f y)"

text \<open>\<open>skip_serializing_if\<close> with \<open>Option::is_none\<close>, \<open>BTreeMap::is_empty\<close>, \<open>Vec::is_empty\<close>, \<open>Not::not\<close>.\<close>

definition skip_none :: "('a \<Rightarrow> 'o sval) \<Rightarrow> 'a option \<Rightarrow> 'o sval option" where
  "skip_none f x = map_option f x"

definition skip_empty_map :: "('a \<Rightarrow> 'o sval) \<Rightarrow> (string, 'a) btree_map \<Rightarrow> 'o sval option" where
  "skip_empty_map f m = (if m = [] then None else Some (ser_map f m))"

definition skip_empty_vec :: "('a \<Rightarrow> 'o sval) \<Rightarrow> 'a list \<Rightarrow> 'o sval option" where
  "skip_empty_vec f xs = (if xs = [] then None else Some (S_Seq (map f xs)))"

definition skip_false :: "bool \<Rightarrow> 'o sval option" where
  "skip_false b = (if b then Some (S_Bool True) else None)"

section \<open>Deserialization\<close>

fun de_string :: "'o sval \<Rightarrow> de_error + string" where
  "de_string (S_Str s) = Ok s"
| "de_string _ = Err (Invalid_Type ''a string'')"

fun de_bool :: "'o sval \<Rightarrow> de_error + bool" where
  "de_bool (S_Bool b) = Ok b"
| "de_bool _ = Err (Invalid_Type ''a boolean'')"

text \<open>An unsigned integer of \<open>w\<close> bits.\<close>

fun de_uint :: "nat \<Rightarrow> 'o sval \<Rightarrow> de_error + nat" where
  "de_uint w (S_Int n) =
     (if 0 \<le> n \<and> n < 2 ^ w then Ok (nat n) else Err (Invalid_Value ''an unsigned integer''))"
| "de_uint w _ = Err (Invalid_Type ''an unsigned integer'')"

definition de_option :: "('o sval \<Rightarrow> de_error + 'a) \<Rightarrow> 'o sval \<Rightarrow> de_error + 'a option" where
  "de_option f v = (if v = S_Null then Ok None else map_res Some (f v))"

fun de_vec :: "('o sval \<Rightarrow> de_error + 'a) \<Rightarrow> 'o sval \<Rightarrow> de_error + 'a list" where
  "de_vec f (S_Seq xs) = collect_res f xs"
| "de_vec f _ = Err (Invalid_Type ''a sequence'')"

definition de_entries :: "('o sval \<Rightarrow> de_error + 'a) \<Rightarrow> (string \<times> 'o sval) list \<Rightarrow> de_error + (string, 'a) btree_map" where
  "de_entries f kvs = map_res bt_from_iter (collect_res (\<lambda>(k, v). map_res (Pair k) (f v)) kvs)"

fun de_map :: "('o sval \<Rightarrow> de_error + 'a) \<Rightarrow> 'o sval \<Rightarrow> de_error + (string, 'a) btree_map" where
  "de_map f (S_Map kvs) = de_entries f kvs"
| "de_map f _ = Err (Invalid_Type ''a map'')"

text \<open>
  A struct: its visitor sets the field of an entry in the record under construction, which starts
  with the defaults; a field not in the visitor is \<open>Unknown_Field\<close>.
\<close>

fun visit_entries ::
    "(string \<Rightarrow> 'o sval \<Rightarrow> 'r \<Rightarrow> de_error + 'r) \<Rightarrow> string list \<Rightarrow> (string \<times> 'o sval) list \<Rightarrow> 'r \<Rightarrow> de_error + 'r" where
  "visit_entries set_field seen [] r = Ok r"
| "visit_entries set_field seen ((k, v) # kvs) r =
     (if k \<in> set seen then Err (Duplicate_Field k)
      else bind_res (set_field k v r) (visit_entries set_field (k # seen) kvs))"

definition missing :: "string list \<Rightarrow> (string \<times> 'o sval) list \<Rightarrow> string list" where
  "missing required kvs = filter (\<lambda>k. k \<notin> set (map fst kvs)) required"

definition de_fields ::
    "(string \<Rightarrow> 'o sval \<Rightarrow> 'r \<Rightarrow> de_error + 'r) \<Rightarrow> string list \<Rightarrow> 'r \<Rightarrow> (string \<times> 'o sval) list \<Rightarrow> de_error + 'r" where
  "de_fields set_field required dflt kvs =
     bind_res (visit_entries set_field [] kvs dflt) (\<lambda>r.
       case missing required kvs of [] \<Rightarrow> Ok r | k # _ \<Rightarrow> Err (Missing_Field k))"

fun de_struct ::
    "'o serde_env \<Rightarrow> string list \<Rightarrow> (string \<Rightarrow> 'o sval \<Rightarrow> 'r \<Rightarrow> de_error + 'r) \<Rightarrow> string list \<Rightarrow> 'r
     \<Rightarrow> 'o sval \<Rightarrow> de_error + 'r" where
  "de_struct env names set_field required dflt (S_Map kvs) = de_fields set_field required dflt kvs"
| "de_struct env names set_field required dflt (S_Seq xs) =
     bind_res (se_positional env names xs) (de_fields set_field required dflt)"
| "de_struct env names set_field required dflt _ = Err (Invalid_Type ''a struct'')"

text \<open>An enum of unit variants, by their serialized names.\<close>

definition de_unit_enum :: "'o serde_env \<Rightarrow> (string \<times> 'a) list \<Rightarrow> 'o sval \<Rightarrow> de_error + 'a" where
  "de_unit_enum env variants v =
     bind_res (case v of S_Str s \<Rightarrow> Ok s | _ \<Rightarrow> se_tag env v) (\<lambda>s.
       case map_of variants s of Some a \<Rightarrow> Ok a | None \<Rightarrow> Err (Unknown_Variant s))"

text \<open>The first variant of an untagged enum that fits.\<close>

definition or_else :: "de_error + 'a \<Rightarrow> de_error + 'a \<Rightarrow> de_error + 'a" where
  "or_else r r' = (case r of Ok a \<Rightarrow> Ok a | Err _ \<Rightarrow> r')"

section \<open>Key order\<close>

text \<open>A value with the entries of all its maps in key order; two values that agree here are equal as JSON.\<close>

primrec sort_keys :: "'o sval \<Rightarrow> 'o sval" where
  "sort_keys S_Null = S_Null"
| "sort_keys (S_Bool b) = S_Bool b"
| "sort_keys (S_Int n) = S_Int n"
| "sort_keys (S_Str s) = S_Str s"
| "sort_keys (S_Seq xs) = S_Seq (map sort_keys xs)"
| "sort_keys (S_Map kvs) = S_Map (bt_from_iter (map (map_prod id sort_keys) kvs))"
| "sort_keys (S_Other x) = S_Other x"

text \<open>The values TOML can hold: no null, and integers of 64 bits.\<close>

primrec toml_value_ok :: "'o sval \<Rightarrow> bool" where
  "toml_value_ok S_Null = False"
| "toml_value_ok (S_Bool b) = True"
| "toml_value_ok (S_Int n) = (- (2 ^ 63) \<le> n \<and> n < 2 ^ 63)"
| "toml_value_ok (S_Str s) = True"
| "toml_value_ok (S_Seq xs) = list_all id (map toml_value_ok xs)"
| "toml_value_ok (S_Map kvs) = (distinct (map fst kvs) \<and> list_all snd (map (map_prod id toml_value_ok) kvs))"
| "toml_value_ok (S_Other x) = True"

section \<open>Lemmas\<close>

named_theorems ser_simps \<open>what a serialized field reads back as\<close>

text \<open>The fields of a serialized struct one by one; a skipped field is not visited.\<close>

lemma entries_of_simps [simp]:
  "entries_of [] = []"
  "entries_of ((k, None) # fs) = entries_of fs"
  "entries_of ((k, Some v) # fs) = (k, v) # entries_of fs"
  by (simp_all add: entries_of_def List.map_filter_simps)

lemma entries_of_Cons: "entries_of ((k, f) # fs) = (case f of None \<Rightarrow> [] | Some v \<Rightarrow> [(k, v)]) @ entries_of fs"
  by (cases f) simp_all

lemma keys_entries_of: "fst ` set (entries_of fs) \<subseteq> fst ` set fs"
proof (induction fs)
  case (Cons f fs)
  obtain k x where f: "f = (k, x)" by fastforce
  with Cons show ?case by (cases x) auto
qed simp

lemma distinct_entries_of: "distinct (map fst fs) \<Longrightarrow> distinct (map fst (entries_of fs))"
proof (induction fs)
  case (Cons f fs)
  obtain k x where f: "f = (k, x)" by fastforce
  with Cons keys_entries_of[of fs] show ?case by (cases x) auto
qed simp

lemma map_of_entries_of:
  "distinct (map fst fs) \<Longrightarrow> map_of (entries_of fs) k = Option.bind (map_of fs k) (\<lambda>x. x)"
proof (induction fs)
  case (Cons f fs)
  obtain k' x where f: "f = (k', x)" by fastforce
  have "map_of (entries_of fs) k' = None" if "k' \<notin> fst ` set fs"
    using that keys_entries_of[of fs] by (auto simp: map_of_eq_None_iff)
  with Cons f show ?case by (cases x) auto
qed simp

fun set_fields ::
    "(string \<Rightarrow> 'o sval \<Rightarrow> 'r \<Rightarrow> de_error + 'r) \<Rightarrow> (string \<times> 'o sval option) list \<Rightarrow> 'r \<Rightarrow> de_error + 'r" where
  "set_fields set_field [] r = Ok r"
| "set_fields set_field ((k, f) # fs) r =
     bind_res (case f of None \<Rightarrow> Ok r | Some v \<Rightarrow> set_field k v r) (set_fields set_field fs)"

lemma visit_entries_of:
  assumes "distinct (map fst fs)" "set seen \<inter> fst ` set fs = {}"
  shows "visit_entries set_field seen (entries_of fs) r = set_fields set_field fs r"
  using assms
proof (induction fs arbitrary: seen r)
  case (Cons f fs)
  obtain k x where f: "f = (k, x)" by fastforce
  from Cons.prems f have step: "visit_entries set_field s (entries_of fs) r' = set_fields set_field fs r'"
    if "set s \<subseteq> insert k (set seen)" for s r'
    using that by (intro Cons.IH) auto
  from Cons.prems f step show ?case
    by (cases x) (auto simp: bind_res_def split: sum.splits)
qed simp

lemma de_struct_ser:
  assumes "set_fields set_field fs dflt = Ok r" "distinct (map fst fs)"
    "list_all (\<lambda>k. Option.bind (map_of fs k) (\<lambda>x. x) \<noteq> None) required"
  shows "de_struct env names set_field required dflt (ser_struct fs) = Ok r"
proof -
  have "k \<in> fst ` set (entries_of fs)" if "k \<in> set required" for k
    using assms(3) that map_of_entries_of[OF assms(2), of k]
    by (auto simp: list_all_iff) (metis domI domIff map_of_eq_None_iff)
  then have "missing required (entries_of fs) = []" by (simp add: missing_def)
  with assms show ?thesis by (simp add: ser_struct_def de_fields_def visit_entries_of)
qed

text \<open>The fields of equal structs are equal.\<close>

lemma sort_keys_struct:
  assumes "sort_keys (ser_struct fs) = sort_keys (ser_struct gs)"
    "map fst fs = map fst gs" "distinct (map fst fs)"
  shows "list_all2 (\<lambda>f g. map_option sort_keys (snd f) = map_option sort_keys (snd g)) fs gs"
proof -
  have get: "bt_get (bt_from_iter (map (map_prod id sort_keys) (entries_of hs))) k =
      map_option sort_keys (Option.bind (map_of hs k) (\<lambda>x. x))" if "distinct (map fst hs)"
    for hs :: "(string \<times> 'b sval option) list" and k
  proof -
    let ?es = "map (map_prod id sort_keys) (entries_of hs)"
    have "map fst ?es = map fst (entries_of hs)" by simp
    then have "distinct (map fst ?es)" using distinct_entries_of[OF that] by simp
    then have "bt_get (bt_from_iter ?es) k = map_of ?es k" by (simp only: bt_get_from_iter map_of_rev_distinct)
    moreover have "map_of ?es k = map_option sort_keys (map_of (entries_of hs) k)"
      by (simp add: map_prod_def id_def map_of_map)
    ultimately show ?thesis by (simp only: map_of_entries_of[OF that])
  qed
  have same: "map_option sort_keys (Option.bind (map_of fs k) (\<lambda>x. x)) =
      map_option sort_keys (Option.bind (map_of gs k) (\<lambda>x. x))" for k
    using assms get[of fs k] get[of gs k] by (simp add: ser_struct_def)
  show ?thesis
  proof (rule list_all2_all_nthI)
    show "length fs = length gs" using assms(2) by (metis length_map)
    fix i assume i: "i < length fs"
    then have "map_of fs (fst (fs ! i)) = Some (snd (fs ! i))" "map_of gs (fst (gs ! i)) = Some (snd (gs ! i))"
      "fst (fs ! i) = fst (gs ! i)"
      using assms(2,3) by (metis length_map map_of_eq_Some_iff nth_map nth_mem prod.collapse)+
    with same[of "fst (fs ! i)"] show "map_option sort_keys (snd (fs ! i)) = map_option sort_keys (snd (gs ! i))"
      by simp
  qed
qed

end
