(* ===== verification/Schema_Serde.thy ===== *)
theory Schema_Serde
  imports Serde Schema
begin

text \<open>
  The derived \<open>Serialize\<close> and \<open>Deserialize\<close> of crate \<open>selur-compose-schema\<close>, struct by struct, from
  the fields and their serde attributes: \<open>ser_x\<close> lists the fields of struct \<open>X\<close> in declaration order
  with their \<open>skip_serializing_if\<close>, \<open>x_field\<close> reads one of them, and \<open>de_x\<close> adds the required fields.
  All structs but \<open>Compose\<close> deny unknown fields.
\<close>

section \<open>build.rs, depends_on.rs\<close>

definition ser_build :: "build \<Rightarrow> 'o sval" where
  "ser_build b = ser_struct
     [(''context'', Some (S_Str (build_context b))),
      (''dockerfile'', skip_none S_Str (build_dockerfile b)),
      (''args'', skip_empty_map S_Str (build_args b)),
      (''target'', skip_none S_Str (build_target b)),
      (''labels'', skip_empty_map S_Str (build_labels b)),
      (''no_cache'', skip_false (build_no_cache b))]"

definition build_field :: "string \<Rightarrow> 'o sval \<Rightarrow> build \<Rightarrow> de_error + build" where
  "build_field k v b =
     (if k = ''context'' then map_res (\<lambda>x. b\<lparr>build_context := x\<rparr>) (de_string v)
      else if k = ''dockerfile'' then map_res (\<lambda>x. b\<lparr>build_dockerfile := x\<rparr>) (de_option de_string v)
      else if k = ''args'' then map_res (\<lambda>x. b\<lparr>build_args := x\<rparr>) (de_map de_string v)
      else if k = ''target'' then map_res (\<lambda>x. b\<lparr>build_target := x\<rparr>) (de_option de_string v)
      else if k = ''labels'' then map_res (\<lambda>x. b\<lparr>build_labels := x\<rparr>) (de_map de_string v)
      else if k = ''no_cache'' then map_res (\<lambda>x. b\<lparr>build_no_cache := x\<rparr>) (de_bool v)
      else Err (Unknown_Field k))"

definition de_build :: "'o serde_env \<Rightarrow> 'o sval \<Rightarrow> de_error + build" where
  "de_build env =
     de_struct env [''context'', ''dockerfile'', ''args'', ''target'', ''labels'', ''no_cache''] build_field [''context'']
       \<lparr>build_context = [], build_dockerfile = None, build_args = [], build_target = None, build_labels = [],
        build_no_cache = False\<rparr>"

definition ser_depends_condition :: "depends_condition \<Rightarrow> 'o sval" where
  "ser_depends_condition c = S_Str
     (case c of
        ServiceStarted \<Rightarrow> ''service_started''
      | ServiceHealthy \<Rightarrow> ''service_healthy''
      | ServiceCompletedSuccessfully \<Rightarrow> ''service_completed_successfully'')"

definition de_depends_condition :: "'o serde_env \<Rightarrow> 'o sval \<Rightarrow> de_error + depends_condition" where
  "de_depends_condition env = de_unit_enum env
     [(''service_started'', ServiceStarted), (''service_healthy'', ServiceHealthy),
      (''service_completed_successfully'', ServiceCompletedSuccessfully)]"

definition ser_depends_on_spec :: "depends_on_spec \<Rightarrow> 'o sval" where
  "ser_depends_on_spec d = ser_struct
     [(''condition'', Some (ser_depends_condition (dep_condition d))), (''restart'', skip_false (dep_restart d))]"

definition depends_on_spec_field ::
    "'o serde_env \<Rightarrow> string \<Rightarrow> 'o sval \<Rightarrow> depends_on_spec \<Rightarrow> de_error + depends_on_spec" where
  "depends_on_spec_field env k v d =
     (if k = ''condition'' then map_res (\<lambda>x. d\<lparr>dep_condition := x\<rparr>) (de_depends_condition env v)
      else if k = ''restart'' then map_res (\<lambda>x. d\<lparr>dep_restart := x\<rparr>) (de_bool v)
      else Err (Unknown_Field k))"

definition de_depends_on_spec :: "'o serde_env \<Rightarrow> 'o sval \<Rightarrow> de_error + depends_on_spec" where
  "de_depends_on_spec env =
     de_struct env [''condition'', ''restart''] (depends_on_spec_field env) [''condition'']
       \<lparr>dep_condition = ServiceStarted, dep_restart = False\<rparr>"

definition ser_depends_on :: "depends_on \<Rightarrow> 'o sval" where
  "ser_depends_on d =
     (case d of
        DependsOn_Empty \<Rightarrow> S_Null
      | DependsOn_List xs \<Rightarrow> ser_strs xs
      | DependsOn_Map m \<Rightarrow> ser_map ser_depends_on_spec m)"

definition de_depends_on :: "'o serde_env \<Rightarrow> 'o sval \<Rightarrow> de_error + depends_on" where
  "de_depends_on env v =
     (if v = S_Null then Ok DependsOn_Empty
      else or_else (map_res DependsOn_List (de_vec de_string v))
          (or_else (map_res DependsOn_Map (de_map (de_depends_on_spec env) v))
             (Err (No_Variant ''DependsOn''))))"

section \<open>healthcheck.rs\<close>

definition skip_duration :: "'o serde_env \<Rightarrow> duration option \<Rightarrow> 'o sval option" where
  "skip_duration env d = map_option S_Str (opt_duration_serialize (se_format env) d)"

definition de_duration :: "'o serde_env \<Rightarrow> 'o sval \<Rightarrow> de_error + duration option" where
  "de_duration env v =
     bind_res (de_option de_string v)
       (opt_duration_deserialize (\<lambda>s. map_err Custom_Error (se_parse env s)))"

definition ser_healthcheck_test :: "healthcheck_test \<Rightarrow> 'o sval" where
  "ser_healthcheck_test t =
     (case t of HealthcheckTest_Shell s \<Rightarrow> S_Str s | HealthcheckTest_Exec xs \<Rightarrow> ser_strs xs)"

definition de_healthcheck_test :: "'o sval \<Rightarrow> de_error + healthcheck_test" where
  "de_healthcheck_test v =
     or_else (map_res HealthcheckTest_Shell (de_string v))
       (or_else (map_res HealthcheckTest_Exec (de_vec de_string v)) (Err (No_Variant ''HealthcheckTest'')))"

definition ser_u :: "nat \<Rightarrow> 'o sval" where
  "ser_u n = S_Int (int n)"

definition ser_healthcheck :: "'o serde_env \<Rightarrow> healthcheck \<Rightarrow> 'o sval" where
  "ser_healthcheck env h = ser_struct
     [(''test'', Some (ser_healthcheck_test (hc_test h))),
      (''interval'', skip_duration env (hc_interval h)),
      (''timeout'', skip_duration env (hc_timeout h)),
      (''retries'', skip_none ser_u (hc_retries h)),
      (''start_period'', skip_duration env (hc_start_period h)),
      (''disable'', skip_false (hc_disable h))]"

definition healthcheck_field :: "'o serde_env \<Rightarrow> string \<Rightarrow> 'o sval \<Rightarrow> healthcheck \<Rightarrow> de_error + healthcheck" where
  "healthcheck_field env k v h =
     (if k = ''test'' then map_res (\<lambda>x. h\<lparr>hc_test := x\<rparr>) (de_healthcheck_test v)
      else if k = ''interval'' then map_res (\<lambda>x. h\<lparr>hc_interval := x\<rparr>) (de_duration env v)
      else if k = ''timeout'' then map_res (\<lambda>x. h\<lparr>hc_timeout := x\<rparr>) (de_duration env v)
      else if k = ''retries'' then map_res (\<lambda>x. h\<lparr>hc_retries := x\<rparr>) (de_option (de_uint 32) v)
      else if k = ''start_period'' then map_res (\<lambda>x. h\<lparr>hc_start_period := x\<rparr>) (de_duration env v)
      else if k = ''disable'' then map_res (\<lambda>x. h\<lparr>hc_disable := x\<rparr>) (de_bool v)
      else Err (Unknown_Field k))"

definition de_healthcheck :: "'o serde_env \<Rightarrow> 'o sval \<Rightarrow> de_error + healthcheck" where
  "de_healthcheck env =
     de_struct env [''test'', ''interval'', ''timeout'', ''retries'', ''start_period'', ''disable'']
       (healthcheck_field env) [''test'']
       \<lparr>hc_test = HealthcheckTest_Shell [], hc_interval = None, hc_timeout = None, hc_retries = None,
        hc_start_period = None, hc_disable = False\<rparr>"

section \<open>networks.rs\<close>

definition ser_ipam :: "ipam \<Rightarrow> 'o sval" where
  "ser_ipam i = ser_struct
     [(''driver'', skip_none S_Str (ipam_driver i)), (''config'', skip_empty_vec (ser_map S_Str) (ipam_config i))]"

definition ipam_field :: "string \<Rightarrow> 'o sval \<Rightarrow> ipam \<Rightarrow> de_error + ipam" where
  "ipam_field k v i =
     (if k = ''driver'' then map_res (\<lambda>x. i\<lparr>ipam_driver := x\<rparr>) (de_option de_string v)
      else if k = ''config'' then map_res (\<lambda>x. i\<lparr>ipam_config := x\<rparr>) (de_vec (de_map de_string) v)
      else Err (Unknown_Field k))"

definition de_ipam :: "'o serde_env \<Rightarrow> 'o sval \<Rightarrow> de_error + ipam" where
  "de_ipam env = de_struct env [''driver'', ''config''] ipam_field [] \<lparr>ipam_driver = None, ipam_config = []\<rparr>"

definition ser_network :: "network \<Rightarrow> 'o sval" where
  "ser_network n = ser_struct
     [(''driver'', skip_none S_Str (net_driver n)),
      (''driver_opts'', skip_empty_map S_Str (net_driver_opts n)),
      (''external'', skip_false (net_external n)),
      (''name'', skip_none S_Str (net_name n)),
      (''ipam'', skip_none ser_ipam (net_ipam n)),
      (''labels'', skip_empty_map S_Str (net_labels n)),
      (''internal'', skip_false (net_internal n))]"

definition network_field :: "'o serde_env \<Rightarrow> string \<Rightarrow> 'o sval \<Rightarrow> network \<Rightarrow> de_error + network" where
  "network_field env k v n =
     (if k = ''driver'' then map_res (\<lambda>x. n\<lparr>net_driver := x\<rparr>) (de_option de_string v)
      else if k = ''driver_opts'' then map_res (\<lambda>x. n\<lparr>net_driver_opts := x\<rparr>) (de_map de_string v)
      else if k = ''external'' then map_res (\<lambda>x. n\<lparr>net_external := x\<rparr>) (de_bool v)
      else if k = ''name'' then map_res (\<lambda>x. n\<lparr>net_name := x\<rparr>) (de_option de_string v)
      else if k = ''ipam'' then map_res (\<lambda>x. n\<lparr>net_ipam := x\<rparr>) (de_option (de_ipam env) v)
      else if k = ''labels'' then map_res (\<lambda>x. n\<lparr>net_labels := x\<rparr>) (de_map de_string v)
      else if k = ''internal'' then map_res (\<lambda>x. n\<lparr>net_internal := x\<rparr>) (de_bool v)
      else Err (Unknown_Field k))"

definition de_network :: "'o serde_env \<Rightarrow> 'o sval \<Rightarrow> de_error + network" where
  "de_network env =
     de_struct env [''driver'', ''driver_opts'', ''external'', ''name'', ''ipam'', ''labels'', ''internal'']
       (network_field env) []
       \<lparr>net_driver = None, net_driver_opts = [], net_external = False, net_name = None, net_ipam = None,
        net_labels = [], net_internal = False\<rparr>"

definition ser_network_mode :: "network_mode \<Rightarrow> 'o sval" where
  "ser_network_mode m = S_Str (network_mode_serialize m)"

definition de_network_mode :: "'o sval \<Rightarrow> de_error + network_mode" where
  "de_network_mode v = map_res network_mode_deserialize (de_string v)"

section \<open>ports.rs, volumes.rs\<close>

text \<open>A \<open>toml::Value\<close> as the hand-written deserializers look at it, and back.\<close>

definition toml_view :: "'o sval \<Rightarrow> ('o sval, 'o sval) toml_value" where
  "toml_view v =
     (case v of S_Str s \<Rightarrow> Toml_String s | S_Int n \<Rightarrow> Toml_Integer n | S_Map m \<Rightarrow> Toml_Table v | _ \<Rightarrow> Toml_Other v)"

definition of_toml_view :: "('o sval, 'o sval) toml_value \<Rightarrow> 'o sval" where
  "of_toml_view t =
     (case t of Toml_String s \<Rightarrow> S_Str s | Toml_Integer n \<Rightarrow> S_Int n | Toml_Table v \<Rightarrow> v | Toml_Other v \<Rightarrow> v)"

definition ser_port_long :: "port_long \<Rightarrow> 'o sval" where
  "ser_port_long p = ser_struct
     [(''host_ip'', skip_none S_Str (port_host_ip p)),
      (''target'', Some (ser_u (port_target p))),
      (''published'', skip_none S_Str (port_published p)),
      (''protocol'', skip_none S_Str (port_protocol p))]"

definition port_long_field :: "string \<Rightarrow> 'o sval \<Rightarrow> port_long \<Rightarrow> de_error + port_long" where
  "port_long_field k v p =
     (if k = ''host_ip'' then map_res (\<lambda>x. p\<lparr>port_host_ip := x\<rparr>) (de_option de_string v)
      else if k = ''target'' then map_res (\<lambda>x. p\<lparr>port_target := x\<rparr>) (de_uint 16 v)
      else if k = ''published'' then map_res (\<lambda>x. p\<lparr>port_published := x\<rparr>) (de_option de_string v)
      else if k = ''protocol'' then map_res (\<lambda>x. p\<lparr>port_protocol := x\<rparr>) (de_option de_string v)
      else Err (Unknown_Field k))"

definition de_port_long :: "'o serde_env \<Rightarrow> 'o sval \<Rightarrow> de_error + port_long" where
  "de_port_long env =
     de_struct env [''host_ip'', ''target'', ''published'', ''protocol''] port_long_field [''target'']
       \<lparr>port_host_ip = None, port_target = 0, port_published = None, port_protocol = None\<rparr>"

definition ser_port_binding :: "port_binding \<Rightarrow> 'o sval" where
  "ser_port_binding p = of_toml_view (port_binding_serialize ser_port_long p)"

definition de_port_binding :: "'o serde_env \<Rightarrow> 'o sval \<Rightarrow> de_error + port_binding" where
  "de_port_binding env v =
     bind_res (se_value env v) (\<lambda>t.
       map_err Custom_Error
         (port_binding_deserialize (\<lambda>m. map_err (se_show env) (de_port_long env m)) (se_debug env) (toml_view t)))"

definition ser_bind_options :: "bind_options \<Rightarrow> 'o sval" where
  "ser_bind_options b = ser_struct
     [(''propagation'', skip_none S_Str (bind_propagation b)),
      (''create_host_path'', skip_false (bind_create_host_path b))]"

definition bind_options_field :: "string \<Rightarrow> 'o sval \<Rightarrow> bind_options \<Rightarrow> de_error + bind_options" where
  "bind_options_field k v b =
     (if k = ''propagation'' then map_res (\<lambda>x. b\<lparr>bind_propagation := x\<rparr>) (de_option de_string v)
      else if k = ''create_host_path'' then map_res (\<lambda>x. b\<lparr>bind_create_host_path := x\<rparr>) (de_bool v)
      else Err (Unknown_Field k))"

definition de_bind_options :: "'o serde_env \<Rightarrow> 'o sval \<Rightarrow> de_error + bind_options" where
  "de_bind_options env =
     de_struct env [''propagation'', ''create_host_path''] bind_options_field []
       \<lparr>bind_propagation = None, bind_create_host_path = False\<rparr>"

definition ser_volume_options :: "volume_options \<Rightarrow> 'o sval" where
  "ser_volume_options r = ser_struct [(''nocopy'', skip_false (vol_nocopy r))]"

definition volume_options_field :: "string \<Rightarrow> 'o sval \<Rightarrow> volume_options \<Rightarrow> de_error + volume_options" where
  "volume_options_field k v r =
     (if k = ''nocopy'' then map_res (\<lambda>x. r\<lparr>vol_nocopy := x\<rparr>) (de_bool v) else Err (Unknown_Field k))"

definition de_volume_options :: "'o serde_env \<Rightarrow> 'o sval \<Rightarrow> de_error + volume_options" where
  "de_volume_options env = de_struct env [''nocopy''] volume_options_field [] \<lparr>vol_nocopy = False\<rparr>"

definition ser_mount_long :: "mount_long \<Rightarrow> 'o sval" where
  "ser_mount_long m = ser_struct
     [(''type'', Some (S_Str (mount_type m))),
      (''source'', skip_none S_Str (mount_source m)),
      (''target'', Some (S_Str (mount_target m))),
      (''read_only'', skip_false (mount_read_only m)),
      (''bind'', skip_none ser_bind_options (mount_bind m)),
      (''volume'', skip_none ser_volume_options (mount_volume m))]"

definition mount_long_field :: "'o serde_env \<Rightarrow> string \<Rightarrow> 'o sval \<Rightarrow> mount_long \<Rightarrow> de_error + mount_long" where
  "mount_long_field env k v m =
     (if k = ''type'' then map_res (\<lambda>x. m\<lparr>mount_type := x\<rparr>) (de_string v)
      else if k = ''source'' then map_res (\<lambda>x. m\<lparr>mount_source := x\<rparr>) (de_option de_string v)
      else if k = ''target'' then map_res (\<lambda>x. m\<lparr>mount_target := x\<rparr>) (de_string v)
      else if k = ''read_only'' then map_res (\<lambda>x. m\<lparr>mount_read_only := x\<rparr>) (de_bool v)
      else if k = ''bind'' then map_res (\<lambda>x. m\<lparr>mount_bind := x\<rparr>) (de_option (de_bind_options env) v)
      else if k = ''volume'' then map_res (\<lambda>x. m\<lparr>mount_volume := x\<rparr>) (de_option (de_volume_options env) v)
      else Err (Unknown_Field k))"

definition de_mount_long :: "'o serde_env \<Rightarrow> 'o sval \<Rightarrow> de_error + mount_long" where
  "de_mount_long env =
     de_struct env [''type'', ''source'', ''target'', ''read_only'', ''bind'', ''volume''] (mount_long_field env)
       [''type'', ''target'']
       \<lparr>mount_type = [], mount_source = None, mount_target = [], mount_read_only = False, mount_bind = None,
        mount_volume = None\<rparr>"

definition ser_mount_spec :: "mount_spec \<Rightarrow> 'o sval" where
  "ser_mount_spec m = of_toml_view (mount_spec_serialize ser_mount_long m)"

definition de_mount_spec :: "'o serde_env \<Rightarrow> 'o sval \<Rightarrow> de_error + mount_spec" where
  "de_mount_spec env v =
     bind_res (se_value env v) (\<lambda>t.
       map_err Custom_Error
         (mount_spec_deserialize (\<lambda>m. map_err (se_show env) (de_mount_long env m))
           (\<lambda>n. se_debug env (S_Int n)) (se_debug env) (toml_view t)))"

definition ser_volume :: "volume \<Rightarrow> 'o sval" where
  "ser_volume v = ser_struct
     [(''driver'', skip_none S_Str (vol_driver v)),
      (''driver_opts'', skip_empty_map S_Str (vol_driver_opts v)),
      (''external'', skip_false (vol_external v)),
      (''name'', skip_none S_Str (vol_name v)),
      (''labels'', skip_empty_map S_Str (vol_labels v))]"

definition volume_field :: "string \<Rightarrow> 'o sval \<Rightarrow> volume \<Rightarrow> de_error + volume" where
  "volume_field k v r =
     (if k = ''driver'' then map_res (\<lambda>x. r\<lparr>vol_driver := x\<rparr>) (de_option de_string v)
      else if k = ''driver_opts'' then map_res (\<lambda>x. r\<lparr>vol_driver_opts := x\<rparr>) (de_map de_string v)
      else if k = ''external'' then map_res (\<lambda>x. r\<lparr>vol_external := x\<rparr>) (de_bool v)
      else if k = ''name'' then map_res (\<lambda>x. r\<lparr>vol_name := x\<rparr>) (de_option de_string v)
      else if k = ''labels'' then map_res (\<lambda>x. r\<lparr>vol_labels := x\<rparr>) (de_map de_string v)
      else Err (Unknown_Field k))"

definition de_volume :: "'o serde_env \<Rightarrow> 'o sval \<Rightarrow> de_error + volume" where
  "de_volume env =
     de_struct env [''driver'', ''driver_opts'', ''external'', ''name'', ''labels''] volume_field []
       \<lparr>vol_driver = None, vol_driver_opts = [], vol_external = False, vol_name = None, vol_labels = []\<rparr>"

section \<open>secrets.rs\<close>

definition ser_secret :: "secret \<Rightarrow> 'o sval" where
  "ser_secret s = ser_struct
     [(''file'', skip_none S_Str (secret_file s)),
      (''external'', skip_false (secret_external s)),
      (''name'', skip_none S_Str (secret_name s))]"

definition secret_field :: "string \<Rightarrow> 'o sval \<Rightarrow> secret \<Rightarrow> de_error + secret" where
  "secret_field k v s =
     (if k = ''file'' then map_res (\<lambda>x. s\<lparr>secret_file := x\<rparr>) (de_option de_string v)
      else if k = ''external'' then map_res (\<lambda>x. s\<lparr>secret_external := x\<rparr>) (de_bool v)
      else if k = ''name'' then map_res (\<lambda>x. s\<lparr>secret_name := x\<rparr>) (de_option de_string v)
      else Err (Unknown_Field k))"

definition de_secret :: "'o serde_env \<Rightarrow> 'o sval \<Rightarrow> de_error + secret" where
  "de_secret env =
     de_struct env [''file'', ''external'', ''name''] secret_field []
       \<lparr>secret_file = None, secret_external = False, secret_name = None\<rparr>"

definition ser_config :: "config \<Rightarrow> 'o sval" where
  "ser_config c = ser_struct
     [(''file'', skip_none S_Str (config_file c)),
      (''external'', skip_false (config_external c)),
      (''name'', skip_none S_Str (config_name c))]"

definition config_field :: "string \<Rightarrow> 'o sval \<Rightarrow> config \<Rightarrow> de_error + config" where
  "config_field k v c =
     (if k = ''file'' then map_res (\<lambda>x. c\<lparr>config_file := x\<rparr>) (de_option de_string v)
      else if k = ''external'' then map_res (\<lambda>x. c\<lparr>config_external := x\<rparr>) (de_bool v)
      else if k = ''name'' then map_res (\<lambda>x. c\<lparr>config_name := x\<rparr>) (de_option de_string v)
      else Err (Unknown_Field k))"

definition de_config :: "'o serde_env \<Rightarrow> 'o sval \<Rightarrow> de_error + config" where
  "de_config env =
     de_struct env [''file'', ''external'', ''name''] config_field []
       \<lparr>config_file = None, config_external = False, config_name = None\<rparr>"

definition ser_secret_ref_long :: "secret_ref_long \<Rightarrow> 'o sval" where
  "ser_secret_ref_long s = ser_struct
     [(''source'', Some (S_Str (sref_source s))),
      (''target'', skip_none S_Str (sref_target s)),
      (''uid'', skip_none S_Str (sref_uid s)),
      (''gid'', skip_none S_Str (sref_gid s)),
      (''mode'', skip_none ser_u (sref_mode s))]"

definition secret_ref_long_field :: "string \<Rightarrow> 'o sval \<Rightarrow> secret_ref_long \<Rightarrow> de_error + secret_ref_long" where
  "secret_ref_long_field k v s =
     (if k = ''source'' then map_res (\<lambda>x. s\<lparr>sref_source := x\<rparr>) (de_string v)
      else if k = ''target'' then map_res (\<lambda>x. s\<lparr>sref_target := x\<rparr>) (de_option de_string v)
      else if k = ''uid'' then map_res (\<lambda>x. s\<lparr>sref_uid := x\<rparr>) (de_option de_string v)
      else if k = ''gid'' then map_res (\<lambda>x. s\<lparr>sref_gid := x\<rparr>) (de_option de_string v)
      else if k = ''mode'' then map_res (\<lambda>x. s\<lparr>sref_mode := x\<rparr>) (de_option (de_uint 32) v)
      else Err (Unknown_Field k))"

definition de_secret_ref_long :: "'o serde_env \<Rightarrow> 'o sval \<Rightarrow> de_error + secret_ref_long" where
  "de_secret_ref_long env =
     de_struct env [''source'', ''target'', ''uid'', ''gid'', ''mode''] secret_ref_long_field [''source'']
       \<lparr>sref_source = [], sref_target = None, sref_uid = None, sref_gid = None, sref_mode = None\<rparr>"

definition ser_secret_ref :: "secret_ref \<Rightarrow> 'o sval" where
  "ser_secret_ref s = (case s of SecretRef_Name n \<Rightarrow> S_Str n | SecretRef_Long l \<Rightarrow> ser_secret_ref_long l)"

definition de_secret_ref :: "'o serde_env \<Rightarrow> 'o sval \<Rightarrow> de_error + secret_ref" where
  "de_secret_ref env v =
     or_else (map_res SecretRef_Name (de_string v))
       (or_else (map_res SecretRef_Long (de_secret_ref_long env v)) (Err (No_Variant ''SecretRef'')))"

definition ser_config_ref_long :: "config_ref_long \<Rightarrow> 'o sval" where
  "ser_config_ref_long c = ser_struct
     [(''source'', Some (S_Str (cref_source c))),
      (''target'', skip_none S_Str (cref_target c)),
      (''uid'', skip_none S_Str (cref_uid c)),
      (''gid'', skip_none S_Str (cref_gid c)),
      (''mode'', skip_none ser_u (cref_mode c))]"

definition config_ref_long_field :: "string \<Rightarrow> 'o sval \<Rightarrow> config_ref_long \<Rightarrow> de_error + config_ref_long" where
  "config_ref_long_field k v c =
     (if k = ''source'' then map_res (\<lambda>x. c\<lparr>cref_source := x\<rparr>) (de_string v)
      else if k = ''target'' then map_res (\<lambda>x. c\<lparr>cref_target := x\<rparr>) (de_option de_string v)
      else if k = ''uid'' then map_res (\<lambda>x. c\<lparr>cref_uid := x\<rparr>) (de_option de_string v)
      else if k = ''gid'' then map_res (\<lambda>x. c\<lparr>cref_gid := x\<rparr>) (de_option de_string v)
      else if k = ''mode'' then map_res (\<lambda>x. c\<lparr>cref_mode := x\<rparr>) (de_option (de_uint 32) v)
      else Err (Unknown_Field k))"

definition de_config_ref_long :: "'o serde_env \<Rightarrow> 'o sval \<Rightarrow> de_error + config_ref_long" where
  "de_config_ref_long env =
     de_struct env [''source'', ''target'', ''uid'', ''gid'', ''mode''] config_ref_long_field [''source'']
       \<lparr>cref_source = [], cref_target = None, cref_uid = None, cref_gid = None, cref_mode = None\<rparr>"

definition ser_config_ref :: "config_ref \<Rightarrow> 'o sval" where
  "ser_config_ref c = (case c of ConfigRef_Name n \<Rightarrow> S_Str n | ConfigRef_Long l \<Rightarrow> ser_config_ref_long l)"

definition de_config_ref :: "'o serde_env \<Rightarrow> 'o sval \<Rightarrow> de_error + config_ref" where
  "de_config_ref env v =
     or_else (map_res ConfigRef_Name (de_string v))
       (or_else (map_res ConfigRef_Long (de_config_ref_long env v)) (Err (No_Variant ''ConfigRef'')))"

section \<open>services.rs\<close>

definition ser_restart_policy :: "restart_policy \<Rightarrow> 'o sval" where
  "ser_restart_policy r = S_Str
     (case r of
        Restart_No \<Rightarrow> ''no''
      | Restart_Always \<Rightarrow> ''always''
      | Restart_OnFailure \<Rightarrow> ''on-failure''
      | Restart_UnlessStopped \<Rightarrow> ''unless-stopped'')"

definition de_restart_policy :: "'o serde_env \<Rightarrow> 'o sval \<Rightarrow> de_error + restart_policy" where
  "de_restart_policy env = de_unit_enum env
     [(''no'', Restart_No), (''always'', Restart_Always), (''on-failure'', Restart_OnFailure),
      (''unless-stopped'', Restart_UnlessStopped)]"

definition ser_service_env :: "service_env \<Rightarrow> 'o sval" where
  "ser_service_env e =
     (case e of
        EnvMap_Empty \<Rightarrow> S_Null
      | EnvMap_List xs \<Rightarrow> ser_strs xs
      | EnvMap_Map m \<Rightarrow> ser_map (ser_opt S_Str) m)"

definition de_service_env :: "'o sval \<Rightarrow> de_error + service_env" where
  "de_service_env v =
     (if v = S_Null then Ok EnvMap_Empty
      else or_else (map_res EnvMap_List (de_vec de_string v))
          (or_else (map_res EnvMap_Map (de_map (de_option de_string) v)) (Err (No_Variant ''EnvMap''))))"

definition ser_string_or_list :: "string_or_list \<Rightarrow> 'o sval" where
  "ser_string_or_list c = (case c of StringOrList_String s \<Rightarrow> S_Str s | StringOrList_List xs \<Rightarrow> ser_strs xs)"

definition de_string_or_list :: "'o sval \<Rightarrow> de_error + string_or_list" where
  "de_string_or_list v =
     or_else (map_res StringOrList_String (de_string v))
       (or_else (map_res StringOrList_List (de_vec de_string v)) (Err (No_Variant ''StringOrList'')))"

definition ser_service :: "'o serde_env \<Rightarrow> service \<Rightarrow> 'o sval" where
  "ser_service env s = ser_struct
     [(''image'', skip_none S_Str (svc_image s)),
      (''build'', skip_none ser_build (svc_build s)),
      (''command'', skip_none ser_string_or_list (svc_command s)),
      (''entrypoint'', skip_none ser_string_or_list (svc_entrypoint s)),
      (''environment'', if service_env_is_empty (svc_environment s) then None
                        else Some (ser_service_env (svc_environment s))),
      (''env_file'', skip_empty_vec S_Str (svc_env_file s)),
      (''ports'', skip_empty_vec ser_port_binding (svc_ports s)),
      (''volumes'', skip_empty_vec ser_mount_spec (svc_volumes s)),
      (''networks'', skip_empty_vec S_Str (svc_networks s)),
      (''network_mode'', skip_none ser_network_mode (svc_network_mode s)),
      (''depends_on'', if depends_on_is_empty (svc_depends_on s) then None
                       else Some (ser_depends_on (svc_depends_on s))),
      (''healthcheck'', skip_none (ser_healthcheck env) (svc_healthcheck s)),
      (''restart'', Some (ser_restart_policy (svc_restart s))),
      (''profiles'', skip_empty_vec S_Str (svc_profiles s)),
      (''secrets'', skip_empty_vec ser_secret_ref (svc_secrets s)),
      (''configs'', skip_empty_vec ser_config_ref (svc_configs s)),
      (''user'', skip_none S_Str (svc_user s)),
      (''working_dir'', skip_none S_Str (svc_working_dir s)),
      (''hostname'', skip_none S_Str (svc_hostname s)),
      (''cap_add'', skip_empty_vec S_Str (svc_cap_add s)),
      (''cap_drop'', skip_empty_vec S_Str (svc_cap_drop s)),
      (''init'', skip_none S_Bool (svc_init s)),
      (''stop_signal'', skip_none S_Str (svc_stop_signal s)),
      (''stop_grace_period'', skip_duration env (svc_stop_grace_period s))]"

definition service_field :: "'o serde_env \<Rightarrow> string \<Rightarrow> 'o sval \<Rightarrow> service \<Rightarrow> de_error + service" where
  "service_field env k v s =
     (if k = ''image'' then map_res (\<lambda>x. s\<lparr>svc_image := x\<rparr>) (de_option de_string v)
      else if k = ''build'' then map_res (\<lambda>x. s\<lparr>svc_build := x\<rparr>) (de_option (de_build env) v)
      else if k = ''command'' then map_res (\<lambda>x. s\<lparr>svc_command := x\<rparr>) (de_option de_string_or_list v)
      else if k = ''entrypoint'' then map_res (\<lambda>x. s\<lparr>svc_entrypoint := x\<rparr>) (de_option de_string_or_list v)
      else if k = ''environment'' then map_res (\<lambda>x. s\<lparr>svc_environment := x\<rparr>) (de_service_env v)
      else if k = ''env_file'' then map_res (\<lambda>x. s\<lparr>svc_env_file := x\<rparr>) (de_vec de_string v)
      else if k = ''ports'' then map_res (\<lambda>x. s\<lparr>svc_ports := x\<rparr>) (de_vec (de_port_binding env) v)
      else if k = ''volumes'' then map_res (\<lambda>x. s\<lparr>svc_volumes := x\<rparr>) (de_vec (de_mount_spec env) v)
      else if k = ''networks'' then map_res (\<lambda>x. s\<lparr>svc_networks := x\<rparr>) (de_vec de_string v)
      else if k = ''network_mode'' then map_res (\<lambda>x. s\<lparr>svc_network_mode := x\<rparr>) (de_option de_network_mode v)
      else if k = ''depends_on'' then map_res (\<lambda>x. s\<lparr>svc_depends_on := x\<rparr>) (de_depends_on env v)
      else if k = ''healthcheck'' then map_res (\<lambda>x. s\<lparr>svc_healthcheck := x\<rparr>) (de_option (de_healthcheck env) v)
      else if k = ''restart'' then map_res (\<lambda>x. s\<lparr>svc_restart := x\<rparr>) (de_restart_policy env v)
      else if k = ''profiles'' then map_res (\<lambda>x. s\<lparr>svc_profiles := x\<rparr>) (de_vec de_string v)
      else if k = ''secrets'' then map_res (\<lambda>x. s\<lparr>svc_secrets := x\<rparr>) (de_vec (de_secret_ref env) v)
      else if k = ''configs'' then map_res (\<lambda>x. s\<lparr>svc_configs := x\<rparr>) (de_vec (de_config_ref env) v)
      else if k = ''user'' then map_res (\<lambda>x. s\<lparr>svc_user := x\<rparr>) (de_option de_string v)
      else if k = ''working_dir'' then map_res (\<lambda>x. s\<lparr>svc_working_dir := x\<rparr>) (de_option de_string v)
      else if k = ''hostname'' then map_res (\<lambda>x. s\<lparr>svc_hostname := x\<rparr>) (de_option de_string v)
      else if k = ''cap_add'' then map_res (\<lambda>x. s\<lparr>svc_cap_add := x\<rparr>) (de_vec de_string v)
      else if k = ''cap_drop'' then map_res (\<lambda>x. s\<lparr>svc_cap_drop := x\<rparr>) (de_vec de_string v)
      else if k = ''init'' then map_res (\<lambda>x. s\<lparr>svc_init := x\<rparr>) (de_option de_bool v)
      else if k = ''stop_signal'' then map_res (\<lambda>x. s\<lparr>svc_stop_signal := x\<rparr>) (de_option de_string v)
      else if k = ''stop_grace_period'' then map_res (\<lambda>x. s\<lparr>svc_stop_grace_period := x\<rparr>) (de_duration env v)
      else Err (Unknown_Field k))"

definition service_default :: service where
  "service_default =
     \<lparr>svc_image = None, svc_build = None, svc_command = None, svc_entrypoint = None,
      svc_environment = EnvMap_Empty, svc_env_file = [], svc_ports = [], svc_volumes = [], svc_networks = [],
      svc_network_mode = None, svc_depends_on = DependsOn_Empty, svc_healthcheck = None, svc_restart = Restart_No,
      svc_profiles = [], svc_secrets = [], svc_configs = [], svc_user = None, svc_working_dir = None,
      svc_hostname = None, svc_cap_add = [], svc_cap_drop = [], svc_init = None, svc_stop_signal = None,
      svc_stop_grace_period = None\<rparr>"

definition service_fields :: "string list" where
  "service_fields =
     [''image'', ''build'', ''command'', ''entrypoint'', ''environment'', ''env_file'', ''ports'', ''volumes'',
      ''networks'', ''network_mode'', ''depends_on'', ''healthcheck'', ''restart'', ''profiles'', ''secrets'',
      ''configs'', ''user'', ''working_dir'', ''hostname'', ''cap_add'', ''cap_drop'', ''init'', ''stop_signal'',
      ''stop_grace_period'']"

definition de_service :: "'o serde_env \<Rightarrow> 'o sval \<Rightarrow> de_error + service" where
  "de_service env = de_struct env service_fields (service_field env) [] service_default"

section \<open>lib.rs\<close>

definition ser_project :: "project \<Rightarrow> 'o sval" where
  "ser_project p = ser_struct [(''name'', Some (S_Str (prj_name p)))]"

definition project_field :: "string \<Rightarrow> 'o sval \<Rightarrow> project \<Rightarrow> de_error + project" where
  "project_field k v p =
     (if k = ''name'' then map_res (\<lambda>x. p\<lparr>prj_name := x\<rparr>) (de_string v) else Err (Unknown_Field k))"

definition de_project :: "'o serde_env \<Rightarrow> 'o sval \<Rightarrow> de_error + project" where
  "de_project env = de_struct env [''name''] project_field [''name''] \<lparr>prj_name = []\<rparr>"

text \<open>
  The root document: \<open>extensions\<close> is flattened, so its entries stand beside the named fields, and
  reading collects every other top-level key into it.
\<close>

definition compose_entries :: "'o serde_env \<Rightarrow> 'o sval compose \<Rightarrow> (string \<times> 'o sval option) list" where
  "compose_entries env c =
     [(''project'', skip_none ser_project (cmp_project c)),
      (''services'', skip_empty_map (ser_service env) (cmp_services c)),
      (''networks'', skip_empty_map ser_network (cmp_networks c)),
      (''volumes'', skip_empty_map ser_volume (cmp_volumes c)),
      (''secrets'', skip_empty_map ser_secret (cmp_secrets c)),
      (''configs'', skip_empty_map ser_config (cmp_configs c))]"

definition ser_compose :: "'o serde_env \<Rightarrow> 'o sval compose \<Rightarrow> 'o sval" where
  "ser_compose env c = S_Map (entries_of (compose_entries env c) @ cmp_extensions c)"

definition compose_field :: "'o serde_env \<Rightarrow> string \<Rightarrow> 'o sval \<Rightarrow> 'o sval compose \<Rightarrow> de_error + 'o sval compose" where
  "compose_field env k v c =
     (if k = ''project'' then map_res (\<lambda>x. c\<lparr>cmp_project := x\<rparr>) (de_option (de_project env) v)
      else if k = ''services'' then map_res (\<lambda>x. c\<lparr>cmp_services := x\<rparr>) (de_map (de_service env) v)
      else if k = ''networks'' then map_res (\<lambda>x. c\<lparr>cmp_networks := x\<rparr>) (de_map (de_network env) v)
      else if k = ''volumes'' then map_res (\<lambda>x. c\<lparr>cmp_volumes := x\<rparr>) (de_map (de_volume env) v)
      else if k = ''secrets'' then map_res (\<lambda>x. c\<lparr>cmp_secrets := x\<rparr>) (de_map (de_secret env) v)
      else if k = ''configs'' then map_res (\<lambda>x. c\<lparr>cmp_configs := x\<rparr>) (de_map (de_config env) v)
      else Err (Unknown_Field k))"

definition compose_fields :: "string list" where
  "compose_fields = [''project'', ''services'', ''networks'', ''volumes'', ''secrets'', ''configs'']"

definition compose_default :: "'x compose" where
  "compose_default =
     \<lparr>cmp_project = None, cmp_services = [], cmp_networks = [], cmp_volumes = [], cmp_secrets = [],
      cmp_configs = [], cmp_extensions = []\<rparr>"

fun de_compose :: "'o serde_env \<Rightarrow> 'o sval \<Rightarrow> de_error + 'o sval compose" where
  "de_compose env (S_Map kvs) =
     bind_res (visit_entries (compose_field env) [] (filter (\<lambda>(k, v). k \<in> set compose_fields) kvs) compose_default) (\<lambda>c.
     bind_res (de_entries (se_value env) (filter (\<lambda>(k, v). k \<notin> set compose_fields) kvs)) (\<lambda>extensions.
       Ok (c\<lparr>cmp_extensions := extensions\<rparr>)))"
| "de_compose env _ = Err (Invalid_Type ''a map'')"

end
