(* ===== verification/Serde_Facts.thy ===== *)
theory Serde_Facts
  imports Schema_Serde Visit
begin

text \<open>
  Reading back what was serialized: the documents a compose value can stand for, one round-trip lemma
  per struct, and the reading of unknown fields.
\<close>

section \<open>Documents that have a serialized form of their own\<close>

text \<open>
  The invariants of the Rust types (maps in key order, integers and durations in range), and no custom
  network mode with the name of a built-in one.
\<close>

definition duration_ok :: "duration \<Rightarrow> bool" where
  "duration_ok d \<longleftrightarrow> d < 2 ^ 64 * 1000000000"

definition depends_on_ok :: "depends_on \<Rightarrow> bool" where
  "depends_on_ok d = (case d of DependsOn_Map m \<Rightarrow> bt_ok m | _ \<Rightarrow> True)"

definition healthcheck_ok :: "healthcheck \<Rightarrow> bool" where
  "healthcheck_ok h =
     (opt_ok duration_ok (hc_interval h) \<and> opt_ok duration_ok (hc_timeout h) \<and>
      opt_ok duration_ok (hc_start_period h) \<and> opt_ok (\<lambda>n. n < 2 ^ 32) (hc_retries h))"

definition port_ok :: "port_binding \<Rightarrow> bool" where
  "port_ok p = (case p of PortBinding_Long l \<Rightarrow> port_target l < 2 ^ 16 | _ \<Rightarrow> True)"

definition secret_ref_ok :: "secret_ref \<Rightarrow> bool" where
  "secret_ref_ok s = (case s of SecretRef_Long l \<Rightarrow> opt_ok (\<lambda>n. n < 2 ^ 32) (sref_mode l) | _ \<Rightarrow> True)"

definition config_ref_ok :: "config_ref \<Rightarrow> bool" where
  "config_ref_ok c = (case c of ConfigRef_Long l \<Rightarrow> opt_ok (\<lambda>n. n < 2 ^ 32) (cref_mode l) | _ \<Rightarrow> True)"

definition network_mode_ok :: "network_mode \<Rightarrow> bool" where
  "network_mode_ok m =
     (case m of
        NetworkMode_Custom n \<Rightarrow> n \<notin> {''bridge'', ''host'', ''none''} \<and> \<not> prefix ''container:'' n
      | _ \<Rightarrow> True)"

definition service_canonical :: "service \<Rightarrow> bool" where
  "service_canonical s =
     (service_ok s \<and> list_all port_ok (svc_ports s) \<and> opt_ok network_mode_ok (svc_network_mode s) \<and>
      depends_on_ok (svc_depends_on s) \<and> opt_ok healthcheck_ok (svc_healthcheck s) \<and>
      list_all secret_ref_ok (svc_secrets s) \<and> list_all config_ref_ok (svc_configs s) \<and>
      opt_ok duration_ok (svc_stop_grace_period s))"

definition network_canonical :: "network \<Rightarrow> bool" where
  "network_canonical n = (network_ok n \<and> opt_ok (\<lambda>i. list_all bt_ok (ipam_config i)) (net_ipam n))"

definition extensions_ok :: "(string, 'o sval) btree_map \<Rightarrow> bool" where
  "extensions_ok m =
     (bt_ok m \<and> list_all (\<lambda>(k, v). k \<notin> set compose_fields \<and> toml_value_ok v \<and> sort_keys v = v) m)"

definition compose_canonical :: "'o sval compose \<Rightarrow> bool" where
  "compose_canonical c =
     (map_ok service_canonical (cmp_services c) \<and> map_ok network_canonical (cmp_networks c) \<and>
      map_ok volume_ok (cmp_volumes c) \<and> bt_ok (cmp_secrets c) \<and> bt_ok (cmp_configs c) \<and>
      extensions_ok (cmp_extensions c))"

text \<open>
  What the code relies on in the libraries: humantime parses what it formats, and \<open>toml::Value\<close> reads
  back every value TOML can hold, its tables in key order; both return only values of their type.
\<close>

definition serde_laws :: "'o serde_env \<Rightarrow> bool" where
  "serde_laws env \<longleftrightarrow>
     (\<forall>d. duration_ok d \<longrightarrow> se_parse env (se_format env d) = Ok d) \<and>
     (\<forall>v. toml_value_ok v \<longrightarrow> se_value env v = Ok (sort_keys v))"

definition serde_types :: "'o serde_env \<Rightarrow> bool" where
  "serde_types env \<longleftrightarrow>
     (\<forall>s d. se_parse env s = Ok d \<longrightarrow> duration_ok d) \<and>
     (\<forall>v w. se_value env v = Ok w \<longrightarrow> toml_value_ok w \<and> sort_keys w = w)"

lemma serde_value: "serde_laws env \<Longrightarrow> toml_value_ok v \<Longrightarrow> se_value env v = Ok (sort_keys v)"
  by (simp add: serde_laws_def)

section \<open>Fields\<close>

text \<open>A field that was skipped leaves the default; one that was written is read back.\<close>

lemma field_none [ser_simps]:
  assumes "\<And>y. x = Some y \<Longrightarrow> d (f y) = Ok y" "\<And>y. f y \<noteq> S_Null" "h None = r"
  shows "(case skip_none f x of None \<Rightarrow> Ok r | Some v \<Rightarrow> map_res h (de_option d v)) = Ok (h x)"
  using assms by (cases x) (simp_all add: skip_none_def de_option_def)

lemma collect_res_map_Ok:
  "(\<And>x. x \<in> set xs \<Longrightarrow> d (f x) = Ok (g x)) \<Longrightarrow> collect_res d (map f xs) = Ok (map g xs)"
  by (induction xs) simp_all

lemma de_vec_map: "(\<And>x. x \<in> set xs \<Longrightarrow> d (f x) = Ok x) \<Longrightarrow> de_vec d (S_Seq (map f xs)) = Ok xs"
  using collect_res_map_Ok[of xs d f "\<lambda>x. x"] by simp

lemma de_map_ser:
  assumes "\<And>k y. (k, y) \<in> set m \<Longrightarrow> d (f y) = Ok y" "bt_ok m"
  shows "de_map d (ser_map f m) = Ok m"
proof -
  have "collect_res (\<lambda>(k, v). map_res (Pair k) (d v)) (map (\<lambda>(k, v). (k, f v)) m) = Ok (map (\<lambda>x. x) m)"
    by (rule collect_res_map_Ok) (use assms(1) in auto)
  with assms(2) show ?thesis by (simp add: ser_map_def de_entries_def bt_from_iter_id)
qed

lemma field_map [ser_simps]:
  assumes "\<And>k y. (k, y) \<in> set m \<Longrightarrow> d (f y) = Ok y" "bt_ok m" "h [] = r"
  shows "(case skip_empty_map f m of None \<Rightarrow> Ok r | Some v \<Rightarrow> map_res h (de_map d v)) = Ok (h m)"
  using assms de_map_ser[of m d f] by (simp add: skip_empty_map_def)

lemma field_vec [ser_simps]:
  assumes "\<And>y. y \<in> set xs \<Longrightarrow> d (f y) = Ok y" "h [] = r"
  shows "(case skip_empty_vec f xs of None \<Rightarrow> Ok r | Some v \<Rightarrow> map_res h (de_vec d v)) = Ok (h xs)"
  using assms de_vec_map[of xs d f] by (simp add: skip_empty_vec_def)

lemma field_false [ser_simps]:
  "h False = r \<Longrightarrow> (case skip_false b of None \<Rightarrow> Ok r | Some v \<Rightarrow> map_res h (de_bool v)) = Ok (h b)"
  by (auto simp: skip_false_def)

lemma field_duration [ser_simps]:
  assumes "serde_laws env" "opt_ok duration_ok x" "h None = r"
  shows "(case skip_duration env x of None \<Rightarrow> Ok r | Some v \<Rightarrow> map_res h (de_duration env v)) = Ok (h x)"
  using assms
  by (cases x) (simp_all add: skip_duration_def de_duration_def opt_duration_serialize_def de_option_def
      opt_duration_deserialize_def serde_laws_def opt_ok_def)

lemma de_strs [simp]: "de_vec de_string (ser_strs xs) = Ok xs"
  unfolding ser_strs_def by (rule de_vec_map) simp

lemma ser_strs_simps [simp]: "ser_strs xs \<noteq> S_Null" "de_string (ser_strs xs) = Err (Invalid_Type ''a string'')"
  by (simp_all add: ser_strs_def)

lemma ser_map_simps [simp]: "ser_map f m \<noteq> S_Null" "de_vec d (ser_map f m) = Err (Invalid_Type ''a sequence'')"
  by (simp_all add: ser_map_def)

lemma ser_struct_simps [simp]:
  "ser_struct fs \<noteq> S_Null" "de_string (ser_struct fs) = Err (Invalid_Type ''a string'')"
  by (simp_all add: ser_struct_def)

lemma de_uint_ser [simp]: "n < 2 ^ w \<Longrightarrow> de_uint w (ser_u n) = Ok n"
  by (simp add: ser_u_def)

lemma ser_u_simps [simp]: "ser_u n \<noteq> S_Null"
  by (simp add: ser_u_def)

lemma or_else_simps [simp]: "or_else (Ok a) r = Ok a" "or_else (Err e) r = r"
  by (simp_all add: or_else_def)

lemma opt_okD: "opt_ok P x \<Longrightarrow> x = Some y \<Longrightarrow> P y"
  by (simp add: opt_ok_def)

lemma field_uint [ser_simps]:
  assumes "opt_ok (\<lambda>n. n < 2 ^ w) x" "h None = r"
  shows "(case skip_none ser_u x of None \<Rightarrow> Ok r | Some v \<Rightarrow> map_res h (de_option (de_uint w) v)) = Ok (h x)"
  by (rule field_none) (use assms opt_okD[OF assms(1)] in auto)

lemma opt_ok_simps [simp]: "opt_ok P None" "opt_ok P (Some x) = P x"
  by (simp_all add: opt_ok_def)

section \<open>Round trips\<close>

lemma de_ser_build: "build_ok b \<Longrightarrow> de_build env (ser_build b) = Ok b"
  unfolding de_build_def ser_build_def
  by (rule de_struct_ser) (simp_all add: build_field_def ser_simps build_ok_def cong: option.case_cong)

lemma de_ser_depends_condition [simp]: "de_depends_condition env (ser_depends_condition c) = Ok c"
  by (cases c) (simp_all add: de_depends_condition_def ser_depends_condition_def de_unit_enum_def)

lemma de_ser_depends_on_spec: "de_depends_on_spec env (ser_depends_on_spec d) = Ok d"
  unfolding de_depends_on_spec_def ser_depends_on_spec_def
  by (rule de_struct_ser) (simp_all add: depends_on_spec_field_def ser_simps cong: option.case_cong)

lemma de_ser_depends_on: "depends_on_ok d \<Longrightarrow> de_depends_on env (ser_depends_on d) = Ok d"
  by (cases d) (simp_all add: de_depends_on_def ser_depends_on_def depends_on_ok_def de_map_ser de_ser_depends_on_spec)

lemma de_ser_healthcheck_test [simp]: "de_healthcheck_test (ser_healthcheck_test t) = Ok t"
  by (cases t) (simp_all add: de_healthcheck_test_def ser_healthcheck_test_def)

lemma de_ser_healthcheck:
  assumes "serde_laws env" "healthcheck_ok h"
  shows "de_healthcheck env (ser_healthcheck env h) = Ok h"
  using assms unfolding de_healthcheck_def ser_healthcheck_def
  by (intro de_struct_ser) (simp_all add: healthcheck_field_def ser_simps healthcheck_ok_def cong: option.case_cong)

lemma de_ser_ipam: "list_all bt_ok (ipam_config i) \<Longrightarrow> de_ipam env (ser_ipam i) = Ok i"
  unfolding de_ipam_def ser_ipam_def
  by (rule de_struct_ser) (simp_all add: ipam_field_def ser_simps de_map_ser list_all_iff cong: option.case_cong)

lemma ser_not_null [simp]:
  "ser_build b \<noteq> S_Null" "ser_ipam i \<noteq> S_Null" "ser_healthcheck env h \<noteq> S_Null" "ser_bind_options bo \<noteq> S_Null"
  "ser_volume_options vo \<noteq> S_Null" "ser_network_mode nm \<noteq> S_Null" "ser_string_or_list sl \<noteq> S_Null"
  "ser_project pr \<noteq> S_Null"
  by (simp_all add: ser_build_def ser_ipam_def ser_healthcheck_def ser_bind_options_def ser_volume_options_def
      ser_network_mode_def ser_string_or_list_def ser_project_def split: string_or_list.split)

lemma field_ipam [ser_simps]:
  assumes "opt_ok (\<lambda>i. list_all bt_ok (ipam_config i)) x" "h None = r"
  shows "(case skip_none ser_ipam x of None \<Rightarrow> Ok r | Some v \<Rightarrow> map_res h (de_option (de_ipam env) v)) = Ok (h x)"
  by (rule field_none) (use assms opt_okD[OF assms(1)] de_ser_ipam in auto)

lemma de_ser_network: "network_canonical n \<Longrightarrow> de_network env (ser_network n) = Ok n"
  unfolding de_network_def ser_network_def network_canonical_def network_ok_def
  by (rule de_struct_ser) (simp_all add: network_field_def ser_simps de_ser_ipam cong: option.case_cong)

lemma de_ser_volume: "volume_ok v \<Longrightarrow> de_volume env (ser_volume v) = Ok v"
  unfolding de_volume_def ser_volume_def volume_ok_def
  by (rule de_struct_ser) (simp_all add: volume_field_def ser_simps cong: option.case_cong)

lemma de_ser_secret: "de_secret env (ser_secret s) = Ok s"
  unfolding de_secret_def ser_secret_def
  by (rule de_struct_ser) (simp_all add: secret_field_def ser_simps cong: option.case_cong)

lemma de_ser_config: "de_config env (ser_config c) = Ok c"
  unfolding de_config_def ser_config_def
  by (rule de_struct_ser) (simp_all add: config_field_def ser_simps cong: option.case_cong)

lemma de_ser_project: "de_project env (ser_project p) = Ok p"
  unfolding de_project_def ser_project_def
  by (rule de_struct_ser) (simp_all add: project_field_def)

lemma de_ser_secret_ref_long:
  "opt_ok (\<lambda>n. n < 2 ^ 32) (sref_mode s) \<Longrightarrow> de_secret_ref_long env (ser_secret_ref_long s) = Ok s"
  unfolding de_secret_ref_long_def ser_secret_ref_long_def
  by (rule de_struct_ser) (simp_all add: secret_ref_long_field_def ser_simps cong: option.case_cong)

lemma de_ser_secret_ref: "secret_ref_ok s \<Longrightarrow> de_secret_ref env (ser_secret_ref s) = Ok s"
  by (cases s) (simp_all add: de_secret_ref_def ser_secret_ref_def secret_ref_ok_def de_ser_secret_ref_long,
      simp add: ser_secret_ref_long_def)

lemma de_ser_config_ref_long:
  "opt_ok (\<lambda>n. n < 2 ^ 32) (cref_mode s) \<Longrightarrow> de_config_ref_long env (ser_config_ref_long s) = Ok s"
  unfolding de_config_ref_long_def ser_config_ref_long_def
  by (rule de_struct_ser) (simp_all add: config_ref_long_field_def ser_simps cong: option.case_cong)

lemma de_ser_config_ref: "config_ref_ok s \<Longrightarrow> de_config_ref env (ser_config_ref s) = Ok s"
  by (cases s) (simp_all add: de_config_ref_def ser_config_ref_def config_ref_ok_def de_ser_config_ref_long,
      simp add: ser_config_ref_long_def)

lemma de_ser_network_mode: "network_mode_ok m \<Longrightarrow> de_network_mode (ser_network_mode m) = Ok m"
  by (cases m) (simp_all add: de_network_mode_def ser_network_mode_def network_mode_ok_def
      network_mode_deserialize_def network_mode_serialize_def)

lemma de_ser_restart_policy [simp]: "de_restart_policy env (ser_restart_policy r) = Ok r"
  by (cases r) (simp_all add: de_restart_policy_def ser_restart_policy_def de_unit_enum_def)

lemma de_ser_opt_str [simp]: "de_option de_string (ser_opt S_Str x) = Ok x"
  by (cases x) (simp_all add: de_option_def ser_opt_def)

lemma de_ser_service_env: "service_env_ok e \<Longrightarrow> de_service_env (ser_service_env e) = Ok e"
  by (cases e) (simp_all add: de_service_env_def ser_service_env_def service_env_ok_def de_map_ser)

lemma de_ser_string_or_list [simp]: "de_string_or_list (ser_string_or_list c) = Ok c"
  by (cases c) (simp_all add: de_string_or_list_def ser_string_or_list_def)

text \<open>
  Ports and mounts go through a \<open>toml::Value\<close>, whose tables are in key order.
\<close>

lemma keys_entries_subseq: "subseq (map fst (entries_of fs)) (map fst fs)"
proof (induction fs)
  case (Cons f fs)
  obtain k x where "f = (k, x)" by fastforce
  with Cons show ?case by (cases x) (auto intro: list_emb_Cons)
qed simp

lemma sorted_subseq: "subseq xs ys \<Longrightarrow> sorted_wrt P ys \<Longrightarrow> sorted_wrt P xs"
  by (induction rule: list_emb.induct) (auto dest: list_emb_set)

text \<open>The sorted form of a struct is that of its fields in key order.\<close>

lemma sort_keys_ser_struct:
  assumes "sorted_wrt (<) (map fst gs)" "distinct (map fst fs)" "set fs = set gs"
  shows "sort_keys (ser_struct fs) = ser_struct (map (map_prod id (map_option sort_keys)) gs)"
proof -
  let ?gs = "map (map_prod id (map_option sort_keys)) gs" and ?es = "map (map_prod id sort_keys) (entries_of fs)"
  have keys: "map fst ?gs = map fst gs" by simp
  from assms(1) have dist: "distinct (map fst gs)" using strict_sorted_iff by blast
  with assms(2,3) have same: "map_of fs = map_of gs" by (simp add: map_of_inject_set)
  have "map fst ?es = map fst (entries_of fs)" by simp
  then have des: "distinct (map fst ?es)" using distinct_entries_of[OF assms(2)] by simp
  have "map_of ?es k = map_of (entries_of ?gs) k" for k
  proof -
    have "map_of ?es k = map_option sort_keys (Option.bind (map_of fs k) (\<lambda>x. x))"
      by (simp add: map_prod_def id_def map_of_map map_of_entries_of[OF assms(2)])
    moreover have "map_of ?gs k = map_option (map_option sort_keys) (map_of gs k)"
      by (simp add: map_prod_def id_def map_of_map)
    then have "map_of (entries_of ?gs) k = map_option sort_keys (Option.bind (map_of gs k) (\<lambda>x. x))"
      using dist keys by (cases "map_of gs k") (simp_all only: map_of_entries_of, simp_all)
    ultimately show ?thesis by (simp add: same)
  qed
  moreover have ok: "bt_ok (entries_of ?gs)"
    using sorted_subseq[OF keys_entries_subseq[of ?gs]] assms(1) keys by (simp add: bt_ok_def bt_keys_def)
  moreover have "bt_get (bt_from_iter ?es) k = map_of ?es k" for k
    using des by (simp only: bt_get_from_iter map_of_rev_distinct)
  ultimately have "bt_from_iter ?es = entries_of ?gs"
    by (intro btree.entries_canonical bt_ok_from_iter) (simp_all only: bt_get_def)
  then show ?thesis by (simp add: ser_struct_def)
qed

lemma sorted_skips [simp]:
  "map_option sort_keys (skip_none f x) = skip_none (\<lambda>y. sort_keys (f y)) x"
  "map_option sort_keys (skip_false b) = skip_false b"
  by (cases x; simp add: skip_none_def) (simp add: skip_false_def)

lemma sort_keys_null [simp]: "sort_keys v = S_Null \<longleftrightarrow> v = S_Null"
  by (cases v) simp_all

lemma sorted_port_long:
  "sort_keys (ser_port_long l) = ser_struct
     [(''host_ip'', skip_none S_Str (port_host_ip l)), (''protocol'', skip_none S_Str (port_protocol l)),
      (''published'', skip_none S_Str (port_published l)), (''target'', Some (ser_u (port_target l)))]"
  unfolding ser_port_long_def
  by (subst sort_keys_ser_struct[where gs = "[(''host_ip'', skip_none S_Str (port_host_ip l)),
      (''protocol'', skip_none S_Str (port_protocol l)), (''published'', skip_none S_Str (port_published l)),
      (''target'', Some (ser_u (port_target l)))]"]) (auto simp: less_char_def ser_u_def)

lemma de_sorted_port_long:
  assumes "port_target l < 2 ^ 16"
  shows "de_port_long env (sort_keys (ser_port_long l)) = Ok l"
  using assms unfolding de_port_long_def sorted_port_long
  by (intro de_struct_ser) (simp_all add: port_long_field_def ser_simps cong: option.case_cong)

lemma toml_view_table [simp]:
  "toml_view (sort_keys (ser_port_long l)) = Toml_Table (sort_keys (ser_port_long l))"
  "toml_view (sort_keys (ser_mount_long m)) = Toml_Table (sort_keys (ser_mount_long m))"
  by (simp_all add: ser_struct_def toml_view_def ser_port_long_def ser_mount_long_def)

lemma toml_value_ok_struct:
  "distinct (map fst fs) \<Longrightarrow> list_all (\<lambda>(k, f). opt_ok toml_value_ok f) fs \<Longrightarrow> toml_value_ok (ser_struct fs)"
proof -
  assume "distinct (map fst fs)" and ok: "list_all (\<lambda>(k, f). opt_ok toml_value_ok f) fs"
  moreover have "list_all snd (map (map_prod id toml_value_ok) (entries_of fs))" using ok
    by (induction fs) (auto simp: entries_of_Cons split: option.split)
  ultimately show ?thesis by (simp add: ser_struct_def distinct_entries_of)
qed

lemma opt_ok_skips [simp]:
  "opt_ok P (skip_none f x) = opt_ok (\<lambda>y. P (f y)) x" "opt_ok P (skip_false b) = (b \<longrightarrow> P (S_Bool True))"
  by (cases x; simp add: skip_none_def) (simp add: skip_false_def)

lemma toml_value_ok_port: "port_target l < 2 ^ 16 \<Longrightarrow> toml_value_ok (ser_port_long l)"
  unfolding ser_port_long_def by (rule toml_value_ok_struct) (simp_all add: ser_u_def)

lemma de_ser_port_binding:
  assumes "serde_laws env" "port_ok p"
  shows "de_port_binding env (ser_port_binding p) = Ok p"
proof (cases p)
  case (PortBinding_Short s)
  with assms(1) show ?thesis
    by (simp add: de_port_binding_def ser_port_binding_def of_toml_view_def port_binding_serialize_def serde_value
        toml_view_def port_binding_deserialize_def)
next
  case (PortBinding_Long l)
  with assms(2) have small: "port_target l < 2 ^ 16" by (simp add: port_ok_def)
  with PortBinding_Long show ?thesis
    by (simp add: de_port_binding_def ser_port_binding_def of_toml_view_def port_binding_serialize_def
        port_binding_deserialize_def serde_value[OF assms(1)] toml_value_ok_port
        de_sorted_port_long)
qed

lemma de_sorted_bind_options: "de_bind_options env (sort_keys (ser_bind_options b)) = Ok b"
  unfolding ser_bind_options_def de_bind_options_def
  by (subst sort_keys_ser_struct[where gs = "[(''create_host_path'', skip_false (bind_create_host_path b)),
      (''propagation'', skip_none S_Str (bind_propagation b))]"],
      (auto simp: less_char_def)[3], rule de_struct_ser)
    (simp_all add: bind_options_field_def ser_simps cong: option.case_cong)

lemma de_sorted_volume_options: "de_volume_options env (sort_keys (ser_volume_options r)) = Ok r"
  unfolding ser_volume_options_def de_volume_options_def
  by (subst sort_keys_ser_struct[where gs = "[(''nocopy'', skip_false (vol_nocopy r))]"],
      simp_all, rule de_struct_ser)
    (simp_all add: volume_options_field_def ser_simps cong: option.case_cong)

lemma sorted_mount_long:
  "sort_keys (ser_mount_long m) = ser_struct
     [(''bind'', skip_none (\<lambda>b. sort_keys (ser_bind_options b)) (mount_bind m)),
      (''read_only'', skip_false (mount_read_only m)), (''source'', skip_none S_Str (mount_source m)),
      (''target'', Some (S_Str (mount_target m))), (''type'', Some (S_Str (mount_type m))),
      (''volume'', skip_none (\<lambda>b. sort_keys (ser_volume_options b)) (mount_volume m))]"
  unfolding ser_mount_long_def
  by (subst sort_keys_ser_struct[where gs = "[(''bind'', skip_none ser_bind_options (mount_bind m)),
      (''read_only'', skip_false (mount_read_only m)), (''source'', skip_none S_Str (mount_source m)),
      (''target'', Some (S_Str (mount_target m))), (''type'', Some (S_Str (mount_type m))),
      (''volume'', skip_none ser_volume_options (mount_volume m))]"]) (auto simp: less_char_def)

lemma de_sorted_mount_long: "de_mount_long env (sort_keys (ser_mount_long m)) = Ok m"
  unfolding de_mount_long_def sorted_mount_long
  by (rule de_struct_ser)
    (simp_all add: mount_long_field_def ser_simps de_sorted_bind_options de_sorted_volume_options
      cong: option.case_cong)

lemma toml_value_ok_mount: "toml_value_ok (ser_mount_long m :: 'o sval)"
proof -
  have "toml_value_ok (ser_bind_options b :: 'o sval)" "toml_value_ok (ser_volume_options r :: 'o sval)" for b r
    unfolding ser_bind_options_def ser_volume_options_def by (rule toml_value_ok_struct; simp)+
  then show ?thesis unfolding ser_mount_long_def by (intro toml_value_ok_struct) simp_all
qed

lemma de_ser_mount_spec:
  assumes "serde_laws env"
  shows "de_mount_spec env (ser_mount_spec m) = Ok m"
proof (cases m)
  case (MountSpec_Short s)
  with assms show ?thesis
    by (simp add: de_mount_spec_def ser_mount_spec_def of_toml_view_def mount_spec_serialize_def serde_value
        toml_view_def mount_spec_deserialize_def)
next
  case (MountSpec_Long l)
  then show ?thesis
    by (simp add: de_mount_spec_def ser_mount_spec_def of_toml_view_def mount_spec_serialize_def
        mount_spec_deserialize_def serde_value[OF assms(1)] toml_value_ok_mount de_sorted_mount_long)
qed

section \<open>Services and documents\<close>

lemma field_environment [ser_simps]:
  assumes "service_env_ok e" "h EnvMap_Empty = r"
  shows "(case if service_env_is_empty e then None else Some (ser_service_env e) of
      None \<Rightarrow> Ok r | Some v \<Rightarrow> map_res h (de_service_env v)) = Ok (h e)"
  using assms by (cases e) (simp_all add: service_env_is_empty_def de_ser_service_env)

lemma field_depends_on [ser_simps]:
  assumes "depends_on_ok d" "h DependsOn_Empty = r"
  shows "(case if depends_on_is_empty d then None else Some (ser_depends_on d) of
      None \<Rightarrow> Ok r | Some v \<Rightarrow> map_res h (de_depends_on env v)) = Ok (h d)"
  using assms de_ser_depends_on[of d env] by (cases d) (simp_all add: depends_on_is_empty_def)

lemma field_opt_ok:
  assumes "opt_ok P x" "\<And>y. P y \<Longrightarrow> d (f y) = Ok y" "\<And>y. f y \<noteq> S_Null" "h None = r"
  shows "(case skip_none f x of None \<Rightarrow> Ok r | Some v \<Rightarrow> map_res h (de_option d v)) = Ok (h x)"
  by (rule field_none) (use assms opt_okD[OF assms(1)] in auto)

lemmas field_build [ser_simps] = field_opt_ok[where P = build_ok and f = ser_build, OF _ de_ser_build]
  and field_network_mode [ser_simps] =
    field_opt_ok[where P = network_mode_ok and f = ser_network_mode, OF _ de_ser_network_mode]

lemma field_healthcheck [ser_simps]:
  assumes "serde_laws env" "opt_ok healthcheck_ok x" "h None = r"
  shows "(case skip_none (ser_healthcheck env) x of None \<Rightarrow> Ok r | Some v \<Rightarrow> map_res h (de_option (de_healthcheck env) v))
    = Ok (h x)"
  by (rule field_opt_ok[OF assms(2)]) (simp_all add: de_ser_healthcheck assms)

lemma de_ser_service:
  assumes "serde_laws env" "service_canonical s"
  shows "de_service env (ser_service env s) = Ok s"
  using assms unfolding de_service_def ser_service_def service_default_def service_canonical_def service_ok_def
  by (intro de_struct_ser)
    (simp_all add: service_field_def ser_simps list_all_iff de_ser_port_binding de_ser_mount_spec
      de_ser_secret_ref de_ser_config_ref cong: option.case_cong)

lemma de_entries_ser:
  assumes "\<And>k v. (k, v) \<in> set m \<Longrightarrow> d v = Ok v" "bt_ok m"
  shows "de_entries d m = Ok m"
proof -
  have "collect_res (\<lambda>(k, v). map_res (Pair k) (d v)) (map (\<lambda>x. x) m) = Ok (map (\<lambda>x. x) m)"
    by (rule collect_res_map_Ok) (use assms(1) in auto)
  with assms(2) show ?thesis by (simp add: de_entries_def bt_from_iter_id)
qed

lemma field_map_ok:
  assumes "map_ok P m" "\<And>y. P y \<Longrightarrow> d (f y) = Ok y" "h [] = r"
  shows "(case skip_empty_map f m of None \<Rightarrow> Ok r | Some v \<Rightarrow> map_res h (de_map d v)) = Ok (h m)"
  by (rule field_map) (use assms in \<open>auto simp: map_ok_def list_all_iff\<close>)

lemmas field_networks [ser_simps] = field_map_ok[where P = network_canonical and f = ser_network, OF _ de_ser_network]
  and field_volumes [ser_simps] = field_map_ok[where P = volume_ok and f = ser_volume, OF _ de_ser_volume]

lemma field_services [ser_simps]:
  assumes "serde_laws env" "map_ok service_canonical m" "h [] = r"
  shows "(case skip_empty_map (ser_service env) m of None \<Rightarrow> Ok r | Some v \<Rightarrow> map_res h (de_map (de_service env) v)) = Ok (h m)"
  by (rule field_map_ok[OF assms(2)]) (simp_all add: de_ser_service assms)

lemma compose_fields_read:
  assumes "serde_laws env" "compose_canonical c"
  shows "set_fields (compose_field env) (compose_entries env c) compose_default = Ok (c\<lparr>cmp_extensions := []\<rparr>)"
  using assms unfolding compose_canonical_def compose_default_def compose_entries_def
  by (simp add: compose_field_def ser_simps de_ser_project de_ser_secret de_ser_config cong: option.case_cong)

lemma compose_keys:
  "map fst (compose_entries env c) = compose_fields" "distinct compose_fields"
  by (simp_all add: compose_entries_def compose_fields_def)

lemma de_ser_compose:
  assumes "serde_laws env" "compose_canonical c"
  shows "de_compose env (ser_compose env c) = Ok c"
proof -
  let ?es = "entries_of (compose_entries env c)" and ?ext = "cmp_extensions c"
  have "fst ` set (compose_entries env c) = set compose_fields"
    using compose_keys(1)[of env c] by (metis set_map)
  then have known: "k \<in> set compose_fields" if "(k, v) \<in> set ?es" for k v
    using keys_entries_of[of "compose_entries env c"] imageI[OF that, of fst] by auto
  have ext: "bt_ok ?ext" "\<And>k v. (k, v) \<in> set ?ext \<Longrightarrow> k \<notin> set compose_fields \<and> toml_value_ok v \<and> sort_keys v = v"
    using assms(2) by (auto simp: compose_canonical_def extensions_ok_def list_all_iff)
  have parts: "filter (\<lambda>(k, v). k \<in> set compose_fields) ?es = ?es" "filter (\<lambda>(k, v). k \<notin> set compose_fields) ?es = []"
    "filter (\<lambda>(k, v). k \<in> set compose_fields) ?ext = []" "filter (\<lambda>(k, v). k \<notin> set compose_fields) ?ext = ?ext"
    by (rule filter_True filter_False; use known ext(2) in auto)+
  have "visit_entries (compose_field env) [] ?es compose_default = Ok (c\<lparr>cmp_extensions := []\<rparr>)"
    using compose_fields_read[OF assms] compose_keys by (subst visit_entries_of) (simp_all only: compose_keys, auto)
  moreover have "de_entries (se_value env) ?ext = Ok ?ext"
    using ext assms(1) by (intro de_entries_ser) (simp_all add: serde_value)
  ultimately show ?thesis by (simp only: ser_compose_def de_compose.simps filter_append parts) simp
qed

section \<open>What is read is well formed\<close>

lemma visit_entries_inv:
  assumes "visit_entries set_field seen kvs r = Ok r'" "I r"
    "\<And>k v r r'. set_field k v r = Ok r' \<Longrightarrow> I r \<Longrightarrow> I r'"
  shows "I r'"
  using assms(1,2)
proof (induction kvs arbitrary: seen r)
  case (Cons kv kvs)
  then show ?case using assms(3) by (cases kv) (auto simp: bind_res_Ok split: if_splits)
qed simp

lemma de_struct_inv:
  assumes "de_struct env names set_field required dflt v = Ok r" "I dflt"
    "\<And>k v r r'. set_field k v r = Ok r' \<Longrightarrow> I r \<Longrightarrow> I r'"
  shows "I r"
proof -
  obtain kvs where "de_fields set_field required dflt kvs = Ok r"
    using assms(1) by (cases v) (auto simp: res_simps)
  then have "visit_entries set_field [] kvs dflt = Ok r"
    by (cases "missing required kvs") (auto simp: de_fields_def res_simps)
  then show ?thesis by (rule visit_entries_inv) (use assms(2,3) in auto)
qed

lemma de_option_inv: "de_option d v = Ok x \<Longrightarrow> (\<And>w y. d w = Ok y \<Longrightarrow> P y) \<Longrightarrow> opt_ok P x"
  by (auto simp: de_option_def res_simps split: if_splits)

lemma collect_res_mem: "collect_res d xs = Ok ys \<Longrightarrow> y \<in> set ys \<Longrightarrow> \<exists>x\<in>set xs. d x = Ok y"
  by (induction xs arbitrary: ys) (auto simp: bind_res_Ok)

lemma collect_res_inv: "collect_res d xs = Ok ys \<Longrightarrow> (\<And>w y. d w = Ok y \<Longrightarrow> P y) \<Longrightarrow> list_all P ys"
  by (induction xs arbitrary: ys) (auto simp: bind_res_Ok)

lemma de_vec_inv: "de_vec d v = Ok xs \<Longrightarrow> (\<And>w y. d w = Ok y \<Longrightarrow> P y) \<Longrightarrow> list_all P xs"
  by (cases v) (auto dest: collect_res_inv)

lemma de_entries_ok: "de_entries d kvs = Ok m \<Longrightarrow> bt_ok m"
  by (auto simp: de_entries_def res_simps bt_ok_from_iter)

lemma de_map_bt_ok: "de_map d v = Ok m \<Longrightarrow> bt_ok m"
  by (cases v) (auto dest: de_entries_ok)

lemma set_from_iter: "set (bt_from_iter xs) \<subseteq> set xs"
proof
  fix kv assume "kv \<in> set (bt_from_iter xs)"
  then have "bt_get (bt_from_iter xs) (fst kv) = Some (snd kv)"
    using bt_mem[OF bt_ok_from_iter, of "fst kv" "snd kv" xs] by simp
  then show "kv \<in> set xs" by (metis bt_get_from_iter map_of_SomeD prod.collapse set_rev)
qed

lemma de_entries_inv:
  assumes "de_entries d kvs = Ok m" "\<And>k w y. (k, w) \<in> set kvs \<Longrightarrow> d w = Ok y \<Longrightarrow> P k y" "(k, y) \<in> set m"
  shows "P k y"
proof -
  obtain xs where xs: "collect_res (\<lambda>(k, w). map_res (Pair k) (d w)) kvs = Ok xs" "m = bt_from_iter xs"
    using assms(1) by (auto simp: de_entries_def map_res_Ok)
  with assms(3) set_from_iter[of xs] have "(k, y) \<in> set xs" by blast
  then obtain k' w where "(k', w) \<in> set kvs" "map_res (Pair k') (d w) = Ok (k, y)"
    using collect_res_mem[OF xs(1)] by fastforce
  then show ?thesis using assms(2) by (auto simp: map_res_Ok)
qed

lemma de_map_inv: "de_map d v = Ok m \<Longrightarrow> (\<And>w y. d w = Ok y \<Longrightarrow> P y) \<Longrightarrow> map_ok P m"
  by (cases v) (auto simp: map_ok_def list_all_iff dest: de_entries_ok de_entries_inv[where P = "\<lambda>_. P"])

lemma de_uint_inv: "de_uint w v = Ok n \<Longrightarrow> n < 2 ^ w"
  by (cases v) (auto split: if_splits simp: nat_less_iff)

lemma de_u32_inv: "de_uint 32 v = Ok n \<Longrightarrow> n < 4294967296"
  using de_uint_inv[of 32 v n] by simp

lemma de_build_ok: "de_build env v = Ok b \<Longrightarrow> build_ok b"
  unfolding de_build_def
  by (erule de_struct_inv) (auto simp: build_ok_def build_field_def res_simps de_map_bt_ok split: if_splits)

lemma or_else_Ok: "or_else r r' = Ok a \<longleftrightarrow> r = Ok a \<or> (\<exists>e. r = Err e) \<and> r' = Ok a"
  by (cases r) auto

lemma de_depends_on_ok: "de_depends_on env v = Ok d \<Longrightarrow> depends_on_ok d"
  by (auto simp: de_depends_on_def or_else_Ok map_res_Ok depends_on_ok_def dest: de_map_bt_ok split: if_splits)

lemma de_service_env_ok: "de_service_env v = Ok e \<Longrightarrow> service_env_ok e"
  by (auto simp: de_service_env_def or_else_Ok map_res_Ok service_env_ok_def dest: de_map_bt_ok split: if_splits)

lemma de_duration_ok: "serde_types env \<Longrightarrow> de_duration env v = Ok d \<Longrightarrow> opt_ok duration_ok d"
  by (auto simp: de_duration_def bind_res_Ok opt_duration_deserialize_def map_res_Ok map_err_Ok serde_types_def
      split: option.splits)

lemma de_healthcheck_ok: "serde_types env \<Longrightarrow> de_healthcheck env v = Ok h \<Longrightarrow> healthcheck_ok h"
  unfolding de_healthcheck_def
  by (erule de_struct_inv) (auto simp: healthcheck_ok_def healthcheck_field_def map_res_Ok split: if_splits
      dest: de_duration_ok elim!: de_option_inv de_u32_inv)

lemma de_ipam_ok: "de_ipam env v = Ok i \<Longrightarrow> list_all bt_ok (ipam_config i)"
  unfolding de_ipam_def
  by (erule de_struct_inv) (auto simp: ipam_field_def map_res_Ok split: if_splits elim!: de_vec_inv de_map_bt_ok)

lemma de_network_ok: "de_network env v = Ok n \<Longrightarrow> network_canonical n"
  unfolding de_network_def
  by (erule de_struct_inv) (auto simp: network_canonical_def network_ok_def network_field_def map_res_Ok split: if_splits
      dest: de_map_bt_ok elim!: de_option_inv de_ipam_ok)

lemma de_volume_ok: "de_volume env v = Ok r \<Longrightarrow> volume_ok r"
  unfolding de_volume_def
  by (erule de_struct_inv) (auto simp: volume_ok_def volume_field_def map_res_Ok split: if_splits dest: de_map_bt_ok)

lemma de_network_mode_ok: "de_network_mode v = Ok m \<Longrightarrow> network_mode_ok m"
  by (auto simp: de_network_mode_def map_res_Ok network_mode_deserialize_def network_mode_ok_def)

lemma de_port_long_ok: "de_port_long env v = Ok l \<Longrightarrow> port_target l < 2 ^ 16"
  unfolding de_port_long_def
  by (erule de_struct_inv) (auto simp: port_long_field_def map_res_Ok split: if_splits dest: de_uint_inv)

lemma de_port_binding_ok:
  assumes "de_port_binding env v = Ok p"
  shows "port_ok p"
proof -
  obtain t where "port_binding_deserialize (\<lambda>m. map_err (se_show env) (de_port_long env m)) (se_debug env) (toml_view t) = Ok p"
    using assms by (auto simp: de_port_binding_def bind_res_Ok map_err_Ok)
  then show ?thesis
    by (cases "toml_view t") (auto simp: port_binding_deserialize_def map_res_Ok map_err_Ok port_ok_def dest: de_port_long_ok)
qed

lemma de_secret_ref_ok: "de_secret_ref env v = Ok s \<Longrightarrow> secret_ref_ok s"
proof -
  have "opt_ok (\<lambda>n. n < 2 ^ 32) (sref_mode l)" if "de_secret_ref_long env v = Ok l" for l
    using that unfolding de_secret_ref_long_def
    by (elim de_struct_inv) (auto simp: secret_ref_long_field_def map_res_Ok split: if_splits elim!: de_option_inv de_u32_inv)
  then show "de_secret_ref env v = Ok s \<Longrightarrow> secret_ref_ok s"
    by (auto simp: de_secret_ref_def or_else_Ok map_res_Ok secret_ref_ok_def)
qed

lemma de_config_ref_ok: "de_config_ref env v = Ok s \<Longrightarrow> config_ref_ok s"
proof -
  have "opt_ok (\<lambda>n. n < 2 ^ 32) (cref_mode l)" if "de_config_ref_long env v = Ok l" for l
    using that unfolding de_config_ref_long_def
    by (elim de_struct_inv) (auto simp: config_ref_long_field_def map_res_Ok split: if_splits elim!: de_option_inv de_u32_inv)
  then show "de_config_ref env v = Ok s \<Longrightarrow> config_ref_ok s"
    by (auto simp: de_config_ref_def or_else_Ok map_res_Ok config_ref_ok_def)
qed

lemma de_service_ok: "serde_types env \<Longrightarrow> de_service env v = Ok s \<Longrightarrow> service_canonical s"
  unfolding de_service_def
  by (erule de_struct_inv)
    (auto simp: service_canonical_def service_ok_def service_default_def service_field_def map_res_Ok split: if_splits
      dest: de_duration_ok de_depends_on_ok de_service_env_ok
      elim!: de_option_inv de_vec_inv de_build_ok de_network_mode_ok de_healthcheck_ok de_port_binding_ok
        de_secret_ref_ok de_config_ref_ok, simp_all add: service_env_ok_def depends_on_ok_def)

definition parts_ok :: "'x compose \<Rightarrow> bool" where
  "parts_ok c \<longleftrightarrow> map_ok service_canonical (cmp_services c) \<and> map_ok network_canonical (cmp_networks c) \<and>
     map_ok volume_ok (cmp_volumes c) \<and> bt_ok (cmp_secrets c) \<and> bt_ok (cmp_configs c)"

lemma compose_field_ok:
  assumes "serde_types env" "compose_field env k v c = Ok c'" "parts_ok c"
  shows "parts_ok c'"
proof -
  note maps = de_map_inv[where d = "de_service env" and P = service_canonical, OF _ de_service_ok[OF assms(1)]]
    de_map_inv[where d = "de_network env" and P = network_canonical, OF _ de_network_ok]
    de_map_inv[where d = "de_volume env" and P = volume_ok, OF _ de_volume_ok]
  show ?thesis using assms(2) unfolding compose_field_def
    apply (simp only: map_res_Ok split: if_split_asm)
    subgoal using assms(3) by (auto simp: parts_ok_def)
    subgoal using assms(3) by (auto simp: parts_ok_def dest: maps(1))
    subgoal using assms(3) by (auto simp: parts_ok_def dest: maps(2))
    subgoal using assms(3) by (auto simp: parts_ok_def dest: maps(3))
    subgoal using assms(3) by (auto simp: parts_ok_def dest: de_map_bt_ok)
    subgoal using assms(3) by (auto simp: parts_ok_def dest: de_map_bt_ok)
    apply simp
    done
qed

lemma de_compose_ok:
  assumes "serde_types env" "de_compose env v = Ok c"
  shows "compose_canonical c"
proof -
  obtain kvs where v: "v = S_Map kvs" using assms(2) by (cases v) auto
  obtain c0 ext where c0: "visit_entries (compose_field env) [] (filter (\<lambda>(k, v). k \<in> set compose_fields) kvs)
      compose_default = Ok c0" and ext: "de_entries (se_value env) (filter (\<lambda>(k, v). k \<notin> set compose_fields) kvs) = Ok ext"
    and c: "c = c0\<lparr>cmp_extensions := ext\<rparr>"
    using assms(2) unfolding v by (auto simp: bind_res_Ok)
  have "parts_ok c0"
    by (rule visit_entries_inv[OF c0])
      (simp add: compose_default_def parts_ok_def map_ok_def, rule compose_field_ok[OF assms(1)])
  moreover have "k \<notin> set compose_fields \<and> toml_value_ok w \<and> sort_keys w = w" if "(k, w) \<in> set ext" for k w
    by (rule de_entries_inv[OF ext _ that]) (use assms(1) in \<open>auto simp: serde_types_def\<close>)
  then have "extensions_ok ext"
    using de_entries_ok[OF ext] unfolding extensions_ok_def list_all_iff by blast
  ultimately show ?thesis by (simp add: c compose_canonical_def parts_ok_def)
qed

section \<open>Values in key order\<close>

lemma sort_keys_idem [simp]: "sort_keys (sort_keys v) = sort_keys v"
proof (induction v)
  case (S_Map kvs)
  let ?m = "bt_from_iter (map (map_prod id sort_keys) kvs)"
  have "map (map_prod id sort_keys) ?m = ?m"
  proof (rule map_idI)
    fix kv assume "kv \<in> set ?m"
    then have "kv \<in> set (map (map_prod id sort_keys) kvs)" using set_from_iter by blast
    then show "map_prod id sort_keys kv = kv" using S_Map by (auto simp: snds.simps)
  qed
  then show ?case by (simp add: bt_from_iter_id bt_ok_from_iter)
qed auto

lemma toml_value_ok_sort [simp]: "toml_value_ok v \<Longrightarrow> toml_value_ok (sort_keys v)"
proof (induction v)
  case (S_Map kvs)
  let ?m = "bt_from_iter (map (map_prod id sort_keys) kvs)"
  have "toml_value_ok (snd kv)" if "kv \<in> set ?m" for kv
  proof -
    from that have "kv \<in> set (map (map_prod id sort_keys) kvs)" using set_from_iter by blast
    then show ?thesis using S_Map by (auto simp: list_all_iff snds.simps)
  qed
  moreover have "distinct (map fst ?m)" by (rule bt_ok_distinct) (rule bt_ok_from_iter)
  ultimately show ?case by (auto simp: list_all_iff)
qed (auto simp: list_all_iff)

end
