(* ===== verification/Serde_Hash.thy ===== *)
theory Serde_Hash
  imports Serde_Facts Config_Hash
begin

text \<open>
  The serialized form of a service determines it, also when the order of its keys is forgotten, as
  RFC 8785 does before the config hash is taken.
\<close>

section \<open>Fields\<close>

text \<open>A function that is injective on the values with \<open>P\<close>.\<close>

definition inj_ok :: "('a \<Rightarrow> bool) \<Rightarrow> ('a \<Rightarrow> 'b) \<Rightarrow> bool" where
  "inj_ok P f \<longleftrightarrow> (\<forall>a b. P a \<longrightarrow> P b \<longrightarrow> f a = f b \<longrightarrow> a = b)"

lemma inj_okD: "inj_ok P f \<Longrightarrow> f a = f b \<Longrightarrow> P a \<Longrightarrow> P b \<Longrightarrow> a = b"
  by (simp add: inj_ok_def)

lemma inj_ok_str [simp]: "inj_ok P S_Str" "inj_ok Q S_Bool" "inj_ok R ser_u"
  by (simp_all add: inj_ok_def ser_u_def)

lemma eq_skip_none: "map_option sort_keys (skip_none f x) = map_option sort_keys (skip_none f y) \<Longrightarrow>
    inj_ok P (\<lambda>a. sort_keys (f a)) \<Longrightarrow> opt_ok P x \<Longrightarrow> opt_ok P y \<Longrightarrow> x = y"
  by (cases x; cases y) (auto simp: skip_none_def inj_ok_def)

lemma eq_skip_simple [simp]:
  "skip_none S_Str x = skip_none S_Str y \<longleftrightarrow> x = y"
  by (cases x; cases y) (simp_all add: skip_none_def)

lemma eq_skip_bool [simp]:
  "skip_none S_Bool p = skip_none S_Bool q \<longleftrightarrow> p = q" "skip_false b = skip_false c \<longleftrightarrow> b = c"
proof -
  show "skip_none S_Bool p = skip_none S_Bool q \<longleftrightarrow> p = q"
    by (cases p; cases q) (simp_all add: skip_none_def)
qed (simp add: skip_false_def)

lemma sort_keys_u [simp]: "sort_keys (ser_u n) = ser_u n"
  by (simp add: ser_u_def)

lemma eq_skip_u [simp]: "skip_none ser_u x = skip_none ser_u y \<longleftrightarrow> x = y"
  by (cases x; cases y) (simp_all add: skip_none_def ser_u_def)

lemma sort_keys_strs [simp]: "sort_keys (ser_strs xs) = ser_strs xs"
  by (simp add: ser_strs_def comp_def)

lemma ser_strs_eq [simp]: "ser_strs xs = ser_strs ys \<longleftrightarrow> xs = ys"
proof -
  have "map S_Str xs = map S_Str ys \<longleftrightarrow> xs = ys" by (rule inj_map_eq_map) (simp add: inj_def)
  then show ?thesis by (simp add: ser_strs_def)
qed

lemma sort_keys_ser_map: "bt_ok m \<Longrightarrow> sort_keys (ser_map f m) = ser_map (\<lambda>a. sort_keys (f a)) m"
proof -
  assume "bt_ok m"
  then have "bt_from_iter (map (\<lambda>(k, v). (k, sort_keys (f v))) m) = map (\<lambda>(k, v). (k, sort_keys (f v))) m"
    by (intro bt_from_iter_id) (simp add: bt_ok_map)
  moreover have "map (map_prod id sort_keys) (map (\<lambda>(k, v). (k, f v)) m) = map (\<lambda>(k, v). (k, sort_keys (f v))) m"
    by auto
  ultimately show ?thesis by (simp only: ser_map_def sort_keys.simps)
qed

lemma map_inj_ok: "map f xs = map f ys \<Longrightarrow> inj_ok P f \<Longrightarrow> list_all P xs \<Longrightarrow> list_all P ys \<Longrightarrow> xs = ys"
  by (induction xs arbitrary: ys) (auto simp: inj_ok_def map_eq_Cons_conv Cons_eq_map_conv)

lemma ser_map_inj:
  assumes "ser_map f m = ser_map f n" "inj_ok P f" "map_ok P m" "map_ok P n"
  shows "m = n"
  by (rule map_inj_ok[of "\<lambda>(k, v). (k, f v)" m n "\<lambda>(k, v). P v"])
    (use assms in \<open>auto simp: ser_map_def inj_ok_def map_ok_def\<close>)

lemma eq_skip_map:
  assumes "map_option sort_keys (skip_empty_map f m) = map_option sort_keys (skip_empty_map f n)"
    "inj_ok P (\<lambda>a. sort_keys (f a))" "map_ok P m" "map_ok P n"
  shows "m = n"
  using assms ser_map_inj[of "\<lambda>a. sort_keys (f a)" m n P]
  by (auto simp: skip_empty_map_def sort_keys_ser_map map_ok_def split: if_splits)

lemma eq_skip_str_map:
  "map_option sort_keys (skip_empty_map S_Str m) = map_option sort_keys (skip_empty_map S_Str n) \<Longrightarrow>
     bt_ok m \<Longrightarrow> bt_ok n \<Longrightarrow> m = n"
  by (rule eq_skip_map[where P = "\<lambda>_. True"]) (auto simp: inj_ok_def map_ok_def)

lemma eq_skip_vec:
  assumes "map_option sort_keys (skip_empty_vec f xs) = map_option sort_keys (skip_empty_vec f ys)"
    "inj_ok P (\<lambda>a. sort_keys (f a))" "list_all P xs" "list_all P ys"
  shows "xs = ys"
  by (rule map_inj_ok[of "\<lambda>a. sort_keys (f a)"])
    (use assms in \<open>auto simp: skip_empty_vec_def comp_def split: if_splits\<close>)

lemma eq_skip_strs:
  "map_option sort_keys (skip_empty_vec S_Str xs) = map_option sort_keys (skip_empty_vec S_Str ys) \<Longrightarrow> xs = ys"
  by (rule eq_skip_vec[where P = "\<lambda>_. True"]) (auto simp: inj_ok_def)

lemma eq_skip_duration:
  assumes "map_option sort_keys (skip_duration env x) = map_option sort_keys (skip_duration env y)"
    "serde_laws env" "opt_ok duration_ok x" "opt_ok duration_ok y"
  shows "x = y"
  using assms by (cases x; cases y) (auto simp: skip_duration_def opt_duration_serialize_def serde_laws_def, metis Inr_inject)

lemmas skip_eqs = eq_skip_str_map eq_skip_strs eq_skip_duration

section \<open>Structs\<close>

text \<open>Equal structs, field by field.\<close>


lemma inj_build: "inj_ok build_ok (\<lambda>b. sort_keys (ser_build b))"
  unfolding inj_ok_def build_ok_def ser_build_def
  by (auto dest!: sort_keys_struct intro!: build.equality dest: skip_eqs)

lemma inj_depends_condition: "ser_depends_condition c = ser_depends_condition d \<longleftrightarrow> c = d"
  by (cases c; cases d) (simp_all add: ser_depends_condition_def)

lemma sort_keys_scalars [simp]:
  "sort_keys (ser_depends_condition c) = ser_depends_condition c" "sort_keys (ser_restart_policy r) = ser_restart_policy r"
  "sort_keys (ser_network_mode m) = ser_network_mode m" "sort_keys (ser_string_or_list sl) = ser_string_or_list sl"
  "sort_keys (ser_healthcheck_test t) = ser_healthcheck_test t"
  by (simp_all add: ser_depends_condition_def ser_restart_policy_def ser_network_mode_def ser_string_or_list_def
      ser_healthcheck_test_def split: string_or_list.split healthcheck_test.split)

text \<open>Where reading is a left inverse, writing is injective.\<close>

lemma inj_ok_left_inverse: "(\<And>a. P a \<Longrightarrow> d (f a) = Ok a) \<Longrightarrow> inj_ok P f"
  unfolding inj_ok_def by (metis Inr_inject)

lemma inj_network_mode: "inj_ok network_mode_ok ser_network_mode"
  by (rule inj_ok_left_inverse[where d = de_network_mode]) (rule de_ser_network_mode)

lemma inj_healthcheck_test: "inj_ok (\<lambda>_. True) ser_healthcheck_test"
  by (rule inj_ok_left_inverse[where d = de_healthcheck_test]) (rule de_ser_healthcheck_test)

lemma inj_string_or_list: "inj_ok (\<lambda>_. True) ser_string_or_list"
  by (rule inj_ok_left_inverse[where d = de_string_or_list]) (rule de_ser_string_or_list)

lemma ser_restart_policy_eq [simp]: "ser_restart_policy a = ser_restart_policy b \<longleftrightarrow> a = b"
  by (cases a; cases b) (simp_all add: ser_restart_policy_def)

lemma inj_depends_on_spec: "inj_ok (\<lambda>_. True) (\<lambda>d. sort_keys (ser_depends_on_spec d))"
  unfolding inj_ok_def ser_depends_on_spec_def
  by (auto dest!: sort_keys_struct intro!: depends_on_spec.equality simp: inj_depends_condition)

lemma sort_keys_map_ne [simp]:
  "ser_map f m \<noteq> ser_strs xs" "ser_strs xs \<noteq> ser_map f m"
  "sort_keys (ser_map f m) \<noteq> ser_strs xs" "ser_strs xs \<noteq> sort_keys (ser_map f m)"
  "sort_keys (ser_struct fs) \<noteq> S_Str s" "S_Str s \<noteq> sort_keys (ser_struct fs)"
  by (simp_all add: ser_map_def ser_strs_def ser_struct_def)

lemma inj_depends_on:
  "inj_ok (\<lambda>d. depends_on_ok d \<and> \<not> depends_on_is_empty d) (\<lambda>d. sort_keys (ser_depends_on d))"
proof -
  have "m = n" if "bt_ok m" "bt_ok n" "ser_map (\<lambda>a. sort_keys (ser_depends_on_spec a)) m =
      (ser_map (\<lambda>a. sort_keys (ser_depends_on_spec a)) n :: 'o sval)" for m n
    using ser_map_inj[OF that(3) inj_depends_on_spec] that by (simp add: map_ok_def)
  then show ?thesis
    by (auto simp: inj_ok_def ser_depends_on_def depends_on_ok_def depends_on_is_empty_def sort_keys_ser_map
        split: depends_on.splits)
qed

lemma inj_service_env:
  "inj_ok (\<lambda>e. service_env_ok e \<and> \<not> service_env_is_empty e) (\<lambda>e. sort_keys (ser_service_env e))"
proof -
  have val: "sort_keys (ser_opt S_Str x) = ser_opt S_Str x" "inj_ok (\<lambda>_. True) (ser_opt S_Str)" for x
    by (cases x) (auto simp: ser_opt_def inj_ok_def split: option.splits)
  have "m = n" if "bt_ok m" "bt_ok n" "ser_map (ser_opt S_Str) m = (ser_map (ser_opt S_Str) n :: 'o sval)" for m n
    using ser_map_inj[OF that(3) val(2)] that by (simp add: map_ok_def)
  then show ?thesis
    by (auto simp: inj_ok_def ser_service_env_def service_env_ok_def service_env_is_empty_def sort_keys_ser_map val
        split: service_env.splits)
qed

lemma inj_healthcheck:
  assumes "serde_laws env"
  shows "inj_ok healthcheck_ok (\<lambda>h. sort_keys (ser_healthcheck env h))"
  unfolding inj_ok_def ser_healthcheck_def healthcheck_ok_def
  by (auto dest!: sort_keys_struct intro!: healthcheck.equality inj_okD[OF inj_healthcheck_test]
      dest: eq_skip_duration[OF _ assms])

lemma inj_port_binding: "inj_ok port_ok (\<lambda>p. sort_keys (ser_port_binding p))"
proof -
  have "l = k" if "sort_keys (ser_port_long l) = (sort_keys (ser_port_long k) :: 'o sval)" for l k
    using that unfolding ser_port_long_def
    by (auto dest!: sort_keys_struct intro!: port_long.equality) (simp add: ser_u_def)
  then show ?thesis
    by (auto simp: inj_ok_def ser_port_binding_def port_binding_serialize_def of_toml_view_def ser_port_long_def
        split: port_binding.splits)
qed

lemma inj_bind_options: "inj_ok (\<lambda>_. True) (\<lambda>b. sort_keys (ser_bind_options b))"
  unfolding inj_ok_def ser_bind_options_def by (auto dest!: sort_keys_struct intro!: bind_options.equality)

lemma inj_volume_options: "inj_ok (\<lambda>_. True) (\<lambda>b. sort_keys (ser_volume_options b))"
  unfolding inj_ok_def ser_volume_options_def by (auto dest!: sort_keys_struct intro!: volume_options.equality)

lemma inj_mount_long:
  fixes l k :: mount_long
  assumes "sort_keys (ser_mount_long l) = (sort_keys (ser_mount_long k) :: 'o sval)"
  shows "l = k"
proof -
  have "de_mount_long env (sort_keys (ser_mount_long l)) = de_mount_long env (sort_keys (ser_mount_long k))"
    for env :: "'o serde_env" by (simp add: assms)
  then show ?thesis by (simp add: de_sorted_mount_long)
qed

lemma inj_mount_spec: "inj_ok (\<lambda>_. True) (\<lambda>m. sort_keys (ser_mount_spec m))"
  by (auto simp: inj_ok_def ser_mount_spec_def mount_spec_serialize_def of_toml_view_def
      split: mount_spec.splits dest: inj_mount_long) (simp_all add: ser_mount_long_def)

lemma inj_secret_ref: "inj_ok (\<lambda>_. True) (\<lambda>r. sort_keys (ser_secret_ref r))"
proof -
  have "l = k" if "sort_keys (ser_secret_ref_long l) = (sort_keys (ser_secret_ref_long k) :: 'o sval)" for l k
    using that unfolding ser_secret_ref_long_def by (auto dest!: sort_keys_struct intro!: secret_ref_long.equality)
  then show ?thesis
    by (auto simp: inj_ok_def ser_secret_ref_def split: secret_ref.splits) (simp_all add: ser_secret_ref_long_def)
qed

lemma inj_config_ref: "inj_ok (\<lambda>_. True) (\<lambda>r. sort_keys (ser_config_ref r))"
proof -
  have "l = k" if "sort_keys (ser_config_ref_long l) = (sort_keys (ser_config_ref_long k) :: 'o sval)" for l k
    using that unfolding ser_config_ref_long_def by (auto dest!: sort_keys_struct intro!: config_ref_long.equality)
  then show ?thesis
    by (auto simp: inj_ok_def ser_config_ref_def split: config_ref.splits) (simp_all add: ser_config_ref_long_def)
qed

section \<open>Services\<close>

lemma eq_when:
  assumes "map_option sort_keys (if e x then None else Some (f x)) = map_option sort_keys (if e y then None else Some (f y))"
    "inj_ok (\<lambda>a. P a \<and> \<not> e a) (\<lambda>a. sort_keys (f a))" "P x" "P y" "\<And>a b. e a \<Longrightarrow> e b \<Longrightarrow> a = b"
  shows "x = y"
  using assms by (auto simp: inj_ok_def split: if_splits)

lemma eq_skip_command:
  "map_option sort_keys (skip_none ser_string_or_list x) = map_option sort_keys (skip_none ser_string_or_list y) \<Longrightarrow> x = y"
  by (rule eq_skip_none[where f = ser_string_or_list and P = "\<lambda>_. True"])
    (assumption, simp_all add: inj_string_or_list)

lemma eq_skip_mode:
  "map_option sort_keys (skip_none ser_network_mode x) = map_option sort_keys (skip_none ser_network_mode y) \<Longrightarrow>
     opt_ok network_mode_ok x \<Longrightarrow> opt_ok network_mode_ok y \<Longrightarrow> x = y"
  by (rule eq_skip_none[where f = ser_network_mode and P = network_mode_ok])
    (assumption, simp add: inj_network_mode, assumption+)

lemma inj_service:
  assumes "serde_laws env"
  shows "inj_ok service_canonical (\<lambda>s. sort_keys (ser_service env s))"
  unfolding inj_ok_def
proof (intro allI impI)
  fix a b assume ok: "service_canonical a" "service_canonical b"
    and eq: "sort_keys (ser_service env a) = sort_keys (ser_service env b)"
  note eqs = eq[unfolded ser_service_def, THEN sort_keys_struct, unfolded list.map fst_conv, simplified list_all2_Cons
    list_all2_Nil snd_conv, OF refl]
  have "distinct service_fields" by (simp add: service_fields_def)
  note eqs = eqs[OF this[unfolded service_fields_def]]
  note ok = ok[unfolded service_canonical_def service_ok_def]
  have "svc_image a = svc_image b" "svc_restart a = svc_restart b" "svc_user a = svc_user b"
    "svc_working_dir a = svc_working_dir b" "svc_hostname a = svc_hostname b" "svc_init a = svc_init b"
    "svc_stop_signal a = svc_stop_signal b" using eqs by simp_all
  moreover have "svc_env_file a = svc_env_file b" "svc_networks a = svc_networks b" "svc_profiles a = svc_profiles b"
    "svc_cap_add a = svc_cap_add b" "svc_cap_drop a = svc_cap_drop b"
    using eqs by (blast dest: eq_skip_strs)+
  moreover have "svc_build a = svc_build b" using eqs ok by (blast intro: eq_skip_none[OF _ inj_build])
  moreover have "svc_command a = svc_command b" "svc_entrypoint a = svc_entrypoint b"
    using eqs by (blast dest: eq_skip_command)+
  moreover have "svc_network_mode a = svc_network_mode b"
    using eqs ok by (blast dest: eq_skip_mode)
  moreover have "svc_healthcheck a = svc_healthcheck b"
    using eqs ok by (blast intro: eq_skip_none[OF _ inj_healthcheck[OF assms]])
  moreover have "svc_ports a = svc_ports b" using eqs ok by (blast intro: eq_skip_vec[OF _ inj_port_binding])
  moreover have "svc_volumes a = svc_volumes b" "svc_secrets a = svc_secrets b" "svc_configs a = svc_configs b"
    using eqs by (auto intro: eq_skip_vec[OF _ inj_mount_spec] eq_skip_vec[OF _ inj_secret_ref]
        eq_skip_vec[OF _ inj_config_ref] simp: list_all_iff)
  moreover have "svc_stop_grace_period a = svc_stop_grace_period b"
    using eqs ok by (blast intro: eq_skip_duration[OF _ assms])
  moreover have "svc_environment a = svc_environment b"
    by (rule eq_when[OF _ inj_service_env]) (use eqs ok in \<open>auto simp: service_env_is_empty_def split: service_env.splits\<close>)
  moreover have "svc_depends_on a = svc_depends_on b"
    by (rule eq_when[OF _ inj_depends_on]) (use eqs ok in \<open>auto simp: depends_on_is_empty_def split: depends_on.splits\<close>)
  ultimately show "a = b" by simp
qed

end
