(* ===== verification/Serde_Sorted.thy ===== *)
theory Serde_Sorted
  imports Serde_Hash
begin

text \<open>
  Reading does not depend on the key order the serializer writes: the sorted form of every struct, in
  which a \<open>toml::Value\<close> and RFC 8785 hold it, reads back as well.
\<close>

section \<open>Fields\<close>

lemma sorted_skip_maps [simp]:
  "bt_ok m \<Longrightarrow> map_option sort_keys (skip_empty_map f m) = skip_empty_map (\<lambda>a. sort_keys (f a)) m"
  "map_option sort_keys (skip_empty_vec f xs) = skip_empty_vec (\<lambda>a. sort_keys (f a)) xs"
  "map_option sort_keys (skip_duration env d) = skip_duration env d"
  by (simp add: skip_empty_map_def sort_keys_ser_map)
    (simp_all add: skip_empty_vec_def skip_duration_def opt_duration_serialize_def comp_def split: option.split)

lemma sorted_when [simp]:
  "map_option sort_keys (if e then None else Some v) = (if e then None else Some (sort_keys v))"
  by simp

text \<open>The three side conditions of \<open>sort_keys_ser_struct\<close>, for fields given as lists.\<close>

lemma sorted_adjacent:
  fixes xs :: "string list"
  assumes "\<forall>i\<in>set [0..<length xs - 1]. xs ! i < xs ! Suc i"
  shows "sorted_wrt (<) xs"
  using assms by (subst sorted_wrt_iff_nth_Suc_transp) (auto simp: transp_on_def)

section \<open>Structs\<close>

lemma de_sorted_build:
  "build_ok b \<Longrightarrow> de_build env (sort_keys (ser_build b)) = Ok b"
  unfolding de_build_def ser_build_def
  by (subst sort_keys_ser_struct[where gs = "
     [(''args'', skip_empty_map S_Str (build_args b)),
      (''context'', Some (S_Str (build_context b))),
      (''dockerfile'', skip_none S_Str (build_dockerfile b)),
      (''labels'', skip_empty_map S_Str (build_labels b)),
      (''no_cache'', skip_false (build_no_cache b)), (''target'', skip_none S_Str (build_target b))]"],
      (auto simp: less_char_def)[3], rule de_struct_ser)
    (simp_all add: build_field_def ser_simps build_ok_def cong: option.case_cong)

lemma de_sorted_depends_on_spec:
  "de_depends_on_spec env (sort_keys (ser_depends_on_spec d)) = Ok d"
  unfolding de_depends_on_spec_def ser_depends_on_spec_def
  by (subst sort_keys_ser_struct[where gs = "
     [(''condition'', Some (ser_depends_condition (dep_condition d))),
      (''restart'', skip_false (dep_restart d))]"],
      (auto simp: less_char_def)[3], rule de_struct_ser)
    (simp_all add: depends_on_spec_field_def ser_simps cong: option.case_cong)

lemma de_sorted_ipam:
  "list_all bt_ok (ipam_config i) \<Longrightarrow> de_ipam env (sort_keys (ser_ipam i)) = Ok i"
  unfolding de_ipam_def ser_ipam_def
  by (subst sort_keys_ser_struct[where gs = "
     [(''config'', skip_empty_vec (ser_map S_Str) (ipam_config i)),
      (''driver'', skip_none S_Str (ipam_driver i))]"],
      (auto simp: less_char_def)[3], rule de_struct_ser)
    (simp_all add: ipam_field_def ser_simps list_all_iff sort_keys_ser_map de_map_ser cong: option.case_cong)

lemma de_sorted_healthcheck:
  "serde_laws env \<Longrightarrow> healthcheck_ok h \<Longrightarrow> de_healthcheck env (sort_keys (ser_healthcheck env h)) = Ok h"
  unfolding de_healthcheck_def ser_healthcheck_def
  by (subst sort_keys_ser_struct[where gs = "
     [(''disable'', skip_false (hc_disable h)), (''interval'', skip_duration env (hc_interval h)),
      (''retries'', skip_none ser_u (hc_retries h)),
      (''start_period'', skip_duration env (hc_start_period h)),
      (''test'', Some (ser_healthcheck_test (hc_test h))),
      (''timeout'', skip_duration env (hc_timeout h))]"],
      (auto simp: less_char_def)[3], rule de_struct_ser)
    (simp_all add: healthcheck_field_def ser_simps healthcheck_ok_def cong: option.case_cong)

lemmas field_sorted_ipam [ser_simps] =
  field_opt_ok[where P = "\<lambda>i. list_all bt_ok (ipam_config i)" and f = "\<lambda>i. sort_keys (ser_ipam i)", OF _ de_sorted_ipam]

lemma de_sorted_network:
  "network_canonical n \<Longrightarrow> de_network env (sort_keys (ser_network n)) = Ok n"
  unfolding de_network_def ser_network_def
  by (subst sort_keys_ser_struct[where gs = "
     [(''driver'', skip_none S_Str (net_driver n)),
      (''driver_opts'', skip_empty_map S_Str (net_driver_opts n)),
      (''external'', skip_false (net_external n)), (''internal'', skip_false (net_internal n)),
      (''ipam'', skip_none ser_ipam (net_ipam n)),
      (''labels'', skip_empty_map S_Str (net_labels n)), (''name'', skip_none S_Str (net_name n))]"],
      (auto simp: less_char_def)[3], rule de_struct_ser)
    (simp_all add: network_field_def ser_simps network_canonical_def network_ok_def cong: option.case_cong)

lemma de_sorted_volume:
  "volume_ok v \<Longrightarrow> de_volume env (sort_keys (ser_volume v)) = Ok v"
  unfolding de_volume_def ser_volume_def
  by (subst sort_keys_ser_struct[where gs = "
     [(''driver'', skip_none S_Str (vol_driver v)),
      (''driver_opts'', skip_empty_map S_Str (vol_driver_opts v)),
      (''external'', skip_false (vol_external v)),
      (''labels'', skip_empty_map S_Str (vol_labels v)), (''name'', skip_none S_Str (vol_name v))]"],
      (auto simp: less_char_def)[3], rule de_struct_ser)
    (simp_all add: volume_field_def ser_simps volume_ok_def cong: option.case_cong)

lemma de_sorted_secret:
  "de_secret env (sort_keys (ser_secret s)) = Ok s"
  unfolding de_secret_def ser_secret_def
  by (subst sort_keys_ser_struct[where gs = "
     [(''external'', skip_false (secret_external s)), (''file'', skip_none S_Str (secret_file s)),
      (''name'', skip_none S_Str (secret_name s))]"],
      (auto simp: less_char_def)[3], rule de_struct_ser)
    (simp_all add: secret_field_def ser_simps cong: option.case_cong)

lemma de_sorted_config:
  "de_config env (sort_keys (ser_config c)) = Ok c"
  unfolding de_config_def ser_config_def
  by (subst sort_keys_ser_struct[where gs = "
     [(''external'', skip_false (config_external c)), (''file'', skip_none S_Str (config_file c)),
      (''name'', skip_none S_Str (config_name c))]"],
      (auto simp: less_char_def)[3], rule de_struct_ser)
    (simp_all add: config_field_def ser_simps cong: option.case_cong)

lemma de_sorted_project:
  "de_project env (sort_keys (ser_project p)) = Ok p"
  unfolding de_project_def ser_project_def
  by (subst sort_keys_ser_struct[where gs = "
     [(''name'', Some (S_Str (prj_name p)))]"],
      (auto simp: less_char_def)[3], rule de_struct_ser)
    (simp_all add: project_field_def ser_simps cong: option.case_cong)

lemma de_sorted_secret_ref_long:
  "opt_ok (\<lambda>n. n < 2 ^ 32) (sref_mode s) \<Longrightarrow> de_secret_ref_long env (sort_keys (ser_secret_ref_long s)) = Ok s"
  unfolding de_secret_ref_long_def ser_secret_ref_long_def
  by (subst sort_keys_ser_struct[where gs = "
     [(''gid'', skip_none S_Str (sref_gid s)), (''mode'', skip_none ser_u (sref_mode s)),
      (''source'', Some (S_Str (sref_source s))), (''target'', skip_none S_Str (sref_target s)),
      (''uid'', skip_none S_Str (sref_uid s))]"],
      (auto simp: less_char_def)[3], rule de_struct_ser)
    (simp_all add: secret_ref_long_field_def ser_simps cong: option.case_cong)

lemma de_sorted_config_ref_long:
  "opt_ok (\<lambda>n. n < 2 ^ 32) (cref_mode c) \<Longrightarrow> de_config_ref_long env (sort_keys (ser_config_ref_long c)) = Ok c"
  unfolding de_config_ref_long_def ser_config_ref_long_def
  by (subst sort_keys_ser_struct[where gs = "
     [(''gid'', skip_none S_Str (cref_gid c)), (''mode'', skip_none ser_u (cref_mode c)),
      (''source'', Some (S_Str (cref_source c))), (''target'', skip_none S_Str (cref_target c)),
      (''uid'', skip_none S_Str (cref_uid c))]"],
      (auto simp: less_char_def)[3], rule de_struct_ser)
    (simp_all add: config_ref_long_field_def ser_simps cong: option.case_cong)

section \<open>Enums\<close>

lemma de_sorted_depends_on: "depends_on_ok d \<Longrightarrow> de_depends_on env (sort_keys (ser_depends_on d)) = Ok d"
  by (cases d) (simp_all add: de_depends_on_def ser_depends_on_def depends_on_ok_def de_map_ser sort_keys_ser_map
      de_sorted_depends_on_spec)

lemma sort_keys_opt_str [simp]: "sort_keys (ser_opt S_Str x) = ser_opt S_Str x"
  by (cases x) (simp_all add: ser_opt_def)

lemma de_sorted_service_env: "service_env_ok e \<Longrightarrow> de_service_env (sort_keys (ser_service_env e)) = Ok e"
  by (cases e) (simp_all add: de_service_env_def ser_service_env_def service_env_ok_def de_map_ser sort_keys_ser_map)

lemma de_string_sorted [simp]: "de_string (sort_keys (ser_struct fs)) = Err (Invalid_Type ''a string'')"
  by (simp add: ser_struct_def)

lemma de_sorted_secret_ref: "secret_ref_ok s \<Longrightarrow> de_secret_ref env (sort_keys (ser_secret_ref s)) = Ok s"
  by (cases s) (simp_all add: de_secret_ref_def ser_secret_ref_def secret_ref_ok_def de_sorted_secret_ref_long,
      simp add: ser_secret_ref_long_def)

lemma de_sorted_config_ref: "config_ref_ok s \<Longrightarrow> de_config_ref env (sort_keys (ser_config_ref s)) = Ok s"
  by (cases s) (simp_all add: de_config_ref_def ser_config_ref_def config_ref_ok_def de_sorted_config_ref_long,
      simp add: ser_config_ref_long_def)

lemma de_sorted_port_binding:
  assumes "serde_laws env" "port_ok p"
  shows "de_port_binding env (sort_keys (ser_port_binding p)) = Ok p"
proof (cases p)
  case (PortBinding_Short s)
  with de_ser_port_binding[OF assms] show ?thesis
    by (simp add: ser_port_binding_def port_binding_serialize_def of_toml_view_def)
next
  case (PortBinding_Long l)
  with assms(2) have small: "port_target l < 2 ^ 16" by (simp add: port_ok_def)
  with PortBinding_Long show ?thesis
    by (simp add: de_port_binding_def ser_port_binding_def of_toml_view_def port_binding_serialize_def
        port_binding_deserialize_def serde_value[OF assms(1)] toml_value_ok_port de_sorted_port_long)
qed

lemma de_sorted_mount_spec:
  assumes "serde_laws env"
  shows "de_mount_spec env (sort_keys (ser_mount_spec m)) = Ok m"
proof (cases m)
  case (MountSpec_Short s)
  with de_ser_mount_spec[OF assms, of m] show ?thesis
    by (simp add: ser_mount_spec_def mount_spec_serialize_def of_toml_view_def)
next
  case (MountSpec_Long l)
  then show ?thesis
    by (simp add: de_mount_spec_def ser_mount_spec_def of_toml_view_def mount_spec_serialize_def
        mount_spec_deserialize_def serde_value[OF assms(1)] toml_value_ok_mount de_sorted_mount_long)
qed

section \<open>Services\<close>

lemma field_sorted_environment [ser_simps]:
  assumes "service_env_ok e" "h EnvMap_Empty = r"
  shows "(case if service_env_is_empty e then None else Some (sort_keys (ser_service_env e)) of
      None \<Rightarrow> Ok r | Some v \<Rightarrow> map_res h (de_service_env v)) = Ok (h e)"
  using assms by (cases e) (simp_all add: service_env_is_empty_def de_sorted_service_env)

lemma field_sorted_depends_on [ser_simps]:
  assumes "depends_on_ok d" "h DependsOn_Empty = r"
  shows "(case if depends_on_is_empty d then None else Some (sort_keys (ser_depends_on d)) of
      None \<Rightarrow> Ok r | Some v \<Rightarrow> map_res h (de_depends_on env v)) = Ok (h d)"
  using assms by (cases d) (simp_all add: depends_on_is_empty_def de_sorted_depends_on)

lemmas field_sorted_build [ser_simps] =
  field_opt_ok[where P = build_ok and f = "\<lambda>b. sort_keys (ser_build b)", OF _ de_sorted_build]

lemma field_sorted_healthcheck [ser_simps]:
  assumes "serde_laws env" "opt_ok healthcheck_ok x" "h None = r"
  shows "(case skip_none (\<lambda>a. sort_keys (ser_healthcheck env a)) x of
      None \<Rightarrow> Ok r | Some v \<Rightarrow> map_res h (de_option (de_healthcheck env) v)) = Ok (h x)"
  by (rule field_opt_ok[OF assms(2)]) (simp_all add: de_sorted_healthcheck assms)

lemma sorted_service:
  "sort_keys (ser_service env s) = ser_struct (map (map_prod id (map_option sort_keys))
     [(''build'', skip_none ser_build (svc_build s)),
      (''cap_add'', skip_empty_vec S_Str (svc_cap_add s)),
      (''cap_drop'', skip_empty_vec S_Str (svc_cap_drop s)),
      (''command'', skip_none ser_string_or_list (svc_command s)),
      (''configs'', skip_empty_vec ser_config_ref (svc_configs s)),
      (''depends_on'', if depends_on_is_empty (svc_depends_on s) then None else Some (ser_depends_on (svc_depends_on s))),
      (''entrypoint'', skip_none ser_string_or_list (svc_entrypoint s)),
      (''env_file'', skip_empty_vec S_Str (svc_env_file s)),
      (''environment'', if service_env_is_empty (svc_environment s) then None else Some (ser_service_env (svc_environment s))),
      (''healthcheck'', skip_none (ser_healthcheck env) (svc_healthcheck s)),
      (''hostname'', skip_none S_Str (svc_hostname s)), (''image'', skip_none S_Str (svc_image s)),
      (''init'', skip_none S_Bool (svc_init s)),
      (''network_mode'', skip_none ser_network_mode (svc_network_mode s)),
      (''networks'', skip_empty_vec S_Str (svc_networks s)),
      (''ports'', skip_empty_vec ser_port_binding (svc_ports s)),
      (''profiles'', skip_empty_vec S_Str (svc_profiles s)),
      (''restart'', Some (ser_restart_policy (svc_restart s))),
      (''secrets'', skip_empty_vec ser_secret_ref (svc_secrets s)),
      (''stop_grace_period'', skip_duration env (svc_stop_grace_period s)),
      (''stop_signal'', skip_none S_Str (svc_stop_signal s)),
      (''user'', skip_none S_Str (svc_user s)),
      (''volumes'', skip_empty_vec ser_mount_spec (svc_volumes s)),
      (''working_dir'', skip_none S_Str (svc_working_dir s))])"
  unfolding ser_service_def
proof (rule sort_keys_ser_struct, goal_cases)
  case 1
  show ?case by (rule sorted_adjacent) (simp add: less_char_def upt_rec)
next
  case 2
  show ?case by simp
next
  case 3
  show ?case by auto
qed

lemma de_sorted_service:
  assumes "serde_laws env" "service_canonical s"
  shows "de_service env (sort_keys (ser_service env s)) = Ok s"
  using assms unfolding de_service_def sorted_service service_default_def service_canonical_def service_ok_def
  by (intro de_struct_ser)
    (simp_all add: service_field_def ser_simps list_all_iff de_sorted_port_binding de_sorted_mount_spec
      de_sorted_secret_ref de_sorted_config_ref cong: option.case_cong)

section \<open>Documents\<close>

lemma map_of_filter_key: "map_of (filter (\<lambda>(k, _). P k) m) k = (if P k then map_of m k else None)"
  by (induction m) auto

text \<open>The known top-level fields in key order.\<close>

definition sorted_entries :: "'o serde_env \<Rightarrow> 'o sval compose \<Rightarrow> (string \<times> 'o sval option) list" where
  "sorted_entries env c = map (map_prod id (map_option sort_keys))
     [(''configs'', skip_empty_map ser_config (cmp_configs c)),
      (''networks'', skip_empty_map ser_network (cmp_networks c)),
      (''project'', skip_none ser_project (cmp_project c)),
      (''secrets'', skip_empty_map ser_secret (cmp_secrets c)),
      (''services'', skip_empty_map (ser_service env) (cmp_services c)),
      (''volumes'', skip_empty_map ser_volume (cmp_volumes c))]"

lemma sorted_entries_form:
  "sort_keys (ser_struct (compose_entries env c)) = ser_struct (sorted_entries env c)"
  unfolding compose_entries_def sorted_entries_def
  by (rule sort_keys_ser_struct) (auto simp: less_char_def)

lemma field_sorted_services [ser_simps]:
  assumes "serde_laws env" "map_ok service_canonical m" "h [] = r"
  shows "(case skip_empty_map (\<lambda>s. sort_keys (ser_service env s)) m of None \<Rightarrow> Ok r | Some v \<Rightarrow> map_res h (de_map (de_service env) v))
    = Ok (h m)"
  by (rule field_map_ok[OF assms(2)]) (simp_all add: de_sorted_service assms)

lemmas field_sorted_networks [ser_simps] =
    field_map_ok[where P = network_canonical and f = "\<lambda>n. sort_keys (ser_network n)", OF _ de_sorted_network]
  and field_sorted_volumes [ser_simps] =
    field_map_ok[where P = volume_ok and f = "\<lambda>v. sort_keys (ser_volume v)", OF _ de_sorted_volume]

lemma sorted_compose_read:
  assumes "serde_laws env" "compose_canonical c"
  shows "set_fields (compose_field env) (sorted_entries env c) compose_default = Ok (c\<lparr>cmp_extensions := []\<rparr>)"
proof -
  have oks: "bt_ok (cmp_services c)" "bt_ok (cmp_networks c)" "bt_ok (cmp_volumes c)" "bt_ok (cmp_secrets c)"
    "bt_ok (cmp_configs c)"
    using assms(2) by (simp_all add: compose_canonical_def map_ok_def)
  show ?thesis using assms oks unfolding compose_canonical_def compose_default_def sorted_entries_def
    by (simp add: compose_field_def ser_simps de_sorted_project de_sorted_secret de_sorted_config cong: option.case_cong)
qed

lemma sorted_struct_keys:
  assumes "distinct (map fst fs)" "sort_keys (ser_struct fs) = ser_struct gs"
  shows "bt_ok (entries_of gs) \<and> map_of (map (map_prod id sort_keys) (entries_of fs)) = map_of (entries_of gs)"
proof -
  let ?es = "map (map_prod id sort_keys) (entries_of fs)"
  have eq: "bt_from_iter ?es = entries_of gs" using assms(2) by (simp add: ser_struct_def)
  have "map fst ?es = map fst (entries_of fs)" by simp
  with distinct_entries_of[OF assms(1)] have "distinct (map fst ?es)" by simp
  then have "map_of ?es k = map_of (entries_of gs) k" for k
    using bt_get_from_iter[of ?es k] by (simp add: eq bt_get_def map_of_rev_distinct)
  moreover have "bt_ok (entries_of gs)" unfolding eq[symmetric] by (rule bt_ok_from_iter)
  ultimately show ?thesis by blast
qed

text \<open>The written document in key order, with only the extensions whose key satisfies \<open>P\<close>.\<close>

lemma de_sorted_compose:
  assumes "serde_laws env" "compose_canonical c" "\<And>k. k \<in> set compose_fields \<Longrightarrow> P k"
    and kvs: "sort_keys (ser_compose env c) = S_Map kvs"
  shows "de_compose env (S_Map (filter (\<lambda>(k, _). P k) kvs)) =
    Ok (c\<lparr>cmp_extensions := filter (\<lambda>(k, _). P k) (cmp_extensions c)\<rparr>)"
proof -
  let ?ext = "cmp_extensions c" and ?es = "entries_of (compose_entries env c)"
  let ?all = "map (map_prod id sort_keys) (?es @ ?ext)" and ?gs = "entries_of (sorted_entries env c)"
  have ext: "bt_ok ?ext" "k \<notin> set compose_fields" "toml_value_ok v" "sort_keys v = v" if "(k, v) \<in> set ?ext" for k v
    using assms(2) that by (auto simp: compose_canonical_def extensions_ok_def list_all_iff)
  have ext_ok: "bt_ok ?ext" using assms(2) by (simp add: compose_canonical_def extensions_ok_def)
  have "map (map_prod id sort_keys) ?ext = ?ext" by (rule map_idI) (use ext(4) in auto)
  then have all: "?all = map (map_prod id sort_keys) ?es @ ?ext" by simp
  have dist: "distinct (map fst (compose_entries env c))" by (simp add: compose_keys)
  note gs = sorted_struct_keys[OF dist sorted_entries_form]
  have known: "k \<in> set compose_fields" if "k \<in> fst ` set ?es" for k
    using keys_entries_of[of "compose_entries env c"] that compose_keys(1)[of env c] by (metis set_map subsetD)
  have "x \<notin> fst ` set ?ext" if "x \<in> fst ` set ?es" for x
    using known[OF that] ext(2) by (metis imageE prod.collapse)
  then have "fst ` set ?es \<inter> fst ` set ?ext = {}" by blast
  then have "distinct (map fst ?all)"
    using distinct_entries_of[OF dist] bt_ok_distinct[OF ext_ok] unfolding all by simp
  then have kvs_get: "map_of kvs k = map_of ?all k" for k
    using kvs bt_get_from_iter[of ?all k]
    by (simp only: ser_compose_def sort_keys.simps sval.inject map_of_rev_distinct) (simp add: bt_get_def)
  have kvs_ok: "bt_ok kvs" using kvs by (auto simp: ser_compose_def bt_ok_from_iter)
  have get: "map_of kvs k = (case map_of ?gs k of Some v \<Rightarrow> Some v | None \<Rightarrow> map_of ?ext k)" for k
    using gs \<open>distinct (map fst ?all)\<close> unfolding kvs_get all
    by (auto simp: map_of_append map_add_def map_of_eq_None_iff split: option.splits)
  have gs_keys: "map_of ?gs k = None" if "k \<notin> set compose_fields" for k
  proof -
    from known that have "k \<notin> fst ` set ?es" by blast
    then have "k \<notin> fst ` set (map (map_prod id sort_keys) ?es)" by (auto simp: image_iff)
    then have "map_of (map (map_prod id sort_keys) ?es) k = None" by (rule map_of_eq_None_iff[THEN iffD2])
    with gs show ?thesis by simp
  qed
  have ext_keys: "map_of ?ext k = None" if "k \<in> set compose_fields" for k
    using ext(2) that by (auto simp: map_of_eq_None_iff)
  let ?P = "filter (\<lambda>(k, _). P k)"
  have "map_of (filter (\<lambda>(k, v). k \<in> set compose_fields) (?P kvs)) k = map_of ?gs k" for k
    by (cases "k \<in> set compose_fields")
      (simp_all only: map_of_filter_key get gs_keys ext_keys assms(3), simp_all add: gs_keys split: option.split)
  moreover have "map_of (filter (\<lambda>(k, v). k \<notin> set compose_fields) (?P kvs)) k = map_of (?P ?ext) k" for k
    by (cases "k \<in> set compose_fields") (simp_all only: map_of_filter_key get ext_keys, simp_all add: gs_keys)
  ultimately have parts: "filter (\<lambda>(k, v). k \<in> set compose_fields) (?P kvs) = ?gs"
    "filter (\<lambda>(k, v). k \<notin> set compose_fields) (?P kvs) = ?P ?ext"
    using gs ext_ok kvs_ok by (intro btree.entries_canonical bt_ok_filter; simp only: bt_get_def)+
  have "visit_entries (compose_field env) [] ?gs compose_default = Ok (c\<lparr>cmp_extensions := []\<rparr>)"
    using sorted_compose_read[OF assms(1,2)]
    by (subst visit_entries_of) (simp_all add: sorted_entries_def)
  moreover have "de_entries (se_value env) (filter (\<lambda>(k, _). P k) ?ext) = Ok (filter (\<lambda>(k, _). P k) ?ext)"
    using ext ext_ok assms(1) by (intro de_entries_ser bt_ok_filter) (auto simp: serde_value)
  ultimately show ?thesis by (simp only: de_compose.simps parts) simp
qed

end
