(* ===== verification/Serde_Properties.thy ===== *)
theory Serde_Properties
  imports Serde_Sorted Cli
begin

text \<open>
  The properties of reading and writing compose documents and of the config hash of their services.
\<close>

section \<open>Libraries for the witnesses\<close>

definition demo_serde :: "unit serde_env" where
  "demo_serde =
     \<lparr>se_positional = (\<lambda>names xs. Err (Invalid_Type ''a map'')), se_tag = (\<lambda>v. Err (Invalid_Type ''a string'')),
      se_value = (\<lambda>v. if toml_value_ok v then Ok (sort_keys v) else Err (Custom_Error ''not TOML'')),
      se_debug = (\<lambda>v. ''...''), se_show = (\<lambda>e. ''error''), se_format = (\<lambda>d. replicate d (CHR ''s'')),
      se_parse = (\<lambda>s. if duration_ok (length s) then Ok (length s) else Err ''too long'')\<rparr>"

lemma demo_serde_laws: "serde_laws demo_serde" "serde_types demo_serde"
  by (simp_all add: serde_laws_def serde_types_def demo_serde_def)

text \<open>\<open>x-a = 1\<close>, and a service with an image, a port given as a number and a network mode.\<close>

definition demo_document :: "unit sval" where
  "demo_document = S_Map
     [(''x-a'', S_Int 1),
      (''services'', S_Map [(''web'', S_Map
         [(''image'', S_Str ''nginx''), (''ports'', S_Seq [S_Int 80]), (''network_mode'', S_Str ''host'')])])]"

definition demo_service :: service where
  "demo_service = service_default\<lparr>svc_image := Some ''nginx'', svc_ports := [PortBinding_Short ''80''],
     svc_network_mode := Some NetworkMode_Host\<rparr>"

definition demo_compose :: "unit sval compose" where
  "demo_compose = compose_default\<lparr>cmp_services := [(''web'', demo_service)], cmp_extensions := [(''x-a'', S_Int 1)]\<rparr>"

lemma demo_reads: "de_compose demo_serde demo_document = Ok demo_compose"
proof -
  have "show_int 80 = ''80''" by code_simp
  then show ?thesis
    by (simp add: demo_serde_def demo_document_def demo_compose_def demo_service_def compose_fields_def compose_field_def
      de_entries_def de_service_def de_fields_def service_default_def service_field_def de_option_def missing_def
      compose_default_def bt_from_iter_def de_port_binding_def toml_view_def port_binding_deserialize_def
      de_network_mode_def network_mode_deserialize_def)
qed

lemma demo_canonical: "compose_canonical demo_compose" "service_canonical demo_service"
  using de_compose_ok[OF demo_serde_laws(2) demo_reads]
  by (simp_all add: demo_compose_def compose_canonical_def map_ok_def)

section \<open>Documents\<close>

text \<open>
  C6: a compose document that was written reads back as itself: every field of every struct, the maps,
  the durations and the flattened extensions, whatever was skipped because it had its default.
\<close>

theorem compose_round_trip:
  assumes "serde_laws env" "compose_canonical c"
  shows "de_compose env (ser_compose env c) = Ok c"
  using assms by (rule de_ser_compose)

theorem compose_round_trip_witness: "de_compose demo_serde (ser_compose demo_serde demo_compose) = Ok demo_compose"
  by (rule compose_round_trip) (rule demo_serde_laws demo_canonical)+

text \<open>
  C24: whatever document was read, in any form a field may have there, is well formed (maps in key order,
  ports and retries in range, no custom network mode that shadows a built-in one), and what is written
  for it reads back as the same document.
\<close>

theorem read_documents_canonical:
  assumes "serde_laws env" "serde_types env" "de_compose env v = Ok c"
  shows "compose_canonical c \<and> compose_ok c \<and> de_compose env (ser_compose env c) = Ok c"
proof -
  have canonical: "compose_canonical c" using assms(2,3) by (rule de_compose_ok)
  moreover have "compose_ok c"
    using canonical by (auto simp: compose_canonical_def compose_ok_def map_ok_def list_all_iff service_canonical_def
        network_canonical_def)
  ultimately show ?thesis using de_ser_compose[OF assms(1)] by simp
qed

theorem read_documents_canonical_witness:
  "compose_canonical demo_compose \<and> de_compose demo_serde (ser_compose demo_serde demo_compose) = Ok demo_compose"
  using read_documents_canonical[OF demo_serde_laws demo_reads] by simp

lemma visit_entries_each:
  assumes "visit_entries set_field seen kvs r = Ok r'" "(k, v) \<in> set kvs"
  shows "\<exists>r1 r2. set_field k v r1 = Ok r2"
  using assms
proof (induction kvs arbitrary: seen r)
  case (Cons kv kvs)
  then show ?case by (cases kv) (auto simp: bind_res_Ok split: if_splits)
qed simp

lemma service_keys_known:
  assumes "de_service env (S_Map kvs) = Ok s" "k \<in> set (map fst kvs)"
  shows "k \<in> set service_fields"
proof -
  from assms(2) obtain v where "(k, v) \<in> set kvs" by auto
  moreover obtain s' where "visit_entries (service_field env) [] kvs service_default = Ok s'"
    using assms(1) by (auto simp: de_service_def de_fields_def bind_res_Ok)
  ultimately obtain r1 r2 where "service_field env k v r1 = Ok r2" using visit_entries_each by metis
  then show ?thesis by (auto simp: service_field_def service_fields_def split: if_splits)
qed

lemma keys_from_iter: "set (map fst (bt_from_iter xs)) = set (map fst xs)"
proof -
  have "k \<in> set (map fst (bt_from_iter xs)) \<longleftrightarrow> k \<in> set (map fst xs)" for k
    using bt_get_from_iter[of xs k] by (simp add: bt_get_def map_of_eq_None_iff[symmetric] image_iff)
      (metis (no_types, lifting) fst_conv image_iff map_of_eq_None_iff option.exhaust set_rev weak_map_of_SomeI)
  then show ?thesis by blast
qed

text \<open>
  C30: a document that was read has no field in a service that the schema does not know, while every
  top-level key it does not know is kept as an extension, whether it starts with \<open>x-\<close> or not.
\<close>

theorem unknown_keys:
  assumes "de_compose env (S_Map kvs) = Ok c"
  shows "set (bt_keys (cmp_extensions c)) = {k \<in> set (map fst kvs). k \<notin> set compose_fields} \<and>
    (\<forall>svcs. (''services'', S_Map svcs) \<in> set kvs \<longrightarrow>
       (\<forall>name fs. (name, S_Map fs) \<in> set svcs \<longrightarrow> set (map fst fs) \<subseteq> set service_fields))"
proof -
  obtain c0 ext where c0: "visit_entries (compose_field env) [] (filter (\<lambda>(k, v). k \<in> set compose_fields) kvs)
      compose_default = Ok c0" and ext: "de_entries (se_value env) (filter (\<lambda>(k, v). k \<notin> set compose_fields) kvs) = Ok ext"
    and c: "c = c0\<lparr>cmp_extensions := ext\<rparr>"
    using assms by (auto simp: bind_res_Ok)
  obtain xs where xs: "collect_res (\<lambda>(k, v). map_res (Pair k) (se_value env v)) (filter (\<lambda>(k, v). k \<notin> set compose_fields) kvs)
      = Ok xs" "ext = bt_from_iter xs"
    using ext by (auto simp: de_entries_def map_res_Ok)
  have "map fst xs = map fst ys" if "collect_res (\<lambda>(k, v). map_res (Pair k) (se_value env v)) ys = Ok xs" for ys xs
    using that by (induction ys arbitrary: xs) (auto simp: bind_res_Ok map_res_Ok)
  from this[OF xs(1)] have "set (bt_keys (cmp_extensions c)) = {k \<in> set (map fst kvs). k \<notin> set compose_fields}"
    using keys_from_iter[of xs] by (auto simp: c xs(2) bt_keys_def)
  moreover have "set (map fst fs) \<subseteq> set service_fields"
    if svcs: "(''services'', S_Map svcs) \<in> set kvs" and svc: "(name, S_Map fs) \<in> set svcs" for svcs name fs
  proof -
    from svcs have "(''services'', S_Map svcs) \<in> set (filter (\<lambda>(k, v). k \<in> set compose_fields) kvs)"
      by (simp add: compose_fields_def)
    from visit_entries_each[OF c0 this] obtain m where "de_entries (de_service env) svcs = Ok m"
      by (auto simp: compose_field_def map_res_Ok)
    then obtain zs where "collect_res (\<lambda>(k, v). map_res (Pair k) (de_service env v)) svcs = Ok zs"
      by (auto simp: de_entries_def map_res_Ok)
    with svc have "\<exists>s. de_service env (S_Map fs) = Ok s"
      by (induction svcs arbitrary: zs) (auto simp: bind_res_Ok map_res_Ok)
    then show ?thesis using service_keys_known by blast
  qed
  ultimately show ?thesis by blast
qed

theorem unknown_keys_witness:
  "set (bt_keys (cmp_extensions demo_compose)) = {''x-a''} \<and> set [''image'', ''ports'', ''network_mode''] \<subseteq> set service_fields"
proof -
  have "set (bt_keys (cmp_extensions demo_compose)) = {k \<in> set (map fst [(''x-a'', S_Int 1 :: unit sval),
      (''services'', S_Map [(''web'', S_Map
         [(''image'', S_Str ''nginx''), (''ports'', S_Seq [S_Int 80]), (''network_mode'', S_Str ''host'')])])]).
        k \<notin> set compose_fields}"
    using unknown_keys[OF demo_reads[unfolded demo_document_def]] by blast
  then show ?thesis by (auto simp: compose_fields_def service_fields_def)
qed

section \<open>Config hash\<close>

text \<open>
  What the hash relies on: the canonical bytes of the JSON forms of two services (which hold no number
  beyond 32 bits) determine these forms up to the order of their keys.
\<close>

definition jcs_canonical :: "'o serde_env \<Rightarrow> ('o sval \<Rightarrow> 'ce + string) \<Rightarrow> bool" where
  "jcs_canonical env to_jcs \<longleftrightarrow>
     (\<forall>s t bytes. to_jcs (ser_service env s) = Ok bytes \<and> to_jcs (ser_service env t) = Ok bytes \<longrightarrow>
        sort_keys (ser_service env s) = sort_keys (ser_service env t))"

text \<open>
  C12: two services with the same config hash are the same service, unless two different canonical byte
  strings with the same digest were found.
\<close>

theorem service_hash_identifies:
  assumes "serde_laws env" "jcs_canonical env to_jcs" "service_canonical a" "service_canonical b"
    "service_hash (ser_service env) to_jcs sha256 a = Ok h" "service_hash (ser_service env) to_jcs sha256 b = Ok h"
  shows "a = b \<or> (\<exists>x y. to_jcs (ser_service env a) = Ok x \<and> to_jcs (ser_service env b) = Ok y \<and>
    x \<noteq> y \<and> sha256 x = sha256 y)"
proof -
  obtain x y where xy: "to_jcs (ser_service env a) = Ok x" "to_jcs (ser_service env b) = Ok y"
    "concat (map hex_byte (sha256 x)) = concat (map hex_byte (sha256 y))"
    using assms(5,6) by (auto simp: service_hash_def bind_res_Ok)
  then have sha: "sha256 x = sha256 y" by (simp add: hex_bytes_inj)
  show ?thesis
  proof (cases "x = y")
    case True
    with xy assms(2) have "sort_keys (ser_service env a) = sort_keys (ser_service env b)"
      unfolding jcs_canonical_def by blast
    then have "a = b" by (rule inj_okD[OF inj_service[OF assms(1)]]) (rule assms(3,4))+
    then show ?thesis ..
  next
    case False
    with xy sha show ?thesis by blast
  qed
qed

definition demo_jcs :: "unit sval \<Rightarrow> unit + string" where
  "demo_jcs v = (if sort_keys v = sort_keys (ser_service demo_serde demo_service) then Ok ''web'' else Err ())"

theorem service_hash_identifies_witness:
  "service_hash (ser_service demo_serde) demo_jcs (\<lambda>bytes. bytes) demo_service = Ok ''776562'' \<and>
   (demo_service = demo_service \<or> (\<exists>x y. demo_jcs (ser_service demo_serde demo_service) = Ok x \<and>
      demo_jcs (ser_service demo_serde demo_service) = Ok y \<and> x \<noteq> y))"
proof -
  have jcs: "jcs_canonical demo_serde demo_jcs" by (auto simp: jcs_canonical_def demo_jcs_def split: if_splits)
  have hash: "service_hash (ser_service demo_serde) demo_jcs (\<lambda>bytes. bytes) demo_service = Ok ''776562''"
    by (simp add: service_hash_def demo_jcs_def hex_byte_def hex_digit_def) code_simp
  from service_hash_identifies[OF demo_serde_laws(1) jcs demo_canonical(2) demo_canonical(2) hash hash] hash
  show ?thesis by simp
qed

section \<open>The config command\<close>

text \<open>What \<open>config\<close> prints, and what it parses as.\<close>

lemma config_reads_back:
  assumes "serde_laws env" "compose_canonical (ld_compose loaded)" "\<not> use_json (ca_output args) fmt"
    and try_from: "ser_toml_value ser (ld_compose loaded) = Ok (Inl table)"
      "S_Map table = sort_keys (ser_compose env (ld_compose loaded))"
    and to_string: "retain_plain (Inl table) = Inl plain" "ser_toml ser (Inl plain) = Ok out" "from_toml out = Ok (S_Map plain)"
  shows "cmd_config ser args (Ok loaded) fmt w = Some (Ok (), w\<lparr>cw_out := cw_out w @ out\<rparr>) \<and>
    bind_res (from_toml out) (de_compose env) =
      Ok ((ld_compose loaded)\<lparr>cmp_extensions :=
        filter (\<lambda>(k, _). \<not> prefix ''x-'' k) (cmp_extensions (ld_compose loaded))\<rparr>)"
proof -
  have plain: "plain = filter (\<lambda>(k, _). \<not> prefix ''x-'' k) table"
    using to_string(1) by (simp add: retain_plain_def)
  have "\<not> prefix ''x-'' k" if "k \<in> set compose_fields" for k using that by (auto simp: compose_fields_def)
  note read = de_sorted_compose[OF assms(1,2) this try_from(2)[symmetric]]
  have "cmd_config ser args (Ok loaded) fmt w = Some (Ok (), w\<lparr>cw_out := cw_out w @ out\<rparr>)"
    using assms(3) try_from(1) to_string(1,2)
    by (simp add: cmd_config_def bind_pr_def lift_pr_def root_err_def with_context_def print_out_def)
  with read show ?thesis by (simp add: to_string(3) plain)
qed

text \<open>
  C19: \<open>config\<close> in TOML prints one text, and parsing that text gives the loaded document without its
  extensions whose key starts with \<open>x-\<close>; any other extension is printed.  Of the \<open>toml\<close> crate it relies
  on this: the document becomes the table of its serialized form, with sorted keys, and the text printed
  for a table parses as that table.
\<close>

theorem config_output_reads_back:
  assumes "serde_laws env" "compose_canonical (ld_compose loaded)" "\<not> use_json (ca_output args) fmt"
    and try_from: "ser_toml_value ser (ld_compose loaded) = Ok (Inl table)"
      "S_Map table = sort_keys (ser_compose env (ld_compose loaded))"
    and to_string: "retain_plain (Inl table) = Inl plain" "ser_toml ser (Inl plain) = Ok out" "from_toml out = Ok (S_Map plain)"
  shows "cmd_config ser args (Ok loaded) fmt w = Some (Ok (), w\<lparr>cw_out := cw_out w @ out\<rparr>) \<and>
    bind_res (from_toml out) (de_compose env) =
      Ok ((ld_compose loaded)\<lparr>cmp_extensions :=
        filter (\<lambda>(k, _). \<not> prefix ''x-'' k) (cmp_extensions (ld_compose loaded))\<rparr>)"
  by (rule config_reads_back [where from_toml = from_toml, OF assms])

definition demo_table :: "(string \<times> unit sval) list" where
  "demo_table = (case sort_keys (ser_compose demo_serde demo_compose) of S_Map t \<Rightarrow> t | _ \<Rightarrow> [])"

definition demo_plain :: "(string \<times> unit sval) list" where
  "demo_plain = filter (\<lambda>(k, _). \<not> prefix ''x-'' k) demo_table"

definition demo_serialisers :: "(unit sval, unit sval, unit) serialisers" where
  "demo_serialisers =
     \<lparr>ser_json = (\<lambda>c. Err ()), ser_toml_value = (\<lambda>c. Ok (Inl demo_table)), ser_toml = (\<lambda>t. Ok ''[services.web]'')\<rparr>"

theorem config_output_reads_back_witness:
  "bind_res ((\<lambda>s. Ok (S_Map demo_plain)) ''[services.web]'') (de_compose demo_serde) =
     Ok (demo_compose\<lparr>cmp_extensions := []\<rparr>)"
proof -
  let ?l = "\<lparr>ld_compose = demo_compose, ld_plan = undefined, ld_compose_path = []\<rparr>"
  have "bind_res ((\<lambda>s. Ok (S_Map demo_plain)) ''[services.web]'') (de_compose demo_serde) =
      Ok ((ld_compose ?l)\<lparr>cmp_extensions := filter (\<lambda>(k, _). \<not> prefix ''x-'' k) (cmp_extensions (ld_compose ?l))\<rparr>)"
    by (rule config_output_reads_back[where ser = demo_serialisers and fmt = Fmt_Text
          and args = "\<lparr>ca_output = Some Cfg_Toml\<rparr>" and table = demo_table, THEN conjunct2])
      (simp_all add: demo_serde_laws demo_canonical demo_serialisers_def use_json_def retain_plain_def demo_plain_def,
       simp add: demo_table_def ser_compose_def)
  then show ?thesis by (simp add: demo_compose_def)
qed

end
