(* ===== verification/Conformance.thy ===== *)
theory Conformance
  imports Client_Facts Game Load
begin

text \<open>
  The clients under \<open>client/rust/examples\<close>: of \<open>admission_conformance.rs\<close> the server process it runs
  (\<open>Host\<close>) and its bare Phoenix peer (\<open>Peer\<close>), of \<open>idaptik_roundtrip.rs\<close> the configuration and the wait
  for a command.  Their \<open>main\<close> functions are in \<open>Scripts\<close>.

  An error is a \<open>Box<dyn Error>\<close>: one of the client's, a foreign one, the elapsed timeout or a message.
  The two counters are \<open>u64\<close> fields with a checked increment, as in the debug build that
  \<open>cargo run --example\<close> makes: the overflow is a panic.
\<close>

datatype ('x, 'n) box_error =
    Box_Client "('x, 'n) client_error"
  | Box_Foreign 'x
  | Box_Elapsed
  | Box_Message string

definition checked_incr :: "nat \<Rightarrow> 'e fault + nat" where
  "checked_incr n = (if n + 1 < 2 ^ 64 then Ok (n + 1) else Err Panic)"

text \<open>\<open>value[key]\<close>, \<open>value[i]\<close> and \<open>value == text\<close>: an absent entry is \<open>null\<close>.\<close>

definition json_index :: "'n json \<Rightarrow> string \<Rightarrow> 'n json" where
  "json_index v key = (case json_get v key of Some x \<Rightarrow> x | None \<Rightarrow> JNull)"

fun json_nth :: "'n json \<Rightarrow> nat \<Rightarrow> 'n json" where
  "json_nth (JArray xs) i = (if i < length xs then xs ! i else JNull)"
| "json_nth _ i = JNull"

definition json_eq_str :: "'n json \<Rightarrow> string \<Rightarrow> bool" where
  "json_eq_str v s \<longleftrightarrow> json_as_str v = Some s"

definition ok_or :: "'e \<Rightarrow> 'a option \<Rightarrow> 'e + 'a" where
  "ok_or e opt = (case opt of Some a \<Rightarrow> Ok a | None \<Rightarrow> Err e)"

section \<open>Host\<close>

text \<open>The process to spawn and the operating system it runs on; \<open>'st\<close> is an exit status.\<close>

record child_command =
  cc_program :: string
  cc_args :: "string list"
  cc_dir :: path
  cc_env :: "(string \<times> string) list"
  cc_env_remove :: "string list"

record ('w, 'x, 'n, 'st) host_env =
  he_unix :: bool
  he_temp_dir :: path
  he_pid :: nat
  he_manifest_dir :: path
  he_epoch_nanos :: "('w, 'x, nat) effect"
  he_create_dir :: "nat \<Rightarrow> path \<Rightarrow> ('w, 'x, unit) effect"
  he_remove_dir_all :: "path \<Rightarrow> ('w, 'x, unit) effect"
  he_spawn :: "child_command \<Rightarrow> ('w, 'x, unit) effect"
  he_try_wait :: "('w, 'x, 'st option) effect"
  he_kill :: "('w, 'x, unit) effect"
  he_wait :: "('w, 'x, 'st) effect"
  he_stdin_open :: "'w \<Rightarrow> bool"
  he_write :: "string \<Rightarrow> ('w, 'x, unit) effect"
  he_flush :: "('w, 'x, unit) effect"
  he_read :: "path \<Rightarrow> ('w, 'x, string) effect"
  he_now :: "'w \<Rightarrow> nat"
  he_sleep :: "nat \<Rightarrow> 'w \<Rightarrow> 'w"
  he_from_slice :: "string \<Rightarrow> 'x + 'n json"
  he_as_u64 :: "'n \<Rightarrow> nat option"
  he_show_status :: "'st \<Rightarrow> string"

record host =
  host_dir :: path
  host_generation :: nat

definition boxed :: "('w, 'x, 'a) effect \<Rightarrow> ('w, ('x, 'n) box_error fault, 'a) effect" where
  "boxed m w = (case m w of (r, w') \<Rightarrow> (map_err (\<lambda>x. Fault (Box_Foreign x)) r, w'))"

definition message :: "string \<Rightarrow> ('x, 'n) box_error fault" where
  "message text = Fault (Box_Message text)"

definition mix_command :: "('w, 'x, 'n, 'st) host_env \<Rightarrow> path \<Rightarrow> child_command" where
  "mix_command env dir =
     \<lparr>cc_program = ''mix'', cc_args = [''run'', ''test/support/admission_host.exs''],
      cc_dir = path_join (he_manifest_dir env) ''../../server'',
      cc_env = [(''MIX_ENV'', ''test''), (''BURBLE_ADMISSION_FIXTURE'', path_join dir ''fixture.json'')],
      cc_env_remove = [''PHX_SERVER'', ''ANTHROPIC_API_KEY'']\<rparr>"

definition host_start :: "('w, 'x, 'n, 'st) host_env \<Rightarrow> ('w, ('x, 'n) box_error fault, host) effect" where
  "host_start env w =
     (if \<not> he_unix env then (Err (message ''this CI probe requires Unix private fixture permissions''), w)
      else
        bind_st (boxed (he_epoch_nanos env)) (\<lambda>nanos.
          let dir = path_join (he_temp_dir env)
                      (''burble-admission-'' @ show_nat (he_pid env) @ ''-'' @ show_nat nanos) in
          bind_st (boxed (he_create_dir env 448 dir)) (\<lambda>_ w1.
            case he_spawn env (mix_command env dir) w1 of
              (Ok _, w2) \<Rightarrow> (Ok \<lparr>host_dir = dir, host_generation = 0\<rparr>, w2)
            | (Err error, w2) \<Rightarrow>
                bind_st (boxed (he_remove_dir_all env dir)) (\<lambda>_. fail_st (Fault (Box_Foreign error))) w2)) w)"

text \<open>One look at the fixture file: \<open>Some\<close> to return, \<open>None\<close> to look again.\<close>

definition read_fixture ::
    "('w, 'x, 'n, 'st) host_env \<Rightarrow> host \<Rightarrow> ('w, ('x, 'n) box_error fault, 'n json option) effect" where
  "read_fixture env h w =
     (case he_read env (path_join (host_dir h) ''fixture.json'') w of
        (Err _, w1) \<Rightarrow> (Ok None, w1)
      | (Ok bytes, w1) \<Rightarrow>
          (case he_from_slice env bytes of
             Err x \<Rightarrow> (Err (Fault (Box_Foreign x)), w1)
           | Ok v \<Rightarrow>
               (if (case json_index v ''generation'' of JNumber n \<Rightarrow> he_as_u64 env n | _ \<Rightarrow> None) =
                     Some (host_generation h)
                then (Ok (Some v), w1)
                else (Ok None, w1))))"

definition poll_interval :: nat where
  "poll_interval = 50000000"

partial_function (option) fixture_loop ::
    "('w, 'x, 'n, 'st) host_env \<Rightarrow> host \<Rightarrow> nat \<Rightarrow> 'w \<Rightarrow> ((('x, 'n) box_error fault + 'n json) \<times> 'w) option" where
  [code]: "fixture_loop env h deadline w =
     (case boxed (he_try_wait env) w of
        (Err e, w1) \<Rightarrow> Some (Err e, w1)
      | (Ok (Some status), w1) \<Rightarrow>
          Some (Err (message (''admission host exited before readiness: '' @ he_show_status env status)), w1)
      | (Ok None, w1) \<Rightarrow>
          (case read_fixture env h w1 of
             (Err e, w2) \<Rightarrow> Some (Err e, w2)
           | (Ok (Some v), w2) \<Rightarrow> Some (Ok v, w2)
           | (Ok None, w2) \<Rightarrow>
               if deadline \<le> he_now env w2 then Some (Err (message ''admission host did not become ready''), w2)
               else fixture_loop env h deadline (he_sleep env poll_interval w2)))"

definition fixture ::
    "('w, 'x, 'n, 'st) host_env \<Rightarrow> host \<Rightarrow> 'w \<Rightarrow> ((('x, 'n) box_error fault + 'n json) \<times> 'w) option" where
  "fixture env h w = fixture_loop env h (he_now env w + ns 60) w"

definition control ::
    "('w, 'x, 'n, 'st) host_env \<Rightarrow> string \<Rightarrow> host \<times> 'w
     \<Rightarrow> ((('x, 'n) box_error fault + 'n json) \<times> host \<times> 'w) option" where
  "control env command hw =
     (case hw of (h, w) \<Rightarrow>
      case checked_incr (host_generation h) of
        Err e \<Rightarrow> Some (Err e, h, w)
      | Ok g \<Rightarrow>
          let h1 = h\<lparr>host_generation := g\<rparr> in
          if \<not> he_stdin_open env w then Some (Err (message ''host stdin unavailable''), h1, w)
          else
            (case bind_st (boxed (he_write env (command @ [CHR 0x0A]))) (\<lambda>_. boxed (he_flush env)) w of
               (Err e, w1) \<Rightarrow> Some (Err e, h1, w1)
             | (Ok _, w1) \<Rightarrow> map_option (\<lambda>(r, w2). (r, h1, w2)) (fixture env h1 w1)))"

definition host_drop :: "('w, 'x, 'n, 'st) host_env \<Rightarrow> host \<Rightarrow> 'w \<Rightarrow> 'w" where
  "host_drop env h w = snd (he_remove_dir_all env (host_dir h) (snd (he_wait env (snd (he_kill env w)))))"

section \<open>Peer\<close>

text \<open>The connection of a peer is the world \<open>'w\<close> of its \<open>client_env\<close>.\<close>

record 'n peer =
  peer_topic :: string
  peer_next_ref :: nat
  peer_pending :: "'n json list"

type_synonym ('w, 'x, 'n, 'a) peer_result = "(('x, 'n) box_error fault + 'a) \<times> 'n peer \<times> 'w"

definition client_fault :: "('x, 'n) client_error \<Rightarrow> ('x, 'n) box_error fault" where
  "client_fault e = Fault (Box_Client e)"

definition peer_query :: "'n json \<Rightarrow> string option \<Rightarrow> ('x, 'n) box_error fault + (string \<times> string) list" where
  "peer_query fix_json who =
     map_res ((#) (''vsn'', ''2.0.0''))
       (case who of
          Some p \<Rightarrow>
            map_res (\<lambda>token. [(''token'', token)])
              (ok_or (message ''missing token'') (json_as_str (json_index (json_index fix_json ''tokens'') p)))
        | None \<Rightarrow> Ok [(''guest'', ''true''), (''display_name'', ''alice'')])"

definition peer_connect ::
    "('w, 'x, 'u, 'n) connector \<Rightarrow> 'n json \<Rightarrow> string option \<Rightarrow> ('w, ('x, 'n) box_error fault, 'n peer) effect" where
  "peer_connect con fix_json who =
     bind_st (lift_st (ok_or (message ''missing endpoint'') (json_as_str (json_index fix_json ''endpoint'')))) (\<lambda>endpoint.
     bind_st (lift_st (map_err (\<lambda>x. Fault (Box_Foreign x)) (url_parse con endpoint))) (\<lambda>url.
     bind_st (lift_st (peer_query fix_json who)) (\<lambda>pairs.
     bind_st (\<lambda>w. case ws_connect con (url_as_str con (fold (\<lambda>(k, v) u. append_pair con u k v) pairs url)) w of
                    (r, w1) \<Rightarrow> (map_err client_fault r, w1)) (\<lambda>_.
     bind_st (lift_st (ok_or (message ''missing session'')
                (json_as_str (json_index (json_index fix_json ''provision'') ''session_id'')))) (\<lambda>session.
       return_st \<lparr>peer_topic = ''game:'' @ session, peer_next_ref = 0, peer_pending = []\<rparr>)))))"

definition peer_send ::
    "('w, 'x, 'n) client_env \<Rightarrow> string \<Rightarrow> 'n json \<Rightarrow> 'n peer \<times> 'w \<Rightarrow> ('w, 'x, 'n, string) peer_result" where
  "peer_send env event payload pw =
     (case pw of (p, w) \<Rightarrow>
      case checked_incr (peer_next_ref p) of
        Err e \<Rightarrow> (Err e, p, w)
      | Ok n \<Rightarrow>
          let p1 = p\<lparr>peer_next_ref := n\<rparr>; reference = show_nat n in
          (case json_to_string env
              (JArray [JString ''1'', JString reference, JString (peer_topic p), JString event, payload]) of
             Err x \<Rightarrow> (Err (Fault (Box_Foreign x)), p1, w)
           | Ok text \<Rightarrow>
               (case tp_send env text w of
                  (Err e, w1) \<Rightarrow> (Err (client_fault e), p1, w1)
                | (Ok _, w1) \<Rightarrow> (Ok reference, p1, w1))))"

fun is_frame :: "'n json \<Rightarrow> bool" where
  "is_frame (JArray parts) = (length parts = 5)"
| "is_frame _ = False"

definition decode_peer_frame ::
    "('w, 'x, 'n) client_env \<Rightarrow> string \<Rightarrow> ('x, 'n) box_error fault + 'n json" where
  "decode_peer_frame env text =
     bind_res (map_err (\<lambda>x. Fault (Box_Foreign x)) (json_from_str env text)) (\<lambda>frame.
       if is_frame frame then Ok frame else Err (message ''invalid Phoenix frame''))"

definition peer_frame :: "('w, 'x, 'n) client_env \<Rightarrow> ('w, ('x, 'n) box_error fault, 'n json) effect" where
  "peer_frame env w =
     (case tp_recv env (ns 5) w of
        (None, w1) \<Rightarrow> (Err (Fault Box_Elapsed), w1)
      | (Some (Err e), w1) \<Rightarrow> (Err (client_fault e), w1)
      | (Some (Ok None), w1) \<Rightarrow> (Err (message ''WebSocket closed''), w1)
      | (Some (Ok (Some text)), w1) \<Rightarrow> (decode_peer_frame env text, w1))"

partial_function (option) request_loop ::
    "('w, 'x, 'n) client_env \<Rightarrow> string \<Rightarrow> 'n peer \<Rightarrow> 'w \<Rightarrow> ('w, 'x, 'n, 'n json) peer_result option" where
  [code]: "request_loop env reference p w =
     (case peer_frame env w of
        (Err e, w1) \<Rightarrow> Some (Err e, p, w1)
      | (Ok frame, w1) \<Rightarrow>
          if json_eq_str (json_nth frame 1) reference \<and> json_eq_str (json_nth frame 3) ''phx_reply''
          then Some (Ok (json_nth frame 4), p, w1)
          else if json_eq_str (json_nth frame 3) ''phx_close'' \<or> json_eq_str (json_nth frame 3) ''phx_error''
          then Some (Err (message ''channel was fenced or closed''), p, w1)
          else request_loop env reference (p\<lparr>peer_pending := peer_pending p @ [frame]\<rparr>) w1)"

definition peer_request ::
    "('w, 'x, 'n) client_env \<Rightarrow> string \<Rightarrow> 'n json \<Rightarrow> 'n peer \<times> 'w
     \<Rightarrow> ('w, 'x, 'n, 'n json) peer_result option" where
  "peer_request env event payload pw =
     (case peer_send env event payload pw of
        (Err e, p1, w1) \<Rightarrow> Some (Err e, p1, w1)
      | (Ok reference, p1, w1) \<Rightarrow> request_loop env reference p1 w1)"

partial_function (option) peer_event ::
    "('w, 'x, 'n) client_env \<Rightarrow> string \<Rightarrow> 'n peer \<Rightarrow> 'w \<Rightarrow> ('w, 'x, 'n, 'n json) peer_result option" where
  [code]: "peer_event env event p w =
     (case (case peer_pending p of
              frame # rest \<Rightarrow> (Ok frame, p\<lparr>peer_pending := rest\<rparr>, w)
            | [] \<Rightarrow> (case peer_frame env w of (r, w1) \<Rightarrow> (r, p, w1))) of
        (Err e, p1, w1) \<Rightarrow> Some (Err e, p1, w1)
      | (Ok frame, p1, w1) \<Rightarrow>
          if json_eq_str (json_nth frame 3) event then Some (Ok (json_nth frame 4), p1, w1)
          else peer_event env event p1 w1)"

section \<open>Requests and replies\<close>

definition join_params :: "'n json \<Rightarrow> string \<Rightarrow> 'n json" where
  "join_params fix_json role =
     (let provision = json_index fix_json ''provision'' in
      JObject
        [(''protocol'', JString ''admission-v1''), (''game'', JString ''idaptik''), (''role'', JString role),
         (''epoch'', json_index provision ''epoch''),
         (''ticket'', json_index (json_index (json_index provision ''grants'') role) ''ticket'')])"

definition accepted :: "'n json \<Rightarrow> ('x, 'n) box_error fault + 'n json" where
  "accepted reply =
     (if json_eq_str (json_index reply ''status'') ''ok'' then Ok (json_index reply ''response'')
      else Err (message ''expected an accepted reply''))"

definition refused :: "'n json \<Rightarrow> string \<Rightarrow> ('x, 'n) box_error fault + unit" where
  "refused reply reason =
     (if \<not> json_eq_str (json_index reply ''status'') ''error'' \<or>
         \<not> json_eq_str (json_index (json_index reply ''response'') ''reason'') reason
      then Err (message (''expected refusal: '' @ reason)) else Ok ())"

section \<open>idaptik_roundtrip.rs\<close>

definition roundtrip_config :: "string \<Rightarrow> string \<Rightarrow> string \<Rightarrow> join_config" where
  "roundtrip_config endpoint session role =
     \<lparr>jc_endpoint = endpoint, jc_session_id = session, jc_game_id = ''idaptik'', jc_role = role,
      jc_auth = Guest (''rust-'' @ role)\<rparr>"

partial_function (option) next_command ::
    "('w, 'x, 'n) client_env \<Rightarrow> 'n phoenix \<times> 'w
     \<Rightarrow> ((('x, 'n) box_error fault + 'n game_broadcast option) \<times> 'n phoenix \<times> 'w) option" where
  [code]: "next_command env sw =
     (case next_event env (ns 2) sw of
        None \<Rightarrow> None
      | Some (Err e, sw1) \<Rightarrow> Some (Err (client_fault e), sw1)
      | Some (Ok None, sw1) \<Rightarrow> Some (Err (message ''timed out waiting for relayed command''), sw1)
      | Some (Ok (Some b), sw1) \<Rightarrow>
          (case b of Command v \<Rightarrow> Some (Ok (Some b), sw1) | _ \<Rightarrow> next_command env sw1))"

end
