(* ===== verification/Conformance_Facts.thy ===== *)
theory Conformance_Facts
  imports Conformance
begin

text \<open>
  The peer and the host of the conformance client: the peer's operations return on every source of
  frames, a request keeps the frames that are not for it and an event takes the first one that is;
  the host's wait for a fixture returns, and only with the current generation.
\<close>

section \<open>Frames\<close>

definition decodes :: "('w, 'x, 'n) client_env \<Rightarrow> string list \<Rightarrow> 'n json list \<Rightarrow> bool" where
  "decodes env texts fs \<longleftrightarrow>
     list_all2 (\<lambda>tx f. decode_peer_frame env tx = (Ok f :: ('x, 'n) box_error fault + 'n json)) texts fs"

lemma decodes_Nil [simp]: "decodes env [] []"
  by (simp add: decodes_def)

lemma decodes_Cons [simp]:
  "decodes (env :: ('w, 'x, 'n) client_env) (tx # texts) (f # fs) \<longleftrightarrow>
     decode_peer_frame env tx = (Ok f :: ('x, 'n) box_error fault + 'n json) \<and> decodes env texts fs"
  by (simp add: decodes_def)

definition answers :: "string \<Rightarrow> 'n json \<Rightarrow> bool" where
  "answers reference f \<longleftrightarrow> json_eq_str (json_nth f 1) reference \<and> json_eq_str (json_nth f 3) ''phx_reply''"

definition carries :: "string \<Rightarrow> 'n json \<Rightarrow> bool" where
  "carries event f \<longleftrightarrow> json_eq_str (json_nth f 3) event"

definition closes :: "'n json \<Rightarrow> bool" where
  "closes f \<longleftrightarrow> carries ''phx_close'' f \<or> carries ''phx_error'' f"

lemma request_loop_step:
  "request_loop env reference p w =
     (case peer_frame env w of
        (Err e, w1) \<Rightarrow> Some (Err e, p, w1)
      | (Ok f, w1) \<Rightarrow>
          if answers reference f then Some (Ok (json_nth f 4), p, w1)
          else if closes f then Some (Err (message ''channel was fenced or closed''), p, w1)
          else request_loop env reference (p\<lparr>peer_pending := peer_pending p @ [f]\<rparr>) w1)"
  unfolding answers_def closes_def carries_def by (rule request_loop.simps)

lemma peer_event_held:
  assumes "peer_pending p = f # rest"
  shows "peer_event env event p w =
    (if carries event f then Some (Ok (json_nth f 4), p\<lparr>peer_pending := rest\<rparr>, w)
     else peer_event env event (p\<lparr>peer_pending := rest\<rparr>) w)"
  using assms by (subst peer_event.simps) (simp add: carries_def)

lemma peer_event_read:
  assumes "peer_pending p = []"
  shows "peer_event env event p w =
    (case peer_frame env w of
       (Err e, w1) \<Rightarrow> Some (Err e, p, w1)
     | (Ok f, w1) \<Rightarrow> if carries event f then Some (Ok (json_nth f 4), p, w1) else peer_event env event p w1)"
  using assms by (subst peer_event.simps) (auto simp: carries_def split: prod.splits sum.splits)

text \<open>Frames that are already held are looked at first, and the transport is left alone if one fits.\<close>

lemma peer_event_skips:
  assumes "peer_pending p = us @ rest" "\<not> list_ex (carries event) us"
  shows "peer_event env event p w = peer_event env event (p\<lparr>peer_pending := rest\<rparr>) w"
  using assms
proof (induction us arbitrary: p)
  case Nil
  then have "p\<lparr>peer_pending := rest\<rparr> = p" by (cases p) simp
  then show ?case by simp
next
  case (Cons u us)
  from Cons.prems have "peer_pending p = u # (us @ rest)" by simp
  from peer_event_held [OF this, of env event w] Cons.prems(2) Cons.IH[of "p\<lparr>peer_pending := us @ rest\<rparr>"]
  show ?case by simp
qed

lemma peer_event_hit:
  assumes "peer_pending p = us @ f # vs" "\<not> list_ex (carries event) us" "carries event f"
  shows "peer_event env event p w = Some (Ok (json_nth f 4), p\<lparr>peer_pending := vs\<rparr>, w)"
  using peer_event_skips[OF assms(1,2), of env w] peer_event_held[of "p\<lparr>peer_pending := f # vs\<rparr>" f vs env event w]
    assms(3) by simp

section \<open>The peer on a source of frames\<close>

context frame_source
begin

lemma peer_frame_Ok:
  assumes "peer_frame env w = (Ok f, w1)"
  obtains tx where "frames w = tx # frames w1" "decodes env [tx] [f]"
  using assms recv_frames[of "ns 5" w] unfolding peer_frame_def decodes_def
  by (auto split: prod.splits option.splits sum.splits)

lemma peer_frame_Err:
  assumes "peer_frame env w = (Err e, w1)"
  obtains read where "frames w = read @ frames w1"
  using assms recv_frames[of "ns 5" w] unfolding peer_frame_def
  by (auto split: prod.splits option.splits sum.splits)

lemma request_loop_facts:
  "\<exists>r p' w' read passed final. request_loop env reference p w = Some (r, p', w') \<and>
     frames w = read @ final @ frames w' \<and> decodes env read passed \<and>
     p' = p\<lparr>peer_pending := peer_pending p @ passed\<rparr> \<and>
     \<not> list_ex (\<lambda>f. answers reference f \<or> closes f) passed \<and>
     (\<forall>v. r = Ok v \<longrightarrow> (\<exists>f. decodes env final [f] \<and> answers reference f \<and> v = json_nth f 4))"
proof (induction "length (frames w)" arbitrary: p w rule: less_induct)
  case less
  obtain got w1 where got: "peer_frame env w = (got, w1)" by fastforce
  show ?case
  proof (cases got)
    case (Inl e)
    with got obtain read where "frames w = read @ frames w1" using peer_frame_Err by metis
    with got Inl show ?thesis
      by (subst request_loop_step) (intro exI[of _ "Err e"] exI[of _ p] exI[of _ w1] exI[of _ "[]"] exI[of _ read]; simp)
  next
    case (Inr f)
    with got obtain tx where tx: "frames w = tx # frames w1" "decodes env [tx] [f]" using peer_frame_Ok by metis
    show ?thesis
    proof (cases "answers reference f \<or> closes f")
      case True
      let ?r = "if answers reference f then Ok (json_nth f 4) else Err (message ''channel was fenced or closed'')"
      from True got Inr tx show ?thesis
        by (subst request_loop_step)
          (intro exI[of _ ?r] exI[of _ p] exI[of _ w1] exI[of _ "[]"] exI[of _ "[tx]"], auto)
    next
      case False
      let ?p = "p\<lparr>peer_pending := peer_pending p @ [f]\<rparr>"
      from tx have "length (frames w1) < length (frames w)" by simp
      from less[OF this, of ?p] obtain r p' w' read passed final where
        "request_loop env reference ?p w1 = Some (r, p', w')" "frames w1 = read @ final @ frames w'"
        "decodes env read passed" "p' = ?p\<lparr>peer_pending := peer_pending ?p @ passed\<rparr>"
        "\<not> list_ex (\<lambda>f. answers reference f \<or> closes f) passed"
        "\<forall>v. r = Ok v \<longrightarrow> (\<exists>f. decodes env final [f] \<and> answers reference f \<and> v = json_nth f 4)" by blast
      with False got Inr tx show ?thesis
        by (subst request_loop_step)
          (intro exI[of _ r] exI[of _ p'] exI[of _ w'] exI[of _ "tx # read"] exI[of _ "f # passed"] exI[of _ final]; simp)
    qed
  qed
qed

lemma event_read_facts:
  assumes "peer_pending p = []"
  shows "\<exists>r w' read skipped final. peer_event env event p w = Some (r, p, w') \<and>
     frames w = read @ final @ frames w' \<and> decodes env read skipped \<and> \<not> list_ex (carries event) skipped \<and>
     (\<forall>v. r = Ok v \<longrightarrow> (\<exists>f. decodes env final [f] \<and> carries event f \<and> v = json_nth f 4))"
proof (induction "length (frames w)" arbitrary: w rule: less_induct)
  case less
  obtain got w1 where got: "peer_frame env w = (got, w1)" by fastforce
  note step = peer_event_read[OF assms, of env event w]
  show ?case
  proof (cases got)
    case (Inl e)
    with got obtain read where "frames w = read @ frames w1" using peer_frame_Err by metis
    with got Inl show ?thesis
      by (intro exI[of _ "Err e"] exI[of _ w1] exI[of _ "[]"] exI[of _ "[]"] exI[of _ read]) (simp add: step)
  next
    case (Inr f)
    with got obtain tx where tx: "frames w = tx # frames w1" "decodes env [tx] [f]" using peer_frame_Ok by metis
    show ?thesis
    proof (cases "carries event f")
      case True
      with got Inr tx show ?thesis
        by (intro exI[of _ "Ok (json_nth f 4)"] exI[of _ w1] exI[of _ "[]"] exI[of _ "[]"] exI[of _ "[tx]"])
          (auto simp: step)
    next
      case False
      from tx have "length (frames w1) < length (frames w)" by simp
      from less[OF this] obtain r w' read skipped final where
        "peer_event env event p w1 = Some (r, p, w')" "frames w1 = read @ final @ frames w'"
        "decodes env read skipped" "\<not> list_ex (carries event) skipped"
        "\<forall>v. r = Ok v \<longrightarrow> (\<exists>f. decodes env final [f] \<and> carries event f \<and> v = json_nth f 4)" by blast
      with False got Inr tx show ?thesis
        by (intro exI[of _ r] exI[of _ w'] exI[of _ "tx # read"] exI[of _ "f # skipped"] exI[of _ final])
          (simp add: step)
    qed
  qed
qed

lemma peer_send_frames:
  assumes "peer_send env event payload (p, w) = (r, p1, w1)"
  shows "frames w1 = frames w \<and> peer_pending p1 = peer_pending p \<and>
    (\<forall>reference. r = Ok reference \<longrightarrow> reference = show_nat (peer_next_ref p + 1) \<and>
       p1 = p\<lparr>peer_next_ref := peer_next_ref p + 1\<rparr> \<and>
       (\<exists>tx. json_to_string env (JArray [JString ''1'', JString reference, JString (peer_topic p), JString event, payload])
           = Ok tx \<and> sent w1 = sent w @ [tx]))"
  using assms
  by (auto simp: peer_send_def checked_incr_def Let_def split: if_splits sum.splits prod.splits dest: send_sent)
    (metis send_frames snd_conv)+

lemma request_facts:
  "\<exists>r p' w' read passed final. peer_request env event payload (p, w) = Some (r, p', w') \<and>
     frames w = read @ final @ frames w' \<and> decodes env read passed \<and>
     peer_pending p' = peer_pending p @ passed \<and>
     (\<forall>v. r = Ok v \<longrightarrow>
        (\<exists>f. decodes env final [f] \<and> answers (show_nat (peer_next_ref p + 1)) f \<and> v = json_nth f 4))"
proof -
  obtain s p1 w1 where s: "peer_send env event payload (p, w) = (s, p1, w1)" using prod_cases3 by blast
  note sf = peer_send_frames[OF s]
  show ?thesis
  proof (cases s)
    case (Inl e)
    with s sf show ?thesis
      by (intro exI[of _ "Err e"] exI[of _ p1] exI[of _ w1] exI[of _ "[]"]) (simp add: peer_request_def)
  next
    case (Inr reference)
    from request_loop_facts[of reference p1 w1] obtain r p' w' read passed final where
      "request_loop env reference p1 w1 = Some (r, p', w')" "frames w1 = read @ final @ frames w'"
      "decodes env read passed" "p' = p1\<lparr>peer_pending := peer_pending p1 @ passed\<rparr>"
      "\<forall>v. r = Ok v \<longrightarrow> (\<exists>f. decodes env final [f] \<and> answers reference f \<and> v = json_nth f 4)"
      by blast
    with s sf Inr show ?thesis
      by (intro exI[of _ r] exI[of _ p'] exI[of _ w'] exI[of _ read] exI[of _ passed] exI[of _ final])
        (auto simp: peer_request_def)
  qed
qed

lemma event_facts:
  "\<exists>r p' w'. peer_event env event p w = Some (r, p', w') \<and>
     (case find (carries event) (peer_pending p) of
        Some f \<Rightarrow> r = Ok (json_nth f 4) \<and> w' = w
      | None \<Rightarrow> \<exists>read skipped final. frames w = read @ final @ frames w' \<and> decodes env read skipped \<and>
          peer_pending p' = [] \<and> \<not> list_ex (carries event) skipped \<and>
          (\<forall>v. r = Ok v \<longrightarrow> (\<exists>f. decodes env final [f] \<and> carries event f \<and> v = json_nth f 4)))"
proof (cases "find (carries event) (peer_pending p)")
  case None
  then have none: "\<not> list_ex (carries event) (peer_pending p)" by (simp add: find_None_iff list_ex_iff)
  from peer_event_skips[of p "peer_pending p" "[]", OF _ none]
  have "peer_event env event p w = peer_event env event (p\<lparr>peer_pending := []\<rparr>) w" by simp
  with event_read_facts[of "p\<lparr>peer_pending := []\<rparr>" event w] None show ?thesis by force
next
  case (Some f)
  then obtain us vs where "peer_pending p = us @ f # vs" "\<not> list_ex (carries event) us" "carries event f"
    by (auto simp: find_Some_iff list_ex_iff set_conv_nth) (metis id_take_nth_drop length_take min.absorb4 nth_take)
  from peer_event_hit[OF this, of env w] Some show ?thesis by auto
qed

end

section \<open>The wait for a command\<close>

lemma length_broadcasts: "length (broadcasts env topic texts) \<le> length texts"
proof (induction texts)
  case (Cons tx texts)
  have "length (broadcast_of env topic tx) \<le> 1"
    by (simp add: broadcast_of_def split: sum.splits prod.splits)
  with Cons show ?case by simp
qed simp

definition is_command :: "'n broadcast \<Rightarrow> bool" where
  "is_command b = (case classify_broadcast_msg b of Command v \<Rightarrow> True | _ \<Rightarrow> False)"

lemma next_command_step:
  "next_command env (s, w) =
     (case next_broadcast env (ns 2) (s, w) of
        None \<Rightarrow> None
      | Some (Err e, sw1) \<Rightarrow> Some (Err (client_fault e), sw1)
      | Some (Ok None, sw1) \<Rightarrow> Some (Err (message ''timed out waiting for relayed command''), sw1)
      | Some (Ok (Some b), sw1) \<Rightarrow>
          if is_command b then Some (Ok (Some (classify_broadcast_msg b)), sw1) else next_command env sw1)"
  by (subst next_command.simps)
    (auto simp: next_event_def is_command_def split: option.splits sum.splits prod.splits game_broadcast.splits)

context frame_source
begin

lemma next_command_facts:
  "\<exists>r s' w' read skipped got. next_command env (s, w) = Some (r, s', w') \<and> frames w = read @ frames w' \<and>
     same_channel s s' \<and> skipped @ got @ ph_pending s' = ph_pending s @ broadcasts env (ph_topic s) read \<and>
     \<not> list_ex is_command skipped \<and>
     (case r of Ok c \<Rightarrow> (\<exists>b. got = [b] \<and> is_command b \<and> c = Some (classify_broadcast_msg b)) | Err _ \<Rightarrow> got = [])"
proof (induction "length (ph_pending s) + length (frames w)" arbitrary: s w rule: less_induct)
  case less
  from next_facts[of "ns 2" s w] obtain q s1 w1 read where now:
    "next_broadcast env (ns 2) (s, w) = Some (q, s1, w1)" "frames w = read @ frames w1" "same_channel s s1"
    "(case q of Ok (Some b) \<Rightarrow> [b] | _ \<Rightarrow> []) @ ph_pending s1 = ph_pending s @ broadcasts env (ph_topic s) read"
    by blast
  note step = next_command_step[of env s w]
  consider (bad) "\<forall>b. q \<noteq> Ok (Some b)" | (hit) b where "q = Ok (Some b)" "is_command b"
    | (miss) b where "q = Ok (Some b)" "\<not> is_command b" by metis
  then show ?case
  proof cases
    case bad
    then have none: "ph_pending s1 = ph_pending s @ broadcasts env (ph_topic s) read"
      using now(4) by (auto split: sum.splits option.splits)
    let ?r = "Err (case q of Err e \<Rightarrow> client_fault e | Ok _ \<Rightarrow> message ''timed out waiting for relayed command'')"
    have "next_command env (s, w) = Some (?r, s1, w1)"
      using bad now(1) by (auto simp: step split: sum.splits option.splits)
    with now none show ?thesis
      by (intro exI[of _ ?r] exI[of _ s1] exI[of _ w1] exI[of _ read] exI[of _ "[]"]) simp
  next
    case hit
    with now show ?thesis
      by (intro exI[of _ "Ok (Some (classify_broadcast_msg b))"] exI[of _ s1] exI[of _ w1] exI[of _ read]
          exI[of _ "[]"] exI[of _ "[b]"]) (simp add: step)
  next
    case miss
    have "length (b # ph_pending s1) = length (ph_pending s @ broadcasts env (ph_topic s) read)"
      using now(4) miss by simp
    then have "length (ph_pending s1) + length (frames w1) < length (ph_pending s) + length (frames w)"
      using length_broadcasts[of env "ph_topic s" read] now(2) by simp
    from less[OF this] obtain r s' w' read' skipped got where rest:
      "next_command env (s1, w1) = Some (r, s', w')" "frames w1 = read' @ frames w'" "same_channel s1 s'"
      "skipped @ got @ ph_pending s' = ph_pending s1 @ broadcasts env (ph_topic s1) read'"
      "\<not> list_ex is_command skipped"
      "case r of Ok c \<Rightarrow> (\<exists>b. got = [b] \<and> is_command b \<and> c = Some (classify_broadcast_msg b)) | Err _ \<Rightarrow> got = []"
      by blast
    have "(b # skipped) @ got @ ph_pending s' = (b # ph_pending s1) @ broadcasts env (ph_topic s1) read'"
      using rest(4) by simp
    also have "\<dots> = ph_pending s @ broadcasts env (ph_topic s) (read @ read')"
      using now(3,4) miss by (simp add: same_channel_def)
    finally have "(b # skipped) @ got @ ph_pending s' = ph_pending s @ broadcasts env (ph_topic s) (read @ read')" .
    moreover have "next_command env (s, w) = Some (r, s', w')" using now(1) rest(1) miss by (simp add: step)
    moreover have "frames w = (read @ read') @ frames w'" using now(2) rest(2) by simp
    moreover have "same_channel s s'" using now(3) rest(3) by (rule same_channel_trans)
    ultimately show ?thesis using rest(5,6) miss(2)
      by (intro exI[of _ r] exI[of _ s'] exI[of _ w'] exI[of _ "read @ read'"] exI[of _ "b # skipped"] exI[of _ got])
        simp
  qed
qed

end

section \<open>The wait for the fixture\<close>

lemma boxed_world: "snd (boxed m w) = snd (m w)"
  by (simp add: boxed_def split: prod.splits)

lemma read_fixture_fresh:
  assumes "read_fixture env h w = (Ok (Some v), w1)"
  obtains n where "json_index v ''generation'' = JNumber n" "he_as_u64 env n = Some (host_generation h)"
  using assms by (auto simp: read_fixture_def split: prod.splits sum.splits if_splits json.splits)

lemma read_fixture_world: "snd (read_fixture env h w) = snd (he_read env (path_join (host_dir h) ''fixture.json'') w)"
  by (simp add: read_fixture_def split: prod.splits sum.splits)

text \<open>It returns when a sleep lasts as long as asked and no other operation turns the clock back.\<close>

lemma fixture_loop_total:
  fixes env :: "('w, 'x, 'n, 'st) host_env" and w :: 'w and h :: host and deadline :: nat
  assumes sleep: "\<And>d w. he_now env w + d \<le> he_now env (he_sleep env d w)"
    and wait: "\<And>w. he_now env w \<le> he_now env (snd (he_try_wait env w))"
    and read: "\<And>p w. he_now env w \<le> he_now env (snd (he_read env p w))"
  shows "\<exists>r w'. fixture_loop env h deadline w = Some (r, w') \<and>
    (\<forall>v. r = Ok v \<longrightarrow>
       (\<exists>n. json_index v ''generation'' = JNumber n \<and> he_as_u64 env n = Some (host_generation h)))"
proof (induction "deadline - he_now env w" arbitrary: w rule: less_induct)
  case less
  obtain s :: "('x, 'n) box_error fault + 'st option" and w1 where s: "boxed (he_try_wait env) w = (s, w1)"
    by fastforce
  obtain q w2 where q: "read_fixture env h w1 = (q, w2)" by fastforce
  have "he_now env w \<le> he_now env w1" using wait[of w] s boxed_world by (metis snd_conv)
  also have "\<dots> \<le> he_now env w2" using read[of w1] q read_fixture_world by (metis snd_conv)
  finally have later: "he_now env w \<le> he_now env w2" .
  consider (exited) "s \<noteq> Ok None" | (stop) "s = Ok None" "q \<noteq> Ok None"
    | (turn) "s = Ok None" "q = Ok None" by blast
  then show ?case
  proof cases
    case exited
    with s show ?thesis by (subst fixture_loop.simps) (auto split: sum.splits option.splits)
  next
    case stop
    with s q read_fixture_fresh[of env h w1] show ?thesis
      by (subst fixture_loop.simps) (force split: sum.splits option.splits)
  next
    case turn
    show ?thesis
    proof (cases "deadline \<le> he_now env w2")
      case True
      with s q turn show ?thesis by (subst fixture_loop.simps) simp
    next
      case False
      with later sleep[of w2 poll_interval]
      have "deadline - he_now env (he_sleep env poll_interval w2) < deadline - he_now env w"
        by (simp add: poll_interval_def)
      from less[OF this] s q turn False show ?thesis by (subst fixture_loop.simps) simp
    qed
  qed
qed

end
