(* ===== verification/Conformance_Properties.thy ===== *)
theory Conformance_Properties
  imports Conformance_Facts
begin

text \<open>The properties of the conformance client and of the round-trip example.\<close>

text \<open>
  C36: a request of the peer returns; a payload it returns is that of the reply to its own reference, and
  every frame it passed over is held, in order, so that the next wait for an event gets the first
  held frame with that event without reading the connection.
\<close>

theorem peer_request_keeps_events:
  "\<exists>r p' w' read passed final.
     peer_request (websocket_env to_string from_str display) event payload (p, w) = Some (r, p', w') \<and>
     texts_of (ws_incoming w) = read @ final @ texts_of (ws_incoming w') \<and>
     decodes (websocket_env to_string from_str display) read passed \<and>
     peer_pending p' = peer_pending p @ passed \<and>
     (case r of
        Ok v \<Rightarrow> \<exists>f. decodes (websocket_env to_string from_str display) final [f] \<and>
                  answers (show_nat (peer_next_ref p + 1)) f \<and> v = json_nth f 4
      | Err _ \<Rightarrow> True) \<and>
     (\<forall>ev. case find (carries ev) (peer_pending p @ passed) of
        Some f \<Rightarrow> \<exists>p''. peer_event (websocket_env to_string from_str display) ev p' w' = Some (Ok (json_nth f 4), p'', w')
      | None \<Rightarrow> True)"
proof -
  let ?env = "websocket_env to_string from_str display"
  from websocket.request_facts[of to_string from_str display event payload p w]
  obtain r p' w' read passed final where
    req: "peer_request ?env event payload (p, w) = Some (r, p', w')"
      "texts_of (ws_incoming w) = read @ final @ texts_of (ws_incoming w')"
      "decodes ?env read passed" "peer_pending p' = peer_pending p @ passed"
    and reply: "\<forall>v. r = Ok v \<longrightarrow>
      (\<exists>f. decodes ?env final [f] \<and> answers (show_nat (peer_next_ref p + 1)) f \<and> v = json_nth f 4)" by blast
  have "case find (carries ev) (peer_pending p @ passed) of
      Some f \<Rightarrow> \<exists>p''. peer_event ?env ev p' w' = Some (Ok (json_nth f 4), p'', w') | None \<Rightarrow> True" for ev
    using websocket.event_facts[of to_string from_str display ev p' w'] req(4) by (auto split: option.splits)
  with req reply show ?thesis
    by (intro exI[of _ r] exI[of _ p'] exI[of _ w'] exI[of _ read] exI[of _ passed] exI[of _ final])
      (auto split: sum.splits)
qed

text \<open>
  Waiting for a command returns; a broadcast it returns is the first command among those the client
  held and those in the frames it received, and everything after it is still held.
\<close>

theorem next_command_finds_first:
  "\<exists>r s' w' read skipped got.
     next_command (websocket_env to_string from_str display) (s, w) = Some (r, s', w') \<and>
     texts_of (ws_incoming w) = read @ texts_of (ws_incoming w') \<and>
     skipped @ got @ ph_pending s' =
       ph_pending s @ broadcasts (websocket_env to_string from_str display) (ph_topic s) read \<and>
     \<not> list_ex is_command skipped \<and>
     (case r of
        Ok c \<Rightarrow> \<exists>b. got = [b] \<and> is_command b \<and> c = Some (classify_broadcast_msg b)
      | Err _ \<Rightarrow> got = [])"
proof -
  from websocket.next_command_facts[of to_string from_str display s w]
  obtain r s' w' read skipped got where
    "next_command (websocket_env to_string from_str display) (s, w) = Some (r, s', w')"
    "texts_of (ws_incoming w) = read @ texts_of (ws_incoming w')"
    "skipped @ got @ ph_pending s' =
       ph_pending s @ broadcasts (websocket_env to_string from_str display) (ph_topic s) read"
    "\<not> list_ex is_command skipped"
    "case r of Ok c \<Rightarrow> (\<exists>b. got = [b] \<and> is_command b \<and> c = Some (classify_broadcast_msg b)) | Err _ \<Rightarrow> got = []"
    by blast
  then show ?thesis by blast
qed

text \<open>
  C37: a control command returns, provided that a sleep lasts as long as asked and no system call turns
  the clock back, and a fixture it returns is the one of the next generation, never an older one.
\<close>

theorem control_returns_current:
  fixes env :: "('w, 'x, 'n, 'st) host_env"
  assumes sleep: "\<And>d w. he_now env w + d \<le> he_now env (he_sleep env d w)"
    and wait: "\<And>w. he_now env w \<le> he_now env (snd (he_try_wait env w))"
    and read: "\<And>p w. he_now env w \<le> he_now env (snd (he_read env p w))"
  shows "\<exists>r h' w'. control env command (h, w) = Some (r, h', w') \<and>
    (\<forall>v. r = Ok v \<longrightarrow> host_generation h' = host_generation h + 1 \<and>
       (\<exists>n. json_index v ''generation'' = JNumber n \<and> he_as_u64 env n = Some (host_generation h + 1)))"
proof -
  let ?h = "h\<lparr>host_generation := host_generation h + 1\<rparr>"
  let ?ask = "bind_st (boxed (he_write env (command @ [CHR 0x0A]))) (\<lambda>_. boxed (he_flush env)) w
     :: (('x, 'n) box_error fault + unit) \<times> 'w"
  show ?thesis
  proof (cases "host_generation h + 1 < 2 ^ 64 \<and> he_stdin_open env w \<and> is_ok (fst ?ask)")
    case False
    then show ?thesis
      by (auto simp: control_def checked_incr_def Let_def split: prod.splits sum.splits)
  next
    case True
    then obtain w1 where ask: "?ask = (Ok (), w1)" by (cases ?ask) (auto simp: is_ok_ex)
    from fixture_loop_total[of env, OF sleep wait read] obtain r w' where
      "fixture_loop env ?h (he_now env w1 + ns 60) w1 = Some (r, w')"
      "\<forall>v. r = Ok v \<longrightarrow>
         (\<exists>n. json_index v ''generation'' = JNumber n \<and> he_as_u64 env n = Some (host_generation ?h))" by blast
    with True ask show ?thesis
      by (intro exI[of _ r] exI[of _ ?h] exI[of _ w']) (simp add: control_def checked_incr_def fixture_def)
  qed
qed

text \<open>A host whose fixture for generation 1 is in place from the first second on.\<close>

definition demo_host :: "(nat, unit, nat, unit) host_env" where
  "demo_host =
     \<lparr>he_unix = True, he_temp_dir = ''/tmp'', he_pid = 7, he_manifest_dir = ''/w'',
      he_epoch_nanos = return_st 0, he_create_dir = (\<lambda>m p. return_st ()), he_remove_dir_all = (\<lambda>p. return_st ()),
      he_spawn = (\<lambda>c. return_st ()), he_try_wait = return_st None, he_kill = return_st (),
      he_wait = return_st (), he_stdin_open = (\<lambda>w. True), he_write = (\<lambda>t. return_st ()),
      he_flush = return_st (), he_read = (\<lambda>p w. (if w < ns 1 then Err () else Ok ''one'', w)),
      he_now = (\<lambda>w. w), he_sleep = (\<lambda>d w. w + d),
      he_from_slice = (\<lambda>t. Ok (JObject [(''generation'', JNumber 1)])), he_as_u64 = Some,
      he_show_status = (\<lambda>_. [])\<rparr>"

theorem control_returns_current_witness:
  "\<exists>r h' w'. control demo_host ''rotate'' (\<lparr>host_dir = ''/tmp/f'', host_generation = 0\<rparr>, ns 1) = Some (r, h', w') \<and>
     (\<forall>v. r = Ok v \<longrightarrow> host_generation h' = 1)"
proof -
  have "\<exists>r h' w'. control demo_host ''rotate'' (\<lparr>host_dir = ''/tmp/f'', host_generation = 0\<rparr>, ns 1) = Some (r, h', w') \<and>
    (\<forall>v. r = Ok v \<longrightarrow> host_generation h' = host_generation \<lparr>host_dir = ''/tmp/f'', host_generation = 0\<rparr> + 1 \<and>
       (\<exists>n. json_index v ''generation'' = JNumber n \<and>
          he_as_u64 demo_host n = Some (host_generation \<lparr>host_dir = ''/tmp/f'', host_generation = 0\<rparr> + 1)))"
    by (rule control_returns_current) (simp_all add: demo_host_def)
  then show ?thesis by auto
qed

end
