(* ===== verification/Error_Texts.thy ===== *)
theory Error_Texts
  imports Load Driver
begin

text \<open>
  The messages of the errors (the \<open>#[error]\<close> attributes of \<open>InterpError\<close>, \<open>ParseError\<close>,
  \<open>PlanError\<close> and \<open>DriverError\<close>) and the chain of messages \<open>anyhow\<close> prints: the message of the
  error, then that of its \<open>source\<close>, and so on.
\<close>

section \<open>Foreign errors\<close>

text \<open>
  The messages of a foreign error and of its sources: of the TOML parser, the JSON canonicaliser,
  I/O, the JSON parser and the serialisers.  \<open>sh_escape\<close> is \<open>Debug for str\<close> on a character outside
  ASCII.
\<close>

record ('te, 'ce, 'io, 'je, 'se) shown =
  sh_toml :: "'te \<Rightarrow> string list"
  sh_canonical :: "'ce \<Rightarrow> string list"
  sh_io :: "'io \<Rightarrow> string list"
  sh_json :: "'je \<Rightarrow> string list"
  sh_serialize :: "'se \<Rightarrow> string list"
  sh_escape :: "string \<Rightarrow> string"

section \<open>Debug\<close>

text \<open>\<open>Debug for str\<close> escapes a character of ASCII, and leaves the others to \<open>esc\<close>.\<close>

definition escape_ascii :: "char \<Rightarrow> string" where
  "escape_ascii c =
     (let n = (of_char c :: nat) in
      if c = CHR 0x00 then [CHR 0x5C, CHR ''0'']
      else if c = CHR 0x09 then [CHR 0x5C, CHR ''t'']
      else if c = CHR 0x0A then [CHR 0x5C, CHR ''n'']
      else if c = CHR 0x0D then [CHR 0x5C, CHR ''r'']
      else if c = CHR 0x22 \<or> c = CHR 0x5C then [CHR 0x5C, c]
      else if n < 32 \<or> n = 127
      then [CHR 0x5C, CHR ''u'', CHR 0x7B] @ (if n < 16 then [hex_digit n] else [hex_digit (n div 16), hex_digit (n mod 16)]) @ [CHR 0x7D]
      else [c])"

text \<open>A byte of 0x80 or more and the continuation bytes behind it are one character.\<close>

fun escape_chars :: "(string \<Rightarrow> string) \<Rightarrow> string \<Rightarrow> string \<Rightarrow> string" where
  "escape_chars esc [] [] = []"
| "escape_chars esc (d # ds) [] = esc (d # ds)"
| "escape_chars esc [] (c # cs) =
     (if (of_char c :: nat) < 128 then escape_ascii c @ escape_chars esc [] cs else escape_chars esc [c] cs)"
| "escape_chars esc (d # ds) (c # cs) =
     (if (of_char c :: nat) < 128 then esc (d # ds) @ escape_ascii c @ escape_chars esc [] cs
      else if (of_char c :: nat) < 192 then escape_chars esc ((d # ds) @ [c]) cs
      else esc (d # ds) @ escape_chars esc [c] cs)"

definition debug_str :: "(string \<Rightarrow> string) \<Rightarrow> string \<Rightarrow> string" where
  "debug_str esc s = [CHR 0x22] @ escape_chars esc [] s @ [CHR 0x22]"

definition debug_strs :: "(string \<Rightarrow> string) \<Rightarrow> string list \<Rightarrow> string" where
  "debug_strs esc ss = ''['' @ join '', '' (map (debug_str esc) ss) @ '']''"

text \<open>\<open>Debug for Duration\<close>: the largest unit with a whole part, and the fraction without trailing zeros.\<close>

definition debug_decimal :: "nat \<Rightarrow> nat \<Rightarrow> nat \<Rightarrow> string" where
  "debug_decimal whole fraction width =
     show_nat whole @
     (if fraction = 0 then []
      else ''.'' @ trim_end_matches [CHR ''0''] (replicate (width - length (show_nat fraction)) (CHR ''0'') @ show_nat fraction))"

definition debug_duration :: "duration \<Rightarrow> string" where
  "debug_duration d =
     (if 1000000000 \<le> d then debug_decimal (d div 1000000000) (d mod 1000000000) 9 @ ''s''
      else if 1000000 \<le> d then debug_decimal (d div 1000000) (d mod 1000000) 6 @ ''ms''
      else if 1000 \<le> d then debug_decimal (d div 1000) (d mod 1000) 3 @ [CHR 0xC2, CHR 0xB5, CHR ''s'']
      else debug_decimal d 0 1 @ ''ns'')"

section \<open>Display\<close>

fun display_interp_error :: "interp_error \<Rightarrow> string" where
  "display_interp_error (Undefined name input) = ''undefined variable `'' @ name @ ''` in `'' @ input @ ''`''"
| "display_interp_error (MissingRequired name msg span) = ''required variable `'' @ name @ ''` is missing: '' @ msg"
| "display_interp_error (Unterminated input pos) = ''unterminated `${` in `'' @ input @ ''` at byte '' @ show_nat pos"
| "display_interp_error (EnvFile path reason) = ''failed to load env file `'' @ path @ ''`: '' @ reason"

fun display_parse_error :: "('te \<Rightarrow> string list) \<Rightarrow> 'te parse_error \<Rightarrow> string" where
  "display_parse_error toml (ParseError_Toml file source) = ''invalid TOML in '' @ file @ '': '' @ hd (toml source)"
| "display_parse_error toml (ParseError_UnknownField section field suggestion) =
     ''unknown field `'' @ field @ ''` in ['' @ section @ ''] (did you mean `'' @ suggestion @ ''`?)''"
| "display_parse_error toml (ParseError_MissingImageOrBuild service) =
     ''[services.'' @ service @ ''] requires either `image` or `build`''"

definition cycle_arrow :: string where
  "cycle_arrow = [CHR '' '', CHR 0xE2, CHR 0x86, CHR 0x92, CHR '' '']"

fun display_plan_error :: "('te \<Rightarrow> string list) \<Rightarrow> ('ce \<Rightarrow> string list) \<Rightarrow> ('te, 'ce) plan_error \<Rightarrow> string" where
  "display_plan_error toml jcs (Cycle path) = ''dependency cycle detected: '' @ join cycle_arrow path"
| "display_plan_error toml jcs (MissingDependency from' to) =
     ''service `'' @ from' @ ''` depends on unknown service `'' @ to @ ''`''"
| "display_plan_error toml jcs (UnknownNetwork service network) =
     ''service `'' @ service @ ''` references undeclared network `'' @ network @ ''`''"
| "display_plan_error toml jcs (UnknownVolume service volume) =
     ''service `'' @ service @ ''` references undeclared volume `'' @ volume @ ''`''"
| "display_plan_error toml jcs (UnknownProfile profile) =
     ''profile `'' @ profile @ ''` is not defined by any service''"
| "display_plan_error toml jcs (UnknownService service) =
     ''service `'' @ service @ ''` is not defined in the compose file''"
| "display_plan_error toml jcs (Schema_Error e) = ''schema error: '' @ display_parse_error toml e"
| "display_plan_error toml jcs (Interp_Error e) = ''interpolation error: '' @ display_interp_error e"
| "display_plan_error toml jcs (ConfigHash service source) =
     ''service `'' @ service @ ''` cannot be hashed: '' @ hd (jcs source)"

fun display_driver_error ::
    "('te, 'ce, 'io, 'je, 'se) shown \<Rightarrow> ('io, 'je) driver_error \<Rightarrow> string" where
  "display_driver_error sh (Podman_Error argv code stderr) =
     ''podman exited '' @ show_int code @ '': '' @ stderr @ [CHR 0x0A] @ ''  argv: '' @ debug_strs (sh_escape sh) argv"
| "display_driver_error sh (HealthcheckTimeout service timeout) =
     ''service `'' @ service @ ''` did not become healthy within '' @ debug_duration timeout"
| "display_driver_error sh (Unhealthy_Error service streak) =
     ''service `'' @ service @ ''` is unhealthy (failing streak: '' @ show_nat streak @ '')''"
| "display_driver_error sh (PrivilegedPort service port) =
     ''service `'' @ service @ ''` tried to bind privileged port '' @ show_nat port @
     '': run `sudo sysctl net.ipv4.ip_unprivileged_port_start='' @ show_nat port @
     ''` to allow rootless binding, or use a port '' @ [CHR 0xE2, CHR 0x89, CHR 0xA5] @ '' 1024''"
| "display_driver_error sh (Io_Error e) = ''I/O error communicating with podman: '' @ hd (sh_io sh e)"
| "display_driver_error sh (Json_Error e) = ''failed to parse podman JSON output: '' @ hd (sh_json sh e)"

section \<open>Sources\<close>

text \<open>The messages of an error and of its sources.\<close>

fun parse_messages :: "('te \<Rightarrow> string list) \<Rightarrow> 'te parse_error \<Rightarrow> string list" where
  "parse_messages toml (ParseError_Toml file source) = display_parse_error toml (ParseError_Toml file source) # toml source"
| "parse_messages toml e = [display_parse_error toml e]"

fun plan_messages :: "('te \<Rightarrow> string list) \<Rightarrow> ('ce \<Rightarrow> string list) \<Rightarrow> ('te, 'ce) plan_error \<Rightarrow> string list" where
  "plan_messages toml jcs (Schema_Error e) = display_plan_error toml jcs (Schema_Error e) # parse_messages toml e"
| "plan_messages toml jcs (Interp_Error e) = [display_plan_error toml jcs (Interp_Error e), display_interp_error e]"
| "plan_messages toml jcs (ConfigHash service source) =
     display_plan_error toml jcs (ConfigHash service source) # jcs source"
| "plan_messages toml jcs e = [display_plan_error toml jcs e]"

fun driver_messages :: "('te, 'ce, 'io, 'je, 'se) shown \<Rightarrow> ('io, 'je) driver_error \<Rightarrow> string list" where
  "driver_messages sh (Io_Error e) = display_driver_error sh (Io_Error e) # sh_io sh e"
| "driver_messages sh (Json_Error e) = display_driver_error sh (Json_Error e) # sh_json sh e"
| "driver_messages sh e = [display_driver_error sh e]"

text \<open>A missing compose file has no error below its context.\<close>

fun cause_messages ::
    "('te, 'ce, 'io, 'je, 'se) shown \<Rightarrow> ('te, 'ce, ('io, 'je) driver_error, 'se) cause \<Rightarrow> string list" where
  "cause_messages sh No_File = []"
| "cause_messages sh (Io_Cause m) = [m]"
| "cause_messages sh (Parse_Cause e) = parse_messages (sh_toml sh) e"
| "cause_messages sh (Interp_Cause e) = [display_interp_error e]"
| "cause_messages sh (Plan_Cause e) = plan_messages (sh_toml sh) (sh_canonical sh) e"
| "cause_messages sh (Driver_Cause e) = driver_messages sh e"
| "cause_messages sh (Serialize_Cause e) = sh_serialize sh e"

end
