(* ===== verification/Plan_Errors.thy ===== *)
theory Plan_Errors
  imports Plan_Facts Examples
begin

text \<open>
  The errors of \<open>plan\<close> (\<open>PlanError\<close> of crate \<open>selur-compose-plan\<close>): what each error says of the
  document and the options, and that \<open>plan\<close> only says what is so.
\<close>

section \<open>What an error says\<close>

text \<open>The fault in the document or the options that an error names.\<close>

fun plan_defect :: "(service \<Rightarrow> 'ce + string) \<Rightarrow> 'x compose \<Rightarrow> plan_options \<Rightarrow> ('te, 'ce) plan_error \<Rightarrow> bool" where
  "plan_defect hash c opts (UnknownProfile p) \<longleftrightarrow>
     p \<in> set (opt_profiles opts) \<and> (\<forall>(s, svc)\<in>set (cmp_services c). p \<notin> set (svc_profiles svc))"
| "plan_defect hash c opts (UnknownService s) \<longleftrightarrow>
     s \<in> set (opt_services opts) \<and> bt_get (active_services c (opt_profiles opts)) s = None"
| "plan_defect hash c opts (UnknownNetwork s net) \<longleftrightarrow>
     (\<exists>svc. bt_get (active_services c (opt_profiles opts)) s = Some svc \<and> net \<in> set (svc_networks svc)) \<and>
     net \<noteq> ''default'' \<and> bt_get (cmp_networks c) net = None"
| "plan_defect hash c opts (UnknownVolume s vol) \<longleftrightarrow>
     (\<exists>svc. bt_get (active_services c (opt_profiles opts)) s = Some svc \<and>
        Some vol \<in> mount_volume_name ` set (svc_volumes svc)) \<and>
     bt_get (cmp_volumes c) vol = None"
| "plan_defect hash c opts (MissingDependency s d) \<longleftrightarrow>
     depends (active_services c (opt_profiles opts)) s d \<and> bt_get (active_services c (opt_profiles opts)) d = None"
| "plan_defect hash c opts (Cycle names) \<longleftrightarrow>
     names \<noteq> [] \<and> sorted names \<and> distinct names \<and>
     (\<forall>s\<in>set names. \<exists>d\<in>set names. depends (active_services c (opt_profiles opts)) s d)"
| "plan_defect hash c opts (ConfigHash s e) \<longleftrightarrow>
     (\<exists>svc. bt_get (active_services c (opt_profiles opts)) s = Some svc \<and> hash svc = Err e)"
| "plan_defect hash c opts (Schema_Error e) \<longleftrightarrow> False"
| "plan_defect hash c opts (Interp_Error e) \<longleftrightarrow> False"

text \<open>The conditions of \<open>plan_valid\<close> in the order \<open>plan\<close> checks them, and which of them an error is about.\<close>

definition plan_checks :: "(service \<Rightarrow> 'ce + string) \<Rightarrow> 'x compose \<Rightarrow> plan_options \<Rightarrow> bool list" where
  "plan_checks hash c opts =
     (let active = active_services c (opt_profiles opts) in
      [set (opt_profiles opts) \<subseteq> set (all_profiles c),
       \<forall>s\<in>set (opt_services opts). bt_contains active s,
       \<forall>(s, svc)\<in>set active. references_ok c svc,
       deps_closed active,
       acyclic {(d, s). depends active s d},
       \<forall>(s, svc)\<in>set active. is_ok (hash svc)])"

fun error_check :: "('te, 'ce) plan_error \<Rightarrow> nat" where
  "error_check (UnknownProfile p) = 0"
| "error_check (UnknownService s) = 1"
| "error_check (UnknownNetwork s net) = 2"
| "error_check (UnknownVolume s vol) = 2"
| "error_check (MissingDependency s d) = 3"
| "error_check (Cycle names) = 4"
| "error_check (ConfigHash s e) = 5"
| "error_check (Schema_Error e) = 6"
| "error_check (Interp_Error e) = 6"

lemma plan_valid_checks: "plan_valid hash c opts \<longleftrightarrow> list_all (\<lambda>b. b) (plan_checks hash c opts)"
  by (simp add: plan_valid_def plan_checks_def Let_def)

section \<open>The errors of the steps\<close>

lemma check_services_Err:
  "check_services active svcs = Err e \<Longrightarrow> \<exists>s. e = UnknownService s \<and> s \<in> set svcs \<and> bt_get active s = None"
  by (induction active svcs rule: check_services.induct) (auto simp: bt_contains_def split: if_splits)

lemma check_mount_Err:
  "check_mount c s m = Err e \<Longrightarrow>
     \<exists>vol. e = UnknownVolume s vol \<and> mount_volume_name m = Some vol \<and> bt_get (cmp_volumes c) vol = None"
  by (auto simp: check_mount_def mount_volume_name_def bt_contains_def Let_def
      split: mount_spec.splits option.splits if_splits)

lemma check_mounts_Err:
  "check_mounts c s ms = Err e \<Longrightarrow>
     \<exists>vol. e = UnknownVolume s vol \<and> Some vol \<in> mount_volume_name ` set ms \<and> bt_get (cmp_volumes c) vol = None"
proof (induction c s ms rule: check_mounts.induct)
  case (2 c s m rest)
  from "2.prems" consider "check_mount c s m = Err e" | "check_mounts c s rest = Err e"
    by (auto simp: bind_res_Err)
  then show ?case
  proof cases
    case 1
    from check_mount_Err [OF 1] show ?thesis by force
  next
    case 2
    from "2.IH" [OF 2] show ?thesis by force
  qed
qed simp

lemma check_networks_undeclared:
  "check_networks c s nets = Err e \<Longrightarrow> \<exists>net. e = UnknownNetwork s net \<and> net \<in> set nets \<and> \<not> network_declared c net"
  by (auto simp: check_networks_Err find_Some_iff)

lemma validate_references_Err:
  "validate_references c svcs = Err e \<Longrightarrow> \<exists>s svc. (s, svc) \<in> set svcs \<and>
     (check_networks c s (svc_networks svc) = Err e \<or> check_mounts c s (svc_volumes svc) = Err e)"
  by (induction c svcs rule: validate_references.induct) (auto simp: bind_res_Err)

lemma topological_waves_Err:
  assumes ok: "bt_ok active" and b: "(build_graph active :: ('te, 'ce) plan_error fault + _) = Ok g"
    and t: "(topological_waves g :: ('te, 'ce) plan_error fault + _) = Err e"
  shows "\<exists>names. e = Fault (Cycle names) \<and> names \<noteq> [] \<and> sorted names \<and> distinct names \<and>
    (\<forall>s\<in>set names. \<exists>d\<in>set names. depends active s d)"
proof -
  from build_graph_Ok [OF ok b] have g: "graph_ok g"
    and edge: "\<And>u v. edge g u v \<Longrightarrow> depends active (nname g v) (nname g u)" by (auto simp: depends_def)
  from topological_waves_spec [OF g, where 'te = 'te and 'ce = 'ce] t obtain R where
    e: "e = Fault (Cycle (remdups (sort (map (nname g) R))))" and R: "R \<noteq> []" "\<forall>v\<in>set R. \<exists>u\<in>set R. edge g u v"
    by auto
  have "\<forall>s\<in>nname g ` set R. \<exists>d\<in>nname g ` set R. depends active s d"
    using R(2) edge by blast
  with R(1) e show ?thesis
    by (intro exI [of _ "remdups (sort (map (nname g) R))"]) (simp add: sorted_remdups flip: set_empty)
qed

lemma waves_loop_Err:
  assumes ok: "bt_ok active" and b: "(build_graph active :: ('te, 'ce) plan_error fault + _) = Ok g"
    and t: "(topological_waves g :: ('te, 'ce) plan_error fault + _) = Ok ws"
    and w: "(waves_loop hash p active g ws (ops, em, idx) :: ('te, 'ce) plan_error fault + _) = Err e"
  shows "\<exists>s svc e'. e = Fault (ConfigHash s e') \<and> bt_get active s = Some svc \<and> hash svc = Err e'"
proof -
  from build_graph_Ok [OF ok b] have g: "graph_ok g" and names: "sg_names g = bt_keys active" by auto
  from topological_waves_spec [OF g, where 'te = 'te and 'ce = 'ce] t
  have nodes: "set (concat ws) \<subseteq> set (nodes g)" by simp
  have "\<exists>v\<in>set (concat ws). \<not> hashed hash active (nname g v)"
  proof (rule ccontr)
    assume "\<not> ?thesis"
    then have "\<forall>v\<in>set (concat ws). hashed hash active (nname g v)" by blast
    from waves_loop_valid [OF names nodes this, of p ops em idx, where 'te = 'te] w show False by auto
  qed
  from waves_loop_unhashed [OF names nodes this, of p ops em idx, where 'te = 'te] w obtain s e' where
    "e = Fault (ConfigHash s e')" "s \<in> set (bt_keys active)" "hash (service_of active s) = Err e'" by auto
  then show ?thesis
    using bt_contains_iff [of active s] by (auto simp: bt_contains_def service_of_def)
qed

section \<open>The property\<close>

text \<open>The stages at which \<open>plan\<close> can fail.\<close>

lemma plan_stages:
  assumes ok: "bt_ok (cmp_services c)"
    and failed: "(plan hash c opts :: ('te, 'ce) plan_error fault + _) = Err (Fault e)"
    and active: "active = active_services c (opt_profiles opts)"
  obtains
    (profiles) "(filter_services c (opt_profiles opts) :: ('te, 'ce) plan_error + _) = Err e"
  | (services) "(filter_services c (opt_profiles opts) :: ('te, 'ce) plan_error + _) = Ok active"
      "(check_services active (opt_services opts) :: ('te, 'ce) plan_error + _) = Err e"
  | (references) "(filter_services c (opt_profiles opts) :: ('te, 'ce) plan_error + _) = Ok active"
      "(check_services active (opt_services opts) :: ('te, 'ce) plan_error + _) = Ok ()"
      "(validate_references c active :: ('te, 'ce) plan_error + _) = Err e"
  | (graph) "(filter_services c (opt_profiles opts) :: ('te, 'ce) plan_error + _) = Ok active"
      "(check_services active (opt_services opts) :: ('te, 'ce) plan_error + _) = Ok ()"
      "(validate_references c active :: ('te, 'ce) plan_error + _) = Ok ()"
      "(build_graph active :: ('te, 'ce) plan_error fault + _) = Err (Fault e)"
  | (waves) g where "(filter_services c (opt_profiles opts) :: ('te, 'ce) plan_error + _) = Ok active"
      "(check_services active (opt_services opts) :: ('te, 'ce) plan_error + _) = Ok ()"
      "(validate_references c active :: ('te, 'ce) plan_error + _) = Ok ()"
      "(build_graph active :: ('te, 'ce) plan_error fault + _) = Ok g"
      "(topological_waves g :: ('te, 'ce) plan_error fault + _) = Err (Fault e)"
  | (hashes) g ws where "(filter_services c (opt_profiles opts) :: ('te, 'ce) plan_error + _) = Ok active"
      "(check_services active (opt_services opts) :: ('te, 'ce) plan_error + _) = Ok ()"
      "(validate_references c active :: ('te, 'ce) plan_error + _) = Ok ()"
      "(build_graph active :: ('te, 'ce) plan_error fault + _) = Ok g"
      "(topological_waves g :: ('te, 'ce) plan_error fault + _) = Ok ws"
      "(waves_loop hash (resolve_project_name c opts) active g ws (setup_ops c opts, [], []) ::
        ('te, 'ce) plan_error fault + _) = Err (Fault e)"
proof (cases "filter_services c (opt_profiles opts) :: ('te, 'ce) plan_error + _")
  case (Inl e')
  with failed profiles show thesis by (simp add: plan_def Let_def)
next
  case (Inr act)
  then have f: "(filter_services c (opt_profiles opts) :: ('te, 'ce) plan_error + _) = Ok active"
    by (simp add: filter_services_Ok [OF ok] active active_services_def)
  with failed have "bind_res (map_err Fault (check_services active (opt_services opts))) (\<lambda>_.
      bind_res (map_err Fault (validate_references c active)) (\<lambda>_.
      bind_res (build_graph active) (\<lambda>graph.
      bind_res (topological_waves graph) (\<lambda>ws.
      bind_res (waves_loop hash (resolve_project_name c opts) active graph ws (setup_ops c opts, [], []))
        (\<lambda>(ops, emitted, node_wave_index).
          Ok \<lparr>plan_ops = ops, plan_waves = node_wave_index, plan_project_name = resolve_project_name c opts\<rparr>)))))
      = (Err (Fault e) :: ('te, 'ce) plan_error fault + _)"
    by (simp add: plan_def Let_def setup_ops_def active)
  then show thesis
    by (auto simp: bind_res_Err map_err_Err map_err_Ok intro: services references graph waves hashes f)
qed

lemma plan_error_named:
  assumes ok: "bt_ok (cmp_services c)"
    and failed: "(plan hash c opts :: ('te, 'ce) plan_error fault + _) = Err (Fault e)"
  shows "plan_defect hash c opts e \<and> list_all (\<lambda>b. b) (take (error_check e) (plan_checks hash c opts)) \<and>
    error_check e < 6"
proof -
  define active where "active = active_services c (opt_profiles opts)"
  have okA: "bt_ok active" using ok by (simp add: active_def active_services_def bt_ok_filter)
  have checks: "(filter_services c (opt_profiles opts) :: ('te, 'ce) plan_error + _) = Ok active \<Longrightarrow>
      set (opt_profiles opts) \<subseteq> set (all_profiles c)"
    "(check_services active (opt_services opts) :: ('te, 'ce) plan_error + _) = Ok () \<Longrightarrow>
      \<forall>s\<in>set (opt_services opts). bt_contains active s"
    "(validate_references c active :: ('te, 'ce) plan_error + _) = Ok () \<Longrightarrow>
      \<forall>(s, svc)\<in>set active. references_ok c svc"
    "(build_graph active :: ('te, 'ce) plan_error fault + _) = Ok g \<Longrightarrow> deps_closed active" for g
    using build_graph_iff [OF okA, where 'te = 'te and 'ce = 'ce] deps_closed_iff [OF okA]
    by (auto simp: filter_services_Ok [OF ok] check_services_Ok validate_references_Ok)
  show ?thesis
    using ok failed active_def
  proof (cases rule: plan_stages)
    case profiles
    then have "check_profiles (all_profiles c) (opt_profiles opts) = Err e"
      by (auto simp: filter_services_def bind_res_Err)
    then obtain p where p: "find (\<lambda>p. p \<notin> set (all_profiles c)) (opt_profiles opts) = Some p" "e = UnknownProfile p"
      by (auto simp: check_profiles_Err)
    from p(1) have "p \<in> set (opt_profiles opts)" "p \<notin> set (all_profiles c)" by (auto simp: find_Some_iff)
    with p(2) show ?thesis by (auto simp: all_profiles_def)
  next
    case services
    from check_services_Err [OF services(2)] checks(1) [OF services(1)] show ?thesis
      by (auto simp: plan_checks_def Let_def active_def)
  next
    case references
    from validate_references_Err [OF references(3)] obtain s svc where "(s, svc) \<in> set active"
      "check_networks c s (svc_networks svc) = Err e \<or> check_mounts c s (svc_volumes svc) = Err e" by blast
    with checks(1) [OF references(1)] checks(2) [OF references(2)] show ?thesis
      by (auto simp: plan_checks_def Let_def network_declared_def bt_contains_def bt_mem [OF okA] active_def [symmetric]
          dest!: check_networks_undeclared check_mounts_Err)
  next
    case graph
    from build_graph_Err [OF okA graph(4)] obtain s svc d where
      "(s, svc) \<in> set active" "d \<in> fst ` set (deps_of svc)" "\<not> bt_contains active d" "e = MissingDependency s d"
      by (auto simp: bt_contains_iff)
    with checks(1) [OF graph(1)] checks(2) [OF graph(2)] checks(3) [OF graph(3)] show ?thesis
      by (auto simp: plan_checks_def Let_def depends_def bt_mem [OF okA] bt_contains_def active_def [symmetric])
  next
    case (waves g)
    from topological_waves_Err [OF okA waves(4,5)] checks(1) [OF waves(1)] checks(2) [OF waves(2)] checks(3) [OF waves(3)] checks(4) [OF waves(4)] show ?thesis
      by (auto simp: plan_checks_def Let_def active_def [symmetric])
  next
    case (hashes g ws)
    from waves_loop_Err [OF okA hashes(4,5,6)] checks(1) [OF hashes(1)] checks(2) [OF hashes(2)] checks(3) [OF hashes(3)] checks(4) [OF hashes(4)] topological_waves_valid [OF okA hashes(4)] hashes(5)
    show ?thesis by (auto simp: plan_checks_def Let_def active_def [symmetric])
  qed
qed

text \<open>
  C8: an error of \<open>plan\<close> is about the first check that fails, and the fault it names is there: the
  profile or service was asked for and does not exist, the active service it names has that undeclared
  reference, that dependency or that hash error, and every service of a reported cycle depends on
  another one of them.
\<close>

theorem plan_errors_truthful:
  assumes "bt_ok (cmp_services c)"
    and "(plan hash c opts :: ('te, 'ce) plan_error fault + _) = Err (Fault e)"
  shows "plan_defect hash c opts e \<and> list_all (\<lambda>b. b) (take (error_check e) (plan_checks hash c opts)) \<and>
    error_check e < 6"
  by (rule plan_error_named [OF assms])

text \<open>\<open>a\<close> and \<open>b\<close> wait for each other, and \<open>c\<close> for \<open>a\<close>.\<close>

definition demo_cycle :: "unit compose" where
  "demo_cycle = demo\<lparr>cmp_services :=
     [(''a'', service_default\<lparr>svc_image := Some ''i'', svc_depends_on := DependsOn_List [''b'']\<rparr>),
      (''b'', service_default\<lparr>svc_image := Some ''i'', svc_depends_on := DependsOn_List [''a'']\<rparr>),
      (''c'', service_default\<lparr>svc_image := Some ''i'', svc_depends_on := DependsOn_List [''a'']\<rparr>)]\<rparr>"

definition is_cycle :: "string list \<Rightarrow> (unit, unit) plan_error fault + compose_plan \<Rightarrow> bool" where
  "is_cycle names r = (case r of Err (Fault (Cycle path)) \<Rightarrow> path = names | _ \<Rightarrow> False)"

lemma demo_cycle_plan:
  "(plan demo_hash demo_cycle demo_opts :: (unit, unit) plan_error fault + _) = Err (Fault (Cycle [''a'', ''b'', ''c'']))"
proof -
  have "is_cycle [''a'', ''b'', ''c''] (plan demo_hash demo_cycle demo_opts)" by code_simp
  then show ?thesis by (auto simp: is_cycle_def split: sum.splits fault.splits plan_error.splits)
qed

theorem plan_errors_truthful_witness:
  "\<exists>d\<in>{''a'', ''b'', ''c''}. depends (active_services demo_cycle []) ''c'' d"
proof -
  have "bt_ok (cmp_services demo_cycle)" by code_simp
  from plan_errors_truthful [OF this demo_cycle_plan] show ?thesis by (simp add: demo_opts_def)
qed

end
