(* ===== verification/Error_Properties.thy ===== *)
theory Error_Properties
  imports Error_Texts Plan_Errors Schema_Properties Cli_Properties
begin

text \<open>
  What the command line tool says when a compose file cannot be loaded: the text on stderr names the
  first stage that failed and a fault that is really there.
\<close>

section \<open>Truthful reports\<close>

fun command_services :: "command \<Rightarrow> string list" where
  "command_services (Cmd_Up args) = up_services args"
| "command_services (Cmd_Build args) = ba_services args"
| "command_services (Cmd_Pull args) = pa_services args"
| "command_services (Cmd_Logs args) = la_services args"
| "command_services _ = []"

text \<open>The compose file at \<open>p\<close> opens, decodes and parses as \<open>c\<close>.\<close>

definition holds_document :: "('te, 'ce, 'x) system \<Rightarrow> path \<Rightarrow> 'x compose \<Rightarrow> bool" where
  "holds_document sys p c \<longleftrightarrow>
     (\<exists>content src. sys_open sys p = Ok content \<and> sys_decode sys (take (5 * 1024 * 1024) content) = Ok src \<and>
        sys_from_str sys src = Ok c)"

definition dot_env_path :: "path \<Rightarrow> path" where
  "dot_env_path p = path_join (case path_parent p of Some d \<Rightarrow> d | None \<Rightarrow> ''.'') ''.env''"

inductive load_reports ::
    "('te, 'ce, 'io, 'je, 'se) shown \<Rightarrow> ('te, 'ce, 'x) system \<Rightarrow> path option \<Rightarrow> path list \<Rightarrow> plan_options \<Rightarrow> string \<Rightarrow> bool"
  for sh :: "('te, 'ce, 'io, 'je, 'se) shown" and sys :: "('te, 'ce, 'x) system" and explicit :: "path option"
    and env_files :: "path list" and opts :: plan_options
where
  no_file:
    "resolve_compose_file sys explicit = None \<Longrightarrow>
     load_reports sh sys explicit env_files opts ''could not find a compose file (tried selur-compose.toml, compose.toml)''"
| unopened:
    "resolve_compose_file sys explicit = Some p \<Longrightarrow> sys_open sys p = Err m \<Longrightarrow>
     load_reports sh sys explicit env_files opts (''failed to open '' @ p @ '': '' @ m)"
| undecoded:
    "resolve_compose_file sys explicit = Some p \<Longrightarrow> sys_open sys p = Ok content \<Longrightarrow>
     sys_decode sys (take (5 * 1024 * 1024) content) = Err m \<Longrightarrow>
     load_reports sh sys explicit env_files opts (''failed to read '' @ p @ '': '' @ m)"
| bad_toml:
    "resolve_compose_file sys explicit = Some p \<Longrightarrow> sys_open sys p = Ok content \<Longrightarrow>
     sys_decode sys (take (5 * 1024 * 1024) content) = Ok src \<Longrightarrow> sys_from_str sys src = Err te \<Longrightarrow>
     load_reports sh sys explicit env_files opts
       (''failed to parse '' @ p @ '': '' @ join '': '' ((''invalid TOML in '' @ p @ '': '' @ hd (sh_toml sh te)) # sh_toml sh te))"
| no_image:
    "resolve_compose_file sys explicit = Some p \<Longrightarrow> holds_document sys p c \<Longrightarrow> (s, svc) \<in> set (cmp_services c) \<Longrightarrow>
     svc_image svc = None \<Longrightarrow> svc_build svc = None \<Longrightarrow>
     load_reports sh sys explicit env_files opts
       (''failed to parse '' @ p @ '': [services.'' @ s @ ''] requires either `image` or `build`'')"
| dot_env:
    "resolve_compose_file sys explicit = Some p \<Longrightarrow> holds_document sys p c \<Longrightarrow> sys_exists sys (dot_env_path p) \<Longrightarrow>
     load_env_file (sys_open sys) (sys_decode sys) (dot_env_path p) = Err e \<Longrightarrow>
     load_reports sh sys explicit env_files opts
       (''failed to load environment files: failed to load .env file from compose directory: '' @ display_interp_error e)"
| env_file:
    "resolve_compose_file sys explicit = Some p \<Longrightarrow> holds_document sys p c \<Longrightarrow> f \<in> set env_files \<Longrightarrow>
     load_env_file (sys_open sys) (sys_decode sys) f = Err e \<Longrightarrow>
     load_reports sh sys explicit env_files opts
       (''failed to load environment files: failed to load --env-file override: '' @ display_interp_error e)"
| variable:
    "resolve_compose_file sys explicit = Some p \<Longrightarrow> holds_document sys p c \<Longrightarrow>
     (build_env sys p env_files :: ('te, 'ce, unit, unit) cli_error fault + env_map) = Ok env \<Longrightarrow>
     compose_strings c = before @ s # after \<Longrightarrow> (\<And>t. t \<in> set before \<Longrightarrow> is_ok (expand t env)) \<Longrightarrow> expand s env = Err e \<Longrightarrow>
     load_reports sh sys explicit env_files opts (''variable interpolation failed for '' @ p @ '': '' @ display_interp_error e)"
| plan:
    "resolve_compose_file sys explicit = Some p \<Longrightarrow> holds_document sys p c \<Longrightarrow>
     (build_env sys p env_files :: ('te, 'ce, unit, unit) cli_error fault + env_map) = Ok env \<Longrightarrow>
     visit_compose c env = Ok c' \<Longrightarrow> plan_defect (sys_hash sys) c' opts e \<Longrightarrow>
     list_all (\<lambda>b. b) (take (error_check e) (plan_checks (sys_hash sys) c' opts)) \<Longrightarrow>
     load_reports sh sys explicit env_files opts
       (''planning failed for '' @ p @ '': '' @ join '': '' (plan_messages (sh_toml sh) (sh_canonical sh) e))"

section \<open>The errors of the stages\<close>

lemma join_Cons: "xs \<noteq> [] \<Longrightarrow> join sep (x # xs) = x @ sep @ join sep xs"
  by (cases xs) simp_all

lemma load_files_Err: "load_files load ps acc = Err e \<Longrightarrow> \<exists>p\<in>set ps. load p = Err e"
  by (induction load ps acc rule: load_files.induct) (auto simp: bind_res_Err)

lemma with_env_files_Err: "with_env_files load m ps = Err e \<Longrightarrow> \<exists>p\<in>set ps. load p = Err e"
  by (auto simp: with_env_files_def bind_res_Err dest: load_files_Err)

lemma with_context_Err:
  "with_context m r = Err e \<longleftrightarrow>
     (\<exists>err. r = Err (Fault err) \<and> e = Fault (Context m err)) \<or> (r = Err Panic \<and> e = Panic)"
  by (cases r) (auto simp: with_context_def split: fault.splits)

lemma root_err_Err: "root_err f r = Err e \<longleftrightarrow> (\<exists>d. r = Err d \<and> e = Fault (Root (f d)))"
  by (cases r) (auto simp: root_err_def)

lemma result_simps [simp]:
  "with_context m (Err (Fault e)) = Err (Fault (Context m e))" "with_context m (Ok a) = Ok a"
  "with_context m (Err Panic) = Err Panic" "root_err f (Err d) = Err (Fault (Root (f d)))" "root_err f (Ok a) = Ok a"
  by (simp_all add: with_context_def root_err_def)

text \<open>The environment does not depend on the types of errors it cannot have.\<close>

lemma build_env_Ok:
  "(build_env sys p files :: ('te, 'ce, 'de, 'se) cli_error fault + env_map) = Ok env \<Longrightarrow>
     (build_env sys p files :: ('te, 'ce, 'df, 'sf) cli_error fault + env_map) = Ok env"
  by (auto simp: build_env_def Let_def bind_res_Ok split: if_splits)

lemma build_env_Err:
  assumes "(build_env sys p files :: ('te, 'ce, 'de, 'se) cli_error fault + env_map) = Err e"
  obtains (dot_env) e' where "sys_exists sys (dot_env_path p)"
      "load_env_file (sys_open sys) (sys_decode sys) (dot_env_path p) = Err e'"
      "e = Fault (Context ''failed to load .env file from compose directory'' (Root (Interp_Cause e')))"
  | (env_file) f e' where "f \<in> set files" "load_env_file (sys_open sys) (sys_decode sys) f = Err e'"
      "e = Fault (Context ''failed to load --env-file override'' (Root (Interp_Cause e')))"
  using assms
  by (auto simp: build_env_def Let_def bind_res_Err with_context_Err root_err_Err dot_env_path_def split: if_splits
      dest!: with_env_files_Err)

lemma collect_res_first_Err:
  "collect_res f xs = Err e \<Longrightarrow> \<exists>us x vs. xs = us @ x # vs \<and> (\<forall>u\<in>set us. is_ok (f u)) \<and> f x = Err e"
proof (induction xs)
  case (Cons x xs)
  show ?case
  proof (cases "f x")
    case (Inl d)
    with Cons.prems show ?thesis by (intro exI [of _ "[]"] exI [of _ x] exI [of _ xs]) simp
  next
    case (Inr y)
    with Cons.prems have "collect_res f xs = Err e" by (auto simp: bind_res_Err)
    from Cons.IH [OF this] obtain us z vs where "xs = us @ z # vs" "\<forall>u\<in>set us. is_ok (f u)" "f z = Err e" by blast
    with Inr show ?thesis by (intro exI [of _ "x # us"] exI [of _ z] exI [of _ vs]) simp
  qed
qed simp

lemma plan_messages_not_Nil [simp]: "plan_messages toml jcs e \<noteq> []"
  by (cases e) simp_all

text \<open>The stages at which loading can fail.\<close>

lemma load_stages:
  fixes sys :: "('te, 'ce, 'x) system"
  assumes failed: "(load_compose sys explicit env_files profiles project services ::
      ('te, 'ce, 'de, 'se) cli_error fault + 'x loaded) = Err (Fault err)"
    and opts: "opts = \<lparr>opt_profiles = profiles, opt_project_name = project, opt_services = services\<rparr>"
  obtains
    (no_file) "resolve_compose_file sys explicit = None"
      "err = Context ''could not find a compose file (tried selur-compose.toml, compose.toml)'' (Root No_File)"
  | (unopened) p m where "resolve_compose_file sys explicit = Some p" "sys_open sys p = Err m"
      "err = Context (''failed to open '' @ p) (Root (Io_Cause m))"
  | (undecoded) p content m where "resolve_compose_file sys explicit = Some p" "sys_open sys p = Ok content"
      "sys_decode sys (take (5 * 1024 * 1024) content) = Err m"
      "err = Context (''failed to read '' @ p) (Root (Io_Cause m))"
  | (unparsed) p content src e where "resolve_compose_file sys explicit = Some p" "sys_open sys p = Ok content"
      "sys_decode sys (take (5 * 1024 * 1024) content) = Ok src"
      "parse_str (sys_from_str sys) src (Some p) = Err e"
      "err = Context (''failed to parse '' @ p) (Root (Parse_Cause e))"
  | (environment) p c e where "resolve_compose_file sys explicit = Some p" "holds_document sys p c"
      "(build_env sys p env_files :: ('te, 'ce, 'de, 'se) cli_error fault + env_map) = Err (Fault e)"
      "err = Context ''failed to load environment files'' e"
  | (variable) p c env e where "resolve_compose_file sys explicit = Some p" "holds_document sys p c"
      "(build_env sys p env_files :: ('te, 'ce, 'de, 'se) cli_error fault + env_map) = Ok env"
      "visit_compose c env = Err e"
      "err = Context (''variable interpolation failed for '' @ p) (Root (Interp_Cause e))"
  | (plan) p c env c' e where "resolve_compose_file sys explicit = Some p" "holds_document sys p c"
      "(build_env sys p env_files :: ('te, 'ce, 'de, 'se) cli_error fault + env_map) = Ok env"
      "visit_compose c env = Ok c'" "(plan (sys_hash sys) c' opts :: ('te, 'ce) plan_error fault + _) = Err (Fault e)"
      "err = Context (''planning failed for '' @ p) (Root (Plan_Cause e))"
proof -
  note [simp] = load_compose_def
  show thesis
  proof (cases "resolve_compose_file sys explicit")
    case None
    with failed no_file show thesis by simp
  next
    case p: (Some p)
    show thesis
    proof (cases "sys_open sys p")
      case (Inl m)
      with failed p unopened show thesis by simp
    next
      case content: (Inr content)
      show thesis
      proof (cases "sys_decode sys (take (5 * 1024 * 1024) content)")
        case (Inl m)
        with failed p content undecoded [OF p content Inl] show thesis by simp
      next
        case src: (Inr src)
        show thesis
        proof (cases "parse_str (sys_from_str sys) src (Some p) :: 'te parse_error + _")
          case (Inl e)
          with failed p content src unparsed [OF p content src Inl] show thesis by simp
        next
          case c: (Inr c)
          then have document: "holds_document sys p c"
            using content src by (auto simp: holds_document_def parse_str_def bind_res_Ok map_err_Ok)
          note read = p content src[simplified] c
          show thesis
          proof (cases "build_env sys p env_files :: ('te, 'ce, 'de, 'se) cli_error fault + env_map")
            case (Inl e)
            with failed read environment [OF p document] show thesis by (cases e) (simp_all add: build_env_not_Panic)
          next
            case env: (Inr env)
            show thesis
            proof (cases "visit_compose c env")
              case (Inl e)
              with failed read env variable [OF p document env Inl] show thesis by simp
            next
              case c': (Inr c')
              show thesis
              proof (cases "plan (sys_hash sys) c' opts :: ('te, 'ce) plan_error fault + _")
                case (Inl e)
                with failed read env c' plan [OF p document env c'] show thesis
                  by (cases e) (simp_all add: opts)
              qed (use failed read env c' in \<open>simp add: opts\<close>)
            qed
          qed
        qed
      qed
    qed
  qed
qed

lemma load_error_reported:
  fixes sys :: "('te, 'ce, 'x) system" and sh :: "('te, 'ce, 'io, 'je, 'se) shown"
  assumes maps: "\<And>src c. sys_from_str sys src = Ok c \<Longrightarrow> compose_ok c"
    and failed: "(load_compose sys explicit env_files profiles project services ::
      ('te, 'ce, ('io, 'je) driver_error, 'se) cli_error fault + 'x loaded) = Err (Fault err)"
    and opts: "opts = \<lparr>opt_profiles = profiles, opt_project_name = project, opt_services = services\<rparr>"
  shows "load_reports sh sys explicit env_files opts (join '': '' (error_chain (cause_messages sh) err))"
  using failed opts
proof (cases rule: load_stages)
  case no_file
  then show ?thesis by (simp add: load_reports.no_file)
next
  case (unopened p m)
  then show ?thesis using load_reports.unopened [of sys explicit p m] by simp
next
  case (undecoded p content m)
  then show ?thesis using load_reports.undecoded [of sys explicit p content m] by simp
next
  case (unparsed p content src e)
  show ?thesis
  proof (cases "sys_from_str sys src")
    case (Inl te)
    with unparsed have "e = ParseError_Toml p te" by (simp add: parse_str_result)
    with unparsed(5) load_reports.bad_toml [OF unparsed(1-3) Inl] show ?thesis by simp
  next
    case (Inr c)
    with unparsed obtain s svc where "find (\<lambda>(name, svc). svc_image svc = None \<and> svc_build svc = None) (cmp_services c) = Some (s, svc)"
      "e = ParseError_MissingImageOrBuild s" by (auto simp: parse_str_result split: option.splits)
    then have "(s, svc) \<in> set (cmp_services c)" "svc_image svc = None" "svc_build svc = None"
      by (auto simp: find_Some_iff in_set_conv_nth)
    moreover have "holds_document sys p c" using unparsed(2,3) Inr by (auto simp: holds_document_def)
    ultimately show ?thesis
      using load_reports.no_image [of sys explicit p c s svc] unparsed(1,5) \<open>e = _\<close> by simp
  qed
next
  case (environment p c e)
  from environment(3) show ?thesis
  proof (cases rule: build_env_Err)
    case (dot_env e')
    then show ?thesis using load_reports.dot_env [OF environment(1,2) dot_env(1,2)] environment(4) by simp
  next
    case (env_file f e')
    then show ?thesis using load_reports.env_file [OF environment(1,2) env_file(1,2)] environment(4) by simp
  qed
next
  case (variable p c env e)
  from variable(2) maps have "compose_ok c" by (auto simp: holds_document_def)
  from comp.run [OF this, of env] variable(4) have "collect_res (\<lambda>s. expand s env) (compose_strings c) = Err e" by simp
  from collect_res_first_Err [OF this] obtain us s vs where
    d: "compose_strings c = us @ s # vs" "\<And>u. u \<in> set us \<Longrightarrow> is_ok (expand u env)" "expand s env = Err e" by blast
  from load_reports.variable [OF variable(1,2) build_env_Ok [OF variable(3)] d] variable(5) show ?thesis by simp
next
  case (plan p c env c' e)
  from collect_btree_ok(1)[OF visit_compose_parts(1)[OF plan(4)]] have "bt_ok (cmp_services c')" .
  note named = plan_error_named [OF this plan(5)]
  from load_reports.plan [OF plan(1,2) build_env_Ok [OF plan(3)] plan(4) conjunct1 [OF named]
      conjunct1 [OF conjunct2 [OF named]]] plan(6)
  show ?thesis by (simp add: join_Cons)
qed

lemma dispatch_load_error:
  fixes env :: "('v, 'te, 'ce, 'io, 'je, 'ls, 'x, 'tv, 'se) cli_env"
  assumes "cli_command cli \<noteq> Cmd_Version"
    and "(load_compose (ce_system env) (cli_file cli) (cli_env_file cli) (cli_profile cli) (cli_project_name cli)
        (command_services (cli_command cli)) :: ('te, 'ce, ('io, 'je) driver_error, 'se) cli_error fault + 'x loaded) = Err e"
  shows "dispatch env cli w = Some (Err e, w)"
  using assms
  by (cases "cli_command cli")
    (simp_all add: dispatch_def Let_def cmd_up_def cmd_down_def cmd_build_def cmd_pull_def cmd_ps_def cmd_logs_def cmd_config_def)

section \<open>The property\<close>

text \<open>
  C9: when the compose file of a command cannot be loaded, the command does nothing, prints nothing
  and exits with 1, and stderr names the first stage that failed together with a fault that is really
  there: the file that cannot be opened, read or parsed, a service without image and build, the env file
  that cannot be loaded, the first string of the document that cannot be expanded, or the first check of
  the planner that fails.
\<close>

theorem load_failure_reported:
  fixes env :: "('v, 'te, 'ce, 'io, 'je, 'ls, 'x, 'tv, 'se) cli_env" and sh :: "('te, 'ce, 'io, 'je, 'se) shown"
  assumes cmd: "cli_command cli \<noteq> Cmd_Version" "cli_format cli = Fmt_Text"
    and maps: "\<And>src c. sys_from_str (ce_system env) src = Ok c \<Longrightarrow> compose_ok c"
    and failed: "(load_compose (ce_system env) (cli_file cli) (cli_env_file cli) (cli_profile cli) (cli_project_name cli)
        (command_services (cli_command cli)) :: ('te, 'ce, ('io, 'je) driver_error, 'se) cli_error fault + 'x loaded) = Err e"
  shows "\<exists>report. main_run error_json (cause_messages sh) env cli w = Some (1, ''error: '' @ report @ newline, w) \<and>
    load_reports sh (ce_system env) (cli_file cli) (cli_env_file cli)
      \<lparr>opt_profiles = cli_profile cli, opt_project_name = cli_project_name cli,
       opt_services = command_services (cli_command cli)\<rparr> report"
proof -
  from load_not_Panic failed obtain err where e: "e = Fault err" by (cases e) fastforce+
  from load_error_reported [OF maps failed [unfolded e] refl, where sh = sh] e show ?thesis
    by (intro exI [of _ "join '': '' (error_chain (cause_messages sh) err)"])
      (simp add: main_run_def dispatch_load_error [OF cmd(1) failed] print_error_def Let_def cmd(2))
qed

text \<open>The demo file system, holding a document whose services wait for each other.\<close>

definition demo_shown :: "(unit, unit, unit, unit, unit) shown" where
  "demo_shown = \<lparr>sh_toml = (\<lambda>e. [''toml'']), sh_canonical = (\<lambda>e. [''json'']), sh_io = (\<lambda>e. [''io'']),
     sh_json = (\<lambda>e. [''json'']), sh_serialize = (\<lambda>e. [''serialize'']), sh_escape = (\<lambda>c. c)\<rparr>"

definition cycle_system :: "(unit, unit, unit) system" where
  "cycle_system = demo_system\<lparr>sys_from_str := (\<lambda>s. Ok demo_cycle)\<rparr>"

definition cycle_env :: "(nat traced, unit, unit, unit, unit, unit, unit, unit, unit) cli_env" where
  "cycle_env = demo_cli_env\<lparr>ce_system := cycle_system\<rparr>"

lemma cycle_load:
  "(load_compose cycle_system None [] [] None [] :: (unit, unit, 'de, 'se) cli_error fault + unit loaded) =
     Err (Fault (Context ''planning failed for /w/compose.toml'' (Root (Plan_Cause (Cycle [''a'', ''b'', ''c''])))))"
proof -
  have found: "resolve_compose_file cycle_system None = Some ''/w/compose.toml''"
    by (simp add: resolve_compose_file_def cycle_system_def demo_system_def path_join_def)
  have "validate demo_cycle = (Ok () :: unit parse_error + _)" by code_simp
  then have parsed: "parse_str (sys_from_str cycle_system) s (Some p) = (Ok demo_cycle :: unit parse_error + _)" for s p
    by (simp add: parse_str_def cycle_system_def)
  have built: "(build_env cycle_system ''/w/compose.toml'' [] :: (unit, unit, 'de, 'se) cli_error fault + env_map) = Ok demo_dotenv"
    using demo_build_env by (simp add: cycle_system_def build_env_def)
  have visited: "visit_compose demo_cycle demo_dotenv = Ok demo_cycle"
  proof -
    have "visit_compose demo_cycle demo_dotenv = Ok (projr (visit_compose demo_cycle demo_dotenv)) \<and>
      projr (visit_compose demo_cycle demo_dotenv) = demo_cycle" by code_simp
    then have v: "visit_compose demo_cycle demo_dotenv = Ok (projr (visit_compose demo_cycle demo_dotenv))"
      and c: "projr (visit_compose demo_cycle demo_dotenv) = demo_cycle" by blast+
    from v show ?thesis unfolding c .
  qed
  have "sys_open cycle_system ''/w/compose.toml'' = Ok ''toml''" "sys_decode cycle_system s = Ok s"
    "sys_hash cycle_system = demo_hash" for s
    by (simp_all add: cycle_system_def demo_system_def)
  with found parsed built visited demo_cycle_plan show ?thesis
    by (simp add: load_compose_def demo_opts_def)
qed

theorem load_failure_reported_witness:
  "\<exists>report. load_reports demo_shown cycle_system None [] demo_opts report \<and>
     report = ''planning failed for /w/compose.toml: dependency cycle detected: a'' @ cycle_arrow @ ''b'' @ cycle_arrow @ ''c'' \<and>
     main_run (\<lambda>m ms. m) (cause_messages demo_shown) cycle_env demo_cli \<lparr>cw_world = demo_world, cw_out = []\<rparr> =
       Some (1, ''error: '' @ report @ newline, \<lparr>cw_world = demo_world, cw_out = []\<rparr>)"
proof -
  let ?w = "\<lparr>cw_world = demo_world, cw_out = []\<rparr> :: nat traced cli_world"
  have "compose_ok demo_cycle" by code_simp
  then have maps: "compose_ok c" if "sys_from_str (ce_system cycle_env) src = Ok c" for src c
    using that by (simp add: cycle_env_def cycle_system_def)
  have sys: "ce_system cycle_env = cycle_system" by (simp add: cycle_env_def)
  have cli: "cli_command demo_cli \<noteq> Cmd_Version" "cli_format demo_cli = Fmt_Text" "cli_file demo_cli = None"
    "cli_env_file demo_cli = []" "cli_profile demo_cli = []" "cli_project_name demo_cli = None"
    "command_services (cli_command demo_cli) = []"
    by (simp_all add: demo_cli_def demo_up_args_def)
  note failed = cycle_load [where 'de = "(unit, unit) driver_error" and 'se = unit]
  have "\<exists>report. main_run (\<lambda>m ms. m) (cause_messages demo_shown) cycle_env demo_cli ?w = Some (1, ''error: '' @ report @ newline, ?w) \<and>
      load_reports demo_shown cycle_system None [] demo_opts report"
    unfolding demo_opts_def
    by (rule load_failure_reported [OF cli(1,2), of cycle_env, where sh = demo_shown and w = ?w, unfolded cli sys, OF _ failed])
      (simp add: maps [unfolded sys])
  then obtain report where report: "main_run (\<lambda>m ms. m) (cause_messages demo_shown) cycle_env demo_cli ?w = Some (1, ''error: '' @ report @ newline, ?w)"
    "load_reports demo_shown cycle_system None [] demo_opts report" by blast
  from dispatch_load_error [OF cli(1), of cycle_env, unfolded cli sys, OF failed, of ?w]
  have "main_run (\<lambda>m ms. m) (cause_messages demo_shown) cycle_env demo_cli ?w = Some (1, ''error: '' @
      ''planning failed for /w/compose.toml: dependency cycle detected: a'' @ cycle_arrow @ ''b'' @ cycle_arrow @ ''c'' @ newline, ?w)"
    by (simp add: main_run_def print_error_def cli)
  with report show ?thesis by (intro exI [of _ report]) simp
qed

end
