(* ===== verification/Logs_Command.thy ===== *)
theory Logs_Command
  imports Cli_Facts Logs_Properties Examples "HOL-Library.Multiset"
begin

text \<open>
  \<open>selur-compose logs\<close> (\<open>cmd/logs.rs\<close>) over the log multiplexer (\<open>logs.rs\<close>): what it prints, when
  draining the channel of \<open>tail_logs\<close> is a run of its step relation.
\<close>

section \<open>The containers whose logs are shown\<close>

definition logs_wanted :: "logs_args \<Rightarrow> string \<Rightarrow> bool" where
  "logs_wanted args svc \<longleftrightarrow> la_services args = [] \<or> svc \<in> set (la_services args)"

text \<open>The last container listed for a service.\<close>

definition last_container :: "container_summary list \<Rightarrow> string \<Rightarrow> container_id option" where
  "last_container cs svc = map_option (\<lambda>c. ContainerId (csum_id c)) (find (\<lambda>c. csum_service c = Some svc) (rev cs))"

lemma logs_services_ok: "hm_ok (logs_services wanted cs)"
  by (simp add: logs_services_def hm_ok_from_iter)

lemma map_of_logs:
  "map_of (List.map_filter (\<lambda>c. case csum_service c of
       None \<Rightarrow> None
     | Some svc \<Rightarrow> if wanted \<noteq> [] \<and> svc \<notin> set wanted then None else Some (svc, ContainerId (csum_id c))) cs) svc =
   (if wanted = [] \<or> svc \<in> set wanted
    then map_option (\<lambda>c. ContainerId (csum_id c)) (find (\<lambda>c. csum_service c = Some svc) cs) else None)"
  by (induction cs) (auto simp: map_filter_simps split: option.splits)

lemma rev_map_filter: "rev (List.map_filter f xs) = List.map_filter f (rev xs)"
  by (simp add: List.map_filter_def rev_map rev_filter)

lemma logs_services_get:
  "map_of (logs_services (la_services args) cs) svc = (if logs_wanted args svc then last_container cs svc else None)"
proof -
  have "hm_get (logs_services (la_services args) cs) svc = (if logs_wanted args svc then last_container cs svc else None)"
    by (simp add: logs_services_def hm_get_from_iter rev_map_filter map_of_logs last_container_def logs_wanted_def)
  then show ?thesis by (simp add: hm_get_def)
qed

section \<open>The lines of a drained run\<close>

lemma of_service_expected:
  "distinct (map fst services) \<Longrightarrow>
     of_service v (concat (map (expected_lines open_log) services)) =
       (case map_of services v of Some i \<Rightarrow> expected_lines open_log (v, i) | None \<Rightarrow> [])"
proof (induction services)
  case (Cons entry services)
  have "of_service v (expected_lines open_log entry) = (if fst entry = v then expected_lines open_log entry else [])"
    by (auto simp: of_service_def expected_lines_def filter_empty_conv filter_id_conv split: sum.splits)
  moreover have "v \<notin> fst ` set services \<Longrightarrow> map_of services v = None"
    by (simp add: map_of_eq_None_iff)
  ultimately show ?case using Cons by (cases entry) auto
qed simp

lemma tail_lines:
  assumes "hm_ok m" "mset services = mset m" "tail_reachable open_log services s" "tail_closed s" "\<not> tl_dropped s"
  shows "of_service v (tl_out s) = (case map_of m v of Some i \<Rightarrow> expected_lines open_log (v, i) | None \<Rightarrow> [])"
proof -
  have "mset (map fst services) = mset (map fst m)" using assms(2) by simp
  then have "distinct (map fst services) \<longleftrightarrow> distinct (map fst m)"
    unfolding distinct_count_atmost_1 by (metis mset_eq_setD)
  then have dist: "distinct (map fst services)" "distinct (map fst m)" using assms(1) by (simp_all add: hm_ok_def)
  moreover have "set services = set m" using assms(2) by (rule mset_eq_setD)
  ultimately have same: "map_of services = map_of m" by (metis map_of_inject_set)
  from tail_reachable_inv [OF dist(1) assms(3)] assms(4,5) have
    "of_service v (tl_out s) = of_service v (concat (map (expected_lines open_log) services))"
    by (simp add: tail_inv_def tail_closed_def all_lines_def)
  with of_service_expected [OF dist(1)] same show ?thesis by simp
qed

section \<open>The property\<close>

text \<open>
  C40: \<open>logs\<close> prints, for each service asked for, the lines of the container listed last for it, all of
  them and in their order, or the one line that says why they cannot be read; it prints nothing else,
  and when no container belongs to such a service it says so.
\<close>

theorem logs_prints_containers:
  assumes drained: "\<And>m v ls v'. tail m (la_follow args) v = Some (ls, v') \<Longrightarrow>
      \<exists>services s. mset services = mset m \<and> tail_reachable open_log services s \<and> tail_closed s \<and> \<not> tl_dropped s \<and> tl_out s = ls"
    and listed: "drv_ps drv (plan_project_name (ld_plan loaded)) (cw_world w) = (Ok cs, v)"
    and finished: "cmd_logs drv tail args (Ok loaded) w = Some (r, w')"
  shows "r = Ok () \<and>
    (if \<forall>svc. logs_wanted args svc \<longrightarrow> last_container cs svc = None
     then cw_out w' = cw_out w @ ''No running containers found for project `'' @ plan_project_name (ld_plan loaded) @ ''`.'' @ newline
     else \<exists>ls. cw_out w' = cw_out w @ concat (map (\<lambda>l. display_log_line l @ newline) ls) \<and>
       (\<forall>svc. of_service svc ls =
          (case last_container cs svc of
             Some i \<Rightarrow> if logs_wanted args svc then expected_lines open_log (svc, i) else []
           | None \<Rightarrow> [])))"
proof -
  let ?m = "logs_services (la_services args) cs"
  have empty: "?m = [] \<longleftrightarrow> (\<forall>svc. logs_wanted args svc \<longrightarrow> last_container cs svc = None)"
  proof -
    have "?m = [] \<longleftrightarrow> map_of ?m = Map.empty" by (cases ?m) (auto simp: fun_eq_iff)
    then show ?thesis by (auto simp: fun_eq_iff logs_services_get)
  qed
  note run = finished [unfolded cmd_logs_def bind_lift_Ok Let_def bind_pr_def [of "drive _"] drive_def listed,
      simplified sum.case option.case prod.case root_err_def map_err_simps]
  show ?thesis
  proof (cases "?m = []")
    case True
    with run empty show ?thesis by auto
  next
    case False
    with run obtain ls v' where t: "tail ?m (la_follow args) v = Some (ls, v')"
      and out: "for_pr (\<lambda>l. println (display_log_line l)) ls (w\<lparr>cw_world := v'\<rparr>) = Some (r, w')"
      by (auto simp: bind_pr_def split: option.splits)
    from drained [OF t] obtain services s where s: "mset services = mset ?m" "tail_reachable open_log services s"
      "tail_closed s" "\<not> tl_dropped s" "tl_out s = ls" by blast
    from out have "r = Ok ()" "cw_out w' = cw_out w @ concat (map (\<lambda>l. display_log_line l @ newline) ls)"
      by (auto simp: for_prints [where shown = "\<lambda>l. display_log_line l @ newline"])
    moreover have "of_service svc ls =
          (case last_container cs svc of
             Some i \<Rightarrow> if logs_wanted args svc then expected_lines open_log (svc, i) else []
           | None \<Rightarrow> [])" for svc
      using tail_lines [OF logs_services_ok s(1-4), of svc] s(5) by (simp add: logs_services_get split: option.splits)
    ultimately show ?thesis using False empty by auto
  qed
qed

text \<open>A project whose one container runs \<open>web\<close> and logs one line.\<close>

definition web_container :: container_summary where
  "web_container = \<lparr>csum_id = ''c'', csum_name = ''p_web'', csum_image = ''w:1'', csum_state = ''running'',
     csum_ports = [], csum_service = Some ''web''\<rparr>"

definition web_tail :: "(string, container_id) hash_map \<Rightarrow> bool \<Rightarrow> (unit, unit) mock_driver
     \<Rightarrow> (log_line list \<times> (unit, unit) mock_driver) option" where
  "web_tail m follow v = (if m = [(''web'', ContainerId ''c'')] then Some ([log_line_of ''web'' ''up''], v) else None)"

definition web_loaded :: "unit loaded" where
  "web_loaded = \<lparr>ld_compose = demo, ld_plan = projr demo_result, ld_compose_path = ''compose.toml''\<rparr>"

theorem logs_prints_containers_witness:
  "\<exists>w' :: (unit, unit) mock_driver cli_world.
     (cmd_logs (mock_as_driver (\<lambda>e. []) ()) web_tail \<lparr>la_follow = False, la_tail = None, la_services = []\<rparr> (Ok web_loaded)
        \<lparr>cw_world = set_ps_response (Ok [web_container]) mock_new, cw_out = []\<rparr>
      :: (((unit, unit, (unit, unit) driver_error, unit) cli_error fault + unit) \<times> _) option) = Some (Ok (), w') \<and>
     (\<exists>ls. cw_out w' = concat (map (\<lambda>l. display_log_line l @ newline) ls) \<and>
        of_service ''web'' ls = [log_line_of ''web'' ''up''] \<and> of_service ''db'' ls = [])"
proof -
  let ?drv = "mock_as_driver (\<lambda>e. []) () :: ((unit, unit) mock_driver, unit, unit, unit) driver"
  let ?args = "\<lparr>la_follow = False, la_tail = None, la_services = []\<rparr>"
  let ?w = "\<lparr>cw_world = set_ps_response (Ok [web_container]) mock_new, cw_out = []\<rparr> :: (unit, unit) mock_driver cli_world"
  let ?p = "plan_project_name (ld_plan web_loaded)"
  let ?v = "mock_record (Call_Ps ?p) (set_ps_response (Ok [web_container]) mock_new) :: (unit, unit) mock_driver"
  have listed: "drv_ps ?drv ?p (cw_world ?w) = (Ok [web_container], ?v)"
    by (simp add: mock_as_driver_def mock_ps_def set_ps_response_def mock_record_def replay_def Let_def)
  have drained: "\<exists>services s. mset services = mset m \<and> tail_reachable one_log services s \<and> tail_closed s \<and>
      \<not> tl_dropped s \<and> tl_out s = ls"
    if "web_tail m (la_follow ?args) v = Some (ls, v')" for m v ls v'
    using that one_log_run by (intro exI [of _ m]) (auto simp: web_tail_def split: if_splits)
  have "logs_services [] [web_container] = [(''web'', ContainerId ''c'')]"
    by (simp add: logs_services_def web_container_def hm_from_iter_def hm_insert_def)
  then obtain w' where run: "(cmd_logs ?drv web_tail ?args (Ok web_loaded) ?w
      :: (((unit, unit, (unit, unit) driver_error, unit) cli_error fault + unit) \<times> _) option) = Some (Ok (), w')"
    by (auto simp: cmd_logs_def Let_def bind_pr_def drive_def listed [simplified] root_err_def web_tail_def)
  have last: "last_container [web_container] ''web'' = Some (ContainerId ''c'')" "last_container [web_container] ''db'' = None"
    "logs_wanted ?args svc" for svc
    by (simp_all add: last_container_def web_container_def logs_wanted_def)
  then have some: "\<not> (\<forall>svc. logs_wanted ?args svc \<longrightarrow> last_container [web_container] svc = None)"
    by (metis option.distinct(1))
  let ?shown = "\<exists>ls. cw_out w' = cw_out ?w @ concat (map (\<lambda>l. display_log_line l @ newline) ls) \<and>
      (\<forall>svc. of_service svc ls =
        (case last_container [web_container] svc of
           Some i \<Rightarrow> if logs_wanted ?args svc then expected_lines one_log (svc, i) else [] | None \<Rightarrow> []))"
  have "(Ok () :: (unit, unit, (unit, unit) driver_error, unit) cli_error fault + unit) = Ok () \<and>
    (if \<forall>svc. logs_wanted ?args svc \<longrightarrow> last_container [web_container] svc = None
     then cw_out w' = cw_out ?w @ ''No running containers found for project `'' @ ?p @ ''`.'' @ newline else ?shown)"
    by (rule logs_prints_containers [OF _ listed run]) (rule drained)
  then have ?shown unfolding if_not_P [OF some] by (rule conjunct2)
  then obtain ls where
    "cw_out w' = cw_out ?w @ concat (map (\<lambda>l. display_log_line l @ newline) ls)"
    "\<And>svc. of_service svc ls = (case last_container [web_container] svc of
       Some i \<Rightarrow> if logs_wanted ?args svc then expected_lines one_log (svc, i) else [] | None \<Rightarrow> [])"
    by blast
  with run last show ?thesis by (intro exI [of _ w']) (auto simp: expected_lines_def one_log_def intro!: exI [of _ ls])
qed

end
