(* ===== verification/Interp_Tests.thy ===== *)
theory Interp_Tests
  imports Expander
begin

text \<open>
  The unit tests of crate \<open>selur-compose-interp\<close> (the test modules of \<open>lexer.rs\<close>, \<open>expander.rs\<close> and
  \<open>env.rs\<close>), each as the statement its assertions make of the model, under the name of the test with
  its module in front.  They hold of the model: it computes what the authors expect of the code.
  \<open>unwrap\<close> and \<open>unwrap_err\<close> assert the kind of the result.
\<close>

section \<open>lexer.rs\<close>

definition literal_of :: "string \<Rightarrow> token" where
  "literal_of s = Literal s"

text \<open>The command that two modules test with.\<close>

definition coturn_command :: string where
  "coturn_command =
     ''args='' @
     [CHR 0x27] @
     ''--config /etc/coturn/turnserver.conf'' @
     [CHR 0x27] @
     ''; args='' @
     [CHR 0x22] @
     ''$args --static-auth-secret=$TURN_SECRET --realm=$TURN_REALM'' @
     [CHR 0x22] @
     ''; [ -n '' @
     [CHR 0x22] @
     ''$TURN_EXTERNAL_IP'' @
     [CHR 0x22] @
     '' ] && args='' @
     [CHR 0x22] @
     ''$args --external-ip=$TURN_EXTERNAL_IP'' @
     [CHR 0x22] @
     ''; exec turnserver $args''"

definition lexer_plain_literal :: bool where
  "lexer_plain_literal \<longleftrightarrow>
     lex ''hello world'' = Ok [literal_of ''hello world'']"

definition lexer_empty_string :: bool where
  "lexer_empty_string \<longleftrightarrow>
     lex [] = Ok []"

definition lexer_escape_double_dollar :: bool where
  "lexer_escape_double_dollar \<longleftrightarrow>
     lex ''$$'' = Ok [Escape]"

definition lexer_escape_in_context :: bool where
  "lexer_escape_in_context \<longleftrightarrow>
     lex ''cost $$5'' = Ok [literal_of ''cost '', Escape, literal_of ''5'']"

definition lexer_plain_var :: bool where
  "lexer_plain_var \<longleftrightarrow>
     lex ''${FOO}'' = Ok [VarPlain ''FOO'' 0]"

definition lexer_var_default_colon :: bool where
  "lexer_var_default_colon \<longleftrightarrow>
     lex ''${REALM:-burble.local}'' = Ok [VarDefault ''REALM'' ''burble.local'' True 0]"

definition lexer_var_default_no_colon :: bool where
  "lexer_var_default_no_colon \<longleftrightarrow>
     lex ''${REALM-burble.local}'' = Ok [VarDefault ''REALM'' ''burble.local'' False 0]"

definition lexer_var_required_colon :: bool where
  "lexer_var_required_colon \<longleftrightarrow>
     lex ''${SECRET:?must set SECRET}'' = Ok [VarRequired ''SECRET'' ''must set SECRET'' True 0]"

definition lexer_var_required_no_colon :: bool where
  "lexer_var_required_no_colon \<longleftrightarrow>
     lex ''${SECRET?must set SECRET}'' = Ok [VarRequired ''SECRET'' ''must set SECRET'' False 0]"

definition lexer_bare_dollar_not_expanded :: bool where
  "lexer_bare_dollar_not_expanded \<longleftrightarrow>
     lex ''exec $args now'' = Ok [literal_of ''exec $args now'']"

definition lexer_trailing_dollar :: bool where
  "lexer_trailing_dollar \<longleftrightarrow>
     lex ''end$'' = Ok [literal_of ''end$'']"

definition lexer_mixed_template :: bool where
  "lexer_mixed_template \<longleftrightarrow>
     lex ''turn:${REALM:-burble.local}:3478'' = Ok [literal_of ''turn:'', VarDefault ''REALM'' ''burble.local'' True 5, literal_of '':3478'']"

definition lexer_unterminated_brace :: bool where
  "lexer_unterminated_brace \<longleftrightarrow>
     (case lex ''${FOO'' of
        Err (pos, msg) \<Rightarrow> pos = 0 \<and> str_contains msg ''unterminated''
      | Ok _ \<Rightarrow> False)"

definition lexer_empty_name_error :: bool where
  "lexer_empty_name_error \<longleftrightarrow>
     (case lex ''${}'' of
        Err (pos, msg) \<Rightarrow> str_contains msg ''empty variable name''
      | Ok _ \<Rightarrow> False)"

definition lexer_multiple_expansions :: bool where
  "lexer_multiple_expansions \<longleftrightarrow>
     lex ''${A} and ${B:-default}'' = Ok [VarPlain ''A'' 0, literal_of '' and '', VarDefault ''B'' ''default'' True 9]"

definition lexer_coturn_command_passthrough :: bool where
  "lexer_coturn_command_passthrough \<longleftrightarrow>
     lex coturn_command = Ok [literal_of coturn_command]"

lemma lexer_unit_tests:
  "lexer_plain_literal"
  "lexer_empty_string"
  "lexer_escape_double_dollar"
  "lexer_escape_in_context"
  "lexer_plain_var"
  "lexer_var_default_colon"
  "lexer_var_default_no_colon"
  "lexer_var_required_colon"
  "lexer_var_required_no_colon"
  "lexer_bare_dollar_not_expanded"
  "lexer_trailing_dollar"
  "lexer_mixed_template"
  "lexer_unterminated_brace"
  "lexer_empty_name_error"
  "lexer_multiple_expansions"
  "lexer_coturn_command_passthrough"
  by code_simp+

section \<open>expander.rs\<close>

text \<open>The helper \<open>map\<close> of the module.\<close>

definition expand_env :: "(string \<times> string) list \<Rightarrow> env_map" where
  "expand_env pairs = env_from_iter pairs"

definition expander_plain_literal :: bool where
  "expander_plain_literal \<longleftrightarrow>
     expand ''hello world'' env_default = Ok ''hello world''"

definition expander_empty_string :: bool where
  "expander_empty_string \<longleftrightarrow>
     expand [] env_default = Ok []"

definition expander_dollar_escape :: bool where
  "expander_dollar_escape \<longleftrightarrow>
     expand ''$$VAR'' env_default = Ok ''$VAR'' \<and>
     expand ''cost: $$5'' env_default = Ok ''cost: $5''"

definition expander_plain_var_set :: bool where
  "expander_plain_var_set \<longleftrightarrow>
     expand ''${FOO}'' (expand_env [(''FOO'', ''bar'')]) = Ok ''bar''"

definition expander_plain_var_unset_error :: bool where
  "expander_plain_var_unset_error \<longleftrightarrow>
     (case expand ''${FOO}'' env_default of
        Err (Undefined name input) \<Rightarrow> name = ''FOO''
      | _ \<Rightarrow> False)"

definition expander_default_colon_var_set_nonempty :: bool where
  "expander_default_colon_var_set_nonempty \<longleftrightarrow>
     expand ''${REALM:-burble.local}'' (expand_env [(''REALM'', ''example.com'')]) = Ok ''example.com''"

definition expander_default_colon_var_unset :: bool where
  "expander_default_colon_var_unset \<longleftrightarrow>
     expand ''${REALM:-burble.local}'' env_default = Ok ''burble.local''"

definition expander_default_colon_var_empty_uses_default :: bool where
  "expander_default_colon_var_empty_uses_default \<longleftrightarrow>
     expand ''${REALM:-burble.local}'' (expand_env [(''REALM'', [])]) = Ok ''burble.local''"

definition expander_default_empty_string :: bool where
  "expander_default_empty_string \<longleftrightarrow>
     expand ''${X:-}'' (expand_env [(''X'', [])]) = Ok []"

definition expander_default_no_colon_var_unset :: bool where
  "expander_default_no_colon_var_unset \<longleftrightarrow>
     expand ''${REALM-burble.local}'' env_default = Ok ''burble.local''"

definition expander_default_no_colon_var_empty_preserved :: bool where
  "expander_default_no_colon_var_empty_preserved \<longleftrightarrow>
     expand ''${REALM-burble.local}'' (expand_env [(''REALM'', [])]) = Ok []"

definition expander_required_colon_var_set_nonempty :: bool where
  "expander_required_colon_var_set_nonempty \<longleftrightarrow>
     expand ''${SECRET:?must set SECRET}'' (expand_env [(''SECRET'', ''abc'')]) = Ok ''abc''"

definition expander_required_colon_var_unset_errors :: bool where
  "expander_required_colon_var_unset_errors \<longleftrightarrow>
     (case expand ''${SECRET:?must set SECRET}'' env_default of
        Err (MissingRequired name msg span) \<Rightarrow> name = ''SECRET'' \<and> msg = ''must set SECRET''
      | _ \<Rightarrow> False)"

definition expander_required_colon_var_empty_errors :: bool where
  "expander_required_colon_var_empty_errors \<longleftrightarrow>
     (case expand ''${SECRET:?must set SECRET}'' (expand_env [(''SECRET'', [])]) of
        Err (MissingRequired name msg span) \<Rightarrow> True
      | _ \<Rightarrow> False)"

definition expander_required_no_colon_var_unset_errors :: bool where
  "expander_required_no_colon_var_unset_errors \<longleftrightarrow>
     (case expand ''${SECRET?oops}'' env_default of
        Err (MissingRequired name msg span) \<Rightarrow> name = ''SECRET''
      | _ \<Rightarrow> False)"

definition expander_required_no_colon_var_empty_ok :: bool where
  "expander_required_no_colon_var_empty_ok \<longleftrightarrow>
     expand ''${SECRET?oops}'' (expand_env [(''SECRET'', [])]) = Ok []"

definition expander_turn_url_expansion :: bool where
  "expander_turn_url_expansion \<longleftrightarrow>
     expand ''turn:${TURN_REALM:-burble.local}:3478'' (expand_env [(''TURN_REALM'', ''example.com'')]) = Ok ''turn:example.com:3478''"

definition expander_turn_url_default_realm :: bool where
  "expander_turn_url_default_realm \<longleftrightarrow>
     expand ''turn:${TURN_REALM:-burble.local}:3478'' env_default = Ok ''turn:burble.local:3478''"

definition expander_external_ip_empty_default :: bool where
  "expander_external_ip_empty_default \<longleftrightarrow>
     expand ''${TURN_EXTERNAL_IP:-}'' env_default = Ok []"

definition expander_bare_dollar_passthrough :: bool where
  "expander_bare_dollar_passthrough \<longleftrightarrow>
     (let cmd = ''args='' @ [CHR 0x22] @ ''$args --secret=$TURN_SECRET'' @ [CHR 0x22] @ ''; exec turnserver $args''
      in expand cmd env_default = Ok cmd)"

definition expander_coturn_command_passthrough :: bool where
  "expander_coturn_command_passthrough \<longleftrightarrow>
     expand coturn_command env_default = Ok coturn_command"

definition expander_unterminated_error :: bool where
  "expander_unterminated_error \<longleftrightarrow>
     (case expand ''${FOO'' env_default of
        Err (Unterminated input pos) \<Rightarrow> True
      | _ \<Rightarrow> False)"

lemma expander_unit_tests:
  "expander_plain_literal"
  "expander_empty_string"
  "expander_dollar_escape"
  "expander_plain_var_set"
  "expander_plain_var_unset_error"
  "expander_default_colon_var_set_nonempty"
  "expander_default_colon_var_unset"
  "expander_default_colon_var_empty_uses_default"
  "expander_default_empty_string"
  "expander_default_no_colon_var_unset"
  "expander_default_no_colon_var_empty_preserved"
  "expander_required_colon_var_set_nonempty"
  "expander_required_colon_var_unset_errors"
  "expander_required_colon_var_empty_errors"
  "expander_required_no_colon_var_unset_errors"
  "expander_required_no_colon_var_empty_ok"
  "expander_turn_url_expansion"
  "expander_turn_url_default_realm"
  "expander_external_ip_empty_default"
  "expander_bare_dollar_passthrough"
  "expander_coturn_command_passthrough"
  "expander_unterminated_error"
  by code_simp+

section \<open>env.rs\<close>

definition dummy_path :: path where
  "dummy_path = ''.env''"

definition env_basic_key_value :: bool where
  "env_basic_key_value \<longleftrightarrow>
     parse_env_str (''FOO=bar'' @ [CHR 0x0A] @ ''BAZ=qux'' @ [CHR 0x0A]) dummy_path = Ok [(''FOO'', ''bar''), (''BAZ'', ''qux'')]"

definition env_comments_and_blanks_skipped :: bool where
  "env_comments_and_blanks_skipped \<longleftrightarrow>
     parse_env_str (''# this is a comment'' @ [CHR 0x0A] @ [CHR 0x0A] @ ''FOO=bar'' @ [CHR 0x0A]) dummy_path = Ok [(''FOO'', ''bar'')]"

definition env_double_quoted_value :: bool where
  "env_double_quoted_value \<longleftrightarrow>
     (case parse_env_str (''FOO='' @ [CHR 0x22] @ ''hello world'' @ [CHR 0x22] @ [CHR 0x0A]) dummy_path of
        Ok ((_, value) # _) \<Rightarrow> value = ''hello world''
      | _ \<Rightarrow> False)"

definition env_single_quoted_value :: bool where
  "env_single_quoted_value \<longleftrightarrow>
     (case parse_env_str (''FOO='' @ [CHR 0x27] @ ''hello world'' @ [CHR 0x27] @ [CHR 0x0A]) dummy_path of
        Ok ((_, value) # _) \<Rightarrow> value = ''hello world''
      | _ \<Rightarrow> False)"

definition env_unquoted_value_trimmed :: bool where
  "env_unquoted_value_trimmed \<longleftrightarrow>
     (case parse_env_str (''FOO=bar   '' @ [CHR 0x0A]) dummy_path of
        Ok ((_, value) # _) \<Rightarrow> value = ''bar''
      | _ \<Rightarrow> False)"

definition env_value_with_equals_sign :: bool where
  "env_value_with_equals_sign \<longleftrightarrow>
     (case parse_env_str (''URL=http://example.com?a=1&b=2'' @ [CHR 0x0A]) dummy_path of
        Ok ((_, value) # _) \<Rightarrow> value = ''http://example.com?a=1&b=2''
      | _ \<Rightarrow> False)"

definition env_no_equals_skipped :: bool where
  "env_no_equals_skipped \<longleftrightarrow>
     parse_env_str (''NOEQUALS'' @ [CHR 0x0A] @ ''FOO=bar'' @ [CHR 0x0A]) dummy_path = Ok [(''FOO'', ''bar'')]"

definition env_empty_value_allowed :: bool where
  "env_empty_value_allowed \<longleftrightarrow>
     parse_env_str (''EMPTY='' @ [CHR 0x0A]) dummy_path = Ok [(''EMPTY'', [])]"

definition env_lookup_first_wins :: bool where
  "env_lookup_first_wins \<longleftrightarrow>
     env_get (env_from_iter [(''A'', ''first''), (''A'', ''second'')]) ''A'' = Some ''first''"

definition env_with_overrides_higher_priority :: bool where
  "env_with_overrides_higher_priority \<longleftrightarrow>
     env_get (with_overrides (env_from_iter [(''KEY'', ''base'')]) [(''KEY'', ''override'')]) ''KEY'' = Some ''override''"

definition env_missing_key_returns_none :: bool where
  "env_missing_key_returns_none \<longleftrightarrow>
     env_get env_default ''MISSING'' = None"

lemma env_unit_tests:
  "env_basic_key_value"
  "env_comments_and_blanks_skipped"
  "env_double_quoted_value"
  "env_single_quoted_value"
  "env_unquoted_value_trimmed"
  "env_value_with_equals_sign"
  "env_no_equals_skipped"
  "env_empty_value_allowed"
  "env_lookup_first_wins"
  "env_with_overrides_higher_priority"
  "env_missing_key_returns_none"
  by code_simp+

end
