(* ===== verification/Plan_Tests.thy ===== *)
theory Plan_Tests
  imports Plan_Errors Serde
begin

text \<open>
  The unit tests of crate \<open>selur-compose-plan\<close> (the test modules of \<open>dag.rs\<close>, \<open>profiles.rs\<close> and
  \<open>hash.rs\<close>), each as the statement its assertions make of the model, under the name of the test with
  its module in front.  They hold of the model.  A test that parses a TOML snippet starts from the
  document the snippet describes.
\<close>

section \<open>dag.rs\<close>

definition stub_service :: service where
  "stub_service = service_default\<lparr>svc_image := Some ''scratch''\<rparr>"

definition service_with_depends :: "depends_on \<Rightarrow> service" where
  "service_with_depends deps = stub_service\<lparr>svc_depends_on := deps\<rparr>"

text \<open>\<open>build_graph(\<dots>).unwrap()\<close> and \<open>topological_waves(\<dots>).unwrap()\<close>, and what a test checks of them.\<close>

definition with_waves :: "service str_map \<Rightarrow> (service_graph \<Rightarrow> node_id list list \<Rightarrow> bool) \<Rightarrow> bool" where
  "with_waves services check =
     (case (build_graph services :: (unit, unit) plan_error fault + service_graph) of
        Err _ \<Rightarrow> False
      | Ok g \<Rightarrow>
          (case (topological_waves g :: (unit, unit) plan_error fault + node_id list list) of
             Err _ \<Rightarrow> False
           | Ok waves \<Rightarrow> check g waves))"

definition wave_name_list :: "service_graph \<Rightarrow> node_id list \<Rightarrow> string fault + string list" where
  "wave_name_list g wave = collect_res (graph_name g) wave"

definition dag_single_node_wave :: bool where
  "dag_single_node_wave \<longleftrightarrow>
     with_waves [(''alpha'', stub_service)] (\<lambda>g waves. length waves = 1 \<and> length (waves ! 0) = 1)"

definition dag_linear_chain_produces_two_waves :: bool where
  "dag_linear_chain_produces_two_waves \<longleftrightarrow>
     with_waves [(''alpha'', stub_service), (''beta'', service_with_depends (DependsOn_List [''alpha'']))]
       (\<lambda>g waves. length waves = 2 \<and>
          wave_name_list g (waves ! 0) = Ok [''alpha''] \<and> wave_name_list g (waves ! 1) = Ok [''beta''])"

definition healthy_dep :: depends_on_spec where
  "healthy_dep = \<lparr>dep_condition = ServiceHealthy, dep_restart = False\<rparr>"

text \<open>The closure \<open>find_wave\<close>, without its \<open>unwrap\<close>.\<close>

definition find_wave :: "service_graph \<Rightarrow> node_id list list \<Rightarrow> string \<Rightarrow> nat option" where
  "find_wave g waves name =
     position (\<lambda>w. list_ex (\<lambda>n. graph_name g n = (Ok name :: unit fault + string)) w) waves"

definition after_wave :: "nat option \<Rightarrow> nat option \<Rightarrow> bool" where
  "after_wave i j = (case (i, j) of (Some a, Some b) \<Rightarrow> b < a | _ \<Rightarrow> False)"

definition dag_diamond_depends_on_healthy :: bool where
  "dag_diamond_depends_on_healthy \<longleftrightarrow>
     with_waves
       [(''a'', stub_service), (''b'', service_with_depends (DependsOn_List [''a''])),
        (''c'', service_with_depends (DependsOn_List [''a''])),
        (''d'', service_with_depends (DependsOn_Map [(''b'', healthy_dep), (''c'', healthy_dep)]))]
       (\<lambda>g waves. length (concat waves) = 4 \<and>
          after_wave (find_wave g waves ''d'') (find_wave g waves ''b'') \<and>
          after_wave (find_wave g waves ''d'') (find_wave g waves ''c''))"

definition dag_cycle_detected :: bool where
  "dag_cycle_detected \<longleftrightarrow>
     (case (build_graph
         [(''a'', service_with_depends (DependsOn_List [''b''])), (''b'', service_with_depends (DependsOn_List [''a'']))]
         :: (unit, unit) plan_error fault + service_graph) of
        Err _ \<Rightarrow> False
      | Ok g \<Rightarrow>
          (case (topological_waves g :: (unit, unit) plan_error fault + node_id list list) of
             Err (Fault (Cycle _)) \<Rightarrow> True
           | _ \<Rightarrow> False))"

definition dag_missing_dependency_error :: bool where
  "dag_missing_dependency_error \<longleftrightarrow>
     (case (build_graph [(''alpha'', service_with_depends (DependsOn_List [''nonexistent'']))]
         :: (unit, unit) plan_error fault + service_graph) of
        Err (Fault (MissingDependency _ _)) \<Rightarrow> True
      | _ \<Rightarrow> False)"

definition dag_healthy_dependencies_extraction :: bool where
  "dag_healthy_dependencies_extraction \<longleftrightarrow>
     healthy_dependencies (service_with_depends (DependsOn_Map
       (bt_insert ''cache'' \<lparr>dep_condition = ServiceStarted, dep_restart = False\<rparr> (bt_insert ''db'' healthy_dep [])))) =
     [''db'']"

lemma dag_unit_tests:
  "dag_single_node_wave" "dag_linear_chain_produces_two_waves" "dag_diamond_depends_on_healthy"
  "dag_cycle_detected" "dag_missing_dependency_error" "dag_healthy_dependencies_extraction"
  by code_simp+

section \<open>profiles.rs\<close>

definition compose_of :: "(string \<times> service) list \<Rightarrow> unit compose" where
  "compose_of services =
     \<lparr>cmp_project = None, cmp_services = services, cmp_networks = [], cmp_volumes = [], cmp_secrets = [],
      cmp_configs = [], cmp_extensions = []\<rparr>"

definition profiled :: "string \<Rightarrow> string list \<Rightarrow> service" where
  "profiled img profiles = service_default\<lparr>svc_image := Some img, svc_profiles := profiles\<rparr>"

definition with_active :: "unit compose \<Rightarrow> string list \<Rightarrow> (service str_map \<Rightarrow> bool) \<Rightarrow> bool" where
  "with_active c enabled check =
     (case (filter_services c enabled :: (unit, unit) plan_error + service str_map) of
        Err _ \<Rightarrow> False
      | Ok active \<Rightarrow> check active)"

definition app_and_seed :: "unit compose" where
  "app_and_seed = compose_of [(''app'', profiled ''alpine'' []), (''seed'', profiled ''seed:latest'' [''test''])]"

definition profiles_no_profiles_always_included :: bool where
  "profiles_no_profiles_always_included \<longleftrightarrow>
     with_active (compose_of [(''app'', profiled ''alpine'' [])]) [] (\<lambda>active. bt_contains active ''app'')"

definition profiles_profile_tagged_excluded_without_flag :: bool where
  "profiles_profile_tagged_excluded_without_flag \<longleftrightarrow>
     with_active app_and_seed [] (\<lambda>active. bt_contains active ''app'' \<and> \<not> bt_contains active ''seed'')"

definition profiles_profile_tagged_included_with_flag :: bool where
  "profiles_profile_tagged_included_with_flag \<longleftrightarrow>
     with_active app_and_seed [''test''] (\<lambda>active. bt_contains active ''app'' \<and> bt_contains active ''seed'')"

definition profiles_unknown_profile_returns_error :: bool where
  "profiles_unknown_profile_returns_error \<longleftrightarrow>
     (case (filter_services (compose_of [(''app'', profiled ''alpine'' [''dev''])]) [''nonexistent'']
         :: (unit, unit) plan_error + service str_map) of
        Err (UnknownProfile profile) \<Rightarrow> profile = ''nonexistent''
      | _ \<Rightarrow> False)"

definition profiles_multiple_profiles_any_match_includes :: bool where
  "profiles_multiple_profiles_any_match_includes \<longleftrightarrow>
     with_active (compose_of [(''app'', profiled ''alpine'' [''dev'', ''staging''])]) [''dev'']
       (\<lambda>active. bt_contains active ''app'')"

definition profiles_empty_compose_no_profiles_ok :: bool where
  "profiles_empty_compose_no_profiles_ok \<longleftrightarrow>
     (case (filter_services (compose_of []) [''dev''] :: (unit, unit) plan_error + service str_map) of
        Err (UnknownProfile _) \<Rightarrow> True
      | _ \<Rightarrow> False)"

definition profiles_no_enabled_profiles_no_error :: bool where
  "profiles_no_enabled_profiles_no_error \<longleftrightarrow> with_active (compose_of []) [] (\<lambda>active. active = [])"

lemma profiles_unit_tests:
  "profiles_no_profiles_always_included" "profiles_profile_tagged_excluded_without_flag"
  "profiles_profile_tagged_included_with_flag" "profiles_unknown_profile_returns_error"
  "profiles_multiple_profiles_any_match_includes" "profiles_empty_compose_no_profiles_ok"
  "profiles_no_enabled_profiles_no_error"
  by code_simp+

section \<open>hash.rs\<close>

text \<open>
  \<open>legacy_canonical_json\<close>, the writer the tests compare with; \<open>to_string\<close> is \<open>serde_json::to_string\<close>
  on a string and on the values that are neither object nor array.
\<close>

fun legacy_canonical_json :: "('o sval \<Rightarrow> string) \<Rightarrow> 'o sval \<Rightarrow> string" where
  "legacy_canonical_json to_string (S_Map kvs) =
     ''{'' @ join '','' (map (\<lambda>(k, text). to_string (S_Str k) @ '':'' @ text)
       (sort_key fst (map (\<lambda>(k, v). (k, legacy_canonical_json to_string v)) kvs))) @ ''}''"
| "legacy_canonical_json to_string (S_Seq xs) =
     ''['' @ join '','' (map (legacy_canonical_json to_string) xs) @ '']''"
| "legacy_canonical_json to_string v = to_string v"

text \<open>Where a text first occurs in another (\<open>str::find\<close>).\<close>

fun str_find :: "string \<Rightarrow> string \<Rightarrow> nat option" where
  "str_find [] pat = (if pat = [] then Some 0 else None)"
| "str_find (c # cs) pat = (if prefix pat (c # cs) then Some 0 else map_option Suc (str_find cs pat))"

text \<open>The tests take the libraries behind \<open>service_hash\<close> and \<open>serde_json::to_string\<close> as arguments.\<close>

definition is_ascii_hexdigit :: "char \<Rightarrow> bool" where
  "is_ascii_hexdigit c \<longleftrightarrow> is_lower_hex c \<or> c \<in> set ''ABCDEF''"

definition hash_is_64_hex_chars ::
    "(service \<Rightarrow> 'json) \<Rightarrow> ('json \<Rightarrow> 'ce + string) \<Rightarrow> (string \<Rightarrow> char list) \<Rightarrow> bool" where
  "hash_is_64_hex_chars to_value to_jcs sha256 \<longleftrightarrow>
     (case service_hash to_value to_jcs sha256 (profiled ''alpine:latest'' []) of
        Err _ \<Rightarrow> False
      | Ok h \<Rightarrow> length h = 64 \<and> list_all is_ascii_hexdigit h)"

definition hash_same_service_same_hash ::
    "(service \<Rightarrow> 'json) \<Rightarrow> ('json \<Rightarrow> 'ce + string) \<Rightarrow> (string \<Rightarrow> char list) \<Rightarrow> bool" where
  "hash_same_service_same_hash to_value to_jcs sha256 \<longleftrightarrow>
     (case (service_hash to_value to_jcs sha256 (profiled ''alpine:latest'' []),
            service_hash to_value to_jcs sha256 (profiled ''alpine:latest'' [])) of
        (Ok h1, Ok h2) \<Rightarrow> h1 = h2
      | _ \<Rightarrow> False)"

definition hash_different_image_different_hash ::
    "(service \<Rightarrow> 'json) \<Rightarrow> ('json \<Rightarrow> 'ce + string) \<Rightarrow> (string \<Rightarrow> char list) \<Rightarrow> bool" where
  "hash_different_image_different_hash to_value to_jcs sha256 \<longleftrightarrow>
     (case (service_hash to_value to_jcs sha256 (profiled ''alpine:latest'' []),
            service_hash to_value to_jcs sha256 (profiled ''alpine:3.18'' [])) of
        (Ok h1, Ok h2) \<Rightarrow> h1 \<noteq> h2
      | _ \<Rightarrow> False)"

definition hash_is_stable_across_calls ::
    "(service \<Rightarrow> 'json) \<Rightarrow> ('json \<Rightarrow> 'ce + string) \<Rightarrow> (string \<Rightarrow> char list) \<Rightarrow> bool" where
  "hash_is_stable_across_calls to_value to_jcs sha256 \<longleftrightarrow>
     (let svc = (profiled ''nginx:stable'' [])\<lparr>svc_restart := Restart_Always\<rparr> in
      case (service_hash to_value to_jcs sha256 svc, service_hash to_value to_jcs sha256 svc) of
        (Ok h1, Ok h2) \<Rightarrow> h1 = h2
      | _ \<Rightarrow> False)"

definition hash_legacy_canonical_json_sorts_keys :: "(unit sval \<Rightarrow> string) \<Rightarrow> bool" where
  "hash_legacy_canonical_json_sorts_keys to_string \<longleftrightarrow>
     (let canon = legacy_canonical_json to_string (S_Map [(''z'', S_Bool True), (''a'', S_Bool False)]) in
      case (str_find canon [CHR 0x22, CHR ''a'', CHR 0x22], str_find canon [CHR 0x22, CHR ''z'', CHR 0x22]) of
        (Some a_pos, Some z_pos) \<Rightarrow> a_pos < z_pos
      | _ \<Rightarrow> False)"

text \<open>U+FFFF in UTF-8.\<close>

definition noncharacter_service :: service where
  "noncharacter_service = profiled (''alpine'' @ [CHR 0xEF, CHR 0xBF, CHR 0xBF]) []"

definition hash_plan_reports_an_unhashable_service_by_name ::
    "(service \<Rightarrow> 'json) \<Rightarrow> ('json \<Rightarrow> 'ce + string) \<Rightarrow> (string \<Rightarrow> char list) \<Rightarrow> bool" where
  "hash_plan_reports_an_unhashable_service_by_name to_value to_jcs sha256 \<longleftrightarrow>
     (case (plan (service_hash to_value to_jcs sha256)
         (compose_of [(''web'', noncharacter_service)]) demo_opts
         :: (unit, 'ce) plan_error fault + compose_plan) of
        Err (Fault (ConfigHash service _)) \<Rightarrow> service = ''web''
      | _ \<Rightarrow> False)"

lemma hash_digest_unit_tests:
  assumes "\<And>svc. is_ok (to_jcs (to_value svc))"
    and "sha256 (projr (to_jcs (to_value (profiled ''alpine:latest'' [])))) \<noteq>
      sha256 (projr (to_jcs (to_value (profiled ''alpine:3.18'' []))))"
  shows "hash_same_service_same_hash to_value to_jcs sha256" "hash_different_image_different_hash to_value to_jcs sha256"
    "hash_is_stable_across_calls to_value to_jcs sha256"
proof -
  have hash: "service_hash to_value to_jcs sha256 svc = Ok (concat (map hex_byte (sha256 (projr (to_jcs (to_value svc))))))" for svc
    using assms(1) [of svc] by (cases "to_jcs (to_value svc)") (auto simp: service_hash_def)
  show "hash_same_service_same_hash to_value to_jcs sha256" "hash_different_image_different_hash to_value to_jcs sha256"
    "hash_is_stable_across_calls to_value to_jcs sha256"
    using assms(2)
    by (simp_all add: hash_same_service_same_hash_def hash_different_image_different_hash_def hash_is_stable_across_calls_def
        hash hex_bytes_inj)
qed

lemma hash_unit_tests:
  fixes to_jcs :: "'json \<Rightarrow> 'ce + string"
  shows
  "to_jcs (to_value (profiled ''alpine:latest'' [])) = Ok bytes \<Longrightarrow> length (sha256 bytes) = 32 \<Longrightarrow>
     hash_is_64_hex_chars to_value to_jcs sha256"
  "to_string (S_Str ''a'') = [CHR 0x22, CHR ''a'', CHR 0x22] \<Longrightarrow> to_string (S_Str ''z'') = [CHR 0x22, CHR ''z'', CHR 0x22] \<Longrightarrow>
     to_string (S_Bool False) = ''false'' \<Longrightarrow> to_string (S_Bool True) = ''true'' \<Longrightarrow>
     hash_legacy_canonical_json_sorts_keys to_string"
  "to_jcs (to_value noncharacter_service) = Err e \<Longrightarrow>
     hash_plan_reports_an_unhashable_service_by_name to_value to_jcs sha256"
proof -
  assume "to_jcs (to_value (profiled ''alpine:latest'' [])) = Ok bytes" "length (sha256 bytes) = 32"
  then show "hash_is_64_hex_chars to_value to_jcs sha256"
    using hex_bytes_lower [of "sha256 bytes"]
    by (auto simp: hash_is_64_hex_chars_def service_hash_def length_hex_bytes is_ascii_hexdigit_def elim: list.pred_mono_strong)
next
  assume "to_string (S_Str ''a'') = [CHR 0x22, CHR ''a'', CHR 0x22]" "to_string (S_Str ''z'') = [CHR 0x22, CHR ''z'', CHR 0x22]"
    "to_string (S_Bool False) = ''false''" "to_string (S_Bool True) = ''true''"
  then show "hash_legacy_canonical_json_sorts_keys to_string"
    by (simp add: hash_legacy_canonical_json_sorts_keys_def list_less_def)
next
  let ?c = "compose_of [(''web'', noncharacter_service)]"
  let ?hash = "service_hash to_value to_jcs sha256"
  assume refused: "to_jcs (to_value noncharacter_service) = Err e"
  have ok: "bt_ok (cmp_services ?c)" by (simp add: compose_of_def bt_ok_def bt_keys_def)
  have "active_services ?c (opt_profiles demo_opts) = cmp_services ?c"
    by (simp add: active_services_def compose_of_def noncharacter_service_def profiled_def profile_active_def service_default_def)
  note active = this
  have "(''web'', noncharacter_service) \<in> set (cmp_services ?c)"
    by (simp add: compose_of_def)
  moreover have "\<not> is_ok (?hash noncharacter_service)"
    using refused by (simp add: service_hash_def)
  ultimately have "\<not> plan_valid ?hash ?c demo_opts"
    unfolding plan_valid_def Let_def active by blast
  from plan_not_valid [OF ok this] obtain err where
    planned: "(plan ?hash ?c demo_opts :: (unit, 'ce) plan_error fault + _) = Err (Fault err)" by blast
  from plan_error_named [OF ok planned] have defect: "plan_defect ?hash ?c demo_opts err" by simp
  have none: "opt_profiles demo_opts = []" by (simp add: demo_opts_def)
  have get: "s = ''web'' \<and> svc_networks svc = [] \<and> svc_volumes svc = [] \<and> svc_depends_on svc = DependsOn_Empty"
    if "bt_get (active_services ?c []) s = Some svc" for s svc
    using that unfolding active [unfolded none]
    by (auto simp: compose_of_def noncharacter_service_def profiled_def service_default_def bt_get_def split: if_splits)
  then have "\<not> depends (active_services ?c []) s d" for s d
    unfolding depends_def by (fastforce simp: deps_of_def)
  moreover have "opt_services demo_opts = []" by (simp_all add: demo_opts_def)
  ultimately have "\<exists>source. err = ConfigHash ''web'' source"
    using defect by (cases err) (auto simp: none dest!: get)
  with planned show "hash_plan_reports_an_unhashable_service_by_name to_value to_jcs sha256"
    by (auto simp: hash_plan_reports_an_unhashable_service_by_name_def)
qed

end
