(* ===== verification/Driver_Tests.thy ===== *)
theory Driver_Tests
  imports Recorded Logs
begin

text \<open>
  The unit tests of crate \<open>selur-compose-driver\<close> (the test modules of \<open>argv.rs\<close>, \<open>mock.rs\<close>,
  \<open>healthcheck.rs\<close>, \<open>executor.rs\<close>, \<open>exec.rs\<close>, \<open>podman.rs\<close> and \<open>logs.rs\<close>), each as the statement its
  assertions make of the model, under the name of the test with its module in front.  They hold of the
  model.  \<open>unwrap\<close> asserts that a result is \<open>Ok\<close>.
\<close>

section \<open>argv.rs\<close>

definition minimal_run_spec :: run_spec where
  "minimal_run_spec =
     \<lparr>rspec_service = ''web'', rspec_image = ''nginx:latest'', rspec_container_name = ''myproject_web'',
      rspec_environment = [], rspec_ports = [], rspec_volumes = [], rspec_networks = [''default''],
      rspec_network_mode = None, rspec_command = None, rspec_entrypoint = None, rspec_restart = ''unless-stopped'',
      rspec_labels = bt_insert ''io.podman.compose.service'' ''web'' (bt_insert ''io.podman.compose.project'' ''myproject'' [])\<rparr>"

definition argv_pull_argv :: bool where
  "argv_pull_argv \<longleftrightarrow> pull_argv ''nginx:latest'' = [''podman'', ''pull'', ''nginx:latest'']"

definition argv_stop_argv :: bool where
  "argv_stop_argv \<longleftrightarrow> stop_argv ''abc123'' 10 = [''podman'', ''stop'', ''--time'', ''10'', ''abc123'']"

definition argv_rm_argv_force :: bool where
  "argv_rm_argv_force \<longleftrightarrow> rm_argv ''abc123'' True = [''podman'', ''rm'', ''--force'', ''abc123'']"

definition argv_rm_argv_no_force :: bool where
  "argv_rm_argv_no_force \<longleftrightarrow> rm_argv ''abc123'' False = [''podman'', ''rm'', ''abc123'']"

definition argv_inspect_argv :: bool where
  "argv_inspect_argv \<longleftrightarrow> inspect_argv ''abc123'' = [''podman'', ''inspect'', ''--format'', ''json'', ''abc123'']"

definition argv_logs_argv_follow :: bool where
  "argv_logs_argv_follow \<longleftrightarrow>
     logs_argv ''abc123'' True = [''podman'', ''logs'', ''--follow'', ''--timestamps'', ''abc123'']"

definition argv_logs_argv_no_follow :: bool where
  "argv_logs_argv_no_follow \<longleftrightarrow> logs_argv ''abc123'' False = [''podman'', ''logs'', ''--timestamps'', ''abc123'']"

definition argv_ps_argv :: bool where
  "argv_ps_argv \<longleftrightarrow>
     ps_argv ''burble'' =
       [''podman'', ''ps'', ''--all'', ''--filter'', ''label=io.podman.compose.project=burble'', ''--format'', ''json'']"

text \<open>\<open>json\<close> is \<open>serde_json::to_string\<close> of a list of strings, as in \<open>run_argv\<close>.\<close>

definition argv_run_argv_basic :: "(string list \<Rightarrow> string option) \<Rightarrow> bool" where
  "argv_run_argv_basic json \<longleftrightarrow>
     (let argv = run_argv json minimal_run_spec in
      take 4 argv = [''podman'', ''run'', ''--detach'', ''--name''] \<and>
      ''nginx:latest'' \<in> set argv \<and> ''--restart'' \<in> set argv \<and> ''unless-stopped'' \<in> set argv)"

definition argv_run_argv_with_ports_and_volumes :: "(string list \<Rightarrow> string option) \<Rightarrow> bool" where
  "argv_run_argv_with_ports_and_volumes json \<longleftrightarrow>
     (let spec = minimal_run_spec\<lparr>rspec_ports := [''4020:80''], rspec_volumes := [''data:/data''],
            rspec_environment := [''FOO=bar'']\<rparr>;
          argv = run_argv json spec in
      ''--publish'' \<in> set argv \<and> ''4020:80'' \<in> set argv \<and> ''--volume'' \<in> set argv \<and> ''data:/data'' \<in> set argv \<and>
      ''--env'' \<in> set argv \<and> ''FOO=bar'' \<in> set argv)"

definition argv_run_argv_host_network_mode :: "(string list \<Rightarrow> string option) \<Rightarrow> bool" where
  "argv_run_argv_host_network_mode json \<longleftrightarrow>
     (let spec = minimal_run_spec\<lparr>rspec_network_mode := Some ''host'', rspec_networks := []\<rparr>;
          argv = run_argv json spec;
          net_positions = map fst (filter (\<lambda>(i, a). a = ''--network'') (enumerate 0 argv)) in
      length net_positions = 1 \<and> argv ! (net_positions ! 0 + 1) = ''host'')"

definition argv_run_argv_with_command_and_entrypoint :: "(string list \<Rightarrow> string option) \<Rightarrow> bool" where
  "argv_run_argv_with_command_and_entrypoint json \<longleftrightarrow>
     (let spec = minimal_run_spec\<lparr>rspec_entrypoint := Some [''/bin/sh'', ''-c''], rspec_command := Some [''echo hello'']\<rparr>;
          argv = run_argv json spec in
      case (position (\<lambda>a. a = ''nginx:latest'') argv, position (\<lambda>a. a = ''--entrypoint'') argv) of
        (Some img_pos, Some ep_pos) \<Rightarrow> ep_pos < img_pos \<and> last argv = ''echo hello''
      | _ \<Rightarrow> False)"

definition argv_build_argv_minimal :: bool where
  "argv_build_argv_minimal \<longleftrightarrow>
     (let spec = \<lparr>bspec_service = ''server'', bspec_context = ''..'', bspec_dockerfile = Some ''containers/Containerfile.server'',
            bspec_args = [], bspec_target = None, bspec_tag = ''burble_server:latest'', bspec_no_cache = False\<rparr>;
          argv = build_argv spec in
      take 2 argv = [''podman'', ''build''] \<and> ''--tag'' \<in> set argv \<and> ''burble_server:latest'' \<in> set argv \<and>
      ''--file'' \<in> set argv \<and> ''--no-cache'' \<notin> set argv \<and> last argv = ''..'')"

definition argv_build_argv_with_build_args_and_no_cache :: bool where
  "argv_build_argv_with_build_args_and_no_cache \<longleftrightarrow>
     (let spec = \<lparr>bspec_service = ''verisimdb'', bspec_context = ''../tools/nextgen-databases/verisimdb'',
            bspec_dockerfile = Some ''container/Containerfile'', bspec_args = bt_insert ''FEATURES'' ''persistent'' [],
            bspec_target = None, bspec_tag = ''burble_verisimdb:latest'', bspec_no_cache = True\<rparr>;
          argv = build_argv spec in
      ''--no-cache'' \<in> set argv \<and> ''--build-arg'' \<in> set argv \<and> ''FEATURES=persistent'' \<in> set argv)"

definition argv_network_create_argv :: bool where
  "argv_network_create_argv \<longleftrightarrow>
     (let spec = \<lparr>nspec_name = ''burble-internal'', nspec_driver = Some ''bridge'',
            nspec_labels = bt_insert ''io.podman.compose.project'' ''burble'' []\<rparr>;
          argv = network_create_argv spec in
      take 3 argv = [''podman'', ''network'', ''create''] \<and> ''--driver'' \<in> set argv \<and> ''bridge'' \<in> set argv \<and>
      ''--label'' \<in> set argv \<and> last argv = ''burble-internal'')"

definition argv_volume_create_argv :: bool where
  "argv_volume_create_argv \<longleftrightarrow>
     (let spec = \<lparr>vspec_name = ''burble-verisimdb-data'', vspec_driver = Some ''local'',
            vspec_labels = bt_insert ''io.podman.compose.project'' ''burble'' []\<rparr>;
          argv = volume_create_argv spec in
      take 3 argv = [''podman'', ''volume'', ''create''] \<and> ''--driver'' \<in> set argv \<and> ''local'' \<in> set argv \<and>
      last argv = ''burble-verisimdb-data'')"

lemma argv_unit_tests:
  "argv_pull_argv" "argv_stop_argv" "argv_rm_argv_force" "argv_rm_argv_no_force" "argv_inspect_argv"
  "argv_logs_argv_follow" "argv_logs_argv_no_follow" "argv_ps_argv" "argv_build_argv_minimal"
  "argv_build_argv_with_build_args_and_no_cache" "argv_network_create_argv" "argv_volume_create_argv"
  by code_simp+

lemma argv_run_unit_tests:
  "argv_run_argv_basic json" "argv_run_argv_with_ports_and_volumes json" "argv_run_argv_host_network_mode json"
  by code_simp+

text \<open>The last test relies on JSON text not looking like the image or the entrypoint flag.\<close>

lemma argv_entrypoint_unit_test:
  "json [''/bin/sh'', ''-c''] = Some s \<Longrightarrow> s \<noteq> ''nginx:latest'' \<Longrightarrow> argv_run_argv_with_command_and_entrypoint json"
  by (simp add: argv_run_argv_with_command_and_entrypoint_def run_argv_def minimal_run_spec_def label_args_def Let_def)

section \<open>mock.rs\<close>

text \<open>\<open>display\<close> is \<open>DriverError::to_string\<close>, the unit value stands for \<open>tokio::io::empty()\<close>.\<close>

type_synonym unit_driver_error = "(unit, unit) driver_error"
type_synonym unit_mock = "(unit, unit) mock_driver"

definition mock_mock_driver_records_calls :: "(unit_driver_error \<Rightarrow> string) \<Rightarrow> bool" where
  "mock_mock_driver_records_calls display \<longleftrightarrow>
     (case mock_inspect display (ContainerId ''c1'') (mock_new :: unit_mock) of
        (r1, m1) \<Rightarrow>
          (case mock_stop (ContainerId ''c1'') (secs 10) m1 :: (unit_driver_error + unit) \<times> unit_mock of
             (r2, m2) \<Rightarrow> is_ok r1 \<and> is_ok r2 \<and>
               (case md_calls m2 of [Call_Inspect _, Call_Stop _ _] \<Rightarrow> True | _ \<Rightarrow> False)))"

definition nonexistent_spec :: run_spec where
  "nonexistent_spec =
     \<lparr>rspec_service = ''web'', rspec_image = ''nonexistent:latest'', rspec_container_name = ''proj_web'',
      rspec_environment = [], rspec_ports = [], rspec_volumes = [], rspec_networks = [], rspec_network_mode = None,
      rspec_command = None, rspec_entrypoint = None, rspec_restart = ''no'', rspec_labels = []\<rparr>"

definition mock_mock_driver_canned_run_error :: "(unit_driver_error \<Rightarrow> string) \<Rightarrow> bool" where
  "mock_mock_driver_canned_run_error display \<longleftrightarrow>
     \<not> is_ok (fst (mock_run display nonexistent_spec
         (set_run_response (Err (Podman_Error [''podman'', ''run''] 1 ''image not found'')) (mock_new :: unit_mock))))"

definition mock_mock_driver_canned_inspect_response :: "(unit_driver_error \<Rightarrow> string) \<Rightarrow> bool" where
  "mock_mock_driver_canned_inspect_response display \<longleftrightarrow>
     (case fst (mock_inspect display (ContainerId ''abc'')
         (set_inspect_response (ContainerId ''abc'')
            (Ok \<lparr>cst_name = ''test_svc'', cst_status = ''exited'', cst_pid = 0, cst_exit_code = 1, cst_health = None\<rparr>)
            (mock_new :: unit_mock))) of
        Ok state \<Rightarrow> cst_status state = ''exited'' \<and> cst_exit_code state = 1
      | Err _ \<Rightarrow> False)"

definition mock_mock_driver_ps_default_empty :: "(unit_driver_error \<Rightarrow> string) \<Rightarrow> bool" where
  "mock_mock_driver_ps_default_empty display \<longleftrightarrow>
     (case fst (mock_ps display ''burble'' (mock_new :: unit_mock)) of Ok result \<Rightarrow> result = [] | Err _ \<Rightarrow> False)"

definition mock_mock_driver_logs_returns_empty_stream :: bool where
  "mock_mock_driver_logs_returns_empty_stream \<longleftrightarrow>
     is_ok (fst (mock_logs () (ContainerId ''c1'') False (mock_new :: unit_mock) :: (unit_driver_error + unit) \<times> unit_mock))"

lemma mock_unit_tests:
  "mock_mock_driver_records_calls display" "mock_mock_driver_canned_run_error display"
  "mock_mock_driver_canned_inspect_response display" "mock_mock_driver_ps_default_empty display"
  "mock_mock_driver_logs_returns_empty_stream"
  by (simp_all add: mock_mock_driver_records_calls_def mock_mock_driver_canned_run_error_def
      mock_mock_driver_canned_inspect_response_def mock_mock_driver_ps_default_empty_def
      mock_mock_driver_logs_returns_empty_stream_def mock_new_def mock_simps replay_def set_run_response_def
      set_inspect_response_def hm_get_insert)

section \<open>healthcheck.rs\<close>

definition test_state :: "string \<Rightarrow> health_state option \<Rightarrow> container_state" where
  "test_state name health =
     \<lparr>cst_name = name, cst_status = ''running'', cst_pid = 1, cst_exit_code = 0, cst_health = health\<rparr>"

definition healthy_state :: "string \<Rightarrow> container_state" where
  "healthy_state name = test_state name (Some \<lparr>hs_status = Healthy, hs_failing_streak = 0\<rparr>)"

definition unhealthy_state :: "string \<Rightarrow> nat \<Rightarrow> container_state" where
  "unhealthy_state name streak = test_state name (Some \<lparr>hs_status = Unhealthy, hs_failing_streak = streak\<rparr>)"

text \<open>\<open>wait_healthy\<close> as the tests call it: the mock answers \<open>inspect\<close> of \<open>c1\<close> with the state.\<close>

definition wait_on :: "(unit_driver_error \<Rightarrow> string) \<Rightarrow> container_state
     \<Rightarrow> (unit_driver_error fault + health_state) option" where
  "wait_on display state =
     map_option fst
       (wait_healthy (mock_as_driver display ()) mock_clock (ContainerId ''c1'') ''svc'' 0 1000000 3
          (set_inspect_response (ContainerId ''c1'') (Ok state) (timed_mock_new :: (unit, unit) timed_mock)))"

definition healthcheck_wait_healthy_immediately_healthy :: "(unit_driver_error \<Rightarrow> string) \<Rightarrow> bool" where
  "healthcheck_wait_healthy_immediately_healthy display \<longleftrightarrow>
     (case wait_on display (healthy_state ''svc'') of Some (Ok hs) \<Rightarrow> hs_status hs = Healthy | _ \<Rightarrow> False)"

definition healthcheck_wait_healthy_unhealthy_returns_error :: "(unit_driver_error \<Rightarrow> string) \<Rightarrow> bool" where
  "healthcheck_wait_healthy_unhealthy_returns_error display \<longleftrightarrow>
     (case wait_on display (unhealthy_state ''svc'' 5) of
        Some (Err (Fault (Unhealthy_Error _ streak))) \<Rightarrow> streak = 5
      | _ \<Rightarrow> False)"

definition healthcheck_wait_healthy_no_healthcheck_returns_none_status :: "(unit_driver_error \<Rightarrow> string) \<Rightarrow> bool" where
  "healthcheck_wait_healthy_no_healthcheck_returns_none_status display \<longleftrightarrow>
     (case wait_on display (test_state ''svc'' None) of Some (Ok hs) \<Rightarrow> hs_status hs = Health_None | _ \<Rightarrow> False)"

lemma healthcheck_unit_tests:
  "healthcheck_wait_healthy_immediately_healthy display" "healthcheck_wait_healthy_unhealthy_returns_error display"
  "healthcheck_wait_healthy_no_healthcheck_returns_none_status display"
proof -
  have ready: "health_timeout 0 1000000 3 = Some 5004000000"
    by (simp add: health_timeout_def secs_def duration_max_def timeout_slack_def)
  have poll: "wait_on display state = map_option fst
      (poll_loop (mock_as_driver display ()) mock_clock (ContainerId ''c1'') ''svc'' 5004000000 1000000 5004000000
         (set_inspect_response (ContainerId ''c1'') (Ok state) (timed_mock_new :: (unit, unit) timed_mock)))" for state
    by (simp add: wait_on_def wait_healthy_def ready mock_clock_def default_poll_interval_def secs_def
        set_inspect_response_def timed_mock_new_def mock_driver.defs)
  note eval = mock_simps set_inspect_response_def hm_get_insert
    healthy_state_def unhealthy_state_def test_state_def
  show "healthcheck_wait_healthy_immediately_healthy display"
    unfolding healthcheck_wait_healthy_immediately_healthy_def poll by (subst poll_loop.simps) (simp add: eval)
  show "healthcheck_wait_healthy_unhealthy_returns_error display"
    unfolding healthcheck_wait_healthy_unhealthy_returns_error_def poll by (subst poll_loop.simps) (simp add: eval)
  show "healthcheck_wait_healthy_no_healthcheck_returns_none_status display"
    unfolding healthcheck_wait_healthy_no_healthcheck_returns_none_status_def poll by (subst poll_loop.simps) (simp add: eval)
qed

section \<open>executor.rs\<close>

definition test_run_spec :: "string \<Rightarrow> string \<Rightarrow> run_spec" where
  "test_run_spec service img =
     \<lparr>rspec_service = service, rspec_image = img, rspec_container_name = ''test_'' @ service, rspec_environment = [],
      rspec_ports = [], rspec_volumes = [], rspec_networks = [], rspec_network_mode = None, rspec_command = None,
      rspec_entrypoint = None, rspec_restart = ''no'', rspec_labels = []\<rparr>"

definition test_network_spec :: "string \<Rightarrow> network_spec" where
  "test_network_spec name = \<lparr>nspec_name = name, nspec_driver = Some ''bridge'', nspec_labels = []\<rparr>"

definition test_volume_spec :: "string \<Rightarrow> volume_spec" where
  "test_volume_spec name = \<lparr>vspec_name = name, vspec_driver = Some ''local'', vspec_labels = []\<rparr>"

text \<open>
  \<open>execute\<close> on a mock in the state \<open>m\<close>, on a machine with four processors: the result, and the calls
  the mock has recorded.
\<close>

definition execute_on :: "(unit_driver_error \<Rightarrow> string) \<Rightarrow> (unit, unit) timed_mock \<Rightarrow> op list \<Rightarrow> exec_opts
     \<Rightarrow> ((unit_driver_error fault + exec_report) \<times> mock_call list) option" where
  "execute_on display m ops opts =
     map_option (map_prod id md_calls) (execute (mock_as_driver display ()) mock_clock (Some 4) ops opts m)"

definition executes :: "(unit_driver_error \<Rightarrow> string) \<Rightarrow> op list \<Rightarrow> exec_opts \<Rightarrow> (exec_report \<Rightarrow> mock_call list \<Rightarrow> bool) \<Rightarrow> bool" where
  "executes display ops opts check =
     (case execute_on display timed_mock_new ops opts of Some (Ok report, calls) \<Rightarrow> check report calls | _ \<Rightarrow> False)"

definition run_services :: "mock_call list \<Rightarrow> string list" where
  "run_services calls = List.map_filter (\<lambda>c. case c of Call_Run spec \<Rightarrow> Some (rspec_service spec) | _ \<Rightarrow> None) calls"

definition alpha_and_beta :: "op list" where
  "alpha_and_beta =
     [RunContainer (test_run_spec ''alpha'' ''nginx:latest''), RunContainer (test_run_spec ''beta'' ''redis:latest'')]"

definition executor_execute_run_ops_sequentially :: "(unit_driver_error \<Rightarrow> string) \<Rightarrow> bool" where
  "executor_execute_run_ops_sequentially display \<longleftrightarrow>
     executes display alpha_and_beta exec_opts_default (\<lambda>report calls.
       length (er_containers report) = 2 \<and> hm_contains (er_containers report) ''alpha'' \<and>
       hm_contains (er_containers report) ''beta'' \<and> length (run_services calls) = 2)"

definition executor_execute_network_and_volume_ops :: "(unit_driver_error \<Rightarrow> string) \<Rightarrow> bool" where
  "executor_execute_network_and_volume_ops display \<longleftrightarrow>
     executes display [CreateNetwork (test_network_spec ''my-net''), CreateVolume (test_volume_spec ''my-vol'')] exec_opts_default
       (\<lambda>report calls. er_networks_created report = 1 \<and> er_volumes_created report = 1)"

definition executor_execute_skips_build_when_no_build :: "(unit_driver_error \<Rightarrow> string) \<Rightarrow> bool" where
  "executor_execute_skips_build_when_no_build display \<longleftrightarrow>
     executes display
       [BuildImage \<lparr>bspec_service = ''svc'', bspec_context = ''.'', bspec_dockerfile = None, bspec_args = [],
          bspec_target = None, bspec_tag = ''svc:latest'', bspec_no_cache = False\<rparr>]
       (exec_opts_default\<lparr>eo_no_build := True\<rparr>)
       (\<lambda>report calls. er_images_built report = 0 \<and> calls = [])"

definition executor_execute_skips_pull_when_no_pull :: "(unit_driver_error \<Rightarrow> string) \<Rightarrow> bool" where
  "executor_execute_skips_pull_when_no_pull display \<longleftrightarrow>
     executes display [PullImage \<lparr>pspec_service = ''svc'', pspec_image = ''docker.io/library/nginx:latest''\<rparr>]
       (exec_opts_default\<lparr>eo_no_pull := True\<rparr>) (\<lambda>report calls. er_images_pulled report = 0)"

definition executor_execute_error_propagates :: "(unit_driver_error \<Rightarrow> string) \<Rightarrow> bool" where
  "executor_execute_error_propagates display \<longleftrightarrow>
     (case execute_on display
         (set_run_response (Err (Podman_Error [''podman'', ''run''] 125 ''container creation failed'')) timed_mock_new)
         [RunContainer (test_run_spec ''broken'' ''bad:image'')] exec_opts_default of
        Some (Err _, _) \<Rightarrow> True
      | _ \<Rightarrow> False)"

definition executor_execute_stop_and_remove :: "(unit_driver_error \<Rightarrow> string) \<Rightarrow> bool" where
  "executor_execute_stop_and_remove display \<longleftrightarrow>
     executes display
       [StopContainer \<lparr>sspec_service = ''svc'', sspec_container_name = ''test_svc'', sspec_timeout_secs = 10\<rparr>,
        RemoveContainer \<lparr>rmspec_service = ''svc'', rmspec_container_name = ''test_svc'', rmspec_force = False\<rparr>]
       exec_opts_default
       (\<lambda>report calls. list_ex (\<lambda>c. case c of Call_Stop _ _ \<Rightarrow> True | _ \<Rightarrow> False) calls \<and>
          list_ex (\<lambda>c. case c of Call_Rm _ _ \<Rightarrow> True | _ \<Rightarrow> False) calls)"

definition executor_wave_n_plus_one_does_not_start_before_wave_n :: "(unit_driver_error \<Rightarrow> string) \<Rightarrow> bool" where
  "executor_wave_n_plus_one_does_not_start_before_wave_n display \<longleftrightarrow>
     executes display alpha_and_beta exec_opts_default (\<lambda>report calls. run_services calls = [''alpha'', ''beta''])"

lemma executor_unit_tests:
  "executor_execute_run_ops_sequentially display" "executor_execute_network_and_volume_ops display"
  "executor_execute_skips_build_when_no_build display" "executor_execute_skips_pull_when_no_pull display"
  "executor_execute_error_propagates display" "executor_execute_stop_and_remove display"
  "executor_wave_n_plus_one_does_not_start_before_wave_n display"
  by (simp_all add: executor_execute_run_ops_sequentially_def executor_execute_network_and_volume_ops_def
      executor_execute_skips_build_when_no_build_def executor_execute_skips_pull_when_no_pull_def
      executor_execute_error_propagates_def executor_execute_stop_and_remove_def
      executor_wave_n_plus_one_does_not_start_before_wave_n_def executes_def execute_on_def execute_def alpha_and_beta_def
      run_services_def bind_pr_def call_pr_def mock_simps timed_mock_new_def mock_new_def mock_driver.defs
      exec_report_default_def exec_opts_default_def set_run_response_def map_filter_simps test_run_spec_def
      hm_insert_def hm_contains_def hm_get_def)

section \<open>exec.rs\<close>

text \<open>Two tests run the programs \<open>/bin/echo\<close> and \<open>/bin/false\<close>, through the spawner of \<open>run_podman\<close>.\<close>

definition exec_run_podman_echo_succeeds :: "('w, 'io) spawner \<Rightarrow> (string \<Rightarrow> string) \<Rightarrow> 'w \<Rightarrow> bool" where
  "exec_run_podman_echo_succeeds spawn lossy w \<longleftrightarrow>
     (case (fst (run_podman spawn lossy [''/bin/echo'', ''hello'', ''world''] w) :: ('io, unit) driver_error + proc_output) of
        Ok out \<Rightarrow> str_contains (lossy (out_stdout out)) ''hello''
      | Err _ \<Rightarrow> False)"

definition exec_run_podman_nonzero_exit :: "('w, 'io) spawner \<Rightarrow> (string \<Rightarrow> string) \<Rightarrow> 'w \<Rightarrow> bool" where
  "exec_run_podman_nonzero_exit spawn lossy w \<longleftrightarrow>
     (case (fst (run_podman spawn lossy [''/bin/false''] w) :: ('io, unit) driver_error + proc_output) of
        Err (Podman_Error _ code _) \<Rightarrow> code = 1
      | _ \<Rightarrow> False)"

definition rootlessport_message :: string where
  "rootlessport_message =
     ''Error: rootlessport cannot expose privileged port 80, you can add '' @ [CHR 0x27] @
     ''net.ipv4.ip_unprivileged_port_start=80'' @ [CHR 0x27] @
     '' to /etc/sysctl.d/: listen tcp 0.0.0.0:80: bind: permission denied''"

definition exec_detect_privileged_port_found :: bool where
  "exec_detect_privileged_port_found \<longleftrightarrow>
     detect_privileged_port rootlessport_message = Some 80"

definition exec_detect_privileged_port_not_found_high_port :: bool where
  "exec_detect_privileged_port_not_found_high_port \<longleftrightarrow>
     detect_privileged_port ''Error: listen tcp 0.0.0.0:8080: bind: permission denied'' = None"

definition exec_detect_privileged_port_eacces :: bool where
  "exec_detect_privileged_port_eacces \<longleftrightarrow>
     detect_privileged_port ''EACCES: permission denied trying to bind :443'' = Some 443"

definition exec_detect_privileged_port_no_permission_message :: bool where
  "exec_detect_privileged_port_no_permission_message \<longleftrightarrow>
     detect_privileged_port ''Something went wrong with port 22 (unrelated)'' = None"

text \<open>What is parsed as a port in the words of a message, in order.\<close>

definition port_candidates :: "string \<Rightarrow> string list" where
  "port_candidates stderr = map (\<lambda>t. after_last_colon (trim_end_matches '',.;:'' t)) (split_whitespace stderr)"

lemma find_privileged_candidates:
  "find_privileged ts =
     Option.bind (find (\<lambda>p. case parse_u16 p of Some port \<Rightarrow> port < 1024 | None \<Rightarrow> False)
       (map (\<lambda>t. after_last_colon (trim_end_matches '',.;:'' t)) ts)) parse_u16"
  by (induction ts) (auto simp: Let_def split: option.splits)

lemma exec_unit_tests:
  "exec_detect_privileged_port_found" "exec_detect_privileged_port_not_found_high_port"
  "exec_detect_privileged_port_eacces" "exec_detect_privileged_port_no_permission_message"
proof -
  note eval = detect_privileged_port_def find_privileged_candidates port_candidates_def [symmetric]
    parse_u16_def is_digit_def digits_val_def digit_val_def
  have "port_candidates rootlessport_message =
      [''Error'', ''rootlessport'', ''cannot'', ''expose'', ''privileged'', ''port'', ''80'', ''you'', ''can'', ''add'',
       [CHR 0x27] @ ''net.ipv4.ip_unprivileged_port_start=80'' @ [CHR 0x27], ''to'', ''/etc/sysctl.d/'', ''listen'', ''tcp'',
       ''80'', ''bind'', ''permission'', ''denied'']"
    "str_contains rootlessport_message ''permission denied''" by code_simp+
  then show "exec_detect_privileged_port_found"
    by (simp add: exec_detect_privileged_port_found_def eval)
  have "port_candidates ''Error: listen tcp 0.0.0.0:8080: bind: permission denied'' =
      [''Error'', ''listen'', ''tcp'', ''8080'', ''bind'', ''permission'', ''denied'']" by code_simp
  then show "exec_detect_privileged_port_not_found_high_port"
    by (simp add: exec_detect_privileged_port_not_found_high_port_def eval)
  have "port_candidates ''EACCES: permission denied trying to bind :443'' =
      [''EACCES'', ''permission'', ''denied'', ''trying'', ''to'', ''bind'', ''443'']" by code_simp
  then show "exec_detect_privileged_port_eacces"
    by (simp add: exec_detect_privileged_port_eacces_def eval)
  show "exec_detect_privileged_port_no_permission_message" by code_simp
qed

text \<open>\<open>echo\<close> exits with 0 and prints its arguments, \<open>false\<close> exits with 1; ASCII text is decoded as it is.\<close>

lemma exec_process_unit_tests:
  "spawn ''/bin/echo'' [''hello'', ''world''] w =
       (Ok \<lparr>out_code = Some 0, out_stdout = ''hello world'' @ [CHR 0x0A], out_stderr = []\<rparr>, w') \<Longrightarrow>
     lossy (''hello world'' @ [CHR 0x0A]) = ''hello world'' @ [CHR 0x0A] \<Longrightarrow> exec_run_podman_echo_succeeds spawn lossy w"
  "spawn ''/bin/false'' [] w = (Ok \<lparr>out_code = Some 1, out_stdout = [], out_stderr = []\<rparr>, w') \<Longrightarrow>
     exec_run_podman_nonzero_exit spawn lossy w"
  by (simp_all add: exec_run_podman_echo_succeeds_def exec_run_podman_nonzero_exit_def run_podman_def bind_st_def
      return_st_def fail_st_def)

section \<open>podman.rs\<close>

text \<open>The JSON texts of the tests; \<open>from_json\<close> is \<open>serde_json::from_str\<close> at the type the test asks for.\<close>

definition inspect_json :: string where
  "inspect_json =
     ''[{'' @ [CHR 0x0A] @ ''            '' @ [CHR 0x22] @ ''Name'' @ [CHR 0x22] @ '': '' @ [CHR 0x22] @
     ''burble_server'' @ [CHR 0x22] @ '','' @ [CHR 0x0A] @ ''            '' @ [CHR 0x22] @ ''State'' @
     [CHR 0x22] @ '': {'' @ [CHR 0x0A] @ ''                '' @ [CHR 0x22] @ ''Status'' @ [CHR 0x22] @ '': '' @
     [CHR 0x22] @ ''running'' @ [CHR 0x22] @ '','' @ [CHR 0x0A] @ ''                '' @ [CHR 0x22] @ ''Pid'' @
     [CHR 0x22] @ '': 1234,'' @ [CHR 0x0A] @ ''                '' @ [CHR 0x22] @ ''ExitCode'' @ [CHR 0x22] @
     '': 0,'' @ [CHR 0x0A] @ ''                '' @ [CHR 0x22] @ ''Health'' @ [CHR 0x22] @ '': {'' @ [CHR 0x0A] @
     ''                    '' @ [CHR 0x22] @ ''Status'' @ [CHR 0x22] @ '': '' @ [CHR 0x22] @ ''healthy'' @
     [CHR 0x22] @ '','' @ [CHR 0x0A] @ ''                    '' @ [CHR 0x22] @ ''FailingStreak'' @ [CHR 0x22] @
     '': 0'' @ [CHR 0x0A] @ ''                }'' @ [CHR 0x0A] @ ''            }'' @ [CHR 0x0A] @ ''        }]''"

definition inspect_json_no_health :: string where
  "inspect_json_no_health =
     ''[{'' @ [CHR 0x0A] @ ''            '' @ [CHR 0x22] @ ''Name'' @ [CHR 0x22] @ '': '' @ [CHR 0x22] @
     ''mycontainer'' @ [CHR 0x22] @ '','' @ [CHR 0x0A] @ ''            '' @ [CHR 0x22] @ ''State'' @ [CHR 0x22] @
     '': {'' @ [CHR 0x0A] @ ''                '' @ [CHR 0x22] @ ''Status'' @ [CHR 0x22] @ '': '' @ [CHR 0x22] @
     ''exited'' @ [CHR 0x22] @ '','' @ [CHR 0x0A] @ ''                '' @ [CHR 0x22] @ ''Pid'' @ [CHR 0x22] @
     '': 0,'' @ [CHR 0x0A] @ ''                '' @ [CHR 0x22] @ ''ExitCode'' @ [CHR 0x22] @ '': 137'' @
     [CHR 0x0A] @ ''            }'' @ [CHR 0x0A] @ ''        }]''"

definition inspect_json_unknown_fields :: string where
  "inspect_json_unknown_fields =
     ''[{'' @ [CHR 0x0A] @ ''            '' @ [CHR 0x22] @ ''Name'' @ [CHR 0x22] @ '': '' @ [CHR 0x22] @ ''c1'' @
     [CHR 0x22] @ '','' @ [CHR 0x0A] @ ''            '' @ [CHR 0x22] @ ''FutureField'' @ [CHR 0x22] @ '': '' @
     [CHR 0x22] @ ''ignored'' @ [CHR 0x22] @ '','' @ [CHR 0x0A] @ ''            '' @ [CHR 0x22] @ ''State'' @
     [CHR 0x22] @ '': {'' @ [CHR 0x0A] @ ''                '' @ [CHR 0x22] @ ''Status'' @ [CHR 0x22] @ '': '' @
     [CHR 0x22] @ ''running'' @ [CHR 0x22] @ '','' @ [CHR 0x0A] @ ''                '' @ [CHR 0x22] @ ''Pid'' @
     [CHR 0x22] @ '': 42,'' @ [CHR 0x0A] @ ''                '' @ [CHR 0x22] @ ''ExitCode'' @ [CHR 0x22] @
     '': 0,'' @ [CHR 0x0A] @ ''                '' @ [CHR 0x22] @ ''NewField2030'' @ [CHR 0x22] @ '': true'' @
     [CHR 0x0A] @ ''            }'' @ [CHR 0x0A] @ ''        }]''"

definition ps_json :: string where
  "ps_json =
     ''[{'' @ [CHR 0x0A] @ ''            '' @ [CHR 0x22] @ ''Id'' @ [CHR 0x22] @ '': '' @ [CHR 0x22] @
     ''abc123def456'' @ [CHR 0x22] @ '','' @ [CHR 0x0A] @ ''            '' @ [CHR 0x22] @ ''Names'' @ [CHR 0x22] @
     '': ['' @ [CHR 0x22] @ ''burble_web'' @ [CHR 0x22] @ ''],'' @ [CHR 0x0A] @ ''            '' @ [CHR 0x22] @
     ''Image'' @ [CHR 0x22] @ '': '' @ [CHR 0x22] @ ''burble_web:latest'' @ [CHR 0x22] @ '','' @ [CHR 0x0A] @
     ''            '' @ [CHR 0x22] @ ''State'' @ [CHR 0x22] @ '': '' @ [CHR 0x22] @ ''running'' @ [CHR 0x22] @
     '','' @ [CHR 0x0A] @ ''            '' @ [CHR 0x22] @ ''Ports'' @ [CHR 0x22] @ '': ['' @ [CHR 0x0A] @
     ''                {'' @ [CHR 0x0A] @ ''                    '' @ [CHR 0x22] @ ''host_ip'' @ [CHR 0x22] @
     '': '' @ [CHR 0x22, CHR 0x22] @ '','' @ [CHR 0x0A] @ ''                    '' @ [CHR 0x22] @
     ''container_port'' @ [CHR 0x22] @ '': 80,'' @ [CHR 0x0A] @ ''                    '' @ [CHR 0x22] @
     ''host_port'' @ [CHR 0x22] @ '': 4020,'' @ [CHR 0x0A] @ ''                    '' @ [CHR 0x22] @
     ''protocol'' @ [CHR 0x22] @ '': '' @ [CHR 0x22] @ ''tcp'' @ [CHR 0x22, CHR 0x0A] @ ''                }'' @
     [CHR 0x0A] @ ''            ],'' @ [CHR 0x0A] @ ''            '' @ [CHR 0x22] @ ''Labels'' @ [CHR 0x22] @
     '': {'' @ [CHR 0x0A] @ ''                '' @ [CHR 0x22] @ ''io.podman.compose.project'' @ [CHR 0x22] @
     '': '' @ [CHR 0x22] @ ''burble'' @ [CHR 0x22] @ '','' @ [CHR 0x0A] @ ''                '' @ [CHR 0x22] @
     ''io.podman.compose.service'' @ [CHR 0x22] @ '': '' @ [CHR 0x22] @ ''web'' @ [CHR 0x22, CHR 0x0A] @
     ''            }'' @ [CHR 0x0A] @ ''        }]''"

definition ps_empty_json :: string where
  "ps_empty_json =
     ''[]''"

definition podman_inspect_json_parse :: "(string \<Rightarrow> 'je + podman_container_json list) \<Rightarrow> bool" where
  "podman_inspect_json_parse from_json \<longleftrightarrow>
     (case from_json inspect_json of
        Ok (item # _) \<Rightarrow>
          let state = into_container_state item in
          cst_name state = ''burble_server'' \<and> cst_status state = ''running'' \<and>
          (case cst_health state of Some h \<Rightarrow> hs_status h = Healthy \<and> hs_failing_streak h = 0 | None \<Rightarrow> False)
      | _ \<Rightarrow> False)"

definition podman_inspect_json_parse_no_health :: "(string \<Rightarrow> 'je + podman_container_json list) \<Rightarrow> bool" where
  "podman_inspect_json_parse_no_health from_json \<longleftrightarrow>
     (case from_json inspect_json_no_health of
        Ok (item # _) \<Rightarrow>
          let state = into_container_state item in cst_exit_code state = 137 \<and> cst_health state = None
      | _ \<Rightarrow> False)"

definition podman_inspect_json_tolerates_unknown_fields :: "(string \<Rightarrow> 'je + podman_container_json list) \<Rightarrow> bool" where
  "podman_inspect_json_tolerates_unknown_fields from_json \<longleftrightarrow> is_ok (from_json inspect_json_unknown_fields)"

definition podman_ps_json_parse :: "(string \<Rightarrow> 'je + podman_ps_json list) \<Rightarrow> bool" where
  "podman_ps_json_parse from_json \<longleftrightarrow>
     (case from_json ps_json of
        Ok (item # _) \<Rightarrow>
          let summary = into_summary item in
          csum_id summary = ''abc123def456'' \<and> csum_name summary = ''burble_web'' \<and> csum_state summary = ''running'' \<and>
          csum_service summary = Some ''web'' \<and>
          (case csum_ports summary of p # _ \<Rightarrow> str_contains p ''4020'' | [] \<Rightarrow> False)
      | _ \<Rightarrow> False)"

definition podman_ps_empty_json :: "(string \<Rightarrow> 'je + podman_ps_json list) \<Rightarrow> bool" where
  "podman_ps_empty_json from_json \<longleftrightarrow>
     (case from_json ps_empty_json of Ok items \<Rightarrow> items = [] | Err _ \<Rightarrow> False)"

definition podman_health_status_from_str :: bool where
  "podman_health_status_from_str \<longleftrightarrow>
     health_status_from ''healthy'' = Healthy \<and> health_status_from ''unhealthy'' = Unhealthy \<and>
     health_status_from ''starting'' = Starting \<and> health_status_from ''none'' = Health_None \<and>
     (case health_status_from ''weird'' of Unknown _ \<Rightarrow> True | _ \<Rightarrow> False)"

lemma podman_unit_tests:
  "from_json inspect_json = Ok [\<lparr>pcj_name = ''burble_server'', pcj_state = \<lparr>psj_status = ''running'', psj_pid = 1234,
       psj_exit_code = 0, psj_health = Some \<lparr>phj_status = ''healthy'', phj_failing_streak = 0\<rparr>\<rparr>\<rparr>] \<Longrightarrow>
     podman_inspect_json_parse from_json"
  "from_json inspect_json_no_health = Ok [\<lparr>pcj_name = ''mycontainer'', pcj_state = \<lparr>psj_status = ''exited'', psj_pid = 0,
       psj_exit_code = 137, psj_health = None\<rparr>\<rparr>] \<Longrightarrow>
     podman_inspect_json_parse_no_health from_json"
  "from_json inspect_json_unknown_fields = Ok [\<lparr>pcj_name = ''c1'', pcj_state = \<lparr>psj_status = ''running'', psj_pid = 42,
       psj_exit_code = 0, psj_health = None\<rparr>\<rparr>] \<Longrightarrow>
     podman_inspect_json_tolerates_unknown_fields from_json"
  "from_ps_json ps_json = Ok [\<lparr>pps_id = ''abc123def456'', pps_names = [''burble_web''], pps_image = ''burble_web:latest'',
       pps_state = ''running'',
       pps_ports = Some [\<lparr>ppj_host_ip = [], ppj_container_port = 80, ppj_host_port = 4020, ppj_protocol = ''tcp''\<rparr>],
       pps_labels = [(''io.podman.compose.project'', ''burble''), (''io.podman.compose.service'', ''web'')]\<rparr>] \<Longrightarrow>
     podman_ps_json_parse from_ps_json"
  "from_ps_json ps_empty_json = Ok [] \<Longrightarrow> podman_ps_empty_json from_ps_json"
  "podman_health_status_from_str"
proof -
  have "show_nat 4020 = ''4020''" by code_simp
  then show "podman_ps_json_parse from_ps_json"
    if "from_ps_json ps_json = Ok [\<lparr>pps_id = ''abc123def456'', pps_names = [''burble_web''], pps_image = ''burble_web:latest'',
       pps_state = ''running'',
       pps_ports = Some [\<lparr>ppj_host_ip = [], ppj_container_port = 80, ppj_host_port = 4020, ppj_protocol = ''tcp''\<rparr>],
       pps_labels = [(''io.podman.compose.project'', ''burble''), (''io.podman.compose.service'', ''web'')]\<rparr>]"
    using that by (simp add: podman_ps_json_parse_def into_summary_def ps_port_string_def hm_get_def)
qed (simp_all add: podman_inspect_json_parse_def podman_inspect_json_parse_no_health_def
    podman_inspect_json_tolerates_unknown_fields_def podman_ps_empty_json_def podman_health_status_from_str_def
    into_container_state_def health_status_from_def)

section \<open>logs.rs\<close>

text \<open>A test that drains the channel: what every run that closes it has received.\<close>

definition drains_to_nothing :: "(container_id \<Rightarrow> string + string list) \<Rightarrow> (string \<times> container_id) list \<Rightarrow> bool" where
  "drains_to_nothing open_log services \<longleftrightarrow>
     (\<forall>s. tail_reachable open_log services s \<and> tail_closed s \<and> \<not> tl_dropped s \<longrightarrow> length (tl_out s) = 0)"

text \<open>The mock's logs are empty streams.\<close>

definition logs_tail_logs_empty_services :: bool where
  "logs_tail_logs_empty_services \<longleftrightarrow> drains_to_nothing (\<lambda>_. Ok []) []"

definition logs_log_line_display :: bool where
  "logs_log_line_display \<longleftrightarrow> display_log_line \<lparr>ll_service = ''web'', ll_line = ''GET /health 200''\<rparr> = ''[web] GET /health 200''"

definition logs_tail_logs_single_service_mock :: bool where
  "logs_tail_logs_single_service_mock \<longleftrightarrow> drains_to_nothing (\<lambda>_. Ok []) [(''web'', ContainerId ''c1'')]"

lemma logs_unit_tests:
  "logs_tail_logs_empty_services" "logs_log_line_display" "logs_tail_logs_single_service_mock"
proof -
  have empty: "drains_to_nothing (\<lambda>_. Ok []) services" if "distinct (map fst services)" for services
    unfolding drains_to_nothing_def
  proof (intro allI impI)
    fix s
    assume s: "tail_reachable (\<lambda>_. Ok []) services s \<and> tail_closed s \<and> \<not> tl_dropped s"
    with tail_reachable_inv [OF that, of "\<lambda>_. Ok []" s] have
      "of_service v (tl_out s) = of_service v (concat (map (expected_lines (\<lambda>_. Ok [])) services))" for v
      by (simp add: tail_inv_def tail_closed_def all_lines_def)
    moreover have "concat (map (expected_lines (\<lambda>_. Ok [])) services) = []"
      by (simp add: expected_lines_def)
    ultimately have none: "of_service v (tl_out s) = []" for v by simp
    show "length (tl_out s) = 0"
    proof (cases "tl_out s")
      case (Cons l ls)
      with none [of "ll_service l"] show ?thesis by simp
    qed simp
  qed
  then show "logs_tail_logs_empty_services" "logs_tail_logs_single_service_mock"
    by (simp_all add: logs_tail_logs_empty_services_def logs_tail_logs_single_service_mock_def)
qed (simp add: logs_log_line_display_def display_log_line_def)

end
