(* ===== verification/Scripts.thy ===== *)
theory Scripts
  imports Conformance Cli "HOL-Library.AList"
begin

text \<open>
  The \<open>main\<close> functions of the two clients under \<open>client/rust/examples\<close>: the checks that
  \<open>admission_conformance.rs\<close> makes of a server it starts, and the exchange of \<open>idaptik_roundtrip.rs\<close>.

  Every connection a script opens is a number, in the order of the source; all of them act on the same
  world.  tokio's \<open>join!\<close>, \<open>timeout\<close> and the closing of a dropped socket are parameters.  A failed
  assertion is a panic.  The value of a script is the line it prints when it succeeds.
\<close>

section \<open>JSON\<close>

text \<open>\<open>==\<close> on values: the order of an object's entries does not count.\<close>

lemma json_entry_size [termination_simp]: "(k, v) \<in> set es \<Longrightarrow> size v < Suc (size_list (size_prod (\<lambda>_. 0) size) es)"
  by (induction es) (auto simp: less_Suc_eq_le)

fun json_same :: "'n json \<Rightarrow> 'n json \<Rightarrow> bool" where
  "json_same (JArray xs) (JArray ys) = list_all2 json_same xs ys"
| "json_same (JObject as) (JObject bs) \<longleftrightarrow>
     length as = length bs \<and>
     list_all (\<lambda>(k, v). case map_of bs k of Some v' \<Rightarrow> json_same v v' | None \<Rightarrow> False) as"
| "json_same v v' \<longleftrightarrow> v = v'"

text \<open>\<open>value[key] = v\<close>, and \<open>as_object_mut\<close> with \<open>remove\<close>.\<close>

fun json_set :: "string \<Rightarrow> 'n json \<Rightarrow> 'n json \<Rightarrow> 'e fault + 'n json" where
  "json_set key v (JObject es) = Ok (JObject (AList.update key v es))"
| "json_set key v JNull = Ok (JObject [(key, v)])"
| "json_set key v _ = Err Panic"

fun json_remove :: "string \<Rightarrow> 'n json \<Rightarrow> 'n json option" where
  "json_remove key (JObject es) = Some (JObject (AList.delete key es))"
| "json_remove key _ = None"

section \<open>Running a script\<close>

text \<open>A peer and the number of its connection.\<close>

type_synonym 'n seat = "nat \<times> 'n peer"
type_synonym ('w, 'x, 'n, 'a) script = "('w, ('x, 'n) box_error, 'a) process"

text \<open>A call on a peer that is not followed by \<open>?\<close>: its result and the peer.\<close>

type_synonym ('w, 'x, 'n) attempt = "'w \<Rightarrow> (((('x, 'n) box_error fault + 'n json) \<times> 'n seat) \<times> 'w) option"

record ('w, 'x, 'u, 'n, 'st) script_env =
  sc_host :: "('w, 'x, 'n, 'st) host_env"
  sc_connector :: "nat \<Rightarrow> ('w, 'x, 'u, 'n) connector"
  sc_client :: "nat \<Rightarrow> ('w, 'x, 'n) client_env"
  sc_drop :: "nat \<Rightarrow> 'w \<Rightarrow> 'w"
  sc_join :: "('w, 'x, 'n) attempt \<Rightarrow> ('w, 'x, 'n) attempt
     \<Rightarrow> 'w \<Rightarrow> ((((('x, 'n) box_error fault + 'n json) \<times> 'n seat) \<times> ((('x, 'n) box_error fault + 'n json) \<times> 'n seat)) \<times> 'w) option"
  sc_timeout :: "nat \<Rightarrow> ('w, 'x, 'n) attempt \<Rightarrow> 'w \<Rightarrow> ((('x, 'n) box_error fault + 'n json) option \<times> 'w) option"
  sc_number :: "nat \<Rightarrow> 'n"
  sc_endpoint :: "string option"
  sc_pid :: nat

text \<open>\<open>assert!\<close>.\<close>

definition assert_that :: "bool \<Rightarrow> ('w, 'x, 'n, unit) script" where
  "assert_that b w = Some (if b then Ok () else Err Panic, w)"

definition connected ::
    "('w, 'x, 'u, 'n, 'st) script_env \<Rightarrow> nat \<Rightarrow> 'n json \<Rightarrow> string option \<Rightarrow> ('w, 'x, 'n, 'n seat) script" where
  "connected sc k fix_json who w =
     (case peer_connect (sc_connector sc k) fix_json who w of (r, w1) \<Rightarrow> Some (map_res (Pair k) r, w1))"

definition attempt_request ::
    "('w, 'x, 'u, 'n, 'st) script_env \<Rightarrow> 'n seat \<Rightarrow> string \<Rightarrow> 'n json \<Rightarrow> ('w, 'x, 'n) attempt" where
  "attempt_request sc seat event payload w =
     map_option (\<lambda>(r, p, w1). ((r, fst seat, p), w1))
       (peer_request (sc_client sc (fst seat)) event payload (snd seat, w))"

definition attempt_event ::
    "('w, 'x, 'u, 'n, 'st) script_env \<Rightarrow> 'n seat \<Rightarrow> string \<Rightarrow> ('w, 'x, 'n) attempt" where
  "attempt_event sc seat event w =
     map_option (\<lambda>(r, p, w1). ((r, fst seat, p), w1)) (peer_event (sc_client sc (fst seat)) event (snd seat) w)"

text \<open>\<open>?\<close> on an attempt.\<close>

definition tried :: "('w, 'x, 'n) attempt \<Rightarrow> ('w, 'x, 'n, 'n json \<times> 'n seat) script" where
  "tried m w = map_option (\<lambda>((r, seat), w1). (map_res (\<lambda>v. (v, seat)) r, w1)) (m w)"

definition sent ::
    "('w, 'x, 'u, 'n, 'st) script_env \<Rightarrow> 'n seat \<Rightarrow> string \<Rightarrow> 'n json \<Rightarrow> ('w, 'x, 'n, 'n seat) script" where
  "sent sc seat event payload w =
     (case peer_send (sc_client sc (fst seat)) event payload (snd seat, w) of
        (r, p, w1) \<Rightarrow> Some (map_res (\<lambda>_. (fst seat, p)) r, w1))"

section \<open>admission_conformance.rs\<close>

text \<open>A new connection whose join must be refused.\<close>

definition refused_join ::
    "('w, 'x, 'u, 'n, 'st) script_env \<Rightarrow> nat \<Rightarrow> 'n json \<Rightarrow> string option \<Rightarrow> 'n json \<Rightarrow> string \<Rightarrow> ('w, 'x, 'n, unit) script" where
  "refused_join sc k fix_json who params reason =
     bind_pr (connected sc k fix_json who) (\<lambda>seat.
     bind_pr (tried (attempt_request sc seat ''phx_join'' params)) (\<lambda>(reply, _).
     lift_pr (refused reply reason)))"

text \<open>A request that must be accepted: its response.\<close>

definition accepted_request ::
    "('w, 'x, 'u, 'n, 'st) script_env \<Rightarrow> 'n seat \<Rightarrow> string \<Rightarrow> 'n json \<Rightarrow> ('w, 'x, 'n, 'n json \<times> 'n seat) script" where
  "accepted_request sc seat event payload =
     bind_pr (tried (attempt_request sc seat event payload)) (\<lambda>(reply, seat1).
     lift_pr (map_res (\<lambda>response. (response, seat1)) (accepted reply)))"

text \<open>Two connections of one principal ask for the same seat: the winner and its receipt.\<close>

definition seat_race ::
    "('w, 'x, 'u, 'n, 'st) script_env \<Rightarrow> 'n json \<Rightarrow> ('w, 'x, 'n, 'n seat \<times> 'n json) script" where
  "seat_race sc fix_json =
     bind_pr (connected sc 3 fix_json (Some ''alice'')) (\<lambda>left.
     bind_pr (connected sc 4 fix_json (Some ''alice'')) (\<lambda>right w.
       case sc_join sc (attempt_request sc left ''phx_join'' (join_params fix_json ''infiltrator''))
              (attempt_request sc right ''phx_join'' (join_params fix_json ''infiltrator'')) w of
         None \<Rightarrow> None
       | Some (((left_r, left1), (right_r, right1)), w1) \<Rightarrow>
           bind_pr (lift_pr left_r) (\<lambda>left_reply.
           bind_pr (lift_pr right_r) (\<lambda>right_reply.
             if json_eq_str (json_index left_reply ''status'') ''ok'' then
               bind_pr (lift_pr (refused right_reply ''ticket_consumed'')) (\<lambda>_.
               lift_pr (map_res (Pair left1) (accepted left_reply)))
             else
               bind_pr (lift_pr (refused left_reply ''ticket_consumed'')) (\<lambda>_.
               lift_pr (map_res (Pair right1) (accepted right_reply))))) w1))"

definition jump :: "('w, 'x, 'u, 'n, 'st) script_env \<Rightarrow> nat \<Rightarrow> 'n json" where
  "jump sc n = JObject [(''cmd'', JString ''Jump''), (''seq'', JNumber (sc_number sc n))]"

definition bare_jump :: "'n json" where
  "bare_jump = JObject [(''cmd'', JString ''Jump'')]"

definition conformance_event :: "('w, 'x, 'u, 'n, 'st) script_env \<Rightarrow> 'n json" where
  "conformance_event sc = JObject [(''event'', JString ''conformance-event''), (''value'', JNumber (sc_number sc 7))]"

text \<open>A frame of the event must arrive with this payload.\<close>

definition receives ::
    "('w, 'x, 'u, 'n, 'st) script_env \<Rightarrow> 'n seat \<Rightarrow> string \<Rightarrow> 'n json \<Rightarrow> ('w, 'x, 'n, 'n seat) script" where
  "receives sc seat event expected =
     bind_pr (tried (attempt_event sc seat event)) (\<lambda>(v, seat1).
     bind_pr (assert_that (json_same v expected)) (\<lambda>_. return_pr seat1))"

definition exchange ::
    "('w, 'x, 'u, 'n, 'st) script_env \<Rightarrow> 'n seat \<Rightarrow> 'n seat \<Rightarrow> ('w, 'x, 'n, 'n seat \<times> 'n seat) script" where
  "exchange sc alice bob =
     bind_pr (accepted_request sc alice ''command'' (jump sc 1)) (\<lambda>(receipt, alice1).
     bind_pr (assert_that (json_eq_str (json_index receipt ''evidence'') ''accepted'')) (\<lambda>_.
     bind_pr (for_pr (\<lambda>absent. assert_that (json_get receipt absent = None)) [''durable'', ''delivered'', ''applied'']) (\<lambda>_.
     bind_pr (receives sc bob ''command'' bare_jump) (\<lambda>bob1.
     bind_pr (accepted_request sc bob1 ''event'' (conformance_event sc)) (\<lambda>(_, bob2).
     bind_pr (receives sc alice1 ''event'' (conformance_event sc)) (\<lambda>alice2.
     return_pr (alice2, bob2)))))))"

text \<open>Alice's connection is dropped before the acknowledgement: the rejoin, its parameters and the new token.\<close>

definition rejoin_params ::
    "'n json \<Rightarrow> 'n json \<Rightarrow> ('x, 'n) box_error fault + 'n json" where
  "rejoin_params fix_json receipt =
     bind_res (ok_or (message ''invalid join params'') (json_remove ''ticket'' (join_params fix_json ''infiltrator'')))
       (json_set ''rejoin_token'' (json_index receipt ''rejoin_token''))"

definition rejoin_after_loss ::
    "('w, 'x, 'u, 'n, 'st) script_env \<Rightarrow> 'n json \<Rightarrow> 'n seat \<Rightarrow> 'n json \<Rightarrow> 'n seat
     \<Rightarrow> ('w, 'x, 'n, 'n seat \<times> 'n json \<times> 'n json) script" where
  "rejoin_after_loss sc fix_json alice receipt bob =
     bind_pr (sent sc alice ''command'' (jump sc 2)) (\<lambda>alice1.
     bind_pr (receives sc bob ''command'' bare_jump) (\<lambda>bob1.
     bind_pr (\<lambda>w. Some (Ok (), sc_drop sc (fst alice1) w)) (\<lambda>_.
     bind_pr (connected sc 6 fix_json (Some ''alice'')) (\<lambda>rejoined.
     bind_pr (lift_pr (rejoin_params fix_json receipt)) (\<lambda>rejoin.
     bind_pr (accepted_request sc rejoined ''phx_join'' rejoin) (\<lambda>(reply, rejoined1).
     bind_pr (assert_that (\<not> json_same (json_index reply ''rejoin_token'') (json_index receipt ''rejoin_token''))) (\<lambda>_.
     bind_pr (accepted_request sc rejoined1 ''command'' (jump sc 2)) (\<lambda>(retry, rejoined2).
     bind_pr (assert_that (json_index retry ''relayed'' = JBool False)) (\<lambda>_.
     bind_pr (assert_that (json_eq_str (json_index retry ''reason'') ''stale_or_duplicate'')) (\<lambda>_ w.
       case sc_timeout sc 200000000 (attempt_event sc bob1 ''command'') w of
         None \<Rightarrow> None
       | Some (r, w1) \<Rightarrow>
           bind_pr (assert_that (r = None)) (\<lambda>_. return_pr (rejoined2, rejoin, json_index reply ''rejoin_token'')) w1))))))))))"

text \<open>A replaced connection is fenced, and a frame over the limit ends the connection.\<close>

definition oversized_event :: "'n json" where
  "oversized_event = JObject [(''event'', JString ''oversized''), (''body'', JString (replicate 16384 (CHR ''x'')))]"

definition oversized_refused ::
    "('w, 'x, 'u, 'n, 'st) script_env \<Rightarrow> 'n json \<Rightarrow> 'n seat \<Rightarrow> 'n json \<Rightarrow> 'n json \<Rightarrow> ('w, 'x, 'n, unit) script" where
  "oversized_refused sc fix_json rejoined rejoin token =
     bind_pr (connected sc 7 fix_json (Some ''alice'')) (\<lambda>oversized.
     bind_pr (lift_pr (json_set ''rejoin_token'' token rejoin)) (\<lambda>replacement.
     bind_pr (accepted_request sc oversized ''phx_join'' replacement) (\<lambda>(_, oversized1).
     bind_pr (\<lambda>w. map_option (\<lambda>((r, _), w1). (Ok (is_ok r), w1)) (attempt_request sc rejoined ''command'' (jump sc 3) w)) (\<lambda>published.
     bind_pr (assert_that (\<not> published)) (\<lambda>_.
     bind_pr (sent sc oversized1 ''event'' oversized_event) (\<lambda>oversized2 w.
       case sc_timeout sc (ns 5)
              (\<lambda>w. case peer_frame (sc_client sc (fst oversized2)) w of (r, w1) \<Rightarrow> Some ((r, oversized2), w1)) w of
         None \<Rightarrow> None
       | Some (Some (Err _), w1) \<Rightarrow> Some (Ok (), w1)
       | Some (_, w1) \<Rightarrow> Some (Err (message ''16-KiB transport limit did not refuse the oversized frame''), w1)))))))"

definition host_control ::
    "('w, 'x, 'u, 'n, 'st) script_env \<Rightarrow> string \<Rightarrow> host \<Rightarrow> ('w, 'x, 'n, 'n json \<times> host) script" where
  "host_control sc command h w =
     map_option (\<lambda>(r, h1, w1). (map_res (\<lambda>v. (v, h1)) r, w1)) (control (sc_host sc) command (h, w))"

text \<open>The tickets of an old epoch, and those of a server that was restarted.\<close>

definition epochs_checked ::
    "('w, 'x, 'u, 'n, 'st) script_env \<Rightarrow> 'n json \<Rightarrow> host \<Rightarrow> ('w, 'x, 'n, unit) script" where
  "epochs_checked sc fix_json h =
     bind_pr (host_control sc ''rotate'' h) (\<lambda>(next_json, h1).
     bind_pr (refused_join sc 8 next_json (Some ''bob'') (join_params fix_json ''hacker'') ''stale_epoch'') (\<lambda>_.
     bind_pr (connected sc 9 next_json (Some ''bob'')) (\<lambda>live.
     bind_pr (accepted_request sc live ''phx_join'' (join_params next_json ''hacker'')) (\<lambda>_.
     bind_pr (host_control sc ''restart'' h1) (\<lambda>_.
     refused_join sc 10 next_json (Some ''alice'') (join_params next_json ''infiltrator'') ''unknown_session'')))))"

definition pass_line :: string where
  "pass_line =
     ''PASS: real WebSocket admission-v1 two-client exchange, guest/principal/version refusals, double-seat race, lost command ACK + rejoin dedup, 16-KiB refusal, old epoch and restart refusal; no durable/applied claim''"

definition conformance_checks ::
    "('w, 'x, 'u, 'n, 'st) script_env \<Rightarrow> host \<Rightarrow> ('w, 'x, 'n, string) script" where
  "conformance_checks sc h =
     bind_pr (fixture (sc_host sc) h) (\<lambda>fix_json.
     bind_pr (refused_join sc 0 fix_json None (join_params fix_json ''infiltrator'') ''unauthenticated'') (\<lambda>_.
     bind_pr (refused_join sc 1 fix_json (Some ''mallory'') (join_params fix_json ''infiltrator'') ''scope_mismatch'') (\<lambda>_.
     bind_pr (lift_pr (json_set ''protocol'' (JString ''0.8'') (join_params fix_json ''infiltrator''))) (\<lambda>params.
     bind_pr (refused_join sc 2 fix_json (Some ''alice'') params ''unsupported_protocol'') (\<lambda>_.
     bind_pr (seat_race sc fix_json) (\<lambda>(alice, receipt).
     bind_pr (connected sc 5 fix_json (Some ''bob'')) (\<lambda>bob.
     bind_pr (accepted_request sc bob ''phx_join'' (join_params fix_json ''hacker'')) (\<lambda>(_, bob1).
     bind_pr (exchange sc alice bob1) (\<lambda>(alice1, bob2).
     bind_pr (rejoin_after_loss sc fix_json alice1 receipt bob2) (\<lambda>(rejoined, rejoin, token).
     bind_pr (oversized_refused sc fix_json rejoined rejoin token) (\<lambda>_.
     bind_pr (epochs_checked sc fix_json h) (\<lambda>_.
     return_pr pass_line))))))))))))"

text \<open>
  Whatever happens, the server process is killed and its directory removed (\<open>Drop for Host\<close>): \<open>main\<close>
  drops the host on success, on an error and when an assertion panics.
\<close>

definition conformance_main :: "('w, 'x, 'u, 'n, 'st) script_env \<Rightarrow> ('w, 'x, 'n, string) script" where
  "conformance_main sc w =
     (case host_start (sc_host sc) w of
        (Err e, w1) \<Rightarrow> Some (Err e, w1)
      | (Ok h, w1) \<Rightarrow> map_option (\<lambda>(r, w2). (r, host_drop (sc_host sc) h w2)) (conformance_checks sc h w1))"

text \<open>The seat goes to one of the two connections, whose reply was accepted; the other's was refused.\<close>

lemma seat_race_one_winner:
  fixes sc :: "('w, 'x, 'u, 'n, 'st) script_env"
  assumes "seat_race sc fix_json w = Some (Ok (winner, receipt), w')"
  obtains left_reply left1 right_reply right1 where
    "json_eq_str (json_index left_reply ''status'') ''ok'' \<longleftrightarrow> \<not> json_eq_str (json_index right_reply ''status'') ''ok''"
    "winner = (if json_eq_str (json_index left_reply ''status'') ''ok'' then left1 else right1)"
    "receipt = json_index (if json_eq_str (json_index left_reply ''status'') ''ok'' then left_reply else right_reply) ''response''"
    "json_eq_str (json_index (json_index
       (if json_eq_str (json_index left_reply ''status'') ''ok'' then right_reply else left_reply) ''response'') ''reason'') ''ticket_consumed''"
proof -
  from assms have "\<exists>left_reply left1 right_reply right1. if json_eq_str (json_index left_reply ''status'') ''ok''
     then refused right_reply ''ticket_consumed'' = (Ok () :: ('x, 'n) box_error fault + unit) \<and>
       map_res (Pair left1) (accepted left_reply) = (Ok (winner, receipt) :: ('x, 'n) box_error fault + _)
     else refused left_reply ''ticket_consumed'' = (Ok () :: ('x, 'n) box_error fault + unit) \<and>
       map_res (Pair right1) (accepted right_reply) = (Ok (winner, receipt) :: ('x, 'n) box_error fault + _)"
    (is "\<exists>l a r b. ?won l a r b")
    unfolding seat_race_def bind_pr_Ok lift_pr_def
    by (fastforce split: option.splits prod.splits if_splits simp: bind_pr_Ok)
  then obtain left_reply left1 right_reply right1 where won: "?won left_reply left1 right_reply right1" by blast
  then show thesis
    by (intro that [of left_reply right_reply left1 right1])
      (auto simp: map_res_Ok accepted_def refused_def json_eq_str_def split: if_splits)
qed

section \<open>idaptik_roundtrip.rs\<close>

text \<open>A client and the number of its connection; a call of the client with \<open>?\<close>.\<close>

type_synonym 'n player = "nat \<times> 'n phoenix"

definition joined ::
    "('w, 'x, 'u, 'n, 'st) script_env \<Rightarrow> nat \<Rightarrow> join_config \<Rightarrow> ('w, 'x, 'n, 'n player) script" where
  "joined sc k config w =
     map_option (\<lambda>(r, w1). (map_err client_fault (map_res (Pair k) r), w1))
       (game_join (sc_connector sc k) (sc_client sc k) config w)"

definition called ::
    "('w, 'x, 'u, 'n, 'st) script_env \<Rightarrow> 'n player
     \<Rightarrow> (('w, 'x, 'n) client_env \<Rightarrow> 'n phoenix \<times> 'w \<Rightarrow> ((('x, 'n) client_error + 'a) \<times> 'n phoenix \<times> 'w) option)
     \<Rightarrow> ('w, 'x, 'n, 'a \<times> 'n player) script" where
  "called sc player call w =
     map_option (\<lambda>(r, ph, w1). (map_err client_fault (map_res (\<lambda>a. (a, fst player, ph)) r), w1))
       (call (sc_client sc (fst player)) (snd player, w))"

definition waited_command ::
    "('w, 'x, 'u, 'n, 'st) script_env \<Rightarrow> 'n player \<Rightarrow> ('w, 'x, 'n, 'n game_broadcast option \<times> 'n player) script" where
  "waited_command sc player w =
     map_option (\<lambda>(r, ph, w1). (map_res (\<lambda>b. (b, fst player, ph)) r, w1))
       (next_command (sc_client sc (fst player)) (snd player, w))"

definition leaves :: "('w, 'x, 'u, 'n, 'st) script_env \<Rightarrow> 'n player \<Rightarrow> ('w, 'x, 'n, unit) script" where
  "leaves sc player w = Some (Ok (), snd (game_leave (sc_client sc (fst player)) (snd player, w)))"

definition set_button :: "(string \<times> 'n json) list" where
  "set_button = [(''cmd'', JString ''SetButton''), (''button'', JString ''Right''), (''down'', JBool True)]"

definition pivot :: "(string \<times> 'n json) list" where
  "pivot = [(''cmd'', JString ''Pivot''), (''target'', JString ''IspOps'')]"

definition sequenced :: "('w, 'x, 'u, 'n, 'st) script_env \<Rightarrow> (string \<times> 'n json) list \<Rightarrow> 'n json" where
  "sequenced sc command = JObject (command @ [(''seq'', JNumber (sc_number sc 1))])"

definition is_command :: "(string \<times> 'n json) list \<Rightarrow> 'n game_broadcast option \<Rightarrow> bool" where
  "is_command command received \<longleftrightarrow> (case received of Some (Command v) \<Rightarrow> json_same v (JObject command) | _ \<Rightarrow> False)"

definition default_endpoint :: string where
  "default_endpoint = ''ws://127.0.0.1:6473/voice/websocket''"

text \<open>The two seats of the game and the checks the script makes of the relay; the value is the line it prints.\<close>

definition roundtrip_main :: "('w, 'x, 'u, 'n, 'st) script_env \<Rightarrow> ('w, 'x, 'n, string) script" where
  "roundtrip_main sc =
     (let endpoint = (case sc_endpoint sc of Some e \<Rightarrow> e | None \<Rightarrow> default_endpoint);
          session = ''rust-client-'' @ show_nat (sc_pid sc) in
      bind_pr (joined sc 0 (roundtrip_config endpoint session ''infiltrator'')) (\<lambda>infiltrator.
      bind_pr (joined sc 1 (roundtrip_config endpoint session ''hacker'')) (\<lambda>hacker.
      bind_pr (called sc hacker ping) (\<lambda>(_, hacker1).
      bind_pr (called sc infiltrator (\<lambda>env. send_command env (sequenced sc set_button))) (\<lambda>(outcome, infiltrator1).
      bind_pr (assert_that (outcome = Relayed)) (\<lambda>_.
      bind_pr (called sc hacker1 (\<lambda>env. next_event env (ns 2))) (\<lambda>(received, hacker2).
      bind_pr (assert_that (is_command set_button received)) (\<lambda>_.
      bind_pr (called sc hacker2 (\<lambda>env. send_command env (sequenced sc pivot))) (\<lambda>(outcome, hacker3).
      bind_pr (assert_that (outcome = Relayed)) (\<lambda>_.
      bind_pr (waited_command sc infiltrator1) (\<lambda>(received, infiltrator2).
      bind_pr (assert_that (is_command pivot received)) (\<lambda>_.
      bind_pr (called sc hacker3 (\<lambda>env. send_command env (sequenced sc pivot))) (\<lambda>(outcome, hacker4).
      bind_pr (assert_that (case outcome of Dropped _ \<Rightarrow> True | Relayed \<Rightarrow> False)) (\<lambda>_.
      bind_pr (leaves sc infiltrator2) (\<lambda>_.
      bind_pr (leaves sc hacker4) (\<lambda>_.
      return_pr (''Burble Rust client live round-trip passed at '' @ endpoint)))))))))))))))))"

end
