(* ===== verification/Client_Tests.thy ===== *)
theory Client_Tests
  imports Scripts
begin

text \<open>
  The unit tests of the Rust client (the test modules of \<open>phoenix.rs\<close>, \<open>game.rs\<close> and \<open>error.rs\<close>), each
  as the statement its assertions make of the model, under the name of the test with its module in
  front.  They hold of the model.  \<open>print\<close> and \<open>parse\<close> are serde_json's \<open>to_string\<close> and \<open>from_str\<close>.
\<close>

section \<open>phoenix.rs\<close>

text \<open>The test transport: what was sent, and the texts still to be received.  Its clock stands still.\<close>

record mock_transport =
  mt_sent :: "string list"
  mt_received :: "string list"

definition mock_send :: "string \<Rightarrow> (mock_transport, ('x, 'n) client_error, unit) effect" where
  "mock_send text m = (Ok (), m\<lparr>mt_sent := mt_sent m @ [text]\<rparr>)"

definition mock_recv :: "mock_transport \<Rightarrow> (('x, 'n) client_error + string option) \<times> mock_transport" where
  "mock_recv m =
     (case mt_received m of
        [] \<Rightarrow> (Ok None, m)
      | text # texts \<Rightarrow> (Ok (Some text), m\<lparr>mt_received := texts\<rparr>))"

definition mock_client ::
    "('n json \<Rightarrow> string) \<Rightarrow> (string \<Rightarrow> 'x + 'n json) \<Rightarrow> (mock_transport, 'x, 'n) client_env" where
  "mock_client print parse =
     \<lparr>tp_send = mock_send, tp_recv = (\<lambda>d m. case mock_recv m of (r, m1) \<Rightarrow> (Some r, m1)), tp_close = return_st (),
      clock_now = (\<lambda>m. 0), json_to_string = (\<lambda>v. Ok (print v)), json_from_str = parse, json_display = print\<rparr>"

text \<open>\<open>PhoenixClient::new\<close> on a transport that will receive the frames, and \<open>join\<close> on the topic of the tests.\<close>

definition join_with ::
    "('n json \<Rightarrow> string) \<Rightarrow> (string \<Rightarrow> 'x + 'n json) \<Rightarrow> 'n json list \<Rightarrow> 'n json
     \<Rightarrow> ((('x, 'n) client_error + 'n json) \<times> 'n phoenix \<times> mock_transport) option" where
  "join_with print parse frames params =
     (let env = mock_client print parse; m = \<lparr>mt_sent = [], mt_received = map print frames\<rparr> in
      phoenix_join env ''game:s'' params (phoenix_new env m, m))"

definition hacker_seat :: "'n json" where
  "hacker_seat = JObject [(''role'', JString ''hacker''), (''game'', JString ''idaptik'')]"

definition reply_frame :: "string \<Rightarrow> 'n json \<Rightarrow> 'n json" where
  "reply_frame status response =
     JArray [JString ''1'', JString ''1'', JString ''game:s'', JString ''phx_reply'',
       JObject [(''status'', JString status), (''response'', response)]]"

definition phoenix_joins_with_v2_frame_and_returns_response ::
    "('n json \<Rightarrow> string) \<Rightarrow> (string \<Rightarrow> 'x + 'n json) \<Rightarrow> bool" where
  "phoenix_joins_with_v2_frame_and_returns_response print parse \<longleftrightarrow>
     (case join_with print parse [reply_frame ''ok'' hacker_seat] hacker_seat of
        Some (Ok reply, client, m) \<Rightarrow>
          json_eq_str (json_index reply ''role'') ''hacker'' \<and>
          (case mt_sent m of
             [] \<Rightarrow> False
           | text # _ \<Rightarrow>
               (case parse text of
                  Err _ \<Rightarrow> False
                | Ok v \<Rightarrow> json_same v (JArray [JString ''1'', JString ''1'', JString ''game:s'', JString ''phx_join'', hacker_seat])))
      | _ \<Rightarrow> False)"

definition infiltrator_joined :: "'n json" where
  "infiltrator_joined = JObject [(''role'', JString ''infiltrator'')]"

definition phoenix_buffers_broadcast_that_precedes_reply ::
    "('n json \<Rightarrow> string) \<Rightarrow> (string \<Rightarrow> 'x + 'n json) \<Rightarrow> bool" where
  "phoenix_buffers_broadcast_that_precedes_reply print parse \<longleftrightarrow>
     (case join_with print parse
         [JArray [JString ''1'', JNull, JString ''game:s'', JString ''peer_joined'', infiltrator_joined],
          reply_frame ''ok'' (JObject [])] (JObject []) of
        Some (Ok _, client) \<Rightarrow>
          (case next_broadcast (mock_client print parse) 0 client of
             Some (Ok (Some b), _) \<Rightarrow>
               bc_event b = ''peer_joined'' \<and> json_same (bc_payload b) infiltrator_joined
           | _ \<Rightarrow> False)
      | _ \<Rightarrow> False)"

text \<open>\<open>show_x\<close> prints the foreign errors, which this error is none of.\<close>

definition phoenix_exposes_channel_rejection ::
    "('x \<Rightarrow> string) \<Rightarrow> ('n json \<Rightarrow> string) \<Rightarrow> (string \<Rightarrow> 'x + 'n json) \<Rightarrow> bool" where
  "phoenix_exposes_channel_rejection show_x print parse \<longleftrightarrow>
     (case join_with print parse [reply_frame ''error'' (JObject [(''reason'', JString ''unknown game'')])] (JObject []) of
        Some (Err error, _) \<Rightarrow>
          (case error of Rejected _ _ \<Rightarrow> True | _ \<Rightarrow> False) \<and>
          str_contains (display_client_error show_x print error) ''unknown game''
      | _ \<Rightarrow> False)"

lemma join_with_reply:
  fixes parse :: "string \<Rightarrow> 'x + 'n json"
  assumes "\<And>v. parse (print v) = Ok v"
  shows "join_with print parse [reply_frame ''ok'' response] params = Some (Ok response,
      \<lparr>ph_topic = Some ''game:s'', ph_join_ref = Some ''1'', ph_next_ref = 1, ph_pending = [], ph_heartbeat_ref = None,
       ph_last_send = 0\<rparr>,
      \<lparr>mt_sent = [print (JArray [JString ''1'', JString ''1'', JString ''game:s'', JString ''phx_join'', params])], mt_received = []\<rparr>)"
  and "\<exists>w. join_with print parse [reply_frame ''error'' response] params = Some (Err (Rejected ''error'' response), w)"
  and "\<exists>m. join_with print parse
      [JArray [JString ''1'', JNull, JString ''game:s'', JString ''peer_joined'', payload], reply_frame ''ok'' response] params =
    Some (Ok response,
      \<lparr>ph_topic = Some ''game:s'', ph_join_ref = Some ''1'', ph_next_ref = 1,
       ph_pending = [\<lparr>bc_event = ''peer_joined'', bc_payload = payload\<rparr>], ph_heartbeat_ref = None, ph_last_send = 0\<rparr>, m)"
proof -
  have one: "show_nat (Suc 0) = ''1''" by code_simp
  note eval = join_with_def Let_def mock_client_def phoenix_new_def phoenix_join_def take_ref_def one
    send_frame_def json_opt_str_def mock_send_def mock_recv_def await_reply_def reply_timeout_def ns_def
    read_frame_def parse_frame_def take_string_def assms reply_frame_def classify_def reply_result_def get_str_def
  show "join_with print parse [reply_frame ''ok'' response] params = Some (Ok response,
      \<lparr>ph_topic = Some ''game:s'', ph_join_ref = Some ''1'', ph_next_ref = 1, ph_pending = [], ph_heartbeat_ref = None,
       ph_last_send = 0\<rparr>,
      \<lparr>mt_sent = [print (JArray [JString ''1'', JString ''1'', JString ''game:s'', JString ''phx_join'', params])], mt_received = []\<rparr>)"
    by (simp add: eval) (subst await_loop.simps, simp add: eval)
  show "\<exists>w. join_with print parse [reply_frame ''error'' response] params = Some (Err (Rejected ''error'' response), w)"
    by (simp add: eval) (subst await_loop.simps, simp add: eval)
  show "\<exists>m. join_with print parse
      [JArray [JString ''1'', JNull, JString ''game:s'', JString ''peer_joined'', payload], reply_frame ''ok'' response] params =
    Some (Ok response,
      \<lparr>ph_topic = Some ''game:s'', ph_join_ref = Some ''1'', ph_next_ref = 1,
       ph_pending = [\<lparr>bc_event = ''peer_joined'', bc_payload = payload\<rparr>], ph_heartbeat_ref = None, ph_last_send = 0\<rparr>, m)"
    by (simp add: eval) (subst await_loop.simps, simp add: eval, subst await_loop.simps, simp add: eval)
qed

lemma str_contains_append: "str_contains s pat \<Longrightarrow> str_contains (t @ s) pat"
  by (metis str_contains_iff append.assoc)

lemma phoenix_unit_tests:
  fixes parse :: "string \<Rightarrow> 'x + 'n json"
  assumes "\<And>v. parse (print v) = Ok v"
    and "str_contains (print (JObject [(''reason'', JString ''unknown game'')])) ''unknown game''"
  shows "phoenix_joins_with_v2_frame_and_returns_response print parse"
    "phoenix_buffers_broadcast_that_precedes_reply print parse"
    "phoenix_exposes_channel_rejection show_x print parse"
proof -
  note join = join_with_reply [where parse = parse, OF assms(1)]
  show "phoenix_joins_with_v2_frame_and_returns_response print parse"
    by (simp add: phoenix_joins_with_v2_frame_and_returns_response_def join assms(1))
      (simp add: hacker_seat_def json_index_def json_eq_str_def)
  from join(3) [of infiltrator_joined "JObject []" "JObject []"] show "phoenix_buffers_broadcast_that_precedes_reply print parse"
    by (auto simp: phoenix_buffers_broadcast_that_precedes_reply_def next_broadcast_def infiltrator_joined_def)
  let ?reason = "JObject [(''reason'', JString ''unknown game'')] :: 'n json"
  from join(2) [of ?reason "JObject []"] obtain w where
    "join_with print parse [reply_frame ''error'' ?reason] (JObject []) = Some (Err (Rejected ''error'' ?reason), w)" by blast
  moreover have "str_contains (display_client_error show_x print (Rejected ''error'' ?reason)) ''unknown game''"
    unfolding display_client_error.simps by (intro str_contains_append assms(2))
  ultimately show "phoenix_exposes_channel_rejection show_x print parse"
    by (simp only: phoenix_exposes_channel_rejection_def option.case sum.case prod.case client_error.case simp_thms)
qed

section \<open>game.rs\<close>

definition game_classifies_known_and_preserves_unknown_broadcasts :: bool where
  "game_classifies_known_and_preserves_unknown_broadcasts \<longleftrightarrow>
     classify_broadcast_msg \<lparr>bc_event = ''peer_joined'', bc_payload = JObject [(''role'', JString ''hacker'')]\<rparr> =
       (PeerJoined ''hacker'' :: int game_broadcast) \<and>
     (case classify_broadcast_msg \<lparr>bc_event = ''future'', bc_payload = JObject [(''x'', JNumber (1::int))]\<rparr> of
        Other _ \<Rightarrow> True
      | _ \<Rightarrow> False)"

definition game_rejects_untagged_payload_before_network_send :: bool where
  "game_rejects_untagged_payload_before_network_send \<longleftrightarrow>
     \<not> is_ok (require_string_tag (JObject []) ''cmd'' ''command'' :: (unit, int) client_error + unit) \<and>
     \<not> is_ok (require_string_tag (JObject [(''cmd'', JNumber 1)]) ''cmd'' ''command'' :: (unit, int) client_error + unit) \<and>
     is_ok (require_string_tag (JObject [(''cmd'', JString ''Jump'')] :: int json) ''cmd'' ''command'' :: (unit, int) client_error + unit)"

lemma game_unit_tests:
  "game_classifies_known_and_preserves_unknown_broadcasts" "game_rejects_untagged_payload_before_network_send"
  by (simp_all add: game_classifies_known_and_preserves_unknown_broadcasts_def classify_broadcast_msg_def get_str_def
      game_rejects_untagged_payload_before_network_send_def require_string_tag_def)

section \<open>error.rs\<close>

text \<open>An I/O error: its kind and its message, which is what it prints.\<close>

datatype error_kind = BrokenPipe | OtherKind

definition error_adapter_transport_errors_are_not_labelled_as_protocol_failures :: bool where
  "error_adapter_transport_errors_are_not_labelled_as_protocol_failures \<longleftrightarrow>
     (let error = (Transport_Error (BrokenPipe, ''pipe unavailable'') :: (error_kind \<times> string, unit) client_error) in
      display_client_error snd (\<lambda>_. []) error = ''transport error: pipe unavailable'' \<and>
      (case error of Transport_Error source \<Rightarrow> fst source = BrokenPipe | _ \<Rightarrow> False))"

lemma error_unit_tests: "error_adapter_transport_errors_are_not_labelled_as_protocol_failures"
  by (simp add: error_adapter_transport_errors_are_not_labelled_as_protocol_failures_def)

end
