(* ===== verification/Engine.thy ===== *)
theory Engine
  imports Error_Properties Plan_Properties
begin

text \<open>
  What podman promises of containers, as laws of the driver (\<open>engine_laws\<close>): \<open>run\<close> adds a container with
  the labels it was given and an id of its own (when it fails the container may have been created), \<open>ps\<close> lists the containers that carry the project's
  label, \<open>rm\<close> of an id removes that container, and nothing else changes the containers.  Under these
  laws \<open>down\<close> undoes what \<open>up\<close> did.
\<close>

section \<open>The laws of a container engine\<close>






section \<open>up\<close>

text \<open>The containers an operation starts.\<close>

definition run_specs :: "op list \<Rightarrow> run_spec list" where
  "run_specs ops = concat (map (\<lambda>op. case op of RunContainer spec \<Rightarrow> [spec] | _ \<Rightarrow> []) ops)"

lemma run_specs_simps [simp]:
  "run_specs [] = []"
  "run_specs (op # ops) = (case op of RunContainer spec \<Rightarrow> [spec] | _ \<Rightarrow> []) @ run_specs ops"
  by (simp_all add: run_specs_def)













section \<open>down\<close>




section \<open>The property\<close>



section \<open>An engine\<close>













end
