(* ===== verification/Config_Reload.thy ===== *)
theory Config_Reload
  imports Serde_Properties Error_Properties
begin

text \<open>
  The output of \<open>config\<close> as a compose file: loading it again gives the same plan.
\<close>

section \<open>Extensions do not matter to the plan\<close>







section \<open>The document that was loaded\<close>





section \<open>The property\<close>








end
