(* ===== verification/Spec2Isabelle.thy ===== *)
theory Spec2Isabelle
  imports Schema_Properties Interp_Properties Plan_Properties Exec_Properties Driver_Properties
    Logs_Properties Cli_Properties Client_Properties Serde_Properties Conformance_Properties
    Error_Properties Logs_Command Interp_Tests Plan_Tests Driver_Tests Client_Tests Scripts
    Engine Config_Reload
begin

text \<open>
  Burble's Rust code: the compose tool \<open>selur-compose\<close> (\<open>src/tools/selur-compose\<close>), which reads a
  TOML description of a container stack and drives Podman, and the embeddable client of the voice
  server (\<open>src/client/rust\<close>).

  \<^bold>\<open>The compose tool.\<close>  Five crates, called in this order by every command.

  \<^item> \<open>selur-compose-schema\<close>: the document types and the checks of a parsed document
    (\<open>Schema\<close>), serde's data model and the meaning of its attributes (\<open>Serde\<close>), and the \<open>Serialize\<close> and
    \<open>Deserialize\<close> of every type (\<open>Schema_Serde\<close>).
  \<^item> \<open>selur-compose-interp\<close>: the environment (\<open>env.rs\<close>: \<open>Env_Map\<close>), the lexer (\<open>Lexer\<close>), the
    expander (\<open>Expander\<close>) and the visitor of the whole document (\<open>visit.rs\<close>: \<open>Visit\<close>).
  \<^item> \<open>selur-compose-plan\<close>: profiles (\<open>Profiles\<close>), the dependency graph and its topological waves
    (\<open>dag.rs\<close>: \<open>Dag\<close>), the service hash (\<open>Config_Hash\<close>), the types of a plan (\<open>Plan_Types\<close>) and
    planning itself (\<open>Planner\<close>).
  \<^item> \<open>selur-compose-driver\<close>: the trait \<open>Driver\<close> (\<open>Driver\<close>), the podman command lines (\<open>Argv\<close>), the
    driver that spawns podman (\<open>exec.rs\<close>, \<open>podman.rs\<close>: \<open>Podman\<close>), the test double (\<open>Mock\<close>), health
    waits (\<open>Healthcheck\<close>), the executor (\<open>Executor\<close>) and the log multiplexer (\<open>Logs\<close>).
  \<^item> \<open>selur-compose\<close>: the loader (\<open>load.rs\<close>: \<open>Load\<close>), the formatters (\<open>Output\<close>), the arguments and
    commands (\<open>cli.rs\<close>, \<open>cmd/\<close>: \<open>Cli\<close>), dispatch and exit code (\<open>main.rs\<close>: \<open>Dispatch\<close>).

  The messages of all errors, and the chain of messages the tool prints, are in \<open>Error_Texts\<close>.

  \<^bold>\<open>The client.\<close>  JSON values (\<open>Json\<close>), the Phoenix channel (\<open>phoenix.rs\<close>, \<open>error.rs\<close>: \<open>Phoenix\<close>),
  the WebSocket transport (\<open>transport.rs\<close>: \<open>Transport\<close>), the game session (\<open>game.rs\<close>: \<open>Game\<close>) and
  the clients under \<open>examples/\<close>: the server process and the bare peer of the conformance
  client and the wait for a command of the other (\<open>Conformance\<close>), and their \<open>main\<close> functions (\<open>Scripts\<close>).

  \<^bold>\<open>How code becomes definitions.\<close>  \<open>Prelude\<close> holds results as sums with \<open>Ok\<close> and \<open>Err\<close>, and
  \<open>fault\<close>, which adds \<open>Panic\<close> to an error type where the code could panic.  \<open>Rust_Str\<close> has the string
  functions, \<open>Ordered_Map\<close> the \<open>BTreeMap\<close> (sorted entries) and the \<open>HashMap\<close> (entries in an unspecified
  order, \<open>hash_map\<close>).  \<open>Effects\<close> has stateful code: an effect changes a world and may fail; a process
  may also panic or not return (\<open>None\<close>).  Structs are records, enums datatypes; strings are the bytes
  of their UTF-8; counters bounded by the size of the input are natural numbers, the client's \<open>u64\<close>
  message reference wraps.  \<open>Examples\<close> holds the document at which theorems are instantiated.

  \<^bold>\<open>Parameters\<close>, which stand for code outside the repository or for the outside world: the TOML and
  JSON parsers and printers, humantime, SHA-256 and canonical JSON (what a theorem needs of them is a
  hypothesis of it: \<open>serde_laws\<close>, \<open>serde_types\<close>, \<open>jcs_canonical\<close>), a format's reading of a struct given
  as an array (\<open>serde_env\<close>), spawning a process, opening and decoding a file, the clock and sleeping, URL
  parsing, the messages of foreign errors, tokio's \<open>join!\<close> and \<open>timeout\<close>, and \<open>clap\<close>'s parsing of the command line.

  \<^bold>\<open>Interfaces\<close> are locales, each interpreted on the program's definitions: the ordered map
  (\<open>Ordered_Map\<close>), the layered store of variables (\<open>Env_Map\<close>), the traversal a visitor makes
  (\<open>Visit\<close>), a clock that goes forward (\<open>Healthcheck\<close>), a driver whose calls can be observed
  (\<open>Executor\<close>; interpreted in \<open>Recorded\<close> on the mock, and on \<open>PodmanCli\<close> observed at the processes it
  spawns) and its extension by listings (\<open>Cli_Facts\<close>), and a source of frames (\<open>Client_Facts\<close>) with
  its extension by prompt sending (\<open>Keepalive\<close>), both interpreted on the WebSocket.

  \<^bold>\<open>What the theorems show.\<close>

  \<^item> \<open>Serde_Properties\<close>: a document that is written reads back as itself, whatever was read is well
    formed, unknown fields are refused in services and kept at the top level, equal config hashes mean
    equal services, and the output of \<open>config\<close> parses as the loaded document.  The lemmas are in
    \<open>Serde_Facts\<close> (reading what was written, struct by struct), \<open>Serde_Sorted\<close> (the same for sorted keys)
    and \<open>Serde_Hash\<close> (writing is injective).
  \<^item> \<open>Interp_Properties\<close>: the lexer inverts printing on canonical token lists and its errors point at
    the first malformed expansion; the expander means what the tokens say; the visitor expands every
    string once, in walk order, keeps the structure and yields sorted maps.
  \<^item> \<open>Plan_Properties\<close>: when a plan is produced; it never panics; each active service starts once,
    after its dependencies, and waits for those it needs healthy in between; the waves are the
    layers of the acyclic graph; the labels of its containers.  The lemmas are in \<open>Plan_Facts\<close>.
    \<open>Plan_Errors\<close> shows that an error of the planner is about the first check that fails and is true.
  \<^item> \<open>Exec_Properties\<close>, with \<open>Exec_Facts\<close>: the executor refines the plan to podman commands, in order
    and up to the first failure; \<open>up\<close> reaches a service only after its dependencies were seen
    healthy; it returns; its report; the verdict of a health wait and its number of inspections.
  \<^item> \<open>Driver_Properties\<close>: command lines read back to their specs, \<open>ps\<close> finds what \<open>up\<close> started, when a
    privileged port is reported, what is tolerated, the health gate.
  \<^item> \<open>Logs_Properties\<close>: no line is lost or reordered within a service, tailing ends, and when it can
    block.
  \<^item> \<open>Cli_Properties\<close>, with \<open>Cli_Facts\<close>: which processes \<open>down\<close>, \<open>build\<close> and \<open>pull\<close> spawn, dry runs
    call nothing, the precedence of environment sources, loading never panics, aligned tables, and
    \<open>up\<close> from the command line to the podman processes and the exit code.  \<open>Logs_Command\<close> adds what
    \<open>logs\<close> prints, \<open>Error_Properties\<close> what stderr says when a compose file cannot be loaded.
  \<^item> Across components: \<open>Engine\<close> states what podman promises of containers (\<open>engine_laws\<close>) and shows
    that under these laws \<open>down\<close> undoes \<open>up\<close>, from the loaded document to the containers; \<open>Config_Reload\<close>
    shows that the output of \<open>config\<close>, loaded as a compose file, gives the same plan.
  \<^item> \<open>Client_Properties\<close>: sessions deliver every broadcast in order, a push returns the reply to its
    own request within its timeout, joining is all or nothing, waiting keeps the socket alive
    (\<open>Keepalive\<close>).
  \<^item> \<open>Conformance_Properties\<close>, with \<open>Conformance_Facts\<close>: a request of the peer returns its own reply and
    keeps the frames it passes over for later events, the wait for a command finds the first one, and
    a control command of the host returns with the next fixture.

  \<^bold>\<open>Unit tests.\<close>  \<open>Interp_Tests\<close>, \<open>Plan_Tests\<close>, \<open>Driver_Tests\<close> and \<open>Client_Tests\<close> state the assertions of the
  tests inside the crates \<open>interp\<close>, \<open>plan\<close>, \<open>driver\<close> and of the client of the model, and prove that it passes them: the definitions
  agree with what the code's authors expect of the code on these inputs.  They are no properties of their
  own.  Left out are the tests that compare \<open>ijson_jcs\<close> with \<open>serde_json\<close> and those that spawn a
  program.

  \<^bold>\<open>Loops.\<close>  Recursion is structural or has a proved measure (the lexer's index, the waves' nodes still
  to place).  The loops that depend on a clock, \<open>poll_loop\<close>, \<open>await_loop\<close>, \<open>next_loop\<close> and those
  of \<open>Conformance\<close>, are partial functions into \<open>option\<close>, and \<open>execute_returns\<close>, \<open>session_delivers_in_order\<close> and
  \<open>push_returns_own_reply\<close> prove that they return, the first for every clock that goes forward (so do the
  properties of \<open>Conformance_Properties\<close>).  No
  definition uses fuel.

  \<^bold>\<open>Not modelled.\<close>  Log messages (\<open>tracing\<close>); \<open>clap\<close>'s grammar; Unicode beyond bytes in
  the lexer and the tables; the integration tests under \<open>tests/\<close>.  The server (Elixir), the coprocessors (Zig), the ABI proofs (Idris) and the other
  clients are not Rust.
\<close>

end
